(* ===== verification/Gateway_Prelude.thy ===== *)
theory Gateway_Prelude
  imports Main "HOL-Library.Word" "HOL-Library.Multiset" "HOL-Library.List_Lexorder" "HOL-Library.Char_ord"
begin

text \<open>
  Shared vocabulary of the development: results in the style of Rust's
  \<^verbatim>\<open>Result\<close> (\<open>Inl\<close> is \<^verbatim>\<open>Err\<close>, \<open>Inr\<close> is \<^verbatim>\<open>Ok\<close>), the question-mark operator as a bind,
  fallible traversals, hash maps collected from vectors, durations, and transition systems with
  their reachable states. The named collections gather the facts that component proofs
  give to the simplifier.
\<close>

named_theorems res_simps \<open>equations that unfold the question-mark operator\<close>
named_theorems res_elims \<open>inversions of successful runs\<close>

section \<open>Results\<close>

text \<open>\<^verbatim>\<open>m?\<close> followed by the continuation \<open>f\<close>.\<close>

definition bindE :: "'e + 'a \<Rightarrow> ('a \<Rightarrow> 'e + 'b) \<Rightarrow> 'e + 'b" where
  "bindE m f = (case m of Inl e \<Rightarrow> Inl e | Inr x \<Rightarrow> f x)"

text \<open>\<^verbatim>\<open>if !b { return Err(e) }\<close>.\<close>

definition ensureE :: "bool \<Rightarrow> 'e \<Rightarrow> 'e + unit" where
  "ensureE b e = (if b then Inr () else Inl e)"

text \<open>\<^verbatim>\<open>ok_or(e)\<close>, \<^verbatim>\<open>map_err\<close>, \<^verbatim>\<open>ok()\<close>.\<close>

definition ok_or :: "'a option \<Rightarrow> 'e \<Rightarrow> 'e + 'a" where
  "ok_or x e = (case x of None \<Rightarrow> Inl e | Some y \<Rightarrow> Inr y)"

definition map_err :: "('e \<Rightarrow> 'f) \<Rightarrow> 'e + 'a \<Rightarrow> 'f + 'a" where
  "map_err f m = (case m of Inl e \<Rightarrow> Inl (f e) | Inr x \<Rightarrow> Inr x)"

definition is_ok :: "'e + 'a \<Rightarrow> bool" where
  "is_ok m = (case m of Inl _ \<Rightarrow> False | Inr _ \<Rightarrow> True)"

lemma bindE_simps [simp]:
  "bindE (Inl e) f = Inl e" "bindE (Inr x) f = f x"
  by (simp_all add: bindE_def)

lemma ensureE_simps [simp]:
  "ensureE True e = Inr ()" "ensureE False e = Inl e"
  by (simp_all add: ensureE_def)

lemma ok_or_simps [simp]:
  "ok_or None e = Inl e" "ok_or (Some x) e = Inr x"
  by (simp_all add: ok_or_def)

lemma map_err_simps [simp]:
  "map_err f (Inl e) = Inl (f e)" "map_err f (Inr x) = Inr x"
  by (simp_all add: map_err_def)

lemma is_ok_simps [simp]:
  "is_ok (Inl e) = False" "is_ok (Inr x) = True"
  by (simp_all add: is_ok_def)

lemma bindE_Inr_iff [res_simps]:
  "bindE m f = Inr y \<longleftrightarrow> (\<exists>x. m = Inr x \<and> f x = Inr y)"
  by (cases m) simp_all

lemma bindE_Inl_iff:
  "bindE m f = Inl e \<longleftrightarrow> m = Inl e \<or> (\<exists>x. m = Inr x \<and> f x = Inl e)"
  by (cases m) simp_all

lemma ensureE_Inr_iff [res_simps]: "ensureE b e = Inr u \<longleftrightarrow> b"
  by (cases b) simp_all

lemma ensureE_Inl_iff [res_simps]: "ensureE b e = Inl e' \<longleftrightarrow> \<not> b \<and> e' = e"
  by (cases b) auto

lemma ok_or_Inr_iff [res_simps]: "ok_or x e = Inr y \<longleftrightarrow> x = Some y"
  by (cases x) simp_all

lemma map_err_Inr_iff [res_simps]: "map_err f m = Inr y \<longleftrightarrow> m = Inr y"
  by (cases m) simp_all

lemma is_ok_iff: "is_ok m \<longleftrightarrow> (\<exists>x. m = Inr x)"
  by (cases m) simp_all

lemma bindE_cong [fundef_cong]:
  assumes "m = m'" and "\<And>x. m' = Inr x \<Longrightarrow> f x = f' x"
  shows "bindE m f = bindE m' f'"
  using assms by (cases m') simp_all

text \<open>\<^verbatim>\<open>iter().map(f).collect::<Result<Vec<_>>>()\<close>: stops at the first error.\<close>

fun traverseE :: "('a \<Rightarrow> 'e + 'b) \<Rightarrow> 'a list \<Rightarrow> 'e + 'b list" where
  "traverseE f [] = Inr []"
| "traverseE f (x # xs) = bindE (f x) (\<lambda>y. bindE (traverseE f xs) (\<lambda>ys. Inr (y # ys)))"

lemma traverseE_Inr_iff:
  "traverseE f xs = Inr ys \<longleftrightarrow> list_all2 (\<lambda>x y. f x = Inr y) xs ys"
  by (induction xs arbitrary: ys)
     (auto simp: bindE_Inr_iff list_all2_Cons1)

lemma traverseE_is_ok: "(\<And>x. x \<in> set xs \<Longrightarrow> is_ok (f x)) \<Longrightarrow> is_ok (traverseE f xs)"
  by (induction xs) (fastforce simp: is_ok_iff)+

section \<open>Maps collected from vectors\<close>

text \<open>
  \<^verbatim>\<open>iter().map(|x| (key(x), val(x))).collect::<HashMap<_, _>>()\<close>: a later pair replaces an
  earlier one with the same key.
\<close>

definition collect_map :: "('a \<Rightarrow> 'k) \<Rightarrow> ('a \<Rightarrow> 'v) \<Rightarrow> 'a list \<Rightarrow> 'k \<Rightarrow> 'v option" where
  "collect_map key val xs = map_of (rev (map (\<lambda>x. (key x, val x)) xs))"

lemma collect_map_Some_D:
  "collect_map key val xs k = Some v \<Longrightarrow> \<exists>x \<in> set xs. key x = k \<and> val x = v"
  by (auto simp: collect_map_def dest!: map_of_SomeD)

lemma collect_map_None_iff: "collect_map key val xs k = None \<longleftrightarrow> k \<notin> key ` set xs"
  by (auto simp: collect_map_def map_of_eq_None_iff image_image)

lemma collect_map_distinct:
  assumes "distinct (map key xs)" and "x \<in> set xs"
  shows "collect_map key val xs (key x) = Some (val x)"
proof -
  have "distinct (map fst (rev (map (\<lambda>x. (key x, val x)) xs)))"
    using assms(1) by (simp add: rev_map [symmetric] comp_def)
  moreover have "(key x, val x) \<in> set (rev (map (\<lambda>x. (key x, val x)) xs))"
    using assms(2) by simp
  ultimately show ?thesis unfolding collect_map_def by (rule map_of_is_SomeI)
qed

section \<open>Durations and machine integers\<close>

text \<open>
  A \<^verbatim>\<open>std::time::Duration\<close> is its number of nanoseconds, at most \<^verbatim>\<open>u64::MAX\<close> seconds and
  999999999 nanoseconds; the saturating operations stop there. A \<^verbatim>\<open>DateTime<Utc>\<close> is the
  number of nanoseconds since the epoch.
\<close>

type_synonym duration = nat
type_synonym datetime = int

definition NANOS_PER_SEC :: nat where "NANOS_PER_SEC = 1000000000"

definition DURATION_MAX :: duration where
  "DURATION_MAX = (2 ^ 64 - 1) * NANOS_PER_SEC + 999999999"

definition dur_secs :: "nat \<Rightarrow> duration" where "dur_secs n = n * NANOS_PER_SEC"
definition dur_millis :: "nat \<Rightarrow> duration" where "dur_millis n = n * 1000000"
definition dur_mins :: "nat \<Rightarrow> duration" where "dur_mins n = dur_secs (n * 60)"
definition dur_hours :: "nat \<Rightarrow> duration" where "dur_hours n = dur_secs (n * 3600)"

definition dur_saturating_add :: "duration \<Rightarrow> duration \<Rightarrow> duration" where
  "dur_saturating_add a b = min (a + b) DURATION_MAX"

definition dur_saturating_mul :: "duration \<Rightarrow> nat \<Rightarrow> duration" where
  "dur_saturating_mul a n = min (a * n) DURATION_MAX"

text \<open>\<open>nat\<close> subtraction stops at zero, as \<^verbatim>\<open>saturating_sub\<close> does.\<close>

definition dur_saturating_sub :: "duration \<Rightarrow> duration \<Rightarrow> duration" where
  "dur_saturating_sub a b = a - b"

text \<open>\<^verbatim>\<open>a.signed_duration_since(b).to_std().unwrap_or(Duration::ZERO)\<close>.\<close>

definition since_or_zero :: "datetime \<Rightarrow> datetime \<Rightarrow> duration" where
  "since_or_zero a b = nat (a - b)"

lemmas dur_defs = NANOS_PER_SEC_def DURATION_MAX_def dur_secs_def dur_millis_def dur_mins_def
  dur_hours_def dur_saturating_add_def dur_saturating_mul_def dur_saturating_sub_def

text \<open>An \<^verbatim>\<open>i64\<close> is an integer in range; its addition wraps in a release build.\<close>

definition i64_min :: int where "i64_min = - (2 ^ 63)"
definition i64_max :: int where "i64_max = 2 ^ 63 - 1"

definition in_i64 :: "int \<Rightarrow> bool" where
  "in_i64 i = (i64_min \<le> i \<and> i \<le> i64_max)"

definition i64_add :: "int \<Rightarrow> int \<Rightarrow> int" where
  "i64_add a b = (a + b + 2 ^ 63) mod 2 ^ 64 - 2 ^ 63"

lemmas i64_defs = i64_min_def i64_max_def in_i64_def i64_add_def

lemma i64_add_in_range: "in_i64 (i64_add a b)"
proof -
  have "0 \<le> (a + b + 2 ^ 63) mod 2 ^ 64" "(a + b + 2 ^ 63) mod 2 ^ 64 < (2 :: int) ^ 64"
    by simp_all
  then show ?thesis by (simp add: i64_defs)
qed

lemma i64_add_exact: "in_i64 (a + b) \<Longrightarrow> i64_add a b = a + b"
  by (simp add: i64_defs mod_pos_pos_trivial)

section \<open>Lists\<close>

lemma list_ex_key: "list_ex (\<lambda>x. f x = k) xs \<longleftrightarrow> k \<in> f ` set xs"
  by (induction xs) auto

lemma sorted_map_drop:
  "sorted (map f xs) \<Longrightarrow> sorted (map f (drop n xs))"
  by (simp add: drop_map [symmetric] sorted_wrt_drop)

lemma sorted_split_le:
  assumes "sorted (map f xs)" and "a \<in> set (take n xs)" and "b \<in> set (drop n xs)"
  shows "f a \<le> f b"
proof -
  have "sorted (map f (take n xs) @ map f (drop n xs))"
    using assms(1) by (metis append_take_drop_id map_append)
  then show ?thesis using assms(2,3) by (auto simp: sorted_append)
qed

section \<open>Transition systems\<close>

text \<open>
  Components that run forever (the delivery loop, the socket supervisor, the storage shared by
  several tasks) are transition systems; \<open>reach\<close> is the set of states they can be in.
\<close>

inductive reach :: "('s \<Rightarrow> bool) \<Rightarrow> ('s \<Rightarrow> 's \<Rightarrow> bool) \<Rightarrow> 's \<Rightarrow> bool"
  for start :: "'s \<Rightarrow> bool" and step :: "'s \<Rightarrow> 's \<Rightarrow> bool"
where
  reach_start: "start s \<Longrightarrow> reach start step s"
| reach_step: "reach start step s \<Longrightarrow> step s t \<Longrightarrow> reach start step t"

text \<open>An inductive invariant of a component holds in every reachable state.\<close>

locale component_invariant =
  fixes start :: "'s \<Rightarrow> bool"
    and step :: "'s \<Rightarrow> 's \<Rightarrow> bool"
    and inv :: "'s \<Rightarrow> bool"
  assumes inv_start: "start s \<Longrightarrow> inv s"
    and inv_step: "inv s \<Longrightarrow> step s t \<Longrightarrow> inv t"
begin

lemma inv_reach: "reach start step s \<Longrightarrow> inv s"
  by (induction rule: reach.induct) (blast intro: inv_start inv_step)+

lemma inv_consequence: "(\<And>s. inv s \<Longrightarrow> Q s) \<Longrightarrow> reach start step s \<Longrightarrow> Q s"
  by (blast dest: inv_reach)

end

end
