(* ===== verification/Rust_Text.thy ===== *)
theory Rust_Text
  imports Gateway_Prelude
begin

text \<open>
  Rust's \<^verbatim>\<open>str\<close> as the list of its UTF-8 bytes: \<open>length\<close> is \<^verbatim>\<open>str::len\<close>, \<open>str_chars\<close> is
  \<^verbatim>\<open>str::chars\<close> (each character is the list of its bytes), and the operations of the standard
  library that the gateway uses are written over them. Byte order is the order of
  \<^verbatim>\<open>String\<close> and of SQLite's \<^verbatim>\<open>BINARY\<close> collation.
\<close>

section \<open>Bytes and characters\<close>

definition byte :: "char \<Rightarrow> int" where "byte c = of_char c"

definition is_cont_byte :: "char \<Rightarrow> bool" where
  "is_cont_byte c = (128 \<le> byte c \<and> byte c < 192)"

function str_chars :: "string \<Rightarrow> string list" where
  "str_chars [] = []"
| "str_chars (b # bs) = (b # takeWhile is_cont_byte bs) # str_chars (dropWhile is_cont_byte bs)"
  by pat_completeness auto
termination
  by (relation "measure length") (auto simp: le_imp_less_Suc length_dropWhile_le)

lemma concat_str_chars [simp]: "concat (str_chars s) = s"
  by (induction s rule: str_chars.induct) simp_all

lemma str_chars_empty_iff [simp]: "str_chars s = [] \<longleftrightarrow> s = []"
  by (cases s) simp_all

lemma length_str_chars: "length (str_chars s) \<le> length s"
proof (induction s rule: str_chars.induct)
  case (2 b bs)
  then show ?case
    using length_dropWhile_le [of is_cont_byte bs] by simp
qed simp

text \<open>An ASCII string has one byte per character.\<close>

definition is_ascii :: "string \<Rightarrow> bool" where
  "is_ascii s = list_all (\<lambda>c. byte c < 128) s"

lemma is_ascii_no_cont: "is_ascii s \<Longrightarrow> takeWhile is_cont_byte s = [] \<and> dropWhile is_cont_byte s = s"
  by (cases s) (simp_all add: is_ascii_def is_cont_byte_def)

lemma str_chars_ascii: "is_ascii s \<Longrightarrow> str_chars s = map (\<lambda>c. [c]) s"
proof (induction s)
  case (Cons c s)
  then have "is_ascii s" by (simp add: is_ascii_def)
  with Cons.IH is_ascii_no_cont [OF this] show ?case by simp
qed simp

text \<open>\<^verbatim>\<open>char::is_control\<close>: U+0000 to U+001F and U+007F to U+009F.\<close>

definition char_is_control :: "string \<Rightarrow> bool" where
  "char_is_control c = (case c of
     [b] \<Rightarrow> byte b < 32 \<or> byte b = 127
   | [b1, b2] \<Rightarrow> byte b1 = 194 \<and> 128 \<le> byte b2 \<and> byte b2 < 160
   | _ \<Rightarrow> False)"

text \<open>\<^verbatim>\<open>char::is_whitespace\<close>: the Unicode property White\_Space.\<close>

definition char_is_whitespace :: "string \<Rightarrow> bool" where
  "char_is_whitespace c = (case map byte c of
     [b] \<Rightarrow> (9 \<le> b \<and> b \<le> 13) \<or> b = 32
   | [b1, b2] \<Rightarrow> b1 = 194 \<and> (b2 = 133 \<or> b2 = 160)
   | [b1, b2, b3] \<Rightarrow>
       (b1 = 225 \<and> b2 = 154 \<and> b3 = 128) \<or>
       (b1 = 226 \<and> b2 = 128 \<and> (128 \<le> b3 \<and> b3 \<le> 138 \<or> b3 = 168 \<or> b3 = 169 \<or> b3 = 175)) \<or>
       (b1 = 226 \<and> b2 = 129 \<and> b3 = 159) \<or>
       (b1 = 227 \<and> b2 = 128 \<and> b3 = 128)
   | _ \<Rightarrow> False)"

definition trim_chars :: "string list \<Rightarrow> string list" where
  "trim_chars cs = rev (dropWhile char_is_whitespace (rev (dropWhile char_is_whitespace cs)))"

definition str_trim :: "string \<Rightarrow> string" where
  "str_trim s = concat (trim_chars (str_chars s))"

definition str_take_chars :: "nat \<Rightarrow> string \<Rightarrow> string" where
  "str_take_chars n s = concat (take n (str_chars s))"

lemma str_chars_nonempty: "c \<in> set (str_chars s) \<Longrightarrow> c \<noteq> []"
  by (induction s rule: str_chars.induct) auto

lemma trim_chars_subset: "set (trim_chars cs) \<subseteq> set cs"
proof -
  have "set (trim_chars cs) \<subseteq> set (dropWhile char_is_whitespace cs)"
    unfolding trim_chars_def by (auto dest: set_dropWhileD)
  then show ?thesis by (auto dest: set_dropWhileD)
qed

lemma trim_chars_nonempty: "c \<in> set (trim_chars (str_chars s)) \<Longrightarrow> c \<noteq> []"
  by (rule str_chars_nonempty, erule subsetD [OF trim_chars_subset])

lemma str_trim_empty_iff: "str_trim s = [] \<longleftrightarrow> trim_chars (str_chars s) = []"
proof (cases "trim_chars (str_chars s)")
  case (Cons c cs)
  then have "c \<noteq> []" using trim_chars_nonempty [of c s] by simp
  with Cons show ?thesis by (simp add: str_trim_def)
qed (simp add: str_trim_def)

lemma trim_chars_empty_iff: "trim_chars cs = [] \<longleftrightarrow> list_all char_is_whitespace cs"
proof -
  have "trim_chars cs = [] \<longleftrightarrow> dropWhile char_is_whitespace cs = []"
  proof
    assume "trim_chars cs = []"
    then have all: "\<forall>c \<in> set (dropWhile char_is_whitespace cs). char_is_whitespace c"
      by (simp add: trim_chars_def)
    show "dropWhile char_is_whitespace cs = []"
    proof (rule ccontr)
      assume "dropWhile char_is_whitespace cs \<noteq> []"
      then have "\<not> char_is_whitespace (hd (dropWhile char_is_whitespace cs))"
        by (rule hd_dropWhile)
      with all show False
        by (metis \<open>dropWhile char_is_whitespace cs \<noteq> []\<close> hd_in_set)
    qed
  qed (simp add: trim_chars_def del: dropWhile_eq_Nil_conv)
  then show ?thesis by (simp add: dropWhile_eq_Nil_conv list_all_iff)
qed

lemma str_trim_blank_iff: "str_trim s = [] \<longleftrightarrow> list_all char_is_whitespace (str_chars s)"
  by (simp add: str_trim_empty_iff trim_chars_empty_iff)

section \<open>Searching and splitting\<close>

fun strip_prefix :: "string \<Rightarrow> string \<Rightarrow> string option" where
  "strip_prefix [] s = Some s"
| "strip_prefix (p # ps) [] = None"
| "strip_prefix (p # ps) (c # cs) = (if p = c then strip_prefix ps cs else None)"

definition strip_suffix :: "string \<Rightarrow> string \<Rightarrow> string option" where
  "strip_suffix p s = map_option rev (strip_prefix (rev p) (rev s))"

lemma strip_prefix_Some_iff: "strip_prefix p s = Some r \<longleftrightarrow> s = p @ r"
  by (induction p s rule: strip_prefix.induct) auto

lemma strip_suffix_Some_iff: "strip_suffix p s = Some r \<longleftrightarrow> s = r @ p"
proof -
  have "strip_suffix p s = Some r \<longleftrightarrow> strip_prefix (rev p) (rev s) = Some (rev r)"
    by (auto simp: strip_suffix_def)
  also have "\<dots> \<longleftrightarrow> s = r @ p"
    by (metis rev_append rev_rev_ident strip_prefix_Some_iff)
  finally show ?thesis .
qed

fun str_starts :: "string \<Rightarrow> string \<Rightarrow> bool" where
  "str_starts [] s = True"
| "str_starts (p # ps) [] = False"
| "str_starts (p # ps) (c # cs) = (p = c \<and> str_starts ps cs)"

fun str_contains :: "string \<Rightarrow> string \<Rightarrow> bool" where
  "str_contains [] p = (p = [])"
| "str_contains (c # cs) p = (str_starts p (c # cs) \<or> str_contains cs p)"

lemma str_starts_iff: "str_starts p s \<longleftrightarrow> (\<exists>r. s = p @ r)"
  by (induction p s rule: str_starts.induct) auto

lemma str_contains_iff: "str_contains s p \<longleftrightarrow> (\<exists>a b. s = a @ p @ b)"
proof (induction s)
  case (Cons c cs)
  show ?case
  proof
    assume "str_contains (c # cs) p"
    then consider "str_starts p (c # cs)" | "str_contains cs p" by auto
    then show "\<exists>a b. c # cs = a @ p @ b"
    proof cases
      case 1
      then show ?thesis by (metis append_Nil str_starts_iff)
    next
      case 2
      then show ?thesis using Cons.IH by (metis append_Cons)
    qed
  next
    assume "\<exists>a b. c # cs = a @ p @ b"
    then obtain a b where ab: "c # cs = a @ p @ b" by blast
    show "str_contains (c # cs) p"
    proof (cases a)
      case Nil
      with ab have "str_starts p (c # cs)" by (auto simp: str_starts_iff)
      then show ?thesis by simp
    next
      case (Cons x xs)
      with ab have "cs = xs @ p @ b" by simp
      then show ?thesis using Cons.IH by auto
    qed
  qed
qed auto

text \<open>\<^verbatim>\<open>trim_end_matches('/')\<close>.\<close>

definition trim_end_slash :: "string \<Rightarrow> string" where
  "trim_end_slash s = rev (dropWhile (\<lambda>c. c = CHR ''/'') (rev s))"

lemma trim_end_slash_no_slash: "s = [] \<or> last s \<noteq> CHR ''/'' \<Longrightarrow> trim_end_slash s = s"
proof (cases s rule: rev_cases)
  case (snoc xs x)
  moreover assume "s = [] \<or> last s \<noteq> CHR ''/''"
  ultimately show ?thesis by (simp add: trim_end_slash_def)
qed (simp add: trim_end_slash_def)

section \<open>ASCII classes\<close>

definition is_ascii_digit :: "char \<Rightarrow> bool" where
  "is_ascii_digit c = (48 \<le> byte c \<and> byte c \<le> 57)"

definition is_ascii_alpha :: "char \<Rightarrow> bool" where
  "is_ascii_alpha c = ((65 \<le> byte c \<and> byte c \<le> 90) \<or> (97 \<le> byte c \<and> byte c \<le> 122))"

definition is_ascii_alphanumeric :: "char \<Rightarrow> bool" where
  "is_ascii_alphanumeric c = (is_ascii_digit c \<or> is_ascii_alpha c)"

definition to_ascii_lowercase :: "char \<Rightarrow> char" where
  "to_ascii_lowercase c = (if 65 \<le> byte c \<and> byte c \<le> 90 then char_of (byte c + 32) else c)"

definition to_ascii_uppercase :: "char \<Rightarrow> char" where
  "to_ascii_uppercase c = (if 97 \<le> byte c \<and> byte c \<le> 122 then char_of (byte c - 32) else c)"

definition str_lowercase :: "string \<Rightarrow> string" where
  "str_lowercase = map to_ascii_lowercase"

lemma byte_char_of: "0 \<le> n \<Longrightarrow> n < 256 \<Longrightarrow> byte (char_of n) = n"
  by (simp add: byte_def)

lemma alphanumeric_ascii: "is_ascii_alphanumeric c \<Longrightarrow> byte c < 128"
  by (auto simp: is_ascii_alphanumeric_def is_ascii_digit_def is_ascii_alpha_def)

section \<open>Decimal numbers\<close>

definition digit_char :: "int \<Rightarrow> char" where "digit_char d = char_of (48 + d)"

function show_digits :: "int \<Rightarrow> string" where
  "show_digits n = (if n < 10 then [digit_char n] else show_digits (n div 10) @ [digit_char (n mod 10)])"
  by pat_completeness auto
termination
  by (relation "measure nat") auto

declare show_digits.simps [simp del]

text \<open>The \<^verbatim>\<open>Display\<close> of an integer.\<close>

definition show_int :: "int \<Rightarrow> string" where
  "show_int i = (if i < 0 then CHR ''-'' # show_digits (- i) else show_digits i)"

definition digit_val :: "char \<Rightarrow> int option" where
  "digit_val c = (if is_ascii_digit c then Some (byte c - 48) else None)"

fun parse_digits :: "int \<Rightarrow> string \<Rightarrow> int option" where
  "parse_digits acc [] = Some acc"
| "parse_digits acc (c # cs) =
     (case digit_val c of None \<Rightarrow> None | Some d \<Rightarrow> parse_digits (acc * 10 + d) cs)"

definition parse_unsigned :: "string \<Rightarrow> int option" where
  "parse_unsigned s = (if s = [] then None else parse_digits 0 s)"

text \<open>\<^verbatim>\<open>str::parse::<i64>()\<close>: an optional sign, at least one digit, and the range.\<close>

definition parse_i64 :: "string \<Rightarrow> int option" where
  "parse_i64 s =
     (case (case s of
              c # cs \<Rightarrow> if c = CHR ''-'' then map_option uminus (parse_unsigned cs)
                        else if c = CHR ''+'' then parse_unsigned cs
                        else parse_unsigned s
            | [] \<Rightarrow> None)
      of None \<Rightarrow> None | Some i \<Rightarrow> if in_i64 i then Some i else None)"

lemma digit_val_digit_char: "0 \<le> d \<Longrightarrow> d < 10 \<Longrightarrow> digit_val (digit_char d) = Some d"
  by (simp add: digit_val_def is_ascii_digit_def digit_char_def byte_char_of)

lemma parse_digits_append:
  "parse_digits acc (xs @ ys) =
     (case parse_digits acc xs of None \<Rightarrow> None | Some a \<Rightarrow> parse_digits a ys)"
  by (induction acc xs rule: parse_digits.induct) (auto split: option.splits)

lemma parse_digits_show_digits: "0 \<le> n \<Longrightarrow> parse_digits 0 (show_digits n) = Some n"
proof (induction n rule: show_digits.induct)
  case (1 n)
  show ?case
  proof (cases "n < 10")
    case True
    with 1 show ?thesis by (simp add: show_digits.simps [of n] digit_val_digit_char)
  next
    case False
    with 1 have "parse_digits 0 (show_digits (n div 10)) = Some (n div 10)" by simp
    with False show ?thesis
      by (simp add: show_digits.simps [of n] parse_digits_append digit_val_digit_char)
  qed
qed

lemma show_digits_nonempty [simp]: "show_digits n \<noteq> []"
  by (subst show_digits.simps) simp

lemma show_digits_digits: "0 \<le> n \<Longrightarrow> c \<in> set (show_digits n) \<Longrightarrow> is_ascii_digit c"
proof (induction n rule: show_digits.induct)
  case (1 n)
  have d: "is_ascii_digit (digit_char k)" if "0 \<le> k" "k < 10" for k
    using that by (simp add: is_ascii_digit_def digit_char_def byte_char_of)
  from 1 d [of n] d [of "n mod 10"] show ?case
    by (cases "n < 10") (auto simp: show_digits.simps [of n])
qed

lemma digit_not_sign: "is_ascii_digit c \<Longrightarrow> c \<noteq> CHR ''-'' \<and> c \<noteq> CHR ''+'' \<and> c \<noteq> CHR '':''"
  by (auto simp: is_ascii_digit_def byte_def)

lemma show_digits_no_sign: "0 \<le> n \<Longrightarrow> CHR ''-'' \<notin> set (show_digits n)"
  using show_digits_digits digit_not_sign by blast

lemma parse_i64_show_int: "in_i64 i \<Longrightarrow> parse_i64 (show_int i) = Some i"
proof (cases "i < 0")
  case True
  moreover assume "in_i64 i"
  ultimately show ?thesis
    by (simp add: parse_i64_def show_int_def parse_unsigned_def parse_digits_show_digits)
next
  case False
  moreover assume "in_i64 i"
  moreover obtain c cs where s: "show_digits i = c # cs"
    by (cases "show_digits i") simp_all
  moreover have "c \<noteq> CHR ''-'' \<and> c \<noteq> CHR ''+''"
    using show_digits_digits [of i c] s digit_not_sign False by simp
  moreover have "parse_unsigned (c # cs) = Some i"
    using parse_digits_show_digits [of i] s False by (simp add: parse_unsigned_def)
  ultimately show ?thesis
    by (simp add: parse_i64_def show_int_def)
qed

lemma show_digits_inj: "0 \<le> m \<Longrightarrow> 0 \<le> n \<Longrightarrow> show_digits m = show_digits n \<Longrightarrow> m = n"
  by (metis option.inject parse_digits_show_digits)

lemma show_int_sign: "i < 0 \<longleftrightarrow> CHR ''-'' \<in> set (show_int i)"
  using show_digits_no_sign [of i] by (simp add: show_int_def)

lemma show_int_inj: "show_int i = show_int j \<Longrightarrow> i = j"
proof -
  assume eq: "show_int i = show_int j"
  then have "i < 0 \<longleftrightarrow> j < 0" by (simp add: show_int_sign)
  with eq have "show_digits \<bar>i\<bar> = show_digits \<bar>j\<bar> \<and> (i < 0 \<longleftrightarrow> j < 0)"
    by (auto simp: show_int_def abs_if split: if_splits)
  then show "i = j" using show_digits_inj [of "\<bar>i\<bar>" "\<bar>j\<bar>"] by (auto simp: abs_if split: if_splits)
qed

lemma show_digits_no_colon: "0 \<le> n \<Longrightarrow> CHR '':'' \<notin> set (show_digits n)"
  using show_digits_digits digit_not_sign by blast

lemma show_int_no_colon: "CHR '':'' \<notin> set (show_int i)"
  using show_digits_no_colon [of i] show_digits_no_colon [of "- i"] by (simp add: show_int_def)

text \<open>A separator that does not occur in the last field determines where that field begins.\<close>

lemma takeWhile_upto: "s \<notin> set a \<Longrightarrow> takeWhile (\<lambda>c. c \<noteq> s) (a @ s # x) = a"
  by (induction a) auto

lemma last_field_unique:
  assumes "a @ s # x = b @ s # y" and "s \<notin> set x" and "s \<notin> set y"
  shows "a = b \<and> x = y"
proof -
  have "takeWhile (\<lambda>c. c \<noteq> s) (rev (a @ s # x)) = rev x"
    using assms(2) takeWhile_upto [of s "rev x" "rev a"] by simp
  moreover have "takeWhile (\<lambda>c. c \<noteq> s) (rev (b @ s # y)) = rev y"
    using assms(3) takeWhile_upto [of s "rev y" "rev b"] by simp
  ultimately have "x = y" using assms(1) by simp
  with assms(1) show ?thesis by simp
qed

lemma first_field_unique:
  assumes "a @ s # x = b @ s # y" and "s \<notin> set a" and "s \<notin> set b"
  shows "a = b \<and> x = y"
proof -
  have "takeWhile (\<lambda>c. c \<noteq> s) (a @ s # x) = a"
    using assms(2) by (rule takeWhile_upto)
  moreover have "takeWhile (\<lambda>c. c \<noteq> s) (b @ s # y) = b"
    using assms(3) by (rule takeWhile_upto)
  ultimately have "a = b" using assms(1) by simp
  with assms(1) show ?thesis by simp
qed

end
