(* ===== verification/Json_Value.thy ===== *)
theory Json_Value
  imports Rust_Text
begin

text \<open>
  JSON values as the gateway handles them (\<^verbatim>\<open>serde_json::Value\<close>): numbers are 64-bit words
  tagged as in \<^verbatim>\<open>serde_json::Number\<close>, and an object is a \<^verbatim>\<open>BTreeMap\<close>, an association list in
  ascending key order. A request body before it is decoded is the same syntax tree without the
  key order, since duplicate members are still visible there.
\<close>

datatype json_number = PosInt "64 word" | NegInt "64 word" | Float "64 word"

datatype json =
    JNull
  | JBool bool
  | JNumber json_number
  | JString string
  | JArray "json list"
  | JObject "(string \<times> json) list"

type_synonym json_map = "(string \<times> json) list"

section \<open>Accessors\<close>

definition number_as_i64 :: "json_number \<Rightarrow> int option" where
  "number_as_i64 n = (case n of
     PosInt w \<Rightarrow> if int (unat w) \<le> i64_max then Some (int (unat w)) else None
   | NegInt w \<Rightarrow> Some (sint w)
   | Float _ \<Rightarrow> None)"

definition as_i64 :: "json \<Rightarrow> int option" where
  "as_i64 v = (case v of JNumber n \<Rightarrow> number_as_i64 n | _ \<Rightarrow> None)"

definition as_u64 :: "json \<Rightarrow> 64 word option" where
  "as_u64 v = (case v of JNumber (PosInt w) \<Rightarrow> Some w | _ \<Rightarrow> None)"

definition as_str :: "json \<Rightarrow> string option" where
  "as_str v = (case v of JString s \<Rightarrow> Some s | _ \<Rightarrow> None)"

definition as_array :: "json \<Rightarrow> json list option" where
  "as_array v = (case v of JArray vs \<Rightarrow> Some vs | _ \<Rightarrow> None)"

definition as_object :: "json \<Rightarrow> json_map option" where
  "as_object v = (case v of JObject m \<Rightarrow> Some m | _ \<Rightarrow> None)"

definition json_get :: "json \<Rightarrow> string \<Rightarrow> json option" where
  "json_get v k = (case v of JObject m \<Rightarrow> map_of m k | _ \<Rightarrow> None)"

lemma accessor_iff:
  "as_array v = Some vs \<longleftrightarrow> v = JArray vs"
  "as_object v = Some m \<longleftrightarrow> v = JObject m"
  "as_str v = Some s \<longleftrightarrow> v = JString s"
  by (cases v; simp add: as_array_def as_object_def as_str_def)+

lemma as_u64_iff: "as_u64 v = Some w \<longleftrightarrow> v = JNumber (PosInt w)"
proof (cases v)
  case (JNumber n)
  then show ?thesis by (cases n) (simp_all add: as_u64_def)
qed (simp_all add: as_u64_def)

text \<open>A JSON number from an \<^verbatim>\<open>i64\<close>: \<^verbatim>\<open>Number::from(i64)\<close>.\<close>

definition number_from_i64 :: "int \<Rightarrow> json_number" where
  "number_from_i64 i = (if i < 0 then NegInt (word_of_int i) else PosInt (word_of_int i))"

definition json_int :: "int \<Rightarrow> json" where
  "json_int i = JNumber (number_from_i64 i)"

lemma as_i64_in_range: "as_i64 v = Some i \<Longrightarrow> in_i64 i"
proof -
  assume "as_i64 v = Some i"
  then obtain n where n: "number_as_i64 n = Some i"
    by (auto simp: as_i64_def split: json.splits)
  show "in_i64 i"
  proof (cases n)
    case (PosInt w)
    with n have "i = int (unat w)" and "i \<le> i64_max"
      by (simp_all add: number_as_i64_def split: if_splits)
    moreover have "i64_min \<le> 0" by (simp add: i64_min_def)
    moreover have "0 \<le> int (unat w)" by (rule of_nat_0_le_iff)
    ultimately show ?thesis unfolding in_i64_def by linarith
  next
    case (NegInt w)
    have "- (2 ^ 63) \<le> sint w \<and> sint w < 2 ^ 63"
      using sint_greater_eq [of w] sint_less [of w] by simp
    with NegInt n show ?thesis by (auto simp: number_as_i64_def i64_defs)
  qed (use n in \<open>auto simp: number_as_i64_def i64_defs split: if_splits\<close>)
qed

lemma as_i64_json_int: "in_i64 i \<Longrightarrow> as_i64 (json_int i) = Some i"
proof (cases "i < 0")
  case True
  moreover assume "in_i64 i"
  ultimately have "sint (word_of_int i :: 64 word) = i"
    by (simp add: i64_defs signed_take_bit_int_eq_self sint_sbintrunc')
  with True show ?thesis
    by (simp add: as_i64_def json_int_def number_from_i64_def number_as_i64_def)
next
  case False
  moreover assume "in_i64 i"
  ultimately have "int (unat (word_of_int i :: 64 word)) = i"
    by (simp add: i64_defs unsigned_of_int take_bit_int_eq_self)
  moreover have "number_from_i64 i = PosInt (word_of_int i)"
    using False by (simp add: number_from_i64_def)
  moreover have "i \<le> i64_max" using \<open>in_i64 i\<close> by (simp add: in_i64_def)
  ultimately show ?thesis by (simp only: as_i64_def json_int_def number_as_i64_def json.case json_number.case if_True)
qed

section \<open>Object maps\<close>

definition map_remove :: "string \<Rightarrow> json_map \<Rightarrow> json_map" where
  "map_remove k m = filter (\<lambda>kv. fst kv \<noteq> k) m"

fun map_insert_sorted :: "string \<Rightarrow> json \<Rightarrow> json_map \<Rightarrow> json_map" where
  "map_insert_sorted k v [] = [(k, v)]"
| "map_insert_sorted k v (kv # m) =
     (if k < fst kv then (k, v) # kv # m else kv # map_insert_sorted k v m)"

text \<open>\<^verbatim>\<open>map.entry(k).or_insert_with(|| v)\<close>.\<close>

definition map_or_insert :: "string \<Rightarrow> json \<Rightarrow> json_map \<Rightarrow> json_map" where
  "map_or_insert k v m = (if map_of m k = None then map_insert_sorted k v m else m)"

lemma map_of_insert_sorted:
  "map_of m k = None \<Longrightarrow> map_of (map_insert_sorted k v m) k' = (if k' = k then Some v else map_of m k')"
  by (induction m) auto

lemma map_remove_subset: "set (map_remove k m) \<subseteq> set m"
  by (auto simp: map_remove_def)

section \<open>Induction and key sets\<close>

lemma size_in_array: "v \<in> set vs \<Longrightarrow> size v < size (JArray vs)"
  by (induction vs) auto

lemma size_in_object: "kv \<in> set m \<Longrightarrow> size (snd kv) < size (JObject m)"
  by (induction m) auto

lemma json_induct [case_names Null Bool Number String Array Object]:
  assumes "P JNull" and "\<And>b. P (JBool b)" and "\<And>n. P (JNumber n)" and "\<And>s. P (JString s)"
    and "\<And>vs. (\<And>v. v \<in> set vs \<Longrightarrow> P v) \<Longrightarrow> P (JArray vs)"
    and "\<And>m. (\<And>k v. (k, v) \<in> set m \<Longrightarrow> P v) \<Longrightarrow> P (JObject m)"
  shows "P v"
proof (induction "size v" arbitrary: v rule: less_induct)
  case less
  show ?case
  proof (cases v)
    case (JArray vs)
    then show ?thesis using less size_in_array assms(5) by blast
  next
    case (JObject m)
    have "P w" if "(k, w) \<in> set m" for k w
      using less JObject size_in_object [OF that] by simp
    then show ?thesis using JObject assms(6) by blast
  qed (use assms in simp_all)
qed

text \<open>Every member name that occurs anywhere in a value.\<close>

function json_keys :: "json \<Rightarrow> string set" where
  "json_keys JNull = {}"
| "json_keys (JBool b) = {}"
| "json_keys (JNumber n) = {}"
| "json_keys (JString s) = {}"
| "json_keys (JArray vs) = (\<Union>v \<in> set vs. json_keys v)"
| "json_keys (JObject m) = (\<Union>kv \<in> set m. insert (fst kv) (json_keys (snd kv)))"
  by pat_completeness auto
termination
  by (relation "measure size") (auto dest: size_in_array size_in_object)

text \<open>A value that a \<^verbatim>\<open>BTreeMap\<close> can hold: keys ascend in every object.\<close>

function json_wf :: "json \<Rightarrow> bool" where
  "json_wf JNull = True"
| "json_wf (JBool b) = True"
| "json_wf (JNumber n) = True"
| "json_wf (JString s) = True"
| "json_wf (JArray vs) = list_all json_wf vs"
| "json_wf (JObject m) = (sorted_wrt (<) (map fst m) \<and> list_all (\<lambda>kv. json_wf (snd kv)) m)"
  by pat_completeness auto
termination
  by (relation "measure size") (auto dest: size_in_array size_in_object)

text \<open>The number of nested arrays and objects.\<close>

definition json_is_object :: "json \<Rightarrow> bool" where
  "json_is_object v = (case v of JObject _ \<Rightarrow> True | _ \<Rightarrow> False)"

end
