(* ===== verification/Contract.thy ===== *)
theory Contract
  imports Json_Value
begin

text \<open>
  The integration-facing wire types of \<^verbatim>\<open>src/contract.rs\<close> and their JSON form. The members of a
  serialised struct are in the order of its fields; a field marked
  \<^verbatim>\<open>skip_serializing_if\<close> is left out when it is empty. The text forms of instants are chrono's
  and of JSON serde\_json's, neither of which is part of this repository: they are the
  fields of the record \<open>codec\<close>, and theorems name what they rely on.
\<close>

record codec =
  to_rfc3339 :: "datetime \<Rightarrow> string"
  parse_from_rfc3339 :: "string \<Rightarrow> datetime option"
  serde_datetime :: "datetime \<Rightarrow> string"
  datetime_from_str :: "string \<Rightarrow> datetime option"
  json_to_vec :: "json \<Rightarrow> string"
  json_from_slice :: "string \<Rightarrow> json option"
  json_document :: "string \<Rightarrow> json option"

text \<open>
  \<open>json_from_slice\<close> is reading text into a \<^verbatim>\<open>Value\<close>; \<open>json_document\<close> is the syntax tree of the text with all
  members in their order, duplicates included, which is what reading text into a struct sees.
\<close>

text \<open>
  Printing a syntax tree and reading it back gives a value with the same member names:
  serde\_json only sorts the members of objects.
\<close>

definition json_text_faithful :: "codec \<Rightarrow> bool" where
  "json_text_faithful cd =
     (\<forall>v. \<exists>w. json_from_slice cd (json_to_vec cd v) = Some w \<and> json_keys w = json_keys v)"

text \<open>
  The cryptography comes from the hmac, sha2 and hex crates: a keyed digest of a message, and the
  text form of bytes.
\<close>

record crypto =
  hmac_sha256 :: "string \<Rightarrow> string \<Rightarrow> string"
  hex_encode :: "string \<Rightarrow> string"
  hex_decode :: "string \<Rightarrow> string option"

section \<open>Wire types\<close>

datatype schema_version = V1

datatype event_kind = ThreadCreated | PostCreated

fun event_kind_str :: "event_kind \<Rightarrow> string" where
  "event_kind_str ThreadCreated = ''thread.created''"
| "event_kind_str PostCreated = ''post.created''"

datatype origin_kind = OriginIntegration

record post_origin =
  po_kind :: origin_kind
  po_name :: string

record post_ref =
  pr_board :: string
  pr_thread_id :: int
  pr_id :: int

record post =
  p_board :: string
  p_thread_id :: int
  p_id :: int
  p_url :: string
  p_date :: datetime
  p_subject :: "string option"
  p_message :: "string option"
  p_name :: "string option"
  p_tripcode :: "string option"
  p_capcode :: "string option"
  p_donor :: "bool option"
  p_country :: "string option"
  p_poster_fingerprint :: "string option"
  p_origin :: "post_origin option"
  p_attachment_count :: nat
  p_references :: "post_ref list"
  p_referenced_by :: "post_ref list"

record webhook_event =
  we_schema_version :: schema_version
  we_event_id :: string
  we_kind :: event_kind
  we_source :: string
  we_observed_at :: datetime
  we_post :: post

record thread =
  t_board :: string
  t_id :: int
  t_posts :: "post list"
  t_truncated :: bool

record reply_request =
  rq_message :: string
  rq_sage :: bool

record reply_response =
  rr_board :: string
  rr_thread_id :: int
  rr_post_id :: int
  rr_url :: string
  rr_origin :: post_origin

datatype error_code =
    Unauthorized | CapabilityNotEnabled | InvalidJson | InvalidQuery | InvalidBoard
  | InvalidThreadId | MissingMessage | MessageTooLong | InvalidMessage | BoardNotAllowed
  | RateLimited | ThreadNotFound | UpstreamUnavailable | CaptchaRequired | BlockBypassRequired
  | ThreadLocked | ThreadReplyLimit | BoardLocked | Rejected | ReplyStateUnknown
  | PayloadTooLarge

fun error_code_str :: "error_code \<Rightarrow> string" where
  "error_code_str Unauthorized = ''unauthorized''"
| "error_code_str CapabilityNotEnabled = ''capability_not_enabled''"
| "error_code_str InvalidJson = ''invalid_json''"
| "error_code_str InvalidQuery = ''invalid_query''"
| "error_code_str InvalidBoard = ''invalid_board''"
| "error_code_str InvalidThreadId = ''invalid_thread_id''"
| "error_code_str MissingMessage = ''missing_message''"
| "error_code_str MessageTooLong = ''message_too_long''"
| "error_code_str InvalidMessage = ''invalid_message''"
| "error_code_str BoardNotAllowed = ''board_not_allowed''"
| "error_code_str RateLimited = ''rate_limited''"
| "error_code_str ThreadNotFound = ''thread_not_found''"
| "error_code_str UpstreamUnavailable = ''upstream_unavailable''"
| "error_code_str CaptchaRequired = ''captcha_required''"
| "error_code_str BlockBypassRequired = ''block_bypass_required''"
| "error_code_str ThreadLocked = ''thread_locked''"
| "error_code_str ThreadReplyLimit = ''thread_reply_limit''"
| "error_code_str BoardLocked = ''board_locked''"
| "error_code_str Rejected = ''rejected''"
| "error_code_str ReplyStateUnknown = ''reply_state_unknown''"
| "error_code_str PayloadTooLarge = ''payload_too_large''"

definition error_code_retryable :: "error_code \<Rightarrow> bool" where
  "error_code_retryable c = (c = RateLimited \<or> c = UpstreamUnavailable)"

record error_body =
  eb_code :: error_code
  eb_message :: string
  eb_retryable :: bool
  eb_upstream_status :: "nat option"

section \<open>Serialised forms\<close>

text \<open>
  The derived serialiser of \<^verbatim>\<open>ErrorCode\<close> (\<^verbatim>\<open>rename_all = "snake_case"\<close>) writes the variant's
  identifier with an underscore before every inner capital and all letters lowered.
\<close>

fun error_code_ident :: "error_code \<Rightarrow> string" where
  "error_code_ident Unauthorized = ''Unauthorized''"
| "error_code_ident CapabilityNotEnabled = ''CapabilityNotEnabled''"
| "error_code_ident InvalidJson = ''InvalidJson''"
| "error_code_ident InvalidQuery = ''InvalidQuery''"
| "error_code_ident InvalidBoard = ''InvalidBoard''"
| "error_code_ident InvalidThreadId = ''InvalidThreadId''"
| "error_code_ident MissingMessage = ''MissingMessage''"
| "error_code_ident MessageTooLong = ''MessageTooLong''"
| "error_code_ident InvalidMessage = ''InvalidMessage''"
| "error_code_ident BoardNotAllowed = ''BoardNotAllowed''"
| "error_code_ident RateLimited = ''RateLimited''"
| "error_code_ident ThreadNotFound = ''ThreadNotFound''"
| "error_code_ident UpstreamUnavailable = ''UpstreamUnavailable''"
| "error_code_ident CaptchaRequired = ''CaptchaRequired''"
| "error_code_ident BlockBypassRequired = ''BlockBypassRequired''"
| "error_code_ident ThreadLocked = ''ThreadLocked''"
| "error_code_ident ThreadReplyLimit = ''ThreadReplyLimit''"
| "error_code_ident BoardLocked = ''BoardLocked''"
| "error_code_ident Rejected = ''Rejected''"
| "error_code_ident ReplyStateUnknown = ''ReplyStateUnknown''"
| "error_code_ident PayloadTooLarge = ''PayloadTooLarge''"

definition is_ascii_upper :: "char \<Rightarrow> bool" where
  "is_ascii_upper c = (65 \<le> byte c \<and> byte c \<le> 90)"

fun snake_case :: "string \<Rightarrow> string" where
  "snake_case [] = []"
| "snake_case (c # cs) =
     to_ascii_lowercase c # concat (map (\<lambda>d. if is_ascii_upper d then [CHR ''_'', to_ascii_lowercase d] else [d]) cs)"

definition error_code_json :: "error_code \<Rightarrow> json" where
  "error_code_json c = JString (snake_case (error_code_ident c))"

definition opt_member :: "string \<Rightarrow> ('a \<Rightarrow> json) \<Rightarrow> 'a option \<Rightarrow> json_map" where
  "opt_member k f x = (case x of None \<Rightarrow> [] | Some y \<Rightarrow> [(k, f y)])"

definition vec_member :: "string \<Rightarrow> ('a \<Rightarrow> json) \<Rightarrow> 'a list \<Rightarrow> json_map" where
  "vec_member k f xs = (if xs = [] then [] else [(k, JArray (map f xs))])"

definition post_origin_json :: "post_origin \<Rightarrow> json" where
  "post_origin_json po = JObject
    [(''kind'', JString (case po_kind po of OriginIntegration \<Rightarrow> ''integration'')),
     (''name'', JString (po_name po))]"

definition post_ref_json :: "post_ref \<Rightarrow> json" where
  "post_ref_json r = JObject
    [(''board'', JString (pr_board r)), (''thread_id'', json_int (pr_thread_id r)),
     (''post_id'', json_int (pr_id r))]"

definition post_json :: "codec \<Rightarrow> post \<Rightarrow> json" where
  "post_json cd p = JObject
    ([(''board'', JString (p_board p)), (''thread_id'', json_int (p_thread_id p)),
      (''post_id'', json_int (p_id p)), (''url'', JString (p_url p)),
      (''date'', JString (serde_datetime cd (p_date p)))]
     @ opt_member ''subject'' JString (p_subject p)
     @ opt_member ''message'' JString (p_message p)
     @ opt_member ''name'' JString (p_name p)
     @ opt_member ''tripcode'' JString (p_tripcode p)
     @ opt_member ''capcode'' JString (p_capcode p)
     @ opt_member ''donor'' JBool (p_donor p)
     @ opt_member ''country'' JString (p_country p)
     @ opt_member ''poster_fingerprint'' JString (p_poster_fingerprint p)
     @ opt_member ''origin'' post_origin_json (p_origin p)
     @ [(''attachment_count'', JNumber (PosInt (word_of_nat (p_attachment_count p))))]
     @ vec_member ''references'' post_ref_json (p_references p)
     @ vec_member ''referenced_by'' post_ref_json (p_referenced_by p))"

definition webhook_event_json :: "codec \<Rightarrow> webhook_event \<Rightarrow> json" where
  "webhook_event_json cd e = JObject
    [(''schema_version'', JString (case we_schema_version e of V1 \<Rightarrow> ''1'')),
     (''event_id'', JString (we_event_id e)),
     (''kind'', JString (event_kind_str (we_kind e))),
     (''source'', JString (we_source e)),
     (''observed_at'', JString (serde_datetime cd (we_observed_at e))),
     (''post'', post_json cd (we_post e))]"

definition thread_json :: "codec \<Rightarrow> thread \<Rightarrow> json" where
  "thread_json cd t = JObject
    [(''board'', JString (t_board t)), (''thread_id'', json_int (t_id t)),
     (''posts'', JArray (map (post_json cd) (t_posts t))), (''truncated'', JBool (t_truncated t))]"

definition reply_response_json :: "reply_response \<Rightarrow> json" where
  "reply_response_json r = JObject
    [(''board'', JString (rr_board r)), (''thread_id'', json_int (rr_thread_id r)),
     (''post_id'', json_int (rr_post_id r)), (''url'', JString (rr_url r)),
     (''origin'', post_origin_json (rr_origin r))]"

definition error_envelope_json :: "error_body \<Rightarrow> json" where
  "error_envelope_json b = JObject [(''error'', JObject
    ([(''code'', error_code_json (eb_code b)), (''message'', JString (eb_message b)),
      (''retryable'', JBool (eb_retryable b))]
     @ opt_member ''upstream_status'' (\<lambda>n. JNumber (PosInt (word_of_nat n))) (eb_upstream_status b)))]"

section \<open>Member names\<close>

text \<open>The documented member names of a post and of an event.\<close>

definition post_members :: "string set" where
  "post_members = {''board'', ''thread_id'', ''post_id'', ''url'', ''date'', ''subject'', ''message'',
     ''name'', ''tripcode'', ''capcode'', ''donor'', ''country'', ''poster_fingerprint'', ''origin'',
     ''kind'', ''attachment_count'', ''references'', ''referenced_by''}"

definition event_members :: "string set" where
  "event_members = post_members \<union>
     {''schema_version'', ''event_id'', ''kind'', ''source'', ''observed_at'', ''post''}"

lemma json_int_keys [simp]: "json_keys (json_int i) = {}"
  by (simp add: json_int_def)

lemma post_origin_keys: "json_keys (post_origin_json po) \<subseteq> {''kind'', ''name''}"
  by (auto simp: post_origin_json_def)

lemma post_ref_keys: "json_keys (post_ref_json r) \<subseteq> {''board'', ''thread_id'', ''post_id''}"
  by (auto simp: post_ref_json_def)

lemma vec_ref_keys:
  "(\<Union>kv \<in> set (vec_member k post_ref_json xs). insert (fst kv) (json_keys (snd kv))) \<subseteq>
     {k, ''board'', ''thread_id'', ''post_id''}"
  by (auto simp: vec_member_def dest!: subsetD [OF post_ref_keys])

lemma opt_scalar_keys:
  assumes "\<And>y. json_keys (f y) = {}"
  shows "(\<Union>kv \<in> set (opt_member k f x). insert (fst kv) (json_keys (snd kv))) \<subseteq> {k}"
  using assms by (cases x) (auto simp: opt_member_def)

lemma opt_origin_keys:
  "(\<Union>kv \<in> set (opt_member k post_origin_json x). insert (fst kv) (json_keys (snd kv))) \<subseteq>
     {k, ''kind'', ''name''}"
  using post_origin_keys by (cases x) (auto simp: opt_member_def)

lemma post_json_keys: "json_keys (post_json cd p) \<subseteq> post_members"
proof -
  have s: "(\<Union>kv \<in> set (opt_member k JString x). insert (fst kv) (json_keys (snd kv))) \<subseteq> {k}"
    for k x by (rule opt_scalar_keys) simp
  have b: "(\<Union>kv \<in> set (opt_member k JBool x). insert (fst kv) (json_keys (snd kv))) \<subseteq> {k}"
    for k x by (rule opt_scalar_keys) simp
  show ?thesis
    unfolding post_json_def json_keys.simps set_append UN_Un Un_subset_iff
    by (intro conjI order_trans [OF s] order_trans [OF b] order_trans [OF opt_origin_keys]
          order_trans [OF vec_ref_keys]) (simp_all add: post_members_def)
qed

lemma webhook_event_json_keys: "json_keys (webhook_event_json cd e) \<subseteq> event_members"
  using post_json_keys [of cd "we_post e"]
  by (auto simp: webhook_event_json_def event_members_def)

section \<open>Error codes\<close>

lemma error_code_wire_agrees: "snake_case (error_code_ident c) = error_code_str c"
  by (cases c) (simp_all add: to_ascii_lowercase_def is_ascii_upper_def byte_def char_of_def)

lemma error_code_str_inj: "error_code_str a = error_code_str b \<Longrightarrow> a = b"
  by (cases a; cases b) simp_all

end
