(* ===== verification/Metrics.thy ===== *)
theory Metrics
  imports Rust_Text
begin

text \<open>
  The Prometheus families of \<^verbatim>\<open>src/metrics.rs\<close>, the effects the gateway has on them, and the
  parsers of the process figures. An effect is recorded in the order in which the code causes it;
  \<open>metric_op_ok\<close> says that it addresses a family with the right kind and number of labels, the
  condition under which \<^verbatim>\<open>with_label_values\<close> does not panic.
\<close>

datatype metric =
    SOCKET_CONNECTION_ATTEMPTS | SOCKET_ACTIVE_CONNECTIONS | SOCKET_CONNECTION_SECONDS
  | SOCKET_JOIN_FAILURES | SOCKET_JOINED | UPSTREAM_AUTH_HEALTHY | UPSTREAM_REQUIRED
  | SOCKET_EVENTS | SOCKET_LAST_EVENT_TIMESTAMP_SECONDS | SOCKET_LAST_JOIN_TIMESTAMP_SECONDS
  | SOCKET_LAST_INBOUND_TIMESTAMP_SECONDS | SOCKET_LIVENESS_TIMEOUTS | SESSION_REFRESH
  | SESSION_EXPIRES_AT_SECONDS | WEBHOOK_DELIVERIES | WEBHOOK_PENDING
  | WEBHOOK_PENDING_BY_WEBHOOK | WEBHOOK_OLDEST_PENDING_SECONDS | WEBHOOK_DELIVERY_SECONDS
  | READING_REQUESTS | READING_REQUEST_SECONDS | POSTING_REQUESTS | POSTING_REQUEST_SECONDS
  | GATEWAY_RATE_LIMITED_REQUESTS | SQLITE_ERRORS | REDACTION_DROPS | PROCESS_CPU_TICKS
  | PROCESS_THREADS | PROCESS_OPEN_FDS

datatype metric_kind = IntCounter | IntGauge | FloatGauge | Histogram

fun metric_name :: "metric \<Rightarrow> string" where
  "metric_name SOCKET_CONNECTION_ATTEMPTS = ''ptchan_socket_connection_attempts_total''"
| "metric_name SOCKET_ACTIVE_CONNECTIONS = ''ptchan_socket_active_connections''"
| "metric_name SOCKET_CONNECTION_SECONDS = ''ptchan_socket_connection_seconds''"
| "metric_name SOCKET_JOIN_FAILURES = ''ptchan_socket_join_failures_total''"
| "metric_name SOCKET_JOINED = ''ptchan_socket_joined''"
| "metric_name UPSTREAM_AUTH_HEALTHY = ''ptchan_upstream_auth_healthy''"
| "metric_name UPSTREAM_REQUIRED = ''ptchan_upstream_required''"
| "metric_name SOCKET_EVENTS = ''ptchan_socket_events_total''"
| "metric_name SOCKET_LAST_EVENT_TIMESTAMP_SECONDS = ''ptchan_socket_last_event_timestamp_seconds''"
| "metric_name SOCKET_LAST_JOIN_TIMESTAMP_SECONDS = ''ptchan_socket_last_join_timestamp_seconds''"
| "metric_name SOCKET_LAST_INBOUND_TIMESTAMP_SECONDS = ''ptchan_socket_last_inbound_timestamp_seconds''"
| "metric_name SOCKET_LIVENESS_TIMEOUTS = ''ptchan_socket_liveness_timeouts_total''"
| "metric_name SESSION_REFRESH = ''ptchan_session_refresh_total''"
| "metric_name SESSION_EXPIRES_AT_SECONDS = ''ptchan_session_expires_at_seconds''"
| "metric_name WEBHOOK_DELIVERIES = ''ptchan_webhook_deliveries_total''"
| "metric_name WEBHOOK_PENDING = ''ptchan_webhook_pending''"
| "metric_name WEBHOOK_PENDING_BY_WEBHOOK = ''ptchan_webhook_pending_by_webhook''"
| "metric_name WEBHOOK_OLDEST_PENDING_SECONDS = ''ptchan_webhook_oldest_pending_seconds''"
| "metric_name WEBHOOK_DELIVERY_SECONDS = ''ptchan_webhook_delivery_seconds''"
| "metric_name READING_REQUESTS = ''ptchan_reading_requests_total''"
| "metric_name READING_REQUEST_SECONDS = ''ptchan_reading_request_seconds''"
| "metric_name POSTING_REQUESTS = ''ptchan_posting_requests_total''"
| "metric_name POSTING_REQUEST_SECONDS = ''ptchan_posting_request_seconds''"
| "metric_name GATEWAY_RATE_LIMITED_REQUESTS = ''ptchan_gateway_rate_limited_requests_total''"
| "metric_name SQLITE_ERRORS = ''ptchan_sqlite_errors_total''"
| "metric_name REDACTION_DROPS = ''ptchan_redaction_drops_total''"
| "metric_name PROCESS_CPU_TICKS = ''ptchan_process_cpu_ticks_total''"
| "metric_name PROCESS_THREADS = ''ptchan_process_threads''"
| "metric_name PROCESS_OPEN_FDS = ''ptchan_process_open_fds''"

fun metric_kind_of :: "metric \<Rightarrow> metric_kind" where
  "metric_kind_of SOCKET_CONNECTION_ATTEMPTS = IntCounter"
| "metric_kind_of SOCKET_CONNECTION_SECONDS = Histogram"
| "metric_kind_of SOCKET_JOIN_FAILURES = IntCounter"
| "metric_kind_of SOCKET_EVENTS = IntCounter"
| "metric_kind_of SOCKET_LAST_EVENT_TIMESTAMP_SECONDS = FloatGauge"
| "metric_kind_of SOCKET_LAST_JOIN_TIMESTAMP_SECONDS = FloatGauge"
| "metric_kind_of SOCKET_LAST_INBOUND_TIMESTAMP_SECONDS = FloatGauge"
| "metric_kind_of SOCKET_LIVENESS_TIMEOUTS = IntCounter"
| "metric_kind_of SESSION_REFRESH = IntCounter"
| "metric_kind_of WEBHOOK_DELIVERIES = IntCounter"
| "metric_kind_of WEBHOOK_OLDEST_PENDING_SECONDS = FloatGauge"
| "metric_kind_of WEBHOOK_DELIVERY_SECONDS = Histogram"
| "metric_kind_of READING_REQUESTS = IntCounter"
| "metric_kind_of READING_REQUEST_SECONDS = Histogram"
| "metric_kind_of POSTING_REQUESTS = IntCounter"
| "metric_kind_of POSTING_REQUEST_SECONDS = Histogram"
| "metric_kind_of GATEWAY_RATE_LIMITED_REQUESTS = IntCounter"
| "metric_kind_of SQLITE_ERRORS = IntCounter"
| "metric_kind_of REDACTION_DROPS = IntCounter"
| "metric_kind_of _ = IntGauge"

fun metric_labels :: "metric \<Rightarrow> string list" where
  "metric_labels SOCKET_EVENTS = [''result'']"
| "metric_labels SESSION_REFRESH = [''result'']"
| "metric_labels WEBHOOK_DELIVERIES = [''webhook'', ''result'']"
| "metric_labels WEBHOOK_PENDING_BY_WEBHOOK = [''webhook'']"
| "metric_labels WEBHOOK_DELIVERY_SECONDS = [''webhook'', ''result'']"
| "metric_labels READING_REQUESTS = [''integration'', ''board'', ''result'']"
| "metric_labels READING_REQUEST_SECONDS = [''integration'', ''board'', ''result'']"
| "metric_labels POSTING_REQUESTS = [''integration'', ''board'', ''result'']"
| "metric_labels POSTING_REQUEST_SECONDS = [''integration'', ''board'', ''result'']"
| "metric_labels GATEWAY_RATE_LIMITED_REQUESTS = [''integration'', ''board'', ''capability'', ''scope'']"
| "metric_labels _ = []"

text \<open>\<^verbatim>\<open>metrics::init\<close> forces the families in this order, so each is registered once.\<close>

definition metrics_init :: "metric list" where
  "metrics_init =
    [SOCKET_CONNECTION_ATTEMPTS, SOCKET_ACTIVE_CONNECTIONS, SOCKET_CONNECTION_SECONDS,
     SOCKET_JOIN_FAILURES, SOCKET_JOINED, UPSTREAM_AUTH_HEALTHY, UPSTREAM_REQUIRED,
     SOCKET_EVENTS, SOCKET_LAST_EVENT_TIMESTAMP_SECONDS, SOCKET_LAST_JOIN_TIMESTAMP_SECONDS,
     SOCKET_LAST_INBOUND_TIMESTAMP_SECONDS, SOCKET_LIVENESS_TIMEOUTS, SESSION_REFRESH,
     SESSION_EXPIRES_AT_SECONDS, WEBHOOK_DELIVERIES, WEBHOOK_PENDING,
     WEBHOOK_PENDING_BY_WEBHOOK, WEBHOOK_OLDEST_PENDING_SECONDS, WEBHOOK_DELIVERY_SECONDS,
     READING_REQUESTS, READING_REQUEST_SECONDS, POSTING_REQUESTS, POSTING_REQUEST_SECONDS,
     GATEWAY_RATE_LIMITED_REQUESTS, SQLITE_ERRORS, REDACTION_DROPS, PROCESS_CPU_TICKS,
     PROCESS_THREADS, PROCESS_OPEN_FDS]"

text \<open>
  Effects. \<open>MSetNow\<close> is \<^verbatim>\<open>metrics::observe_now\<close>; a float gauge or a histogram takes a
  duration in nanoseconds.
\<close>

datatype metric_op =
    MInc metric "string list"
  | MDec metric
  | MSet metric "string list" int
  | MSetSecs metric duration
  | MSetNow metric
  | MObserve metric "string list" duration

fun metric_op_ok :: "metric_op \<Rightarrow> bool" where
  "metric_op_ok (MInc m ls) =
     (metric_kind_of m \<in> {IntCounter, IntGauge} \<and> length ls = length (metric_labels m))"
| "metric_op_ok (MDec m) = (metric_kind_of m = IntGauge \<and> metric_labels m = [])"
| "metric_op_ok (MSet m ls i) = (metric_kind_of m = IntGauge \<and> length ls = length (metric_labels m))"
| "metric_op_ok (MSetSecs m d) = (metric_kind_of m = FloatGauge \<and> metric_labels m = [])"
| "metric_op_ok (MSetNow m) = (metric_kind_of m = FloatGauge \<and> metric_labels m = [])"
| "metric_op_ok (MObserve m ls d) =
     (metric_kind_of m = Histogram \<and> length ls = length (metric_labels m))"

definition metric_count :: "metric \<Rightarrow> string list \<Rightarrow> metric_op list \<Rightarrow> nat" where
  "metric_count m ls ops = length (filter (\<lambda>op. op = MInc m ls) ops)"

lemma metric_count_append [simp]:
  "metric_count m ls (xs @ ys) = metric_count m ls xs + metric_count m ls ys"
  by (simp add: metric_count_def)

lemma metric_count_Nil [simp]: "metric_count m ls [] = 0"
  by (simp add: metric_count_def)

lemma metric_count_Cons [simp]:
  "metric_count m ls (op # ops) = (if op = MInc m ls then 1 else 0) + metric_count m ls ops"
  by (simp add: metric_count_def)

text \<open>
  A fallible computation with effects: its effects so far and its result. \<open>bindW\<close> is the
  question-mark operator on it; the effects of what ran before an error remain.
\<close>

type_synonym ('e, 'a) metered = "metric_op list \<times> ('e + 'a)"

definition bindW :: "('e, 'a) metered \<Rightarrow> ('a \<Rightarrow> ('e, 'b) metered) \<Rightarrow> ('e, 'b) metered" where
  "bindW m f = (case snd m of
     Inl e \<Rightarrow> (fst m, Inl e)
   | Inr x \<Rightarrow> (fst m @ fst (f x), snd (f x)))"

definition pureW :: "'e + 'a \<Rightarrow> ('e, 'a) metered" where "pureW r = ([], r)"

definition tellW :: "metric_op list \<Rightarrow> ('e, unit) metered" where "tellW ops = (ops, Inr ())"

lemma bindW_snd [simp]: "snd (bindW m f) = bindE (snd m) (\<lambda>x. snd (f x))"
  by (simp add: bindW_def split: sum.splits)

lemma bindW_fst [simp]: "fst (bindW m f) = fst m @ (case snd m of Inl _ \<Rightarrow> [] | Inr x \<Rightarrow> fst (f x))"
  by (simp add: bindW_def split: sum.splits)

lemma pureW_sel [simp]: "fst (pureW r) = []" "snd (pureW r) = r"
  by (simp_all add: pureW_def)

lemma tellW_sel [simp]: "fst (tellW ops) = ops" "snd (tellW ops) = Inr ()"
  by (simp_all add: tellW_def)

text \<open>\<^verbatim>\<open>for x in xs { f(x)?; }\<close>.\<close>

fun forW :: "('a \<Rightarrow> ('e, unit) metered) \<Rightarrow> 'a list \<Rightarrow> ('e, unit) metered" where
  "forW f [] = ([], Inr ())"
| "forW f (x # xs) = bindW (f x) (\<lambda>_. forW f xs)"

lemma forW_Inr_iff: "snd (forW f xs) = Inr u \<longleftrightarrow> (\<forall>x \<in> set xs. snd (f x) = Inr ())"
  by (induction xs) (auto simp: res_simps)

text \<open>\<^verbatim>\<open>iter().map(f).collect::<Result<Vec<_>>>()\<close> with the effects of the elements visited.\<close>

fun traverseW :: "('a \<Rightarrow> ('e, 'b) metered) \<Rightarrow> 'a list \<Rightarrow> ('e, 'b list) metered" where
  "traverseW f [] = ([], Inr [])"
| "traverseW f (x # xs) = bindW (f x) (\<lambda>y. bindW (traverseW f xs) (\<lambda>ys. pureW (Inr (y # ys))))"

lemma traverseW_snd: "snd (traverseW f xs) = traverseE (\<lambda>x. snd (f x)) xs"
  by (induction xs) simp_all

lemma traverseW_ops: "set (fst (traverseW f xs)) \<subseteq> (\<Union>x \<in> set xs. set (fst (f x)))"
  by (induction xs) (auto split: sum.splits)

lemma forW_cong [fundef_cong]:
  "xs = ys \<Longrightarrow> (\<And>x. x \<in> set ys \<Longrightarrow> f x = g x) \<Longrightarrow> forW f xs = forW g ys"
  by (induction ys arbitrary: xs) (auto simp: bindW_def split: sum.splits)

section \<open>Process figures\<close>

text \<open>\<^verbatim>\<open>str::rsplit_once(") ")\<close> returns what follows the last occurrence.\<close>

fun after_last :: "string \<Rightarrow> string \<Rightarrow> string option" where
  "after_last p [] = (if p = [] then Some [] else None)"
| "after_last p (c # cs) =
     (case after_last p cs of Some r \<Rightarrow> Some r | None \<Rightarrow> strip_prefix p (c # cs))"

text \<open>\<^verbatim>\<open>str::split_whitespace\<close>: maximal runs of characters that are not white space.\<close>

fun split_ws :: "string \<Rightarrow> string list \<Rightarrow> string list" where
  "split_ws cur [] = (if cur = [] then [] else [cur])"
| "split_ws cur (c # cs) =
     (if char_is_whitespace c then (if cur = [] then [] else [cur]) @ split_ws [] cs
      else split_ws (cur @ c) cs)"

definition split_whitespace :: "string \<Rightarrow> string list" where
  "split_whitespace s = split_ws [] (str_chars s)"

definition nth_opt :: "'a list \<Rightarrow> nat \<Rightarrow> 'a option" where
  "nth_opt xs i = (if i < length xs then Some (xs ! i) else None)"

text \<open>\<^verbatim>\<open>str::parse::<u64>()\<close>: digits with an optional plus sign, in range.\<close>

definition parse_u64 :: "string \<Rightarrow> 64 word option" where
  "parse_u64 s =
     (case (case s of c # cs \<Rightarrow> parse_unsigned (if c = CHR ''+'' then cs else s) | [] \<Rightarrow> None)
      of None \<Rightarrow> None | Some n \<Rightarrow> if n < 2 ^ 64 then Some (word_of_int n) else None)"

definition u64_saturating_add :: "64 word \<Rightarrow> 64 word \<Rightarrow> 64 word" where
  "u64_saturating_add a b = (if uint a + uint b < 2 ^ 64 then a + b else - 1)"

definition process_cpu_ticks_from_stat :: "string \<Rightarrow> 64 word option" where
  "process_cpu_ticks_from_stat stat =
     Option.bind (after_last '') '' stat) (\<lambda>after_comm.
       let fields = split_whitespace after_comm in
       Option.bind (Option.bind (nth_opt fields 11) parse_u64) (\<lambda>user_ticks.
       Option.bind (Option.bind (nth_opt fields 12) parse_u64) (\<lambda>system_ticks.
         Some (u64_saturating_add user_ticks system_ticks))))"

text \<open>\<^verbatim>\<open>str::lines\<close>: split at line feeds, each without a trailing carriage return.\<close>

fun split_lf :: "string \<Rightarrow> string \<Rightarrow> string list" where
  "split_lf cur [] = (if cur = [] then [] else [cur])"
| "split_lf cur (c # cs) =
     (if byte c = 10 then cur # split_lf [] cs else split_lf (cur @ [c]) cs)"

definition strip_cr :: "string \<Rightarrow> string" where
  "strip_cr l = (if l \<noteq> [] \<and> byte (last l) = 13 then butlast l else l)"

definition str_lines :: "string \<Rightarrow> string list" where
  "str_lines s = map strip_cr (split_lf [] s)"

fun find_map :: "('a \<Rightarrow> 'b option) \<Rightarrow> 'a list \<Rightarrow> 'b option" where
  "find_map f [] = None"
| "find_map f (x # xs) = (case f x of Some y \<Rightarrow> Some y | None \<Rightarrow> find_map f xs)"

definition process_threads_from_status :: "string \<Rightarrow> int option" where
  "process_threads_from_status status =
     find_map (\<lambda>line. Option.bind (strip_prefix ''Threads:'' line) (\<lambda>value. parse_i64 (str_trim value)))
       (str_lines status)"

text \<open>
  \<^verbatim>\<open>refresh_process_metrics\<close> on Linux: the two files of \<^verbatim>\<open>/proc/self\<close> and the number of open
  descriptors, each present when it can be read.
\<close>

definition refresh_process_metrics :: "string option \<Rightarrow> string option \<Rightarrow> nat option \<Rightarrow> metric_op list" where
  "refresh_process_metrics stat status fds =
     (case Option.bind stat process_cpu_ticks_from_stat of
        Some ticks \<Rightarrow> [MSet PROCESS_CPU_TICKS [] (min (uint ticks) i64_max)] | None \<Rightarrow> []) @
     (case Option.bind status process_threads_from_status of
        Some threads \<Rightarrow> [MSet PROCESS_THREADS [] threads] | None \<Rightarrow> []) @
     (case fds of Some n \<Rightarrow> [MSet PROCESS_OPEN_FDS [] (min (int n) i64_max)] | None \<Rightarrow> [])"

lemma u64_saturating_add_uint:
  "uint (u64_saturating_add a b) = min (uint a + uint b) (2 ^ 64 - 1)"
proof (cases "uint a + uint b < 2 ^ 64")
  case True
  then show ?thesis by (simp add: u64_saturating_add_def uint_word_ariths)
next
  case False
  have "uint (- 1 :: 64 word) = 2 ^ 64 - 1"
    by (simp add: unsigned_minus_1_eq_mask mask_eq_exp_minus_1)
  with False show ?thesis by (simp add: u64_saturating_add_def)
qed

section \<open>Properties\<close>

lemma metrics_init_complete: "set metrics_init = UNIV"
proof -
  have "m \<in> set metrics_init" for m by (cases m) (simp_all add: metrics_init_def)
  then show ?thesis by blast
qed

lemma metrics_init_names_distinct: "distinct (map metric_name metrics_init)"
  by code_simp

end
