(* ===== verification/Store.thy ===== *)
theory Store
  imports Contract Metrics
begin

text \<open>
  The SQLite store (\<^verbatim>\<open>src/store.rs\<close>) and its hourly cleanup (\<^verbatim>\<open>src/retention.rs\<close>). A table is the
  list of its rows in insertion order; instants are stored as RFC 3339 text and compared as text.
  Every operation goes through \<open>store_call\<close>, which counts errors; a statement or transaction that
  fails leaves the database as it was. The argument \<open>fault\<close> says that SQLite itself fails the
  call. The order in which SQLite returns rows that its \<^verbatim>\<open>ORDER BY\<close> does not separate is
  unspecified: \<open>scan\<close> is any reordering of the rows.
\<close>

section \<open>Rows\<close>

record event_row =
  ev_id :: string
  ev_kind :: string
  ev_board :: string
  ev_thread_id :: int
  ev_post_id :: int
  ev_payload :: string
  ev_created_at :: string

datatype delivery_status = Pending | Delivered

record delivery_row =
  dl_event_id :: string
  dl_webhook :: string
  dl_status :: delivery_status
  dl_attempts :: int
  dl_next_attempt_at :: string
  dl_payload :: "string option"
  dl_last_error :: "string option"
  dl_delivered_at :: "string option"

record db =
  db_tables :: "string set"
  db_wal :: bool
  db_foreign_keys :: bool
  db_events :: "event_row list"
  db_deliveries :: "delivery_row list"

record pending_delivery =
  pd_event_id :: string
  pd_webhook :: string
  pd_payload :: string
  pd_attempts :: int

record event_delivery =
  ed_webhook :: string
  ed_payload :: string

datatype store_error = StoreDirectory | StoreUnopened | SqliteFault | UniqueViolation | ForeignKeyViolation | LimitTooLarge | BadTimestamp

type_synonym 'a db_action = "db \<Rightarrow> store_error + ('a \<times> db)"
type_synonym 'a store_result = "(store_error, 'a) metered \<times> db"

definition delivery_key :: "delivery_row \<Rightarrow> string \<times> string" where
  "delivery_key d = (dl_event_id d, dl_webhook d)"

definition is_pending :: "delivery_row \<Rightarrow> bool" where
  "is_pending d = (dl_status d = Pending)"

section \<open>Operations\<close>

definition store_call :: "bool \<Rightarrow> 'a db_action \<Rightarrow> db \<Rightarrow> 'a store_result" where
  "store_call fault operation db =
     (if fault then (([MInc SQLITE_ERRORS []], Inl SqliteFault), db)
      else case operation db of
        Inr (value, db') \<Rightarrow> (([], Inr value), db')
      | Inl err \<Rightarrow> (([MInc SQLITE_ERRORS []], Inl err), db))"

text \<open>
  Opening creates the directory and the file first, outside \<open>store_call\<close>. Enforcing foreign keys is a setting of the
  connection and not of the file; it does not hold until it is set. A migration that fails is modelled as one that
  changed nothing; its statements are idempotent and the process does not start after it.
\<close>

definition store_open :: "bool \<Rightarrow> bool \<Rightarrow> bool \<Rightarrow> db \<Rightarrow> unit store_result" where
  "store_open dir_ok file_ok fault db0 =
     (let db = db0\<lparr>db_foreign_keys := False\<rparr> in
      if \<not> dir_ok then (([], Inl StoreDirectory), db)
      else if \<not> file_ok then (([], Inl StoreUnopened), db)
      else store_call fault (\<lambda>db. Inr ((), db\<lparr>db_wal := True, db_foreign_keys := True\<rparr>)) db)"

definition migrate :: "bool \<Rightarrow> db \<Rightarrow> unit store_result" where
  "migrate fault = store_call fault (\<lambda>db.
     Inr ((), db\<lparr>db_tables := (db_tables db \<union> {''events'', ''deliveries''})
                    - {''pending_produced_posts'', ''produced_posts''}\<rparr>))"

definition insert_delivery :: "string \<Rightarrow> string \<Rightarrow> event_delivery \<Rightarrow> db \<Rightarrow> store_error + db" where
  "insert_delivery event_id created_at d db =
     bindE (ensureE (\<not> list_ex (\<lambda>r. delivery_key r = (event_id, ed_webhook d)) (db_deliveries db)) UniqueViolation) (\<lambda>_.
     bindE (ensureE (db_foreign_keys db \<longrightarrow> list_ex (\<lambda>e. ev_id e = event_id) (db_events db)) ForeignKeyViolation) (\<lambda>_.
     Inr (db\<lparr>db_deliveries := db_deliveries db @
       [\<lparr>dl_event_id = event_id, dl_webhook = ed_webhook d, dl_status = Pending, dl_attempts = 0,
         dl_next_attempt_at = created_at, dl_payload = Some (ed_payload d), dl_last_error = None,
         dl_delivered_at = None\<rparr>]\<rparr>)))"

fun insert_deliveries :: "string \<Rightarrow> string \<Rightarrow> event_delivery list \<Rightarrow> db \<Rightarrow> store_error + db" where
  "insert_deliveries event_id created_at [] db = Inr db"
| "insert_deliveries event_id created_at (d # ds) db =
     bindE (insert_delivery event_id created_at d db) (insert_deliveries event_id created_at ds)"

definition event_row_of :: "codec \<Rightarrow> webhook_event \<Rightarrow> string \<Rightarrow> event_row" where
  "event_row_of cd e payload =
     \<lparr>ev_id = we_event_id e, ev_kind = event_kind_str (we_kind e), ev_board = p_board (we_post e),
      ev_thread_id = p_thread_id (we_post e), ev_post_id = p_id (we_post e), ev_payload = payload,
      ev_created_at = to_rfc3339 cd (we_observed_at e)\<rparr>"

definition create_event ::
  "codec \<Rightarrow> bool \<Rightarrow> webhook_event \<Rightarrow> string \<Rightarrow> event_delivery list \<Rightarrow> db \<Rightarrow> bool store_result" where
  "create_event cd fault e payload deliveries = store_call fault (\<lambda>db.
     if list_ex (\<lambda>r. ev_id r = we_event_id e) (db_events db) then Inr (False, db)
     else bindE (insert_deliveries (we_event_id e) (to_rfc3339 cd (we_observed_at e)) deliveries
                   (db\<lparr>db_events := db_events db @ [event_row_of cd e payload]\<rparr>))
            (\<lambda>db'. Inr (True, db')))"

definition find_event :: "db \<Rightarrow> string \<Rightarrow> event_row option" where
  "find_event db i = List.find (\<lambda>e. ev_id e = i) (db_events db)"

definition due :: "string \<Rightarrow> db \<Rightarrow> delivery_row \<Rightarrow> bool" where
  "due now_text db d =
     (is_pending d \<and> dl_next_attempt_at d \<le> now_text \<and> find_event db (dl_event_id d) \<noteq> None)"

definition pending_of :: "db \<Rightarrow> delivery_row \<Rightarrow> pending_delivery" where
  "pending_of db d =
     \<lparr>pd_event_id = dl_event_id d, pd_webhook = dl_webhook d,
      pd_payload = (case dl_payload d of Some p \<Rightarrow> p
        | None \<Rightarrow> (case find_event db (dl_event_id d) of Some e \<Rightarrow> ev_payload e | None \<Rightarrow> [])),
      pd_attempts = dl_attempts d\<rparr>"

text \<open>The sort key of the query, as one list so that the order is the lexicographic one.\<close>

definition due_order :: "delivery_row \<Rightarrow> string list" where
  "due_order d = [dl_next_attempt_at d, dl_event_id d]"

definition pending_deliveries ::
  "codec \<Rightarrow> (delivery_row list \<Rightarrow> delivery_row list) \<Rightarrow> bool \<Rightarrow> nat \<Rightarrow> datetime \<Rightarrow> db
     \<Rightarrow> pending_delivery list store_result" where
  "pending_deliveries cd scan fault limit now = store_call fault (\<lambda>db.
     bindE (ensureE (int limit \<le> i64_max) LimitTooLarge) (\<lambda>_.
     Inr (map (pending_of db)
            (take limit (sort_key due_order (filter (due (to_rfc3339 cd now) db) (scan (db_deliveries db))))),
          db)))"

definition mark_delivered ::
  "codec \<Rightarrow> bool \<Rightarrow> string \<Rightarrow> string \<Rightarrow> datetime \<Rightarrow> db \<Rightarrow> unit store_result" where
  "mark_delivered cd fault event_id webhook now = store_call fault (\<lambda>db.
     Inr ((), db\<lparr>db_deliveries := map (\<lambda>d.
        if delivery_key d = (event_id, webhook)
        then d\<lparr>dl_status := Delivered, dl_delivered_at := Some (to_rfc3339 cd now)\<rparr> else d)
        (db_deliveries db)\<rparr>))"

definition truncate_chars :: "string \<Rightarrow> nat \<Rightarrow> string" where
  "truncate_chars value max_chars = str_take_chars max_chars value"

definition mark_failed ::
  "codec \<Rightarrow> bool \<Rightarrow> string \<Rightarrow> string \<Rightarrow> string \<Rightarrow> int \<Rightarrow> datetime \<Rightarrow> db \<Rightarrow> unit store_result" where
  "mark_failed cd fault event_id webhook error attempts next_attempt_at = store_call fault (\<lambda>db.
     Inr ((), db\<lparr>db_deliveries := map (\<lambda>d.
        if delivery_key d = (event_id, webhook)
        then d\<lparr>dl_attempts := attempts, dl_next_attempt_at := to_rfc3339 cd next_attempt_at,
               dl_last_error := Some (truncate_chars error 500)\<rparr> else d)
        (db_deliveries db)\<rparr>))"

definition pending_count :: "bool \<Rightarrow> db \<Rightarrow> int store_result" where
  "pending_count fault = store_call fault (\<lambda>db.
     Inr (int (length (filter is_pending (db_deliveries db))), db))"

definition pending_counts_by_webhook ::
  "(delivery_row list \<Rightarrow> delivery_row list) \<Rightarrow> bool \<Rightarrow> db \<Rightarrow> (string \<times> int) list store_result" where
  "pending_counts_by_webhook scan fault = store_call fault (\<lambda>db.
     let ws = map dl_webhook (filter is_pending (scan (db_deliveries db))) in
     Inr (map (\<lambda>w. (w, int (count_list ws w))) (remdups ws), db))"

text \<open>\<^verbatim>\<open>MIN\<close> over a text column, and the first row of an ascending order: \<^verbatim>\<open>NULL\<close> or nothing without rows.\<close>

definition text_min :: "string list \<Rightarrow> string option" where
  "text_min xs = (if xs = [] then None else Some (Min (set xs)))"

definition joined_created_at :: "db \<Rightarrow> delivery_row \<Rightarrow> string option" where
  "joined_created_at db d = map_option ev_created_at (find_event db (dl_event_id d))"

definition oldest_pending_age :: "codec \<Rightarrow> bool \<Rightarrow> datetime \<Rightarrow> db \<Rightarrow> duration option store_result" where
  "oldest_pending_age cd fault now = store_call fault (\<lambda>db.
     case text_min (List.map_filter (joined_created_at db) (filter is_pending (db_deliveries db))) of
       None \<Rightarrow> Inr (None, db)
     | Some oldest \<Rightarrow>
         bindE (ok_or (parse_from_rfc3339 cd oldest) BadTimestamp) (\<lambda>t.
         Inr (Some (since_or_zero now t), db)))"

definition next_delivery_delay :: "codec \<Rightarrow> bool \<Rightarrow> datetime \<Rightarrow> db \<Rightarrow> duration option store_result" where
  "next_delivery_delay cd fault now = store_call fault (\<lambda>db.
     case text_min (map dl_next_attempt_at (filter is_pending (db_deliveries db))) of
       None \<Rightarrow> Inr (None, db)
     | Some next \<Rightarrow>
         bindE (ok_or (parse_from_rfc3339 cd next) BadTimestamp) (\<lambda>t.
         Inr (Some (since_or_zero t now), db)))"

text \<open>The rows the \<^verbatim>\<open>DELETE\<close> selects; the foreign key removes their deliveries.\<close>

definition prunable :: "string \<Rightarrow> db \<Rightarrow> event_row \<Rightarrow> bool" where
  "prunable cutoff db e =
     (ev_created_at e < cutoff \<and>
      \<not> list_ex (\<lambda>d. dl_event_id d = ev_id e \<and> dl_status d \<noteq> Delivered) (db_deliveries db))"

definition prune_delivered_events :: "codec \<Rightarrow> bool \<Rightarrow> datetime \<Rightarrow> db \<Rightarrow> nat store_result" where
  "prune_delivered_events cd fault cutoff = store_call fault (\<lambda>db.
     let gone = filter (prunable (to_rfc3339 cd cutoff) db) (db_events db) in
     Inr (length gone,
          db\<lparr>db_events := filter (\<lambda>e. \<not> prunable (to_rfc3339 cd cutoff) db e) (db_events db),
             db_deliveries := (if db_foreign_keys db
               then filter (\<lambda>d. \<not> list_ex (\<lambda>e. ev_id e = dl_event_id d) gone) (db_deliveries db)
               else db_deliveries db)\<rparr>))"

definition is_ready :: "bool \<Rightarrow> db \<Rightarrow> bool store_result" where
  "is_ready fault db =
     (let r = store_call fault (\<lambda>db. Inr (True, db)) db in
      ((fst (fst r), Inr (case snd (fst r) of Inr b \<Rightarrow> b | Inl _ \<Rightarrow> False)), snd r))"

definition delivery_backoff :: "int \<Rightarrow> duration" where
  "delivery_backoff attempts =
     (let e = nat (max 1 (min attempts 8)) in dur_secs (min (2 ^ e) 300))"

section \<open>Cleanup\<close>

definition CLEANUP_INTERVAL :: duration where "CLEANUP_INTERVAL = dur_hours 1"

text \<open>
  chrono's conversion of a duration and its subtraction from an instant; \<open>None\<close> is the error of
  the first and the panic of the second.
\<close>

record chrono_arith =
  delta_from_std :: "duration \<Rightarrow> int option"
  datetime_sub :: "datetime \<Rightarrow> int \<Rightarrow> datetime option"

datatype prune_outcome = RetentionTooLarge | CutoffPanic | Pruned nat | PruneFailed store_error

definition prune_once ::
  "codec \<Rightarrow> chrono_arith \<Rightarrow> bool \<Rightarrow> datetime \<Rightarrow> duration \<Rightarrow> db \<Rightarrow> (metric_op list \<times> prune_outcome) \<times> db" where
  "prune_once cd ch fault now retention db = (case delta_from_std ch retention of
     None \<Rightarrow> (([], RetentionTooLarge), db)
   | Some delta \<Rightarrow> (case datetime_sub ch now delta of
       None \<Rightarrow> (([], CutoffPanic), db)
     | Some cutoff \<Rightarrow>
         (let r = prune_delivered_events cd fault cutoff db in
          ((fst (fst r), case snd (fst r) of Inr n \<Rightarrow> Pruned n | Inl e \<Rightarrow> PruneFailed e), snd r))))"

text \<open>
  One entry per turn of \<^verbatim>\<open>cleanup_loop\<close>: the shutdown flag read at its head, the time and whether
  SQLite fails. The result lists what each turn did; a panic ends the task.
\<close>

fun cleanup_loop ::
  "codec \<Rightarrow> chrono_arith \<Rightarrow> duration \<Rightarrow> (bool \<times> datetime \<times> bool) list \<Rightarrow> db \<Rightarrow> prune_outcome list \<times> db" where
  "cleanup_loop cd ch retention [] db = ([], db)"
| "cleanup_loop cd ch retention ((shutdown, now, fault) # turns) db =
     (if shutdown then ([], db)
      else (let r = prune_once cd ch fault now retention db;
                out = snd (fst r) in
            if out = CutoffPanic then ([out], snd r)
            else (let rest = cleanup_loop cd ch retention turns (snd r) in (out # fst rest, snd rest))))"

end
