(* ===== verification/Store_Facts.thy ===== *)
theory Store_Facts
  imports Store
begin

text \<open>
  The store's invariant, what each operation does to the set of pending deliveries, the delivery
  queue contract that the webhook loop relies on, and the order of the due deliveries.
\<close>

section \<open>Calls\<close>

lemma store_call_result:
  "snd (fst (store_call fault act db)) =
     (if fault then Inl SqliteFault else case act db of Inr (x, _) \<Rightarrow> Inr x | Inl e \<Rightarrow> Inl e)"
  by (simp add: store_call_def split: sum.splits prod.splits)

text \<open>Errors are counted once each, and only errors.\<close>

lemma store_call_ops:
  "fst (fst (store_call fault act db)) =
     (if is_ok (snd (fst (store_call fault act db))) then [] else [MInc SQLITE_ERRORS []])"
  by (simp add: store_call_def split: sum.splits prod.splits)

section \<open>The invariant\<close>

definition row_wf :: "delivery_row \<Rightarrow> bool" where
  "row_wf d \<longleftrightarrow> (dl_status d = Delivered \<longleftrightarrow> dl_delivered_at d \<noteq> None) \<and>
     (\<forall>e. dl_last_error d = Some e \<longrightarrow> length (str_chars e) \<le> 500)"

definition db_wf :: "db \<Rightarrow> bool" where
  "db_wf db \<longleftrightarrow>
     db_foreign_keys db \<and>
     distinct (map ev_id (db_events db)) \<and>
     distinct (map delivery_key (db_deliveries db)) \<and>
     dl_event_id ` set (db_deliveries db) \<subseteq> ev_id ` set (db_events db) \<and>
     list_all row_wf (db_deliveries db)"

definition db_empty :: "db \<Rightarrow> bool" where
  "db_empty db \<longleftrightarrow> db_foreign_keys db \<and> db_events db = [] \<and> db_deliveries db = []"

definition pending_keys :: "db \<Rightarrow> (string \<times> string) set" where
  "pending_keys db = delivery_key ` {d \<in> set (db_deliveries db). is_pending d}"

definition delivery_keys :: "db \<Rightarrow> (string \<times> string) set" where
  "delivery_keys db = delivery_key ` set (db_deliveries db)"

text \<open>In a well-formed database a key is pending exactly when its row is.\<close>

lemma pending_keys_iff:
  assumes "db_wf db" and "d \<in> set (db_deliveries db)"
  shows "delivery_key d \<in> pending_keys db \<longleftrightarrow> is_pending d"
proof
  assume "delivery_key d \<in> pending_keys db"
  then obtain d' where "d' \<in> set (db_deliveries db)" "is_pending d'" "delivery_key d' = delivery_key d"
    by (auto simp: pending_keys_def)
  moreover have "inj_on delivery_key (set (db_deliveries db))"
    using assms(1) by (simp add: db_wf_def distinct_map)
  ultimately show "is_pending d" using assms(2) by (metis inj_onD)
qed (use assms in \<open>auto simp: pending_keys_def\<close>)

subsection \<open>Inserting\<close>

lemma insert_delivery_Inr:
  "insert_delivery i c d db = Inr db' \<longleftrightarrow>
     (i, ed_webhook d) \<notin> delivery_keys db \<and> (db_foreign_keys db \<longrightarrow> i \<in> ev_id ` set (db_events db)) \<and>
     db' = db\<lparr>db_deliveries := db_deliveries db @
       [\<lparr>dl_event_id = i, dl_webhook = ed_webhook d, dl_status = Pending, dl_attempts = 0,
         dl_next_attempt_at = c, dl_payload = Some (ed_payload d), dl_last_error = None,
         dl_delivered_at = None\<rparr>]\<rparr>"
  by (auto simp: insert_delivery_def res_simps list_ex_key delivery_keys_def)

definition new_row :: "string \<Rightarrow> string \<Rightarrow> event_delivery \<Rightarrow> delivery_row" where
  "new_row i c d = \<lparr>dl_event_id = i, dl_webhook = ed_webhook d, dl_status = Pending, dl_attempts = 0,
     dl_next_attempt_at = c, dl_payload = Some (ed_payload d), dl_last_error = None, dl_delivered_at = None\<rparr>"

lemma new_row_sel [simp]:
  "delivery_key (new_row i c d) = (i, ed_webhook d)" "is_pending (new_row i c d)"
  "dl_event_id (new_row i c d) = i" "dl_next_attempt_at (new_row i c d) = c"
  by (simp_all add: new_row_def delivery_key_def is_pending_def)

lemma insert_deliveries_Inr:
  "insert_deliveries i c ds db = Inr db' \<longleftrightarrow>
     distinct (map ed_webhook ds) \<and> (\<forall>d \<in> set ds. (i, ed_webhook d) \<notin> delivery_keys db) \<and>
     (ds \<noteq> [] \<and> db_foreign_keys db \<longrightarrow> i \<in> ev_id ` set (db_events db)) \<and>
     db' = db\<lparr>db_deliveries := db_deliveries db @ map (new_row i c) ds\<rparr>"
proof (induction ds arbitrary: db)
  case (Cons d ds)
  let ?db = "db\<lparr>db_deliveries := db_deliveries db @ [new_row i c d]\<rparr>"
  have keys: "delivery_keys ?db = insert (i, ed_webhook d) (delivery_keys db)"
    by (simp add: delivery_keys_def)
  have "insert_deliveries i c (d # ds) db = Inr db' \<longleftrightarrow>
      (i, ed_webhook d) \<notin> delivery_keys db \<and> (db_foreign_keys db \<longrightarrow> i \<in> ev_id ` set (db_events db)) \<and>
      insert_deliveries i c ds ?db = Inr db'"
    by (simp add: bindE_Inr_iff insert_delivery_Inr new_row_def)
  also have "\<dots> \<longleftrightarrow> (i, ed_webhook d) \<notin> delivery_keys db \<and>
      (db_foreign_keys db \<longrightarrow> i \<in> ev_id ` set (db_events db)) \<and>
      distinct (map ed_webhook ds) \<and> (\<forall>e \<in> set ds. (i, ed_webhook e) \<notin> insert (i, ed_webhook d) (delivery_keys db)) \<and>
      db' = db\<lparr>db_deliveries := db_deliveries db @ map (new_row i c) (d # ds)\<rparr>"
    unfolding Cons.IH keys by auto
  finally show ?case by (auto simp: image_iff)
qed auto

lemma create_event_cases:
  obtains (new) "we_event_id e \<notin> ev_id ` set (db_events db)"
      "distinct (map ed_webhook ds)" "\<forall>d \<in> set ds. (we_event_id e, ed_webhook d) \<notin> delivery_keys db"
      "snd (fst (create_event cd fault e payload ds db)) = Inr True"
      "snd (create_event cd fault e payload ds db) =
         db\<lparr>db_events := db_events db @ [event_row_of cd e payload],
            db_deliveries := db_deliveries db @ map (new_row (we_event_id e) (to_rfc3339 cd (we_observed_at e))) ds\<rparr>"
  | (known) "we_event_id e \<in> ev_id ` set (db_events db)"
      "snd (fst (create_event cd fault e payload ds db)) = Inr False" "snd (create_event cd fault e payload ds db) = db"
  | (failed) x where "snd (fst (create_event cd fault e payload ds db)) = Inl x"
      "snd (create_event cd fault e payload ds db) = db"
proof (cases fault)
  case True
  then show ?thesis using failed by (simp add: create_event_def store_call_def)
next
  case False
  let ?i = "we_event_id e" and ?c = "to_rfc3339 cd (we_observed_at e)"
  let ?db = "db\<lparr>db_events := db_events db @ [event_row_of cd e payload]\<rparr>"
  show ?thesis
  proof (cases "?i \<in> ev_id ` set (db_events db)")
    case True
    then have "list_ex (\<lambda>r. ev_id r = ?i) (db_events db)" by (simp add: list_ex_key)
    then show ?thesis using known True False by (simp add: create_event_def store_call_def)
  next
    case new_id: False
    then have nex: "\<not> list_ex (\<lambda>r. ev_id r = ?i) (db_events db)" by (simp add: list_ex_key)
    show ?thesis
    proof (cases "insert_deliveries ?i ?c ds ?db")
      case (Inl x)
      then show ?thesis using failed False nex by (simp add: create_event_def store_call_def)
    next
      case (Inr db')
      then have *: "distinct (map ed_webhook ds)" "\<forall>d \<in> set ds. (?i, ed_webhook d) \<notin> delivery_keys db"
        "db' = ?db\<lparr>db_deliveries := db_deliveries db @ map (new_row ?i ?c) ds\<rparr>"
        by (simp_all add: insert_deliveries_Inr delivery_keys_def)
      show ?thesis
        using new [OF new_id *(1,2)] Inr False nex *(3) by (simp add: create_event_def store_call_def)
    qed
  qed
qed

lemma db_wf_create_event:
  assumes "db_wf db"
  shows "db_wf (snd (create_event cd fault e payload ds db))"
proof (rule create_event_cases [of e db ds cd fault payload])
  let ?i = "we_event_id e" and ?c = "to_rfc3339 cd (we_observed_at e)"
  assume n: "?i \<notin> ev_id ` set (db_events db)" and d: "distinct (map ed_webhook ds)"
    and k: "\<forall>d \<in> set ds. (?i, ed_webhook d) \<notin> delivery_keys db"
    and db': "snd (create_event cd fault e payload ds db) =
         db\<lparr>db_events := db_events db @ [event_row_of cd e payload],
            db_deliveries := db_deliveries db @ map (new_row ?i ?c) ds\<rparr>"
  have keys: "map delivery_key (map (new_row ?i ?c) ds) = map (Pair ?i) (map ed_webhook ds)" by simp
  have "distinct (map delivery_key (map (new_row ?i ?c) ds))"
    unfolding keys using d by (simp add: distinct_map inj_on_def)
  moreover have "set (map delivery_key (db_deliveries db)) \<inter> set (map delivery_key (map (new_row ?i ?c) ds)) = {}"
    using k by (auto simp: delivery_keys_def)
  moreover have "list_all row_wf (map (new_row ?i ?c) ds)"
    by (simp add: list_all_iff new_row_def row_wf_def)
  ultimately show ?thesis
    using assms n unfolding db' db_wf_def by (auto simp: event_row_of_def)
qed (simp_all add: assms)

subsection \<open>Updating\<close>

text \<open>A row update that keeps the key of every row.\<close>

lemma db_wf_map_rows:
  assumes "db_wf db" and "\<And>d. delivery_key (f d) = delivery_key d"
    and "\<And>d. row_wf d \<Longrightarrow> row_wf (f d)"
  shows "db_wf (db\<lparr>db_deliveries := map f (db_deliveries db)\<rparr>)"
proof -
  have ids: "dl_event_id (f d) = dl_event_id d" for d
    using assms(2) [of d] by (simp add: delivery_key_def)
  have "map delivery_key (map f (db_deliveries db)) = map delivery_key (db_deliveries db)"
    using assms(2) by simp
  then have "distinct (map delivery_key (map f (db_deliveries db)))"
    using assms(1) unfolding db_wf_def by metis
  moreover have "list_all row_wf (map f (db_deliveries db))"
    using assms(1,3) by (simp add: db_wf_def list_all_iff)
  ultimately show ?thesis
    using assms(1) ids by (simp add: db_wf_def image_image)
qed

lemma length_str_chars_concat_take: "length (str_chars (str_take_chars n s)) \<le> n"
proof -
  have cont: "takeWhile is_cont_byte (concat (take k (str_chars bs))) = [] \<and>
      dropWhile is_cont_byte (concat (take k (str_chars bs))) = concat (take k (str_chars bs))"
    if "bs = [] \<or> \<not> is_cont_byte (hd bs)" for k bs
    using that by (cases bs; cases k) auto
  have "length (str_chars (concat (take n (str_chars s)))) \<le> n"
  proof (induction s arbitrary: n rule: str_chars.induct)
    case (2 b bs)
    show ?case
    proof (cases n)
      case (Suc m)
      let ?r = "dropWhile is_cont_byte bs"
      have r: "?r = [] \<or> \<not> is_cont_byte (hd ?r)" using hd_dropWhile by blast
      have "takeWhile is_cont_byte (takeWhile is_cont_byte bs @ concat (take m (str_chars ?r))) = takeWhile is_cont_byte bs"
        "dropWhile is_cont_byte (takeWhile is_cont_byte bs @ concat (take m (str_chars ?r))) = concat (take m (str_chars ?r))"
        by (subst takeWhile_append2 dropWhile_append2;
            use cont [OF r, of m] in \<open>auto dest: set_takeWhileD\<close>)+
      with Suc 2 [of m] show ?thesis by simp
    qed simp
  qed simp
  then show ?thesis by (simp add: str_take_chars_def)
qed

lemma mark_delivered_db:
  "snd (mark_delivered cd fault i w now db) = (if fault then db else
     db\<lparr>db_deliveries := map (\<lambda>d. if delivery_key d = (i, w)
        then d\<lparr>dl_status := Delivered, dl_delivered_at := Some (to_rfc3339 cd now)\<rparr> else d) (db_deliveries db)\<rparr>)"
  by (simp add: mark_delivered_def store_call_def)

lemma mark_failed_db:
  "snd (mark_failed cd fault i w err n next db) = (if fault then db else
     db\<lparr>db_deliveries := map (\<lambda>d. if delivery_key d = (i, w)
        then d\<lparr>dl_attempts := n, dl_next_attempt_at := to_rfc3339 cd next,
               dl_last_error := Some (truncate_chars err 500)\<rparr> else d) (db_deliveries db)\<rparr>)"
  by (simp add: mark_failed_def store_call_def)

lemma db_wf_mark_delivered: "db_wf db \<Longrightarrow> db_wf (snd (mark_delivered cd fault i w now db))"
  unfolding mark_delivered_db
  by (cases fault; simp; rule db_wf_map_rows; auto simp: delivery_key_def row_wf_def)

lemma db_wf_mark_failed: "db_wf db \<Longrightarrow> db_wf (snd (mark_failed cd fault i w err n next db))"
  unfolding mark_failed_db
  by (cases fault; simp; rule db_wf_map_rows;
      auto simp: delivery_key_def row_wf_def truncate_chars_def length_str_chars_concat_take)

subsection \<open>Pruning\<close>

lemma prune_db:
  "snd (prune_delivered_events cd fault cutoff db) = (if fault then db else
     db\<lparr>db_events := filter (\<lambda>e. \<not> prunable (to_rfc3339 cd cutoff) db e) (db_events db),
        db_deliveries := (if db_foreign_keys db
          then filter (\<lambda>d. \<not> list_ex (\<lambda>e. ev_id e = dl_event_id d)
                 (filter (prunable (to_rfc3339 cd cutoff) db) (db_events db))) (db_deliveries db)
          else db_deliveries db)\<rparr>)"
  by (simp add: prune_delivered_events_def store_call_def Let_def)

lemma db_wf_prune:
  assumes "db_wf db"
  shows "db_wf (snd (prune_delivered_events cd fault cutoff db))"
proof (cases fault)
  case False
  let ?p = "prunable (to_rfc3339 cd cutoff) db"
  have "dl_event_id ` set (filter (\<lambda>d. \<not> list_ex (\<lambda>e. ev_id e = dl_event_id d) (filter ?p (db_events db))) (db_deliveries db))
      \<subseteq> ev_id ` set (filter (\<lambda>e. \<not> ?p e) (db_events db))"
  proof (rule image_subsetI)
    fix d assume d: "d \<in> set (filter (\<lambda>d. \<not> list_ex (\<lambda>e. ev_id e = dl_event_id d) (filter ?p (db_events db))) (db_deliveries db))"
    then have "dl_event_id d \<in> ev_id ` set (db_events db)" using assms by (auto simp: db_wf_def)
    then obtain e where "e \<in> set (db_events db)" "ev_id e = dl_event_id d" by auto
    moreover from this d have "\<not> ?p e" by (auto simp: list_ex_iff)
    ultimately show "dl_event_id d \<in> ev_id ` set (filter (\<lambda>e. \<not> ?p e) (db_events db))" by force
  qed
  with False assms show ?thesis
    unfolding prune_db db_wf_def
    by (simp add: distinct_map_filter) (simp add: list_all_iff)
qed (simp add: prune_db assms)

text \<open>A delivery that has not been delivered, and its event, survive every prune.\<close>

lemma prune_keeps_pending:
  assumes "d \<in> set (db_deliveries db)" and "is_pending d"
  shows "d \<in> set (db_deliveries (snd (prune_delivered_events cd fault cutoff db)))"
  using assms by (auto simp: prune_db prunable_def list_ex_iff is_pending_def)

lemma prune_deliveries_subset:
  "set (db_deliveries (snd (prune_delivered_events cd fault cutoff db))) \<subseteq> set (db_deliveries db)"
  by (auto simp: prune_db)

end
