(* ===== verification/Store_Queue.thy ===== *)
theory Store_Queue
  imports Store_Facts
begin

text \<open>
  The store as a queue of deliveries: the contract its clients use, its writes as a step relation
  with the invariant of every reachable database, the order in which due deliveries come out, and
  what the stored text of instants means for when a delivery is due.
\<close>

section \<open>The delivery queue contract\<close>

text \<open>
  \<open>acks c\<close> are the keys a command acknowledges, \<open>adds c\<close> those it may enqueue, \<open>collects c\<close> whether it may
  forget settled keys.
\<close>

locale delivery_queue =
  fixes wf :: "'s \<Rightarrow> bool"
    and pending :: "'s \<Rightarrow> 'k set"
    and settled :: "'s \<Rightarrow> 'k set"
    and run :: "'c \<Rightarrow> 's \<Rightarrow> 's"
    and acks :: "'c \<Rightarrow> 'k set"
    and adds :: "'c \<Rightarrow> 'k set"
    and collects :: "'c \<Rightarrow> bool"
  assumes wf_run: "wf s \<Longrightarrow> wf (run c s)"
    and keeps_pending: "wf s \<Longrightarrow> pending s - acks c \<subseteq> pending (run c s)"
    and invents_nothing: "wf s \<Longrightarrow> pending (run c s) \<subseteq> pending s \<union> adds c"
    and never_requeues: "wf s \<Longrightarrow> pending (run c s) \<inter> settled s = {}"
    and keeps_settled: "wf s \<Longrightarrow> \<not> collects c \<Longrightarrow> settled s \<subseteq> settled (run c s)"
begin

lemma wf_runs: "wf s \<Longrightarrow> wf (fold run cs s)"
  by (induction cs arbitrary: s) (simp_all add: wf_run)

lemma pending_until_ack:
  "wf s \<Longrightarrow> k \<in> pending s \<Longrightarrow> \<forall>c \<in> set cs. k \<notin> acks c \<Longrightarrow> k \<in> pending (fold run cs s)"
proof (induction cs arbitrary: s)
  case (Cons c cs)
  then have "k \<in> pending (run c s)" using keeps_pending [of s c] by auto
  then show ?case using Cons wf_run [of s c] by simp
qed simp

lemma left_only_by_ack:
  "wf s \<Longrightarrow> k \<in> pending s \<Longrightarrow> k \<notin> pending (fold run cs s) \<Longrightarrow> \<exists>c \<in> set cs. k \<in> acks c"
  using pending_until_ack by blast

lemma pending_only_by_add:
  "wf s \<Longrightarrow> k \<in> pending (fold run cs s) \<Longrightarrow> k \<in> pending s \<or> (\<exists>c \<in> set cs. k \<in> adds c)"
proof (induction cs arbitrary: s)
  case (Cons c cs)
  then have "k \<in> pending (run c s) \<or> (\<exists>c \<in> set cs. k \<in> adds c)" using wf_run [of s c] by simp
  then show ?case using invents_nothing [of s c] Cons.prems(1) by auto
qed simp

lemma settled_stays:
  "wf s \<Longrightarrow> k \<in> settled s \<Longrightarrow> \<forall>c \<in> set cs. \<not> collects c \<Longrightarrow> k \<in> settled (fold run cs s)"
proof (induction cs arbitrary: s)
  case (Cons c cs)
  then have "k \<in> settled (run c s)" using keeps_settled [of s c] by auto
  then show ?case using Cons wf_run [of s c] by simp
qed simp

lemma settled_not_pending:
  assumes "wf s" and "k \<in> settled s" and "\<forall>c \<in> set cs. \<not> collects c" and "cs \<noteq> []"
  shows "k \<notin> pending (fold run cs s)"
proof (cases cs rule: rev_cases)
  case (snoc ds c)
  then have "k \<in> settled (fold run ds s)" "wf (fold run ds s)"
    using assms settled_stays wf_runs by simp_all
  then show ?thesis using snoc never_requeues [of "fold run ds s" c] by auto
qed (use assms in simp)

end

section \<open>The store's writes\<close>

datatype store_op =
    OpCreate webhook_event string "event_delivery list"
  | OpDelivered string string datetime
  | OpFailed string string string int datetime
  | OpPrune datetime

fun store_run :: "codec \<Rightarrow> store_op \<times> bool \<Rightarrow> db \<Rightarrow> db" where
  "store_run cd (OpCreate e payload ds, fault) db = snd (create_event cd fault e payload ds db)"
| "store_run cd (OpDelivered i w now, fault) db = snd (mark_delivered cd fault i w now db)"
| "store_run cd (OpFailed i w err n next, fault) db = snd (mark_failed cd fault i w err n next db)"
| "store_run cd (OpPrune cutoff, fault) db = snd (prune_delivered_events cd fault cutoff db)"

fun op_acks :: "store_op \<times> bool \<Rightarrow> (string \<times> string) set" where
  "op_acks (OpDelivered i w now, fault) = (if fault then {} else {(i, w)})"
| "op_acks _ = {}"

fun op_adds :: "store_op \<times> bool \<Rightarrow> (string \<times> string) set" where
  "op_adds (OpCreate e payload ds, fault) = (\<lambda>d. (we_event_id e, ed_webhook d)) ` set ds"
| "op_adds _ = {}"

fun op_collects :: "store_op \<times> bool \<Rightarrow> bool" where
  "op_collects (OpPrune cutoff, fault) = True"
| "op_collects _ = False"

definition settled_keys :: "db \<Rightarrow> (string \<times> string) set" where
  "settled_keys db = delivery_key ` {d \<in> set (db_deliveries db). dl_status d = Delivered}"

inductive store_step :: "codec \<Rightarrow> db \<Rightarrow> db \<Rightarrow> bool" for cd :: codec where
  step_create: "store_step cd db (snd (create_event cd fault e payload ds db))"
| step_delivered: "store_step cd db (snd (mark_delivered cd fault i w now db))"
| step_failed: "store_step cd db (snd (mark_failed cd fault i w err n next db))"
| step_prune: "store_step cd db (snd (prune_delivered_events cd fault cutoff db))"

inductive_cases store_stepE: "store_step cd db db'"

lemma store_step_iff: "store_step cd db db' \<longleftrightarrow> (\<exists>c. db' = store_run cd c db)"
proof
  assume "store_step cd db db'"
  then show "\<exists>c. db' = store_run cd c db"
    by cases (metis store_run.simps)+
next
  assume "\<exists>c. db' = store_run cd c db"
  then obtain opn fault where "db' = store_run cd (opn, fault) db" by auto
  then show "store_step cd db db'" by (cases opn) (auto intro: store_step.intros)
qed

lemma db_wf_store_run: "db_wf db \<Longrightarrow> db_wf (store_run cd c db)"
  by (induction cd c db rule: store_run.induct)
     (simp_all add: db_wf_create_event db_wf_mark_delivered db_wf_mark_failed db_wf_prune)

interpretation store_inv: component_invariant db_empty "store_step cd" db_wf for cd
proof unfold_locales
  show "db_empty db \<Longrightarrow> db_wf db" for db by (simp add: db_empty_def db_wf_def)
  show "db_wf db \<Longrightarrow> store_step cd db db' \<Longrightarrow> db_wf db'" for db db'
    using db_wf_store_run by (auto simp: store_step_iff)
qed

subsection \<open>The queue laws\<close>

lemma settled_pending_disjoint:
  assumes "db_wf db"
  shows "settled_keys db \<inter> pending_keys db = {}"
proof -
  have "\<not> is_pending d" if "d \<in> set (db_deliveries db)" "dl_status d = Delivered" for d
    using that by (simp add: is_pending_def)
  then show ?thesis using pending_keys_iff [OF assms] by (auto simp: settled_keys_def)
qed

lemma pending_keys_create:
  "pending_keys db \<subseteq> pending_keys (snd (create_event cd fault e payload ds db)) \<and>
   pending_keys (snd (create_event cd fault e payload ds db)) \<subseteq>
     pending_keys db \<union> (\<lambda>d. (we_event_id e, ed_webhook d)) ` set ds \<and>
   settled_keys (snd (create_event cd fault e payload ds db)) = settled_keys db"
  by (rule create_event_cases [of e db ds cd fault payload])
     (auto simp: pending_keys_def settled_keys_def new_row_def is_pending_def delivery_key_def)

lemma create_event_no_requeue:
  assumes "db_wf db"
  shows "pending_keys (snd (create_event cd fault e payload ds db)) \<inter> settled_keys db = {}"
proof (rule create_event_cases [of e db ds cd fault payload])
  assume k: "\<forall>d \<in> set ds. (we_event_id e, ed_webhook d) \<notin> delivery_keys db"
  have "settled_keys db \<subseteq> delivery_keys db" by (auto simp: settled_keys_def delivery_keys_def)
  then show ?thesis
    using k pending_keys_create [of db cd fault e payload ds] settled_pending_disjoint [OF assms] by blast
qed (use settled_pending_disjoint [OF assms] in auto)

lemma keys_of_mapped:
  assumes "\<And>d. delivery_key (f d) = delivery_key d"
  shows "delivery_key ` {d \<in> set (map f rows). P d} = delivery_key ` {d \<in> set rows. P (f d)}"
proof -
  have "{d \<in> set (map f rows). P d} = f ` {d \<in> set rows. P (f d)}" by auto
  then show ?thesis by (simp add: image_image assms)
qed

lemma image_except: "f ` {x \<in> A. P x \<and> f x \<noteq> k} = f ` {x \<in> A. P x} - {k}"
  by auto

lemma pending_keys_delivered:
  "pending_keys (snd (mark_delivered cd fault i w now db)) = pending_keys db - op_acks (OpDelivered i w now, fault)"
proof -
  let ?f = "\<lambda>d. if delivery_key d = (i, w)
    then d\<lparr>dl_status := Delivered, dl_delivered_at := Some (to_rfc3339 cd now)\<rparr> else d"
  have "delivery_key (?f d) = delivery_key d" for d by (simp add: delivery_key_def)
  from keys_of_mapped [of ?f, OF this]
  have "delivery_key ` {d \<in> set (map ?f (db_deliveries db)). is_pending d} =
      delivery_key ` {d \<in> set (db_deliveries db). is_pending (?f d)}" .
  also have "{d \<in> set (db_deliveries db). is_pending (?f d)} =
      {d \<in> set (db_deliveries db). is_pending d \<and> delivery_key d \<noteq> (i, w)}"
    by (auto simp: is_pending_def)
  also have "delivery_key ` \<dots> = pending_keys db - {(i, w)}" unfolding pending_keys_def by (rule image_except)
  finally show ?thesis by (simp add: mark_delivered_db pending_keys_def)
qed

lemma settled_keys_delivered:
  "settled_keys db \<subseteq> settled_keys (snd (mark_delivered cd fault i w now db))"
proof -
  let ?f = "\<lambda>d. if delivery_key d = (i, w)
    then d\<lparr>dl_status := Delivered, dl_delivered_at := Some (to_rfc3339 cd now)\<rparr> else d"
  have "delivery_key (?f d) = delivery_key d" for d by (simp add: delivery_key_def)
  from keys_of_mapped [of ?f, OF this]
  have "delivery_key ` {d \<in> set (map ?f (db_deliveries db)). dl_status d = Delivered} =
      delivery_key ` {d \<in> set (db_deliveries db). dl_status (?f d) = Delivered}" .
  moreover have "{d \<in> set (db_deliveries db). dl_status d = Delivered} \<subseteq>
      {d \<in> set (db_deliveries db). dl_status (?f d) = Delivered}"
    by auto
  ultimately show ?thesis by (simp add: mark_delivered_db settled_keys_def image_mono)
qed

lemma mark_failed_keys:
  "pending_keys (snd (mark_failed cd fault i w err n next db)) = pending_keys db"
  "settled_keys (snd (mark_failed cd fault i w err n next db)) = settled_keys db"
proof -
  let ?f = "\<lambda>d. if delivery_key d = (i, w)
    then d\<lparr>dl_attempts := n, dl_next_attempt_at := to_rfc3339 cd next,
           dl_last_error := Some (truncate_chars err 500)\<rparr> else d"
  have key: "delivery_key (?f d) = delivery_key d" for d by (simp add: delivery_key_def)
  have st: "is_pending (?f d) = is_pending d" "(dl_status (?f d) = Delivered) = (dl_status d = Delivered)" for d
    by (simp_all add: is_pending_def)
  show "pending_keys (snd (mark_failed cd fault i w err n next db)) = pending_keys db"
    using keys_of_mapped [of ?f "db_deliveries db" is_pending, OF key] unfolding st
    by (simp add: mark_failed_db pending_keys_def)
  show "settled_keys (snd (mark_failed cd fault i w err n next db)) = settled_keys db"
    using keys_of_mapped [of ?f "db_deliveries db" "\<lambda>d. dl_status d = Delivered", OF key] unfolding st
    by (simp add: mark_failed_db settled_keys_def)
qed

lemma pending_keys_prune: "pending_keys (snd (prune_delivered_events cd fault cutoff db)) = pending_keys db"
  using prune_keeps_pending prune_deliveries_subset unfolding pending_keys_def by blast

interpretation store_queue: delivery_queue db_wf pending_keys settled_keys "store_run cd" op_acks op_adds op_collects
  for cd
proof unfold_locales
  fix db :: db and c :: "store_op \<times> bool"
  assume wf: "db_wf db"
  obtain opn fault where c: "c = (opn, fault)" by (cases c)
  note disj = settled_pending_disjoint [OF wf]
  show "db_wf (store_run cd c db)" using wf by (rule db_wf_store_run)
  show "pending_keys db - op_acks c \<subseteq> pending_keys (store_run cd c db)"
    unfolding c using pending_keys_create [of db cd fault]
    by (cases opn) (auto simp: pending_keys_delivered mark_failed_keys pending_keys_prune)
  show "pending_keys (store_run cd c db) \<subseteq> pending_keys db \<union> op_adds c"
    unfolding c using pending_keys_create [of db cd fault]
    by (cases opn) (auto simp: pending_keys_delivered mark_failed_keys pending_keys_prune)
  show "pending_keys (store_run cd c db) \<inter> settled_keys db = {}"
    unfolding c using disj create_event_no_requeue [OF wf]
    by (cases opn) (auto simp: pending_keys_delivered mark_failed_keys pending_keys_prune)
  show "settled_keys db \<subseteq> settled_keys (store_run cd c db)" if "\<not> op_collects c"
    using that unfolding c using pending_keys_create [of db cd fault] settled_keys_delivered [of db cd fault]
    by (cases opn) (auto simp: mark_failed_keys)
qed

section \<open>Due deliveries\<close>

definition scan_ok :: "(delivery_row list \<Rightarrow> delivery_row list) \<Rightarrow> bool" where
  "scan_ok scan \<longleftrightarrow> (\<forall>rows. mset (scan rows) = mset rows)"

definition due_rows :: "codec \<Rightarrow> datetime \<Rightarrow> db \<Rightarrow> delivery_row set" where
  "due_rows cd now db = {d \<in> set (db_deliveries db). due (to_rfc3339 cd now) db d}"

lemma find_event_wf:
  assumes "db_wf db" and "d \<in> set (db_deliveries db)"
  shows "\<exists>e. find_event db (dl_event_id d) = Some e \<and> ev_id e = dl_event_id d \<and> e \<in> set (db_events db)"
proof -
  have "dl_event_id d \<in> ev_id ` set (db_events db)" using assms by (auto simp: db_wf_def)
  then have "find_event db (dl_event_id d) \<noteq> None"
    by (auto simp: find_event_def find_None_iff)
  then obtain e where "find_event db (dl_event_id d) = Some e" by blast
  then show ?thesis by (auto simp: find_event_def find_Some_iff)
qed

lemma due_wf:
  "db_wf db \<Longrightarrow> d \<in> set (db_deliveries db) \<Longrightarrow>
     due now_text db d \<longleftrightarrow> is_pending d \<and> dl_next_attempt_at d \<le> now_text"
  using find_event_wf [of db d] by (auto simp: due_def)

text \<open>
  A batch: due rows in the order of the query, no more than the limit, and nothing left behind that
  comes before what was taken.
\<close>

lemma pending_deliveries_batch:
  assumes "scan_ok scan" and "db_wf db"
    and "snd (fst (pending_deliveries cd scan fault limit now db)) = Inr batch"
  obtains rows where "batch = map (pending_of db) rows" and "set rows \<subseteq> due_rows cd now db"
    and "distinct rows" and "sorted (map due_order rows)"
    and "length rows = min limit (card (due_rows cd now db))"
    and "\<And>r d. r \<in> set rows \<Longrightarrow> d \<in> due_rows cd now db - set rows \<Longrightarrow> due_order r \<le> due_order d"
proof -
  let ?due = "due (to_rfc3339 cd now) db"
  define all where "all = sort_key due_order (filter ?due (scan (db_deliveries db)))"
  have ms: "mset (scan (db_deliveries db)) = mset (db_deliveries db)"
    using assms(1) by (simp add: scan_ok_def)
  have set_all: "set all = due_rows cd now db"
    using mset_eq_setD [OF ms] by (auto simp: all_def due_rows_def)
  have "distinct (db_deliveries db)"
    using assms(2) by (auto simp: db_wf_def distinct_map)
  then have dist: "distinct all"
    using ms by (simp add: all_def) (metis distinct_filter mset_eq_imp_distinct_iff)
  have srt: "sorted (map due_order all)" by (simp add: all_def)
  have b: "batch = map (pending_of db) (take limit all)"
    using assms(3) by (auto simp: pending_deliveries_def store_call_result all_def bindE_def ensureE_def split: if_splits)
  show thesis
  proof
    show "batch = map (pending_of db) (take limit all)" by (rule b)
    show "set (take limit all) \<subseteq> due_rows cd now db" using set_take_subset set_all by metis
    show "distinct (take limit all)" using dist by simp
    show "sorted (map due_order (take limit all))" using srt by (simp add: take_map [symmetric] sorted_wrt_take)
    show "length (take limit all) = min limit (card (due_rows cd now db))"
      using dist set_all by (simp add: distinct_card [symmetric] min.commute)
    show "due_order r \<le> due_order d" if "r \<in> set (take limit all)" "d \<in> due_rows cd now db - set (take limit all)" for r d
    proof -
      have "d \<in> set (drop limit all)"
        using that(2) set_all append_take_drop_id [of limit all] by (metis DiffD1 DiffD2 Un_iff set_append)
      then show ?thesis using sorted_split_le [OF srt that(1)] by simp
    qed
  qed
qed

text \<open>
  The text of instants respects their order on the instants in \<open>T\<close>, and can be read back. chrono's
  format has this property for the years 0 to 9999.
\<close>

definition text_instants :: "codec \<Rightarrow> datetime set \<Rightarrow> bool" where
  "text_instants cd T \<longleftrightarrow>
     (\<forall>s \<in> T. \<forall>t \<in> T. to_rfc3339 cd s \<le> to_rfc3339 cd t \<longleftrightarrow> s \<le> t) \<and>
     (\<forall>t \<in> T. parse_from_rfc3339 cd (to_rfc3339 cd t) = Some t)"

lemma text_instants_less:
  "text_instants cd T \<Longrightarrow> s \<in> T \<Longrightarrow> t \<in> T \<Longrightarrow> to_rfc3339 cd s < to_rfc3339 cd t \<longleftrightarrow> s < t"
  unfolding text_instants_def by (metis not_le)

lemma mark_failed_row:
  assumes "d \<in> set (db_deliveries (snd (mark_failed cd False i w err n next db)))" and "delivery_key d = (i, w)"
  shows "dl_next_attempt_at d = to_rfc3339 cd next \<and> dl_attempts d = n"
proof -
  have "(\<exists>d0. d = d0\<lparr>dl_attempts := n, dl_next_attempt_at := to_rfc3339 cd next,
             dl_last_error := Some (truncate_chars err 500)\<rparr>) \<or> delivery_key d \<noteq> (i, w)"
    using assms(1) unfolding mark_failed_db by (simp add: image_iff) blast
  then show ?thesis using assms(2) by auto
qed

lemma text_min_mem: "text_min xs = Some x \<Longrightarrow> x \<in> set xs \<and> (\<forall>y \<in> set xs. x \<le> y)"
  by (auto simp: text_min_def split: if_splits)

section \<open>Backoff\<close>

lemma delivery_backoff_secs:
  "delivery_backoff n = dur_secs (2 ^ nat (max 1 (min n 8)))"
proof -
  have "nat (max 1 (min n 8)) \<le> 8" by simp
  then have "(2 :: nat) ^ nat (max 1 (min n 8)) \<le> 2 ^ 8" by (rule power_increasing) simp
  then show ?thesis by (simp add: delivery_backoff_def Let_def)
qed

lemma delivery_backoff_mono: "m \<le> n \<Longrightarrow> delivery_backoff m \<le> delivery_backoff n"
proof -
  assume "m \<le> n"
  then have "nat (max 1 (min m 8)) \<le> nat (max 1 (min n 8))" by simp
  then have "(2 :: nat) ^ nat (max 1 (min m 8)) \<le> 2 ^ nat (max 1 (min n 8))"
    by (rule power_increasing) simp
  then show ?thesis by (simp add: delivery_backoff_secs dur_secs_def)
qed

lemma delivery_backoff_bounds: "dur_secs 2 \<le> delivery_backoff n \<and> delivery_backoff n \<le> dur_secs 256"
proof -
  have e: "1 \<le> nat (max 1 (min n 8))" "nat (max 1 (min n 8)) \<le> 8" by simp_all
  have "(2 :: nat) ^ 1 \<le> 2 ^ nat (max 1 (min n 8))" by (rule power_increasing [OF e(1)]) simp
  moreover have "(2 :: nat) ^ nat (max 1 (min n 8)) \<le> 2 ^ 8" by (rule power_increasing [OF e(2)]) simp
  ultimately have "2 \<le> (2 :: nat) ^ nat (max 1 (min n 8))" "(2 :: nat) ^ nat (max 1 (min n 8)) \<le> 256" by simp_all
  then show ?thesis unfolding delivery_backoff_secs dur_secs_def by (blast intro: mult_le_mono1)
qed

end
