(* ===== verification/Config.thy ===== *)
theory Config
  imports Rust_Text
begin

text \<open>
  Configuration (\<^verbatim>\<open>src/config.rs\<close>, \<^verbatim>\<open>src/config/file.rs\<close>, \<^verbatim>\<open>src/config/validation.rs\<close>): the file's
  structure, its validation, the secrets taken from the environment and the resolved
  configuration. URL parsing (reqwest) and socket address parsing are parameters
  (\<open>url_ok\<close>, \<open>addr_ok\<close>), as are the TOML reader and the process environment.
\<close>

section \<open>Configuration data\<close>

definition POSTING_NAME_MAX_CHARS :: nat where "POSTING_NAME_MAX_CHARS = 25"

record bucket_config =
  bk_requests :: "32 word"
  bk_window :: duration
  bk_burst :: "32 word"

record rate_limit_config =
  rl_reading :: bucket_config
  rl_posting :: bucket_config

record ptchan_config = base_url :: string

datatype log_format = LogJson | LogText

record logging_config =
  log_level :: string
  log_format_of :: log_format

record runtime_config =
  http_addr :: string
  logging :: logging_config
  rt_rate_limit :: rate_limit_config

record storage_config =
  sqlite_path :: string
  event_retention :: duration

record integration_config =
  ic_name :: string
  ic_allowed_boards :: "string list"
  ic_reading :: bool
  ic_rate_limit :: rate_limit_config
  ic_secret :: string

record webhook_config =
  wc_name :: string
  wc_url :: string
  wc_allowed_boards :: "string list"
  wc_include_poster_fingerprint :: bool
  wc_secret :: string

record posting_config =
  pc_name :: string
  pc_allowed_boards :: "string list"
  pc_display_name :: "string option"
  pc_secret :: string
  pc_tripcode_secret :: string
  pc_public_tripcode :: string
  pc_post_password :: string

record config =
  cf_ptchan :: ptchan_config
  cf_runtime :: runtime_config
  cf_storage :: storage_config
  cf_integrations :: "integration_config list"
  cf_webhooks :: "webhook_config list"
  cf_postings :: "posting_config list"
  cf_fingerprint_secret :: "string option"

record file_webhook =
  fw_url :: string
  fw_include_poster_fingerprint :: bool

record file_posting =
  fp_display_name :: "string option"
  fp_public_tripcode :: string

record file_integration =
  fi_name :: string
  fi_allowed_boards :: "string list"
  fi_reading :: "unit option"
  fi_webhook :: "file_webhook option"
  fi_posting :: "file_posting option"
  fi_rate_limit :: rate_limit_config

record file_config =
  fc_ptchan :: ptchan_config
  fc_runtime :: runtime_config
  fc_storage :: storage_config
  fc_integrations :: "file_integration list"

subsection \<open>Defaults\<close>

text \<open>The package's name and version come from \<^verbatim>\<open>Cargo.toml\<close>.\<close>

definition gateway_user_agent :: string where "gateway_user_agent = ''ptchan-gateway'' @ ''/'' @ ''0.1.0''"

definition default_http_addr :: string where "default_http_addr = ''0.0.0.0:8080''"
definition default_log_level :: string where "default_log_level = ''info''"
definition default_rate_limit_window :: duration where "default_rate_limit_window = dur_mins 1"

definition default_reading_rate_limit :: bucket_config where
  "default_reading_rate_limit =
     \<lparr>bk_requests = 120, bk_window = default_rate_limit_window, bk_burst = 30\<rparr>"

definition default_posting_rate_limit :: bucket_config where
  "default_posting_rate_limit =
     \<lparr>bk_requests = 30, bk_window = default_rate_limit_window, bk_burst = 5\<rparr>"

definition default_global_reading_rate_limit :: bucket_config where
  "default_global_reading_rate_limit =
     \<lparr>bk_requests = 1000, bk_window = default_rate_limit_window, bk_burst = 200\<rparr>"

definition default_global_posting_rate_limit :: bucket_config where
  "default_global_posting_rate_limit =
     \<lparr>bk_requests = 100, bk_window = default_rate_limit_window, bk_burst = 20\<rparr>"

definition default_rate_limit :: rate_limit_config where
  "default_rate_limit =
     \<lparr>rl_reading = default_reading_rate_limit, rl_posting = default_posting_rate_limit\<rparr>"

definition default_runtime_rate_limit :: rate_limit_config where
  "default_runtime_rate_limit =
     \<lparr>rl_reading = default_global_reading_rate_limit, rl_posting = default_global_posting_rate_limit\<rparr>"

definition default_logging :: logging_config where
  "default_logging = \<lparr>log_level = default_log_level, log_format_of = LogJson\<rparr>"

definition default_runtime :: runtime_config where
  "default_runtime =
     \<lparr>http_addr = default_http_addr, logging = default_logging, rt_rate_limit = default_runtime_rate_limit\<rparr>"

definition default_event_retention :: duration where
  "default_event_retention = dur_hours (14 * 24)"

section \<open>Names, boards and tripcodes\<close>

definition env_safe_char :: "string \<Rightarrow> char" where
  "env_safe_char ch = (case ch of
     [b] \<Rightarrow> if is_ascii_alphanumeric b then to_ascii_uppercase b else CHR ''_''
   | _ \<Rightarrow> CHR ''_'')"

definition env_safe_name :: "string \<Rightarrow> string" where
  "env_safe_name name = map env_safe_char (str_chars name)"

definition integration_secret_env :: "string \<Rightarrow> string" where
  "integration_secret_env name = ''PTCHAN_INTEGRATION_'' @ env_safe_name name @ ''_SECRET''"

definition integration_tripcode_env :: "string \<Rightarrow> string" where
  "integration_tripcode_env name = ''PTCHAN_INTEGRATION_'' @ env_safe_name name @ ''_TRIPCODE''"

definition integration_post_password_env :: "string \<Rightarrow> string" where
  "integration_post_password_env name = ''PTCHAN_INTEGRATION_'' @ env_safe_name name @ ''_POST_PASSWORD''"

definition board_allowed :: "string list \<Rightarrow> string \<Rightarrow> bool" where
  "board_allowed allowed_boards board =
     (allowed_boards = [] \<or> list_ex (\<lambda>allowed_board. allowed_board = board) allowed_boards)"

definition ic_board_allowed :: "integration_config \<Rightarrow> string \<Rightarrow> bool" where
  "ic_board_allowed c board = board_allowed (ic_allowed_boards c) board"

definition wc_board_allowed :: "webhook_config \<Rightarrow> string \<Rightarrow> bool" where
  "wc_board_allowed c board = board_allowed (wc_allowed_boards c) board"

definition pc_board_allowed :: "posting_config \<Rightarrow> string \<Rightarrow> bool" where
  "pc_board_allowed c board = board_allowed (pc_allowed_boards c) board"

definition form_name :: "posting_config \<Rightarrow> string" where
  "form_name c =
     str_trim (case pc_display_name c of Some n \<Rightarrow> n | None \<Rightarrow> pc_name c) @ ''##'' @ pc_tripcode_secret c"

definition valid_public_tripcode :: "string \<Rightarrow> bool" where
  "valid_public_tripcode tripcode =
     (case Option.bind (strip_prefix ''!!'' tripcode) (strip_suffix ''='') of
        None \<Rightarrow> False
      | Some encoded \<Rightarrow> length encoded = 9 \<and>
          list_all (\<lambda>b. is_ascii_alphanumeric b \<or> b = CHR ''+'' \<or> b = CHR ''/'') encoded)"

definition valid_board_name :: "string \<Rightarrow> bool" where
  "valid_board_name board =
     (board \<noteq> [] \<and> length board \<le> 32 \<and>
      list_all (\<lambda>b. is_ascii_alphanumeric b \<or> b = CHR ''_'') board)"

definition valid_integration_name :: "string \<Rightarrow> bool" where
  "valid_integration_name name =
     (name \<noteq> [] \<and> length name \<le> 64 \<and>
      list_all (\<lambda>b. is_ascii_alphanumeric b \<or> b = CHR ''_'' \<or> b = CHR ''-'') name)"

definition runtime_addr_text :: "string \<Rightarrow> string" where
  "runtime_addr_text addr =
     (case strip_prefix '':'' addr of Some port \<Rightarrow> ''0.0.0.0:'' @ port | None \<Rightarrow> addr)"

section \<open>Validation\<close>

datatype config_error =
    BaseUrlRequired | BaseUrlInvalid | HttpAddrInvalid | SqlitePathRequired | EventRetentionZero
  | BucketRequestsZero string string | BucketWindowZero string string
  | BucketBurstInvalid string string | BucketWindowTooSmall string string
  | IntegrationNameInvalid string | DuplicateIntegrationName string | EnvNameConflict string
  | NoCapability string | AllowedBoardInvalid string string | WebhookUrlInvalid string
  | DisplayNameEmpty string | PublicTripcodeInvalid string | PublicTripcodeConflict string
  | SecretNotSet string | SecretEmpty string | PostingNameTooLong string nat
  | ConfigUnreadable string | ConfigMalformed string

definition validate_rate_limit_bucket ::
  "string \<Rightarrow> string \<Rightarrow> bucket_config \<Rightarrow> config_error + unit" where
  "validate_rate_limit_bucket owner capability b =
     bindE (ensureE (bk_requests b \<noteq> 0) (BucketRequestsZero owner capability)) (\<lambda>_.
     bindE (ensureE (bk_window b \<noteq> 0) (BucketWindowZero owner capability)) (\<lambda>_.
     bindE (ensureE (\<not> (bk_burst b = 0 \<or> bk_burst b > bk_requests b))
              (BucketBurstInvalid owner capability)) (\<lambda>_.
     ensureE (bk_window b div unat (bk_requests b) \<noteq> 0) (BucketWindowTooSmall owner capability))))"

definition validate_rate_limit :: "string \<Rightarrow> rate_limit_config \<Rightarrow> config_error + unit" where
  "validate_rate_limit integration_name rl =
     (let owner = ''integration '' @ integration_name in
      bindE (validate_rate_limit_bucket owner ''reading'' (rl_reading rl)) (\<lambda>_.
      validate_rate_limit_bucket owner ''posting'' (rl_posting rl)))"

definition validate_posting :: "string \<Rightarrow> file_posting \<Rightarrow> config_error + unit" where
  "validate_posting integration_name p =
     bindE (ensureE (case fp_display_name p of Some name \<Rightarrow> str_trim name \<noteq> [] | None \<Rightarrow> True)
              (DisplayNameEmpty integration_name)) (\<lambda>_.
     ensureE (valid_public_tripcode (fp_public_tripcode p)) (PublicTripcodeInvalid integration_name))"

fun validate_boards :: "string \<Rightarrow> string list \<Rightarrow> config_error + unit" where
  "validate_boards name [] = Inr ()"
| "validate_boards name (b # bs) =
     bindE (ensureE (valid_board_name b) (AllowedBoardInvalid name b)) (\<lambda>_. validate_boards name bs)"

text \<open>
  The body of the loop of \<^verbatim>\<open>validate\<close> for one integration; the three hash sets of names,
  environment names and tripcodes seen so far are threaded through and returned.
\<close>

type_synonym seen = "string set \<times> string set \<times> string set"

definition validate_integration ::
  "(string \<Rightarrow> bool) \<Rightarrow> seen \<Rightarrow> file_integration \<Rightarrow> config_error + seen" where
  "validate_integration url_ok sn i =
     (case sn of (names, env_names, tripcodes) \<Rightarrow>
      bindE (ensureE (valid_integration_name (fi_name i)) (IntegrationNameInvalid (fi_name i))) (\<lambda>_.
      bindE (ensureE (fi_name i \<notin> names) (DuplicateIntegrationName (fi_name i))) (\<lambda>_.
      bindE (ensureE (env_safe_name (fi_name i) \<notin> env_names) (EnvNameConflict (fi_name i))) (\<lambda>_.
      bindE (ensureE (\<not> (fi_reading i = None \<and> fi_webhook i = None \<and> fi_posting i = None))
               (NoCapability (fi_name i))) (\<lambda>_.
      bindE (validate_boards (fi_name i) (fi_allowed_boards i)) (\<lambda>_.
      bindE (case fi_webhook i of
               None \<Rightarrow> Inr ()
             | Some w \<Rightarrow> ensureE (url_ok (fw_url w)) (WebhookUrlInvalid (fi_name i))) (\<lambda>_.
      bindE (case fi_posting i of
               None \<Rightarrow> Inr tripcodes
             | Some p \<Rightarrow>
                 bindE (validate_posting (fi_name i) p) (\<lambda>_.
                 bindE (ensureE (fp_public_tripcode p \<notin> tripcodes)
                          (PublicTripcodeConflict (fi_name i))) (\<lambda>_.
                 Inr (insert (fp_public_tripcode p) tripcodes)))) (\<lambda>tripcodes'.
      bindE (validate_rate_limit (fi_name i) (fi_rate_limit i)) (\<lambda>_.
      Inr (insert (fi_name i) names, insert (env_safe_name (fi_name i)) env_names, tripcodes'))))))))))"

fun validate_integrations ::
  "(string \<Rightarrow> bool) \<Rightarrow> seen \<Rightarrow> file_integration list \<Rightarrow> config_error + seen" where
  "validate_integrations url_ok sn [] = Inr sn"
| "validate_integrations url_ok sn (i # is) =
     bindE (validate_integration url_ok sn i) (\<lambda>sn'. validate_integrations url_ok sn' is)"

definition validate ::
  "(string \<Rightarrow> bool) \<Rightarrow> (string \<Rightarrow> bool) \<Rightarrow> file_config \<Rightarrow> config_error + unit" where
  "validate url_ok addr_ok c =
     bindE (ensureE (str_trim (base_url (fc_ptchan c)) \<noteq> []) BaseUrlRequired) (\<lambda>_.
     bindE (ensureE (url_ok (base_url (fc_ptchan c))) BaseUrlInvalid) (\<lambda>_.
     bindE (ensureE (addr_ok (runtime_addr_text (http_addr (fc_runtime c)))) HttpAddrInvalid) (\<lambda>_.
     bindE (ensureE (str_trim (sqlite_path (fc_storage c)) \<noteq> []) SqlitePathRequired) (\<lambda>_.
     bindE (ensureE (event_retention (fc_storage c) \<noteq> 0) EventRetentionZero) (\<lambda>_.
     bindE (validate_rate_limit_bucket ''runtime'' ''reading'' (rl_reading (rt_rate_limit (fc_runtime c)))) (\<lambda>_.
     bindE (validate_rate_limit_bucket ''runtime'' ''posting'' (rl_posting (rt_rate_limit (fc_runtime c)))) (\<lambda>_.
     bindE (validate_integrations url_ok ({}, {}, {}) (fc_integrations c)) (\<lambda>_. Inr ()))))))))"

section \<open>Resolution\<close>

definition required_env :: "(string \<Rightarrow> string option) \<Rightarrow> string \<Rightarrow> config_error + string" where
  "required_env env name =
     bindE (ok_or (env name) (SecretNotSet name)) (\<lambda>value.
     bindE (ensureE (str_trim value \<noteq> []) (SecretEmpty name)) (\<lambda>_. Inr value))"

definition ptchan_session_cookie :: "(string \<Rightarrow> string option) \<Rightarrow> config_error + string" where
  "ptchan_session_cookie env = required_env env ''PTCHAN_SESSION_COOKIE''"

type_synonym resolved = "integration_config \<times> webhook_config list \<times> posting_config list"

definition resolve_webhook :: "file_integration \<Rightarrow> string \<Rightarrow> webhook_config list" where
  "resolve_webhook i secret = (case fi_webhook i of
     None \<Rightarrow> []
   | Some w \<Rightarrow> [\<lparr>wc_name = fi_name i, wc_url = fw_url w, wc_allowed_boards = fi_allowed_boards i,
        wc_include_poster_fingerprint = fw_include_poster_fingerprint w, wc_secret = secret\<rparr>])"

definition resolve_posting ::
  "(string \<Rightarrow> config_error + string) \<Rightarrow> file_integration \<Rightarrow> string \<Rightarrow> config_error + posting_config list" where
  "resolve_posting get_secret i secret = (case fi_posting i of
     None \<Rightarrow> Inr []
   | Some p \<Rightarrow>
       bindE (get_secret (integration_tripcode_env (fi_name i))) (\<lambda>tripcode_secret.
       bindE (get_secret (integration_post_password_env (fi_name i))) (\<lambda>post_password.
       let posting = \<lparr>pc_name = fi_name i, pc_allowed_boards = fi_allowed_boards i,
             pc_display_name = fp_display_name p, pc_secret = secret,
             pc_tripcode_secret = tripcode_secret, pc_public_tripcode = fp_public_tripcode p,
             pc_post_password = post_password\<rparr>;
           name_len = length (str_chars (form_name posting)) in
       bindE (ensureE (\<not> name_len > POSTING_NAME_MAX_CHARS) (PostingNameTooLong (fi_name i) name_len)) (\<lambda>_.
       Inr [posting]))))"

definition resolve_integration ::
  "(string \<Rightarrow> config_error + string) \<Rightarrow> file_integration \<Rightarrow> config_error + resolved" where
  "resolve_integration get_secret i =
     bindE (get_secret (integration_secret_env (fi_name i))) (\<lambda>secret.
     bindE (resolve_posting get_secret i secret) (\<lambda>postings.
     Inr (\<lparr>ic_name = fi_name i, ic_allowed_boards = fi_allowed_boards i,
           ic_reading = (fi_reading i \<noteq> None), ic_rate_limit = fi_rate_limit i, ic_secret = secret\<rparr>,
          resolve_webhook i secret, postings)))"

definition resolve ::
  "(string \<Rightarrow> bool) \<Rightarrow> (string \<Rightarrow> bool) \<Rightarrow> (string \<Rightarrow> config_error + string) \<Rightarrow> file_config
     \<Rightarrow> config_error + config" where
  "resolve url_ok addr_ok get_secret file =
     bindE (validate url_ok addr_ok file) (\<lambda>_.
     bindE (traverseE (resolve_integration get_secret) (fc_integrations file)) (\<lambda>rs.
     let webhooks = concat (map (fst \<circ> snd) rs) in
     bindE (if list_ex wc_include_poster_fingerprint webhooks
            then bindE (get_secret ''PTCHAN_FINGERPRINT_SECRET'') (\<lambda>s. Inr (Some s))
            else Inr None) (\<lambda>fingerprint_secret.
     Inr \<lparr>cf_ptchan = fc_ptchan file, cf_runtime = fc_runtime file, cf_storage = fc_storage file,
          cf_integrations = map fst rs, cf_webhooks = webhooks,
          cf_postings = concat (map (snd \<circ> snd) rs), cf_fingerprint_secret = fingerprint_secret\<rparr>)))"

definition load_from_env ::
  "(string \<Rightarrow> string option) \<Rightarrow> (string \<Rightarrow> string option) \<Rightarrow> (string \<Rightarrow> file_config option)
     \<Rightarrow> (string \<Rightarrow> bool) \<Rightarrow> (string \<Rightarrow> bool) \<Rightarrow> config_error + config" where
  "load_from_env env read_file parse_toml url_ok addr_ok =
     (let path = (case env ''CONFIG_FILE'' of Some p \<Rightarrow> p | None \<Rightarrow> ''config/dev.toml'') in
      bindE (ok_or (read_file path) (ConfigUnreadable path)) (\<lambda>raw.
      bindE (ok_or (parse_toml raw) (ConfigMalformed path)) (\<lambda>file.
      let file' = (case env ''SQLITE_PATH'' of
             Some sp \<Rightarrow> if str_trim sp \<noteq> []
                        then file\<lparr>fc_storage := (fc_storage file)\<lparr>sqlite_path := sp\<rparr>\<rparr> else file
           | None \<Rightarrow> file) in
      resolve url_ok addr_ok (required_env env) file')))"

end
