(* ===== verification/Config_Facts.thy ===== *)
theory Config_Facts
  imports Config
begin

text \<open>
  What a validated and resolved configuration guarantees: a declarative reading of
  \<^verbatim>\<open>validate\<close>, the uniqueness of names, environment variables and tripcodes, the shape of the
  resolved lists, and the board policy contract that the three kinds of integration share.
\<close>

section \<open>Board policies\<close>

text \<open>
  The contract of the three \<^verbatim>\<open>board_allowed\<close> methods, stated once. A client of the policy (the
  read handler, the reply handler, the fan-out of events) only uses these facts.
\<close>

locale board_policy =
  fixes boards :: "'c \<Rightarrow> string list"
    and allows :: "'c \<Rightarrow> string \<Rightarrow> bool"
  assumes allows_iff: "allows c b \<longleftrightarrow> boards c = [] \<or> b \<in> set (boards c)"
begin

lemma unrestricted: "boards c = [] \<Longrightarrow> allows c b"
  by (simp add: allows_iff)

lemma restricted: "boards c \<noteq> [] \<Longrightarrow> allows c b \<longleftrightarrow> b \<in> set (boards c)"
  by (simp add: allows_iff)

lemma restricted_inherits: "boards c \<noteq> [] \<Longrightarrow> list_all P (boards c) \<Longrightarrow> allows c b \<Longrightarrow> P b"
  by (auto simp: allows_iff list_all_iff)

lemma same_boards: "boards c = boards d \<Longrightarrow> allows c b \<longleftrightarrow> allows d b"
  by (simp add: allows_iff)

end

lemma board_allowed_iff: "board_allowed bs b \<longleftrightarrow> bs = [] \<or> b \<in> set bs"
  by (auto simp: board_allowed_def list_ex_iff)

interpretation reading_policy: board_policy ic_allowed_boards ic_board_allowed
  by unfold_locales (simp add: ic_board_allowed_def board_allowed_iff)

interpretation webhook_policy: board_policy wc_allowed_boards wc_board_allowed
  by unfold_locales (simp add: wc_board_allowed_def board_allowed_iff)

interpretation posting_policy: board_policy pc_allowed_boards pc_board_allowed
  by unfold_locales (simp add: pc_board_allowed_def board_allowed_iff)

section \<open>Names\<close>

lemma name_char_ascii: "is_ascii_alphanumeric c \<or> c = CHR ''_'' \<or> c = CHR ''-'' \<Longrightarrow> byte c < 128"
  using alphanumeric_ascii by (auto simp: byte_def)

lemma valid_integration_name_ascii: "valid_integration_name n \<Longrightarrow> is_ascii n"
  unfolding valid_integration_name_def is_ascii_def list_all_iff using name_char_ascii by blast

lemma valid_board_name_ascii: "valid_board_name b \<Longrightarrow> is_ascii b"
  unfolding valid_board_name_def is_ascii_def list_all_iff using name_char_ascii by blast

text \<open>A valid board name is one path segment: it cannot leave the thread's path.\<close>

lemma alphanumeric_not_special:
  "is_ascii_alphanumeric c \<Longrightarrow> c \<noteq> CHR ''/'' \<and> c \<noteq> CHR ''.'' \<and> c \<noteq> CHR ''?'' \<and> c \<noteq> CHR ''#'' \<and>
     c \<noteq> CHR ''%'' \<and> c \<noteq> CHR 0x00"
  by (auto simp: is_ascii_alphanumeric_def is_ascii_digit_def is_ascii_alpha_def byte_def)

lemma valid_board_name_segment:
  "valid_board_name b \<Longrightarrow> b \<noteq> [] \<and> set b \<inter> {CHR ''/'', CHR ''.'', CHR ''?'', CHR ''#'', CHR ''%''} = {}"
  by (auto simp: valid_board_name_def list_all_iff dest: alphanumeric_not_special)

lemma valid_integration_name_no_nul: "valid_integration_name n \<Longrightarrow> CHR 0x00 \<notin> set n"
  by (auto simp: valid_integration_name_def list_all_iff dest: alphanumeric_not_special)

text \<open>Secrets of different kinds, or of integrations with different environment names, are distinct variables.\<close>

datatype secret_kind = IntegrationSecret | TripcodeSecret | PostPassword

fun secret_env :: "secret_kind \<Rightarrow> string \<Rightarrow> string" where
  "secret_env IntegrationSecret = integration_secret_env"
| "secret_env TripcodeSecret = integration_tripcode_env"
| "secret_env PostPassword = integration_post_password_env"

lemmas secret_env_defs =
  integration_secret_env_def integration_tripcode_env_def integration_post_password_env_def

lemma secret_env_last:
  "last (secret_env k n) = (case k of IntegrationSecret \<Rightarrow> CHR ''T'' | TripcodeSecret \<Rightarrow> CHR ''E'' | PostPassword \<Rightarrow> CHR ''D'')"
  by (cases k) (simp_all add: secret_env_defs)

lemma secret_env_inj:
  assumes "secret_env k n = secret_env k' n'"
  shows "k = k' \<and> env_safe_name n = env_safe_name n'"
proof -
  have "last (secret_env k n) = last (secret_env k' n')" using assms by simp
  then have k: "k = k'" by (cases k; cases k') (simp_all only: secret_env_last secret_kind.case, simp_all)
  with assms show ?thesis by (cases k) (simp_all add: secret_env_defs)
qed

section \<open>Validation, declaratively\<close>

definition bucket_valid :: "bucket_config \<Rightarrow> bool" where
  "bucket_valid b \<longleftrightarrow> bk_requests b \<noteq> 0 \<and> bk_burst b \<noteq> 0 \<and> bk_burst b \<le> bk_requests b \<and>
     unat (bk_requests b) \<le> bk_window b"

definition rate_limit_valid :: "rate_limit_config \<Rightarrow> bool" where
  "rate_limit_valid rl \<longleftrightarrow> bucket_valid (rl_reading rl) \<and> bucket_valid (rl_posting rl)"

definition posting_valid :: "file_posting \<Rightarrow> bool" where
  "posting_valid p \<longleftrightarrow> (\<forall>n. fp_display_name p = Some n \<longrightarrow> str_trim n \<noteq> []) \<and>
     valid_public_tripcode (fp_public_tripcode p)"

definition integration_valid :: "(string \<Rightarrow> bool) \<Rightarrow> file_integration \<Rightarrow> bool" where
  "integration_valid url_ok i \<longleftrightarrow> valid_integration_name (fi_name i) \<and>
     (fi_reading i \<noteq> None \<or> fi_webhook i \<noteq> None \<or> fi_posting i \<noteq> None) \<and>
     list_all valid_board_name (fi_allowed_boards i) \<and>
     (\<forall>w. fi_webhook i = Some w \<longrightarrow> url_ok (fw_url w)) \<and>
     (\<forall>p. fi_posting i = Some p \<longrightarrow> posting_valid p) \<and>
     rate_limit_valid (fi_rate_limit i)"

definition tripcodes_of :: "file_integration \<Rightarrow> string list" where
  "tripcodes_of i = (case fi_posting i of None \<Rightarrow> [] | Some p \<Rightarrow> [fp_public_tripcode p])"

definition config_valid :: "(string \<Rightarrow> bool) \<Rightarrow> (string \<Rightarrow> bool) \<Rightarrow> file_config \<Rightarrow> bool" where
  "config_valid url_ok addr_ok c \<longleftrightarrow>
     str_trim (base_url (fc_ptchan c)) \<noteq> [] \<and> url_ok (base_url (fc_ptchan c)) \<and>
     addr_ok (runtime_addr_text (http_addr (fc_runtime c))) \<and>
     str_trim (sqlite_path (fc_storage c)) \<noteq> [] \<and> 0 < event_retention (fc_storage c) \<and>
     rate_limit_valid (rt_rate_limit (fc_runtime c)) \<and>
     list_all (integration_valid url_ok) (fc_integrations c) \<and>
     distinct (map (env_safe_name \<circ> fi_name) (fc_integrations c)) \<and>
     distinct (concat (map tripcodes_of (fc_integrations c)))"

lemma validate_bucket_iff: "validate_rate_limit_bucket o' c b = Inr u \<longleftrightarrow> bucket_valid b"
proof -
  have pos: "bk_requests b \<noteq> 0 \<Longrightarrow> 0 < unat (bk_requests b)" by (simp add: unat_gt_0)
  then have "bk_requests b \<noteq> 0 \<Longrightarrow>
      bk_window b div unat (bk_requests b) \<noteq> 0 \<longleftrightarrow> unat (bk_requests b) \<le> bk_window b"
    by (auto simp: div_eq_0_iff not_less)
  moreover have "bk_requests b \<noteq> 0 \<Longrightarrow> unat (bk_requests b) \<le> bk_window b \<Longrightarrow> bk_window b \<noteq> 0"
    using pos by auto
  ultimately show ?thesis
    unfolding validate_rate_limit_bucket_def bucket_valid_def
    by (cases "bk_requests b = 0") (auto simp: res_simps not_less)
qed

lemma validate_rate_limit_iff: "validate_rate_limit n rl = Inr u \<longleftrightarrow> rate_limit_valid rl"
  by (simp add: validate_rate_limit_def Let_def rate_limit_valid_def res_simps validate_bucket_iff)

lemma validate_posting_iff: "validate_posting n p = Inr u \<longleftrightarrow> posting_valid p"
  by (auto simp: validate_posting_def posting_valid_def res_simps split: option.splits)

lemma validate_boards_iff: "validate_boards n bs = Inr u \<longleftrightarrow> list_all valid_board_name bs"
  by (induction bs) (auto simp: res_simps)

lemma validate_integration_iff:
  "validate_integration url_ok (ns, es, ts) i = Inr sn \<longleftrightarrow>
     integration_valid url_ok i \<and> fi_name i \<notin> ns \<and> env_safe_name (fi_name i) \<notin> es \<and>
     set (tripcodes_of i) \<inter> ts = {} \<and>
     sn = (insert (fi_name i) ns, insert (env_safe_name (fi_name i)) es, set (tripcodes_of i) \<union> ts)"
  unfolding validate_integration_def integration_valid_def tripcodes_of_def
  by (cases "fi_webhook i"; cases "fi_posting i")
     (auto simp: res_simps validate_boards_iff validate_posting_iff validate_rate_limit_iff)

lemma distinct_map_step:
  "f i \<notin> s \<Longrightarrow> distinct (map f (i # is)) \<and> f ` set (i # is) \<inter> s = {} \<longleftrightarrow>
     distinct (map f is) \<and> f ` set is \<inter> insert (f i) s = {}"
  by auto

lemma distinct_concat_step:
  "distinct (t i) \<Longrightarrow> set (t i) \<inter> s = {} \<Longrightarrow>
     distinct (concat (map t (i # is))) \<and> set (concat (map t (i # is))) \<inter> s = {} \<longleftrightarrow>
     distinct (concat (map t is)) \<and> set (concat (map t is)) \<inter> (set (t i) \<union> s) = {}"
  by (simp del: set_concat) blast

lemma validate_integrations_iff:
  "is_ok (validate_integrations url_ok (ns, es, ts) is) \<longleftrightarrow>
     list_all (integration_valid url_ok) is \<and>
     (distinct (map fi_name is) \<and> fi_name ` set is \<inter> ns = {}) \<and>
     (distinct (map (env_safe_name \<circ> fi_name) is) \<and> (env_safe_name \<circ> fi_name) ` set is \<inter> es = {}) \<and>
     (distinct (concat (map tripcodes_of is)) \<and> set (concat (map tripcodes_of is)) \<inter> ts = {})"
proof (induction "is" arbitrary: ns es ts)
  case (Cons i "is")
  have d: "distinct (tripcodes_of i)" by (simp add: tripcodes_of_def split: option.splits)
  show ?case
  proof (cases "\<exists>sn. validate_integration url_ok (ns, es, ts) i = Inr sn")
    case True
    then obtain sn where sn: "validate_integration url_ok (ns, es, ts) i = Inr sn" by blast
    then have v: "integration_valid url_ok i" "fi_name i \<notin> ns" "env_safe_name (fi_name i) \<notin> es"
        "set (tripcodes_of i) \<inter> ts = {}"
      and eq: "sn = (insert (fi_name i) ns, insert (env_safe_name (fi_name i)) es, set (tripcodes_of i) \<union> ts)"
      by (simp_all add: validate_integration_iff)
    have "is_ok (validate_integrations url_ok (ns, es, ts) (i # is)) \<longleftrightarrow>
        is_ok (validate_integrations url_ok sn is)" by (simp add: sn)
    also note Cons.IH [of "insert (fi_name i) ns" "insert (env_safe_name (fi_name i)) es"
        "set (tripcodes_of i) \<union> ts", folded eq]
    finally show ?thesis
      using v(1) distinct_map_step [of fi_name i ns "is", OF v(2)]
        distinct_map_step [of "env_safe_name \<circ> fi_name" i es "is"] v(3)
        distinct_concat_step [of tripcodes_of i ts "is", OF d v(4)]
      by (simp only: list.pred_inject o_def simp_thms)
  next
    case False
    then have "\<not> is_ok (validate_integrations url_ok (ns, es, ts) (i # is))"
      by (cases "validate_integration url_ok (ns, es, ts) i") (simp_all del: split_paired_Ex split_paired_All)
    moreover have "\<not> (integration_valid url_ok i \<and> fi_name i \<notin> ns \<and> env_safe_name (fi_name i) \<notin> es \<and>
        set (tripcodes_of i) \<inter> ts = {})"
      using False by (simp add: validate_integration_iff)
    ultimately show ?thesis by auto
  qed
qed simp

lemma validate_iff: "validate url_ok addr_ok c = Inr u \<longleftrightarrow> config_valid url_ok addr_ok c"
proof -
  have names: "distinct (map (env_safe_name \<circ> fi_name) is) \<Longrightarrow> distinct (map fi_name is)" for "is"
    by (metis distinct_map map_map)
  have ok: "(\<exists>sn. validate_integrations url_ok ({}, {}, {}) (fc_integrations c) = Inr sn) \<longleftrightarrow>
      list_all (integration_valid url_ok) (fc_integrations c) \<and>
      distinct (map (env_safe_name \<circ> fi_name) (fc_integrations c)) \<and>
      distinct (concat (map tripcodes_of (fc_integrations c)))"
    using validate_integrations_iff [of url_ok "{}" "{}" "{}" "fc_integrations c"] names
    by (auto simp: is_ok_iff)
  show ?thesis
    unfolding validate_def config_valid_def rate_limit_valid_def
    by (simp add: res_simps validate_bucket_iff ok del: split_paired_Ex)
qed

section \<open>Resolution\<close>

lemma resolve_integration_Inr:
  assumes "resolve_integration get i = Inr (ic, ws, ps)"
  shows "ic_name ic = fi_name i" "ic_allowed_boards ic = fi_allowed_boards i"
    "ic_reading ic \<longleftrightarrow> fi_reading i \<noteq> None" "ic_rate_limit ic = fi_rate_limit i"
    "get (integration_secret_env (fi_name i)) = Inr (ic_secret ic)"
    "ws = resolve_webhook i (ic_secret ic)" "resolve_posting get i (ic_secret ic) = Inr ps"
  using assms by (auto simp: resolve_integration_def res_simps)

lemma resolve_posting_Inr:
  assumes "resolve_posting get i s = Inr ps"
  shows "map pc_public_tripcode ps = tripcodes_of i"
    "\<forall>p \<in> set ps. pc_name p = fi_name i \<and> pc_allowed_boards p = fi_allowed_boards i \<and> pc_secret p = s \<and>
       length (str_chars (form_name p)) \<le> POSTING_NAME_MAX_CHARS"
    "length ps \<le> 1"
  using assms
  by (auto simp: resolve_posting_def tripcodes_of_def res_simps Let_def split: option.splits)

lemma resolve_Inr_cases:
  assumes "resolve url_ok addr_ok get f = Inr c"
  obtains rs where "config_valid url_ok addr_ok f"
    and "list_all2 (\<lambda>i r. resolve_integration get i = Inr r) (fc_integrations f) rs"
    and "cf_integrations c = map fst rs" and "cf_webhooks c = concat (map (fst \<circ> snd) rs)"
    and "cf_postings c = concat (map (snd \<circ> snd) rs)"
    and "cf_runtime c = fc_runtime f" and "cf_storage c = fc_storage f" and "cf_ptchan c = fc_ptchan f"
    and "list_ex wc_include_poster_fingerprint (cf_webhooks c) \<longleftrightarrow> cf_fingerprint_secret c \<noteq> None"
  using assms
  by (auto simp: resolve_def res_simps traverseE_Inr_iff validate_iff Let_def split: if_splits)

lemma resolve_names:
  assumes "resolve url_ok addr_ok get f = Inr c"
  shows "map ic_name (cf_integrations c) = map fi_name (fc_integrations f)"
proof -
  obtain rs where rs: "list_all2 (\<lambda>i r. resolve_integration get i = Inr r) (fc_integrations f) rs"
    and c: "cf_integrations c = map fst rs"
    using assms by (rule resolve_Inr_cases)
  from rs have "map (ic_name \<circ> fst) rs = map fi_name (fc_integrations f)"
    by (induction rule: list_all2_induct) (auto dest: resolve_integration_Inr)
  with c show ?thesis by simp
qed

lemma resolve_names_distinct:
  assumes "resolve url_ok addr_ok get f = Inr c"
  shows "distinct (map ic_name (cf_integrations c))"
proof -
  have "config_valid url_ok addr_ok f" using assms by (rule resolve_Inr_cases)
  then have "distinct (map (env_safe_name \<circ> fi_name) (fc_integrations f))"
    by (simp add: config_valid_def)
  then have "distinct (map fi_name (fc_integrations f))" by (metis distinct_map map_map)
  with resolve_names [OF assms] show ?thesis by simp
qed

lemma resolve_rate_limits_valid:
  assumes "resolve url_ok addr_ok get f = Inr c"
  shows "\<forall>i \<in> set (cf_integrations c). rate_limit_valid (ic_rate_limit i)"
    and "rate_limit_valid (rt_rate_limit (cf_runtime c))"
proof -
  obtain rs where v: "config_valid url_ok addr_ok f"
    and rs: "list_all2 (\<lambda>i r. resolve_integration get i = Inr r) (fc_integrations f) rs"
    and c: "cf_integrations c = map fst rs" "cf_runtime c = fc_runtime f"
    using assms by (rule resolve_Inr_cases)
  have "\<forall>r \<in> set rs. rate_limit_valid (ic_rate_limit (fst r))"
  proof
    fix r assume "r \<in> set rs"
    then obtain i where i: "i \<in> set (fc_integrations f)" "resolve_integration get i = Inr r"
      using rs by (auto simp: list_all2_conv_all_nth in_set_conv_nth) metis
    then have "integration_valid url_ok i" using v by (simp add: config_valid_def list_all_iff)
    then show "rate_limit_valid (ic_rate_limit (fst r))"
      using i(2) by (cases r) (auto dest: resolve_integration_Inr simp: integration_valid_def)
  qed
  with c show "\<forall>i \<in> set (cf_integrations c). rate_limit_valid (ic_rate_limit i)" by simp
  show "rate_limit_valid (rt_rate_limit (cf_runtime c))"
    using v c by (simp add: config_valid_def)
qed

lemma resolve_integration_webhook:
  assumes "resolve_integration get i = Inr r"
  shows "(\<forall>w \<in> set (fst (snd r)). wc_name w = ic_name (fst r)) \<and> length (fst (snd r)) \<le> 1"
proof (cases r)
  case (fields ic ws ps)
  note inv = resolve_integration_Inr [OF assms [unfolded fields]]
  show ?thesis unfolding fields inv(6) using inv(1)
    by (auto simp: resolve_webhook_def split: option.splits)
qed

lemma concat_singletons_distinct:
  assumes "\<forall>r \<in> set rs. (\<forall>w \<in> set (ws r). g w = h r) \<and> length (ws r) \<le> 1"
    and "distinct (map h rs)"
  shows "distinct (map g (concat (map ws rs))) \<and> g ` set (concat (map ws rs)) \<subseteq> h ` set rs"
  using assms
proof (induction rs)
  case (Cons r rs)
  have one: "distinct (map g (ws r))" using Cons.prems(1) by (cases "ws r") simp_all
  have sub: "g ` set (ws r) \<subseteq> {h r}" using Cons.prems(1) by auto
  have IH: "distinct (map g (concat (map ws rs)))" "g ` set (concat (map ws rs)) \<subseteq> h ` set rs"
    using Cons by simp_all
  have "h r \<notin> h ` set rs" using Cons.prems(2) by simp
  then have "h r \<notin> g ` set (concat (map ws rs))" using IH(2) by (rule contra_subsetD [rotated])
  then have "{h r} \<inter> g ` set (concat (map ws rs)) = {}" by (simp only: Int_insert_left if_False Int_empty_left)
  then have "g ` set (ws r) \<inter> g ` set (concat (map ws rs)) = {}"
    using Int_mono [OF sub order_refl, of "g ` set (concat (map ws rs))"] by (simp only: subset_empty)
  then have "distinct (map g (ws r @ concat (map ws rs)))"
    unfolding map_append distinct_append set_map using one IH(1) by blast
  moreover have "g ` set (ws r @ concat (map ws rs)) \<subseteq> h ` set (r # rs)"
    using sub IH(2) unfolding set_append image_Un list.set image_insert by blast
  ultimately show ?case by (simp only: list.map concat.simps)
qed simp

lemma resolve_webhook_names:
  assumes "resolve url_ok addr_ok get f = Inr c"
  shows "distinct (map wc_name (cf_webhooks c))"
    and "wc_name ` set (cf_webhooks c) \<subseteq> ic_name ` set (cf_integrations c)"
    and "\<forall>w \<in> set (cf_webhooks c). valid_integration_name (wc_name w)"
proof -
  obtain rs where v: "config_valid url_ok addr_ok f"
    and rs: "list_all2 (\<lambda>i r. resolve_integration get i = Inr r) (fc_integrations f) rs"
    and c: "cf_webhooks c = concat (map (fst \<circ> snd) rs)" "cf_integrations c = map fst rs"
    using assms by (rule resolve_Inr_cases)
  have "\<forall>r \<in> set rs. (\<forall>w \<in> set ((fst \<circ> snd) r). wc_name w = (ic_name \<circ> fst) r) \<and> length ((fst \<circ> snd) r) \<le> 1"
  proof
    fix r assume "r \<in> set rs"
    then obtain i where "resolve_integration get i = Inr r"
      using rs by (auto simp: list_all2_conv_all_nth in_set_conv_nth)
    then show "(\<forall>w \<in> set ((fst \<circ> snd) r). wc_name w = (ic_name \<circ> fst) r) \<and> length ((fst \<circ> snd) r) \<le> 1"
      unfolding comp_apply by (rule resolve_integration_webhook)
  qed
  moreover have "distinct (map (ic_name \<circ> fst) rs)" using resolve_names_distinct [OF assms] c by simp
  ultimately have *: "distinct (map wc_name (concat (map (fst \<circ> snd) rs)))"
    "wc_name ` set (concat (map (fst \<circ> snd) rs)) \<subseteq> (ic_name \<circ> fst) ` set rs"
    using concat_singletons_distinct [of rs "fst \<circ> snd" wc_name "ic_name \<circ> fst"] by blast+
  then show "distinct (map wc_name (cf_webhooks c))" using c by simp
  show sub: "wc_name ` set (cf_webhooks c) \<subseteq> ic_name ` set (cf_integrations c)"
    using *(2) unfolding c by (simp only: set_map image_comp)
  have "valid_integration_name n" if "n \<in> ic_name ` set (cf_integrations c)" for n
  proof -
    have "n \<in> fi_name ` set (fc_integrations f)"
      using that resolve_names [OF assms] by (metis list.set_map)
    then show ?thesis using v by (auto simp: config_valid_def list_all_iff integration_valid_def)
  qed
  then show "\<forall>w \<in> set (cf_webhooks c). valid_integration_name (wc_name w)"
    using sub by blast
qed

end
