(* ===== verification/Http.thy ===== *)
theory Http
  imports Rust_Text
begin

text \<open>
  HTTP as the gateway's components see it: requests they build for the reqwest client and what comes
  back. Sending is not part of the model; a component takes the outcome of a request as a function of
  the request, so that theorems hold for every behaviour of the other side.
\<close>

datatype http_method = GET | POST

datatype http_body = NoBody | Bytes string | Form "(string \<times> string) list"

record http_request =
  hr_method :: http_method
  hr_url :: string
  hr_timeout :: "duration option"
  hr_headers :: "(string \<times> string) list"
  hr_body :: http_body

record http_response =
  hs_status :: nat
  hs_set_cookie :: "string list"
  hs_body :: "string option"

text \<open>A request that gets no response (connection, timeout, redirect policy, builder error) is \<open>Inl\<close>; a body that cannot be read is \<open>None\<close>.\<close>

datatype transport_error = TransportTimeout | TransportConnect | TransportOther

type_synonym http_outcome = "transport_error + http_response"

definition is_success :: "nat \<Rightarrow> bool" where
  "is_success status = (200 \<le> status \<and> status < 300)"

definition is_redirection :: "nat \<Rightarrow> bool" where
  "is_redirection status = (300 \<le> status \<and> status < 400)"

definition header_of :: "http_request \<Rightarrow> string \<Rightarrow> string option" where
  "header_of r k = map_of (hr_headers r) k"

end
