(* ===== verification/Webhook.thy ===== *)
theory Webhook
  imports Store_Queue Config_Facts Http
begin

text \<open>
  Webhook delivery (\<^verbatim>\<open>src/webhook.rs\<close>): the signed request, one delivery attempt with its
  bookkeeping in the store, a round over the due deliveries and the loop. Deliveries of a round run
  concurrently; each writes to the store once, when it completes, so a round is determined by the
  order of completion, which is an argument.
\<close>

definition IDLE_SWEEP_INTERVAL :: duration where "IDLE_SWEEP_INTERVAL = dur_mins 1"
definition DELIVERY_TIMEOUT :: duration where "DELIVERY_TIMEOUT = dur_secs 10"
definition DELIVERY_BATCH :: nat where "DELIVERY_BATCH = 50"

section \<open>The request\<close>

definition signature_message :: "string \<Rightarrow> string \<Rightarrow> string" where
  "signature_message timestamp payload = timestamp @ ''.'' @ payload"

definition signature :: "crypto \<Rightarrow> string \<Rightarrow> string \<Rightarrow> string \<Rightarrow> string" where
  "signature cr secret timestamp payload =
     ''hmac-sha256='' @ hex_encode cr (hmac_sha256 cr secret (signature_message timestamp payload))"

definition delivery_request ::
  "crypto \<Rightarrow> webhook_config \<Rightarrow> string \<Rightarrow> string \<Rightarrow> string \<Rightarrow> http_request" where
  "delivery_request cr endpoint event_id timestamp payload =
     \<lparr>hr_method = POST, hr_url = wc_url endpoint, hr_timeout = Some DELIVERY_TIMEOUT,
      hr_headers = [(''content-type'', ''application/json''), (''x-ptchan-event-id'', event_id),
        (''x-ptchan-timestamp'', timestamp),
        (''x-ptchan-signature'', signature cr (wc_secret endpoint) timestamp payload)],
      hr_body = Bytes payload\<rparr>"

section \<open>One delivery\<close>

text \<open>
  What the world decides about one attempt: when it is sent, how the endpoint answers, how long it
  takes, when it is recorded and whether recording it fails. \<open>de_status_text\<close> is the http crate's
  text of a status.
\<close>

record delivery_env =
  de_sent_at :: datetime
  de_send :: "http_request \<Rightarrow> http_outcome"
  de_status_text :: "nat \<Rightarrow> string"
  de_elapsed :: duration
  de_marked_at :: datetime
  de_mark_fault :: bool

definition deliver ::
  "codec \<Rightarrow> crypto \<Rightarrow> delivery_env \<Rightarrow> webhook_config \<Rightarrow> string \<Rightarrow> string \<Rightarrow> http_request \<times> (string + unit)" where
  "deliver cd cr env endpoint event_id payload =
     (let timestamp = to_rfc3339 cd (de_sent_at env);
          request = delivery_request cr endpoint event_id timestamp payload in
      (request, case de_send env request of
         Inl _ \<Rightarrow> Inl ''send webhook request''
       | Inr response \<Rightarrow>
           if \<not> is_success (hs_status response)
           then Inl (''webhook status '' @ de_status_text env (hs_status response))
           else Inr ()))"

definition webhook_mark_failed ::
  "codec \<Rightarrow> delivery_env \<Rightarrow> pending_delivery \<Rightarrow> string \<Rightarrow> db \<Rightarrow> metric_op list \<times> db" where
  "webhook_mark_failed cd env delivery error db =
     (let attempts = i64_add (pd_attempts delivery) 1;
          backoff = delivery_backoff attempts div NANOS_PER_SEC;
          next = de_marked_at env + int (dur_secs backoff);
          r = mark_failed cd (de_mark_fault env) (pd_event_id delivery) (pd_webhook delivery) error attempts next db
      in (fst (fst r), snd r))"

record attempt =
  at_ops :: "metric_op list"
  at_requests :: "http_request list"
  at_db :: db

definition deliver_one ::
  "codec \<Rightarrow> crypto \<Rightarrow> (string \<Rightarrow> webhook_config option) \<Rightarrow> delivery_env \<Rightarrow> pending_delivery \<Rightarrow> db \<Rightarrow> attempt" where
  "deliver_one cd cr endpoints env delivery db = (case endpoints (pd_webhook delivery) of
     None \<Rightarrow>
       (let r = webhook_mark_failed cd env delivery ''webhook is not configured'' db in
        \<lparr>at_ops = fst r, at_requests = [], at_db = snd r\<rparr>)
   | Some endpoint \<Rightarrow>
       (let sent = deliver cd cr env endpoint (pd_event_id delivery) (pd_payload delivery) in
        case snd sent of
          Inr _ \<Rightarrow>
            (let r = mark_delivered cd (de_mark_fault env) (pd_event_id delivery) (pd_webhook delivery)
                       (de_marked_at env) db in
             \<lparr>at_ops = [MInc WEBHOOK_DELIVERIES [pd_webhook delivery, ''success''],
                        MObserve WEBHOOK_DELIVERY_SECONDS [pd_webhook delivery, ''success''] (de_elapsed env)]
                       @ fst (fst r),
              at_requests = [fst sent], at_db = snd r\<rparr>)
        | Inl err \<Rightarrow>
            (let r = webhook_mark_failed cd env delivery err db in
             \<lparr>at_ops = [MInc WEBHOOK_DELIVERIES [pd_webhook delivery, ''failure''],
                        MObserve WEBHOOK_DELIVERY_SECONDS [pd_webhook delivery, ''failure''] (de_elapsed env)]
                       @ fst r,
              at_requests = [fst sent], at_db = snd r\<rparr>)))"

section \<open>A round\<close>

record round_env =
  rv_count_fault :: bool
  rv_keys :: "string list"
  rv_scan :: "delivery_row list \<Rightarrow> delivery_row list"
  rv_counts_fault :: bool
  rv_load_at :: datetime
  rv_load_fault :: bool
  rv_completion :: "pending_delivery list \<Rightarrow> pending_delivery list"
  rv_attempt :: "pending_delivery \<Rightarrow> delivery_env"
  rv_oldest_at :: datetime
  rv_oldest_fault :: bool
  rv_next_at :: datetime
  rv_next_fault :: bool

text \<open>\<open>rv_keys\<close> lists the endpoints' names in the order in which the hash map yields them.\<close>

definition update_pending_by_webhook :: "round_env \<Rightarrow> db \<Rightarrow> metric_op list" where
  "update_pending_by_webhook env db =
     map (\<lambda>w. MSet WEBHOOK_PENDING_BY_WEBHOOK [w] 0) (rv_keys env) @
     (let r = pending_counts_by_webhook (rv_scan env) (rv_counts_fault env) db in
      fst (fst r) @ (case snd (fst r) of
        Inr counts \<Rightarrow> map (\<lambda>wc. MSet WEBHOOK_PENDING_BY_WEBHOOK [fst wc] (snd wc)) counts
      | Inl _ \<Rightarrow> []))"

definition update_oldest_pending_age :: "codec \<Rightarrow> round_env \<Rightarrow> db \<Rightarrow> metric_op list" where
  "update_oldest_pending_age cd env db =
     (let r = oldest_pending_age cd (rv_oldest_fault env) (rv_oldest_at env) db in
      fst (fst r) @ (case snd (fst r) of
        Inr (Some age) \<Rightarrow> [MSetSecs WEBHOOK_OLDEST_PENDING_SECONDS age]
      | Inr None \<Rightarrow> [MSetSecs WEBHOOK_OLDEST_PENDING_SECONDS 0]
      | Inl _ \<Rightarrow> []))"

fun deliver_all ::
  "codec \<Rightarrow> crypto \<Rightarrow> (string \<Rightarrow> webhook_config option) \<Rightarrow> (pending_delivery \<Rightarrow> delivery_env)
     \<Rightarrow> pending_delivery list \<Rightarrow> db \<Rightarrow> attempt" where
  "deliver_all cd cr endpoints env [] db = \<lparr>at_ops = [], at_requests = [], at_db = db\<rparr>"
| "deliver_all cd cr endpoints env (d # ds) db =
     (let a = deliver_one cd cr endpoints (env d) d db;
          rest = deliver_all cd cr endpoints env ds (at_db a) in
      \<lparr>at_ops = at_ops a @ at_ops rest, at_requests = at_requests a @ at_requests rest, at_db = at_db rest\<rparr>)"

definition deliver_pending ::
  "codec \<Rightarrow> crypto \<Rightarrow> (string \<Rightarrow> webhook_config option) \<Rightarrow> round_env \<Rightarrow> db \<Rightarrow> attempt" where
  "deliver_pending cd cr endpoints env db =
     (let c = pending_count (rv_count_fault env) db;
          ops1 = fst (fst c) @ (case snd (fst c) of Inr n \<Rightarrow> [MSet WEBHOOK_PENDING [] n] | Inl _ \<Rightarrow> []);
          ops2 = update_pending_by_webhook env db;
          l = pending_deliveries cd (rv_scan env) (rv_load_fault env) DELIVERY_BATCH (rv_load_at env) db;
          ops3 = fst (fst l) in
      case snd (fst l) of
        Inl _ \<Rightarrow> \<lparr>at_ops = ops1 @ ops2 @ ops3, at_requests = [], at_db = db\<rparr>
      | Inr deliveries \<Rightarrow>
          (let a = deliver_all cd cr endpoints (rv_attempt env) (rv_completion env deliveries) db in
           a\<lparr>at_ops := ops1 @ ops2 @ ops3 @ at_ops a @ update_oldest_pending_age cd env (at_db a)\<rparr>))"

definition delivery_sleep :: "codec \<Rightarrow> round_env \<Rightarrow> db \<Rightarrow> duration" where
  "delivery_sleep cd env db =
     (case snd (fst (next_delivery_delay cd (rv_next_fault env) (rv_next_at env) db)) of
        Inr (Some delay) \<Rightarrow> delay
      | Inr None \<Rightarrow> IDLE_SWEEP_INTERVAL
      | Inl _ \<Rightarrow> IDLE_SWEEP_INTERVAL)"

definition webhook_endpoints :: "webhook_config list \<Rightarrow> string \<Rightarrow> webhook_config option" where
  "webhook_endpoints webhooks = collect_map wc_name (\<lambda>w. w) webhooks"

text \<open>
  The loop: one entry per turn with the shutdown flag read at its head. \<open>client_ok\<close> says that the
  HTTP client can be built; the sleeps are the timeouts of the turns' waits.
\<close>

fun delivery_turns ::
  "codec \<Rightarrow> crypto \<Rightarrow> (string \<Rightarrow> webhook_config option) \<Rightarrow> (bool \<times> round_env) list \<Rightarrow> db \<Rightarrow> duration list \<times> db" where
  "delivery_turns cd cr endpoints [] db = ([], db)"
| "delivery_turns cd cr endpoints ((shutdown, env) # turns) db =
     (if shutdown then ([], db)
      else (let db' = at_db (deliver_pending cd cr endpoints env db);
                rest = delivery_turns cd cr endpoints turns db' in
            (delivery_sleep cd env db' # fst rest, snd rest)))"

definition delivery_loop ::
  "codec \<Rightarrow> crypto \<Rightarrow> bool \<Rightarrow> webhook_config list \<Rightarrow> (bool \<times> round_env) list \<Rightarrow> db \<Rightarrow> duration list \<times> db" where
  "delivery_loop cd cr client_ok webhooks turns db =
     (if client_ok then delivery_turns cd cr (webhook_endpoints webhooks) turns db else ([], db))"

end
