(* ===== verification/Webhook_Facts.thy ===== *)
theory Webhook_Facts
  imports Webhook
begin

text \<open>
  A delivery round seen as writes to the queue: each attempt is one store operation on its own key,
  so that the contract of the queue applies to rounds and to the loop, and the order in which
  concurrent attempts complete does not matter.
\<close>

section \<open>Attempts as store operations\<close>

definition failure_op :: "delivery_env \<Rightarrow> pending_delivery \<Rightarrow> string \<Rightarrow> store_op \<times> bool" where
  "failure_op env d err =
     (let attempts = i64_add (pd_attempts d) 1 in
      (OpFailed (pd_event_id d) (pd_webhook d) err attempts
         (de_marked_at env + int (dur_secs (delivery_backoff attempts div NANOS_PER_SEC))), de_mark_fault env))"

definition delivery_op ::
  "codec \<Rightarrow> crypto \<Rightarrow> (string \<Rightarrow> webhook_config option) \<Rightarrow> delivery_env \<Rightarrow> pending_delivery \<Rightarrow> store_op \<times> bool" where
  "delivery_op cd cr endpoints env d = (case endpoints (pd_webhook d) of
     None \<Rightarrow> failure_op env d ''webhook is not configured''
   | Some endpoint \<Rightarrow> (case snd (deliver cd cr env endpoint (pd_event_id d) (pd_payload d)) of
       Inr _ \<Rightarrow> (OpDelivered (pd_event_id d) (pd_webhook d) (de_marked_at env), de_mark_fault env)
     | Inl err \<Rightarrow> failure_op env d err))"

lemma deliver_one_db:
  "at_db (deliver_one cd cr endpoints env d db) = store_run cd (delivery_op cd cr endpoints env d) db"
proof (cases "endpoints (pd_webhook d)")
  case None
  then show ?thesis by (simp add: deliver_one_def delivery_op_def failure_op_def webhook_mark_failed_def Let_def)
next
  case (Some ep)
  show ?thesis
  proof (cases "snd (deliver cd cr env ep (pd_event_id d) (pd_payload d))")
    case (Inl err)
    with Some show ?thesis
      by (simp add: deliver_one_def delivery_op_def failure_op_def webhook_mark_failed_def Let_def)
  next
    case (Inr u)
    with Some show ?thesis by (simp add: deliver_one_def delivery_op_def Let_def)
  qed
qed

lemma deliver_all_db:
  "at_db (deliver_all cd cr endpoints env ds db) =
     fold (store_run cd) (map (\<lambda>d. delivery_op cd cr endpoints (env d) d) ds) db"
  by (induction ds arbitrary: db) (simp_all add: Let_def deliver_one_db)

fun op_key :: "store_op \<times> bool \<Rightarrow> (string \<times> string) option" where
  "op_key (OpDelivered i w now, fault) = Some (i, w)"
| "op_key (OpFailed i w err n next, fault) = Some (i, w)"
| "op_key _ = None"

fun op_row :: "codec \<Rightarrow> store_op \<times> bool \<Rightarrow> delivery_row \<Rightarrow> delivery_row" where
  "op_row cd (OpDelivered i w now, fault) d =
     (if \<not> fault \<and> delivery_key d = (i, w)
      then d\<lparr>dl_status := Delivered, dl_delivered_at := Some (to_rfc3339 cd now)\<rparr> else d)"
| "op_row cd (OpFailed i w err n next, fault) d =
     (if \<not> fault \<and> delivery_key d = (i, w)
      then d\<lparr>dl_attempts := n, dl_next_attempt_at := to_rfc3339 cd next,
             dl_last_error := Some (truncate_chars err 500)\<rparr> else d)"
| "op_row cd _ d = d"

definition pd_key :: "pending_delivery \<Rightarrow> string \<times> string" where
  "pd_key d = (pd_event_id d, pd_webhook d)"

lemma delivery_op_key: "op_key (delivery_op cd cr endpoints env d) = Some (pd_key d)"
  by (simp add: delivery_op_def failure_op_def Let_def pd_key_def split: option.splits sum.splits unit.splits)

lemma delivery_op_no_add [simp]:
  "op_adds (delivery_op cd cr endpoints env d) = {}" "\<not> op_collects (delivery_op cd cr endpoints env d)"
  by (simp_all add: delivery_op_def failure_op_def Let_def split: option.splits sum.splits unit.splits)

lemma op_row_key [simp]: "delivery_key (op_row cd c d) = delivery_key d"
  by (induction cd c d rule: op_row.induct) (simp_all add: delivery_key_def)

lemma op_row_other: "op_key c = Some k \<Longrightarrow> delivery_key d \<noteq> k \<Longrightarrow> op_row cd c d = d"
  by (induction cd c d rule: op_row.induct) auto

lemma store_run_rows:
  "op_key c = Some k \<Longrightarrow> store_run cd c db = db\<lparr>db_deliveries := map (op_row cd c) (db_deliveries db)\<rparr>"
proof (induction c rule: op_key.induct)
  case (1 i w now fault)
  show ?case by (cases fault) (simp_all add: mark_delivered_db)
next
  case (2 i w err n "next" fault)
  show ?case by (cases fault) (simp_all add: mark_failed_db)
qed simp_all

lemma store_runs_rows:
  "\<forall>c \<in> set cs. op_key c \<noteq> None \<Longrightarrow>
     fold (store_run cd) cs db = db\<lparr>db_deliveries := map (fold (op_row cd) cs) (db_deliveries db)\<rparr>"
proof (induction cs arbitrary: db)
  case (Cons c cs)
  then obtain k where "op_key c = Some k" by auto
  with Cons show ?case by (simp add: store_run_rows comp_def)
qed simp

lemma op_rows_other:
  "\<forall>c \<in> set cs. op_key c \<noteq> None \<and> op_key c \<noteq> Some (delivery_key d) \<Longrightarrow> fold (op_row cd) cs d = d"
proof (induction cs)
  case (Cons c cs)
  then obtain k where "op_key c = Some k" "k \<noteq> delivery_key d" by auto
  then have "op_row cd c d = d" by (auto intro: op_row_other)
  with Cons show ?case by simp
qed simp

text \<open>With one operation per key, a row sees only its own.\<close>

lemma op_rows_own:
  assumes "distinct (map op_key cs)" and "\<forall>c \<in> set cs. op_key c \<noteq> None"
    and "c \<in> set cs" and "op_key c = Some (delivery_key d)"
  shows "fold (op_row cd) cs d = op_row cd c d"
  using assms
proof (induction cs)
  case (Cons b cs)
  show ?case
  proof (cases "b = c")
    case True
    have "op_key b \<notin> op_key ` set cs" using Cons.prems(1) by simp
    then have "\<forall>x \<in> set cs. op_key x \<noteq> None \<and> op_key x \<noteq> Some (delivery_key (op_row cd c d))"
      using Cons.prems(2,4) True unfolding op_row_key by (metis image_eqI list.set_intros(2))
    then show ?thesis using True by (simp add: op_rows_other)
  next
    case False
    then have c: "c \<in> set cs" using Cons.prems by simp
    have "op_key b \<noteq> op_key c" using Cons.prems(1) c by (metis distinct.simps(2) image_eqI list.map(2) list.set_map)
    moreover obtain k where "op_key b = Some k" using Cons.prems(2) by auto
    ultimately have "op_row cd b d = d" using Cons.prems(4) by (auto intro: op_row_other)
    then show ?thesis using Cons c by simp
  qed
qed simp

lemma op_rows_permute:
  assumes "distinct (map op_key cs)" and "\<forall>c \<in> set cs. op_key c \<noteq> None" and "mset cs = mset cs'"
  shows "fold (op_row cd) cs d = fold (op_row cd) cs' d"
proof -
  have s: "set cs' = set cs" using assms(3) by (metis mset_eq_setD)
  have d': "distinct (map op_key cs')"
    using assms(1,3) by (metis mset_eq_imp_distinct_iff mset_map)
  show ?thesis
  proof (cases "\<exists>c \<in> set cs. op_key c = Some (delivery_key d)")
    case True
    then obtain c where c: "c \<in> set cs" "op_key c = Some (delivery_key d)" by blast
    have "fold (op_row cd) cs d = op_row cd c d" using op_rows_own [OF assms(1,2) c] .
    moreover have "fold (op_row cd) cs' d = op_row cd c d"
      using op_rows_own [OF d', of c d cd] assms(2) s c by simp
    ultimately show ?thesis by simp
  next
    case False
    have "fold (op_row cd) cs d = d" by (rule op_rows_other) (use False assms(2) in blast)
    moreover have "fold (op_row cd) cs' d = d" by (rule op_rows_other) (use False assms(2) s in blast)
    ultimately show ?thesis by simp
  qed
qed

section \<open>Rounds\<close>

definition completion_ok :: "(pending_delivery list \<Rightarrow> pending_delivery list) \<Rightarrow> bool" where
  "completion_ok f \<longleftrightarrow> (\<forall>ds. mset (f ds) = mset ds)"

definition round_batch :: "codec \<Rightarrow> round_env \<Rightarrow> db \<Rightarrow> pending_delivery list" where
  "round_batch cd env db =
     (case snd (fst (pending_deliveries cd (rv_scan env) (rv_load_fault env) DELIVERY_BATCH (rv_load_at env) db)) of
        Inr ds \<Rightarrow> ds | Inl _ \<Rightarrow> [])"

definition round_ops ::
  "codec \<Rightarrow> crypto \<Rightarrow> (string \<Rightarrow> webhook_config option) \<Rightarrow> round_env \<Rightarrow> pending_delivery list \<Rightarrow> (store_op \<times> bool) list" where
  "round_ops cd cr endpoints env ds = map (\<lambda>d. delivery_op cd cr endpoints (rv_attempt env d) d) ds"

lemma pending_deliveries_load:
  "snd (fst (pending_deliveries cd scan fault DELIVERY_BATCH now db)) =
     (if fault then Inl SqliteFault
      else Inr (map (pending_of db) (take DELIVERY_BATCH
        (sort_key due_order (filter (due (to_rfc3339 cd now) db) (scan (db_deliveries db)))))))"
  by (simp add: pending_deliveries_def store_call_result DELIVERY_BATCH_def i64_max_def)

lemma deliver_pending_db:
  assumes "completion_ok (rv_completion env)"
  shows "at_db (deliver_pending cd cr endpoints env db) =
    fold (store_run cd) (round_ops cd cr endpoints env (rv_completion env (round_batch cd env db))) db"
proof (cases "rv_load_fault env")
  case True
  have "rv_completion env [] = []" using assms unfolding completion_ok_def by (metis mset_zero_iff)
  then show ?thesis
    by (simp add: True deliver_pending_def round_batch_def round_ops_def pending_deliveries_load Let_def)
next
  case False
  then show ?thesis
    by (simp add: deliver_pending_def round_batch_def round_ops_def pending_deliveries_load Let_def deliver_all_db)
qed

lemma round_ops_keys:
  "map op_key (round_ops cd cr endpoints env ds) = map (Some \<circ> pd_key) ds"
  "c \<in> set (round_ops cd cr endpoints env ds) \<Longrightarrow> op_key c \<noteq> None \<and> op_adds c = {} \<and> \<not> op_collects c"
  by (auto simp: round_ops_def delivery_op_key)

lemma pending_of_key: "pd_key (pending_of db d) = delivery_key d"
  by (simp add: pd_key_def pending_of_def delivery_key_def)

lemma round_batch_keys:
  assumes "scan_ok (rv_scan env)" and "db_wf db"
  shows "distinct (map pd_key (round_batch cd env db))"
    and "pd_key ` set (round_batch cd env db) \<subseteq> pending_keys db"
proof -
  have "distinct (map pd_key (round_batch cd env db)) \<and> pd_key ` set (round_batch cd env db) \<subseteq> pending_keys db"
  proof (cases "rv_load_fault env")
    case True
    then show ?thesis by (simp add: round_batch_def pending_deliveries_load)
  next
    case False
    then obtain batch where b: "snd (fst (pending_deliveries cd (rv_scan env) (rv_load_fault env)
        DELIVERY_BATCH (rv_load_at env) db)) = Inr batch" "round_batch cd env db = batch"
      by (simp add: round_batch_def pending_deliveries_load)
    obtain rows where r: "batch = map (pending_of db) rows" "set rows \<subseteq> due_rows cd (rv_load_at env) db" "distinct rows"
      using pending_deliveries_batch [OF assms b(1)] by metis
    have keys: "map pd_key (map (pending_of db) rows) = map delivery_key rows"
      by (simp add: pending_of_key)
    have "set rows \<subseteq> set (db_deliveries db)" using r(2) by (auto simp: due_rows_def)
    moreover have "inj_on delivery_key (set (db_deliveries db))"
      using assms(2) by (simp add: db_wf_def distinct_map)
    ultimately have "inj_on delivery_key (set rows)" by (metis inj_on_subset)
    then have "distinct (map delivery_key rows)" using r(3) by (simp add: distinct_map)
    moreover have "delivery_key ` set rows \<subseteq> pending_keys db"
      using r(2) by (auto simp: due_rows_def due_def pending_keys_def)
    ultimately show ?thesis unfolding b(2) r(1) using keys by (metis list.set_map)
  qed
  then show "distinct (map pd_key (round_batch cd env db))"
    and "pd_key ` set (round_batch cd env db) \<subseteq> pending_keys db" by blast+
qed

lemma distinct_Some_keys: "distinct (map f xs) \<Longrightarrow> distinct (map (Some \<circ> f) xs)"
  by (simp add: distinct_map comp_inj_on_iff [symmetric] inj_on_def)

lemma completion_keys:
  "completion_ok f \<Longrightarrow> distinct (map pd_key ds) \<Longrightarrow> distinct (map pd_key (f ds)) \<and> set (f ds) = set ds"
  unfolding completion_ok_def by (metis mset_eq_imp_distinct_iff mset_eq_setD mset_map)

section \<open>Requests and outcomes\<close>

definition request_of ::
  "codec \<Rightarrow> crypto \<Rightarrow> delivery_env \<Rightarrow> webhook_config \<Rightarrow> pending_delivery \<Rightarrow> http_request" where
  "request_of cd cr env ep d =
     delivery_request cr ep (pd_event_id d) (to_rfc3339 cd (de_sent_at env)) (pd_payload d)"

definition accepted :: "http_outcome \<Rightarrow> bool" where
  "accepted out = (case out of Inr r \<Rightarrow> is_success (hs_status r) | Inl _ \<Rightarrow> False)"

lemma deliver_request: "fst (deliver cd cr env ep (pd_event_id d) (pd_payload d)) = request_of cd cr env ep d"
  by (simp add: deliver_def request_of_def Let_def)

lemma deliver_ok_iff:
  "snd (deliver cd cr env ep (pd_event_id d) (pd_payload d)) = Inr u \<longleftrightarrow> accepted (de_send env (request_of cd cr env ep d))"
  by (auto simp: deliver_def request_of_def accepted_def Let_def split: sum.splits)

lemma deliver_all_requests:
  "at_requests (deliver_all cd cr endpoints env ds db) =
     concat (map (\<lambda>d. case endpoints (pd_webhook d) of None \<Rightarrow> [] | Some ep \<Rightarrow> [request_of cd cr (env d) ep d]) ds)"
proof (induction ds arbitrary: db)
  case (Cons d ds)
  have "at_requests (deliver_one cd cr endpoints (env d) d db) =
      (case endpoints (pd_webhook d) of None \<Rightarrow> [] | Some ep \<Rightarrow> [request_of cd cr (env d) ep d])"
    by (simp add: deliver_one_def Let_def deliver_request split: option.splits sum.splits)
  with Cons show ?case by (simp add: Let_def)
qed simp

lemma round_requests:
  assumes "completion_ok (rv_completion env)"
  shows "set (at_requests (deliver_pending cd cr endpoints env db)) =
    (\<Union>d \<in> set (round_batch cd env db). set (case endpoints (pd_webhook d) of
       None \<Rightarrow> [] | Some ep \<Rightarrow> [request_of cd cr (rv_attempt env d) ep d]))"
proof -
  have s: "set (rv_completion env ds) = set ds" for ds
    using assms unfolding completion_ok_def by (metis mset_eq_setD)
  show ?thesis
  proof (cases "rv_load_fault env")
    case True
    then show ?thesis by (simp add: deliver_pending_def round_batch_def pending_deliveries_load Let_def)
  next
    case False
    then show ?thesis
      by (simp add: deliver_pending_def round_batch_def pending_deliveries_load Let_def deliver_all_requests s)
  qed
qed

lemma delivery_op_accepted:
  "k \<in> op_acks (delivery_op cd cr endpoints env d) \<Longrightarrow>
     k = pd_key d \<and> (\<exists>ep. endpoints (pd_webhook d) = Some ep \<and> accepted (de_send env (request_of cd cr env ep d)))"
  by (auto simp: delivery_op_def failure_op_def Let_def pd_key_def
      split: option.splits sum.splits if_splits dest!: iffD1 [OF deliver_ok_iff])

lemma delivery_op_cases:
  "delivery_op cd cr endpoints env d =
     (case endpoints (pd_webhook d) of
        None \<Rightarrow> failure_op env d ''webhook is not configured''
      | Some ep \<Rightarrow> if accepted (de_send env (request_of cd cr env ep d))
          then (OpDelivered (pd_event_id d) (pd_webhook d) (de_marked_at env), de_mark_fault env)
          else failure_op env d (case snd (deliver cd cr env ep (pd_event_id d) (pd_payload d)) of Inl e \<Rightarrow> e | Inr _ \<Rightarrow> []))"
proof (cases "endpoints (pd_webhook d)")
  case (Some ep)
  show ?thesis
  proof (cases "snd (deliver cd cr env ep (pd_event_id d) (pd_payload d))")
    case (Inl e)
    then have "\<not> accepted (de_send env (request_of cd cr env ep d))" using deliver_ok_iff [of cd cr env ep d "()"] by simp
    with Some Inl show ?thesis by (simp add: delivery_op_def)
  next
    case (Inr u)
    then have "accepted (de_send env (request_of cd cr env ep d))" using deliver_ok_iff by blast
    with Some Inr show ?thesis by (simp add: delivery_op_def)
  qed
qed (simp add: delivery_op_def)

lemma failure_op_eq:
  "failure_op env d err = (OpFailed (pd_event_id d) (pd_webhook d) err (i64_add (pd_attempts d) 1)
     (de_marked_at env + int (delivery_backoff (i64_add (pd_attempts d) 1))), de_mark_fault env)"
proof -
  have "dur_secs (delivery_backoff n div NANOS_PER_SEC) = delivery_backoff n" for n
    by (simp add: delivery_backoff_def Let_def dur_secs_def NANOS_PER_SEC_def)
  then show ?thesis by (simp add: failure_op_def Let_def)
qed

text \<open>The row of a delivery in the batch, after the round.\<close>

lemma round_row:
  assumes "db_wf db" and "scan_ok (rv_scan env)" and "completion_ok (rv_completion env)"
    and "d \<in> set (round_batch cd env db)"
  obtains r where "r \<in> set (db_deliveries db)" "is_pending r" "delivery_key r = pd_key d" "pd_attempts d = dl_attempts r"
    "op_row cd (delivery_op cd cr endpoints (rv_attempt env d) d) r \<in>
       set (db_deliveries (at_db (deliver_pending cd cr endpoints env db)))"
proof -
  have "\<not> rv_load_fault env" using assms(4) by (auto simp: round_batch_def pending_deliveries_load)
  then obtain batch where b: "snd (fst (pending_deliveries cd (rv_scan env) (rv_load_fault env)
        DELIVERY_BATCH (rv_load_at env) db)) = Inr batch" "round_batch cd env db = batch"
    by (simp add: round_batch_def pending_deliveries_load)
  obtain rows where rows: "batch = map (pending_of db) rows" "set rows \<subseteq> due_rows cd (rv_load_at env) db"
    using pending_deliveries_batch [OF assms(2,1) b(1)] by metis
  then obtain r where r: "r \<in> set rows" "d = pending_of db r" using assms(4) b(2) by auto
  have in_db: "r \<in> set (db_deliveries db)" "is_pending r" using r(1) rows(2) by (auto simp: due_rows_def due_def)
  have key: "delivery_key r = pd_key d" by (simp add: r(2) pending_of_key)
  let ?ds = "rv_completion env (round_batch cd env db)"
  let ?ops = "round_ops cd cr endpoints env ?ds"
  let ?c = "delivery_op cd cr endpoints (rv_attempt env d) d"
  have dist: "distinct (map pd_key (round_batch cd env db))" using assms(1,2) by (intro round_batch_keys)
  have ds: "distinct (map pd_key ?ds)" "set ?ds = set (round_batch cd env db)"
    using completion_keys [OF assms(3) dist] by simp_all
  have keys: "distinct (map op_key ?ops)" using ds(1) by (simp only: round_ops_keys(1) distinct_Some_keys)
  have some: "\<forall>c \<in> set ?ops. op_key c \<noteq> None" using round_ops_keys(2) by blast
  have "?c \<in> set ?ops" using assms(4) ds(2) by (auto simp: round_ops_def)
  then have "fold (op_row cd) ?ops r = op_row cd ?c r"
    using op_rows_own [OF keys some] key by (simp add: delivery_op_key)
  then have "op_row cd ?c r \<in> set (db_deliveries (at_db (deliver_pending cd cr endpoints env db)))"
    using in_db(1) by (simp add: deliver_pending_db [OF assms(3)] store_runs_rows [OF some]) force
  then show thesis using that in_db key r(2) by (simp add: pending_of_def)
qed

end
