(* ===== verification/Upstream.thy ===== *)
theory Upstream
  imports Contract Metrics
begin

text \<open>
  Upstream posts (\<^verbatim>\<open>src/upstream.rs\<close>): the identity taken before redaction, the redaction of
  \<^verbatim>\<open>ip\<close> members, the refusal of sensitive members and the typed decoding. The typed decoding is
  the derived \<^verbatim>\<open>Deserialize\<close> of the struct, which serde\_json reads from an object by member
  name or from an array by position.
\<close>

record country = ct_code :: "string option"

record upstream_post =
  up_date :: datetime
  up_name :: "string option"
  up_country :: "country option"
  up_board :: string
  up_public_tripcode :: "string option"
  up_capcode :: "string option"
  up_donor :: "bool option"
  up_subject :: "string option"
  up_message :: "string option"
  up_nomarkup :: "string option"
  up_thread :: "int option"
  up_id :: int
  up_files :: "json list"
  up_quotes :: "json list"
  up_backlinks :: "json list"

record decoded_post =
  dp_post :: upstream_post
  dp_poster_identity :: "string option"

datatype upstream_error = SensitiveField string | MalformedPost | MalformedPayload

section \<open>Redaction\<close>

function drop_ip_fields :: "json \<Rightarrow> metric_op list \<times> json" where
  "drop_ip_fields (JObject m) =
     (let children = map (\<lambda>kv. (fst kv, drop_ip_fields (snd kv))) (map_remove ''ip'' m) in
      ((if map_of m ''ip'' \<noteq> None then [MInc REDACTION_DROPS []] else []) @
         concat (map (fst \<circ> snd) children),
       JObject (map (\<lambda>kr. (fst kr, snd (snd kr))) children)))"
| "drop_ip_fields (JArray vs) =
     (let children = map drop_ip_fields vs in (concat (map fst children), JArray (map snd children)))"
| "drop_ip_fields JNull = ([], JNull)"
| "drop_ip_fields (JBool b) = ([], JBool b)"
| "drop_ip_fields (JNumber n) = ([], JNumber n)"
| "drop_ip_fields (JString s) = ([], JString s)"
  by pat_completeness auto
termination
  by (relation "measure size")
     (auto dest!: size_in_array size_in_object subsetD [OF map_remove_subset])

definition sensitive_key :: "string \<Rightarrow> bool" where
  "sensitive_key k = (k = ''raw'' \<or> k = ''cloak'' \<or> k = ''session'' \<or> k = ''permissions'')"

function reject_sensitive_fields :: "json \<Rightarrow> (upstream_error, unit) metered" where
  "reject_sensitive_fields (JObject m) =
     forW (\<lambda>kv. if sensitive_key (fst kv) then ([MInc REDACTION_DROPS []], Inl (SensitiveField (fst kv)))
                else reject_sensitive_fields (snd kv)) m"
| "reject_sensitive_fields (JArray vs) = forW reject_sensitive_fields vs"
| "reject_sensitive_fields JNull = ([], Inr ())"
| "reject_sensitive_fields (JBool b) = ([], Inr ())"
| "reject_sensitive_fields (JNumber n) = ([], Inr ())"
| "reject_sensitive_fields (JString s) = ([], Inr ())"
  by pat_completeness auto
termination
  by (relation "measure size") (auto dest: size_in_array size_in_object)

section \<open>Identity\<close>

text \<open>\<^verbatim>\<open>pointer("/ip/cloak")\<close>: the pointer only enters objects here, as neither step is an array index.\<close>

definition poster_identity_source :: "json \<Rightarrow> string option" where
  "poster_identity_source v =
     Option.bind (Option.bind (json_get v ''ip'') (\<lambda>ip. json_get ip ''cloak'')) (\<lambda>c.
     Option.bind (as_str c) (\<lambda>s. let t = str_trim s in if t = [] then None else Some t))"

section \<open>Typed decoding\<close>

text \<open>A struct's field: by name in an object, by position in an array.\<close>

definition struct_field :: "json \<Rightarrow> nat \<Rightarrow> string \<Rightarrow> json option" where
  "struct_field v i k = (case v of
     JObject m \<Rightarrow> map_of m k
   | JArray vs \<Rightarrow> nth_opt vs i
   | _ \<Rightarrow> None)"

text \<open>What serde\_json reads as a struct with \<open>n\<close> fields: an object or an array without extra elements.\<close>

definition struct_shape :: "json \<Rightarrow> nat \<Rightarrow> bool" where
  "struct_shape v n = (case v of JObject _ \<Rightarrow> True | JArray vs \<Rightarrow> length vs \<le> n | _ \<Rightarrow> False)"

text \<open>\<^verbatim>\<open>#[serde(default)]\<close> on an \<^verbatim>\<open>Option\<close>: a missing field and \<^verbatim>\<open>null\<close> are both \<^verbatim>\<open>None\<close>.\<close>

definition opt_field :: "(json \<Rightarrow> 'a option) \<Rightarrow> json option \<Rightarrow> 'a option option" where
  "opt_field dec x = (case x of
     None \<Rightarrow> Some None
   | Some JNull \<Rightarrow> Some None
   | Some v \<Rightarrow> map_option Some (dec v))"

definition req_field :: "(json \<Rightarrow> 'a option) \<Rightarrow> json option \<Rightarrow> 'a option" where
  "req_field dec x = Option.bind x dec"

text \<open>\<^verbatim>\<open>#[serde(default)]\<close> on a \<^verbatim>\<open>Vec<Value>\<close>: a missing field is empty, \<^verbatim>\<open>null\<close> is an error.\<close>

definition vec_field :: "json option \<Rightarrow> json list option" where
  "vec_field x = (case x of None \<Rightarrow> Some [] | Some v \<Rightarrow> as_array v)"

definition as_bool :: "json \<Rightarrow> bool option" where
  "as_bool v = (case v of JBool b \<Rightarrow> Some b | _ \<Rightarrow> None)"

definition decode_country :: "json \<Rightarrow> country option" where
  "decode_country v =
     (if struct_shape v 1
      then map_option (\<lambda>c. \<lparr>ct_code = c\<rparr>) (opt_field as_str (struct_field v 0 ''code''))
      else None)"

definition post_from_value :: "codec \<Rightarrow> json \<Rightarrow> upstream_error + upstream_post" where
  "post_from_value cd v =
     (let field = struct_field v in
      bindE (ensureE (struct_shape v 15) MalformedPost) (\<lambda>_.
      bindE (ok_or (req_field (\<lambda>d. Option.bind (as_str d) (datetime_from_str cd)) (field 0 ''date'')) MalformedPost) (\<lambda>date.
      bindE (ok_or (opt_field as_str (field 1 ''name'')) MalformedPost) (\<lambda>name.
      bindE (ok_or (opt_field decode_country (field 2 ''country'')) MalformedPost) (\<lambda>country.
      bindE (ok_or (req_field as_str (field 3 ''board'')) MalformedPost) (\<lambda>board.
      bindE (ok_or (opt_field as_str (field 4 ''tripcode'')) MalformedPost) (\<lambda>tripcode.
      bindE (ok_or (opt_field as_str (field 5 ''capcode'')) MalformedPost) (\<lambda>capcode.
      bindE (ok_or (opt_field as_bool (field 6 ''donor'')) MalformedPost) (\<lambda>donor.
      bindE (ok_or (opt_field as_str (field 7 ''subject'')) MalformedPost) (\<lambda>subject.
      bindE (ok_or (opt_field as_str (field 8 ''message'')) MalformedPost) (\<lambda>message.
      bindE (ok_or (opt_field as_str (field 9 ''nomarkup'')) MalformedPost) (\<lambda>nomarkup.
      bindE (ok_or (opt_field as_i64 (field 10 ''thread'')) MalformedPost) (\<lambda>thread.
      bindE (ok_or (req_field as_i64 (field 11 ''postId'')) MalformedPost) (\<lambda>id.
      bindE (ok_or (vec_field (field 12 ''files'')) MalformedPost) (\<lambda>files.
      bindE (ok_or (vec_field (field 13 ''quotes'')) MalformedPost) (\<lambda>quotes.
      bindE (ok_or (vec_field (field 14 ''backlinks'')) MalformedPost) (\<lambda>backlinks.
      Inr \<lparr>up_date = date, up_name = name, up_country = country, up_board = board,
           up_public_tripcode = tripcode, up_capcode = capcode, up_donor = donor,
           up_subject = subject, up_message = message, up_nomarkup = nomarkup, up_thread = thread,
           up_id = id, up_files = files, up_quotes = quotes, up_backlinks = backlinks\<rparr>)))))))))))))))))"

definition decoded_post_try_from :: "codec \<Rightarrow> json \<Rightarrow> (upstream_error, decoded_post) metered" where
  "decoded_post_try_from cd v =
     (let poster_identity = poster_identity_source v;
          dropped = drop_ip_fields v in
      bindW (tellW (fst dropped)) (\<lambda>_.
      bindW (reject_sensitive_fields (snd dropped)) (\<lambda>_.
      bindW (pureW (post_from_value cd (snd dropped))) (\<lambda>post.
      pureW (Inr \<lparr>dp_post = post, dp_poster_identity = poster_identity\<rparr>)))))"

definition assert_contract_safe :: "codec \<Rightarrow> string \<Rightarrow> (upstream_error, unit) metered" where
  "assert_contract_safe cd payload =
     bindW (pureW (ok_or (json_from_slice cd payload) MalformedPayload)) reject_sensitive_fields"

section \<open>Redaction is complete\<close>

lemma drop_ip_fields_keys: "json_keys (snd (drop_ip_fields v)) = json_keys (snd (drop_ip_fields v)) - {''ip''}"
proof (induction v rule: json_induct)
  case (Object m)
  then show ?case
    by (fastforce simp: Let_def map_remove_def)
qed (auto simp: Let_def)

lemma drop_ip_fields_no_ip: "''ip'' \<notin> json_keys (snd (drop_ip_fields v))"
  using drop_ip_fields_keys by blast

lemma drop_ip_fields_subset: "json_keys (snd (drop_ip_fields v)) \<subseteq> json_keys v"
proof (induction v rule: json_induct)
  case (Object m)
  then have "\<forall>kv \<in> set m. json_keys (snd (drop_ip_fields (snd kv))) \<subseteq> json_keys (snd kv)" by (metis prod.collapse)
  then show ?case by (auto simp: Let_def map_remove_def; blast)
qed (auto simp: Let_def)

lemma drop_ip_fields_wf: "json_wf v \<Longrightarrow> json_wf (snd (drop_ip_fields v))"
proof (induction v rule: json_induct)
  case (Object m)
  have "map fst (map_remove ''ip'' m) = filter (\<lambda>k. k \<noteq> ''ip'') (map fst m)"
    by (induction m) (simp_all add: map_remove_def)
  with Object show ?case
    by (auto simp: Let_def list_all_iff comp_def sorted_wrt_filter map_remove_def)
qed (auto simp: Let_def list_all_iff)

text \<open>The counter grows exactly when something was removed.\<close>

lemma drop_ip_fields_ops:
  "fst (drop_ip_fields v) = [] \<longleftrightarrow> ''ip'' \<notin> json_keys v"
proof (induction v rule: json_induct)
  case (Object m)
  have "(\<forall>kv \<in> set (map_remove ''ip'' m). fst (drop_ip_fields (snd kv)) = []) \<longleftrightarrow>
      (\<forall>kv \<in> set (map_remove ''ip'' m). ''ip'' \<notin> json_keys (snd kv))"
    using Object subsetD [OF map_remove_subset] by (metis prod.collapse)
  then show ?case
    by (auto simp: Let_def map_of_eq_None_iff map_remove_def) (metis fst_conv image_eqI)+
qed (auto simp: Let_def)

lemma drop_ip_fields_ops_ok: "list_all metric_op_ok (fst (drop_ip_fields v))"
proof (induction v rule: json_induct)
  case (Object m)
  then show ?case
    by (fastforce simp: Let_def list_all_iff map_remove_def)
qed (auto simp: Let_def list_all_iff)

lemma reject_sensitive_fields_iff:
  "snd (reject_sensitive_fields v) = Inr u \<longleftrightarrow> (\<forall>k \<in> json_keys v. \<not> sensitive_key k)"
proof (induction v rule: json_induct)
  case (Object m)
  then show ?case by (fastforce simp: forW_Inr_iff split: if_splits)
qed (auto simp: forW_Inr_iff)

lemma decoded_post_try_from_Inr:
  "snd (decoded_post_try_from cd v) = Inr d \<longleftrightarrow>
     snd (reject_sensitive_fields (snd (drop_ip_fields v))) = Inr () \<and>
     post_from_value cd (snd (drop_ip_fields v)) = Inr (dp_post d) \<and>
     dp_poster_identity d = poster_identity_source v"
  by (cases d) (auto simp: decoded_post_try_from_def Let_def res_simps)

lemma poster_identity_not_blank: "poster_identity_source v = Some s \<Longrightarrow> s \<noteq> []"
  by (auto simp: poster_identity_source_def bind_eq_Some_conv Let_def split: if_splits)

end
