(* ===== verification/Event.thy ===== *)
theory Event
  imports Upstream Config_Facts
begin

text \<open>
  Turning an upstream post into a public post and a webhook event (\<^verbatim>\<open>src/event.rs\<close>): cleaning of
  optional texts, references, event identifiers, the encoded payload with its safety check, and
  poster fingerprints.
\<close>

section \<open>Public posts\<close>

definition clean :: "string option \<Rightarrow> string option" where
  "clean value = Option.bind value (\<lambda>v. let trimmed = str_trim v in
     if trimmed = [] then None else Some trimmed)"

definition opt_or :: "'a option \<Rightarrow> 'a option \<Rightarrow> 'a option" where
  "opt_or a b = (case a of None \<Rightarrow> b | Some x \<Rightarrow> Some x)"

definition opt_unwrap_or :: "'a option \<Rightarrow> 'a \<Rightarrow> 'a" where
  "opt_unwrap_or a d = (case a of None \<Rightarrow> d | Some x \<Rightarrow> x)"

definition contract_message :: "string option \<Rightarrow> string option \<Rightarrow> string option" where
  "contract_message nomarkup message = opt_or (clean nomarkup) (clean message)"

definition country_code :: "country option \<Rightarrow> string option" where
  "country_code country = Option.bind country (\<lambda>c. clean (ct_code c))"

definition contract_post_ref :: "json \<Rightarrow> string \<Rightarrow> int \<Rightarrow> post_ref option" where
  "contract_post_ref value fallback_board fallback_thread_id = (case value of
     JNumber n \<Rightarrow> map_option
       (\<lambda>i. \<lparr>pr_board = fallback_board, pr_thread_id = fallback_thread_id, pr_id = i\<rparr>) (number_as_i64 n)
   | JString text \<Rightarrow> map_option
       (\<lambda>i. \<lparr>pr_board = fallback_board, pr_thread_id = fallback_thread_id, pr_id = i\<rparr>) (parse_i64 text)
   | JObject m \<Rightarrow>
       Option.bind (Option.bind (opt_or (map_of m ''postId'') (map_of m ''post_id'')) as_i64) (\<lambda>post_id.
       let board = opt_unwrap_or
             (Option.bind (Option.bind (map_of m ''board'') as_str) (\<lambda>b. clean (Some b))) fallback_board;
           thread_id = opt_unwrap_or
             (Option.bind (opt_or (map_of m ''thread'') (map_of m ''thread_id'')) as_i64) fallback_thread_id
       in Some \<lparr>pr_board = board, pr_thread_id = thread_id, pr_id = post_id\<rparr>)
   | JArray _ \<Rightarrow> None | JBool _ \<Rightarrow> None | JNull \<Rightarrow> None)"

definition post_refs :: "json list \<Rightarrow> string \<Rightarrow> int \<Rightarrow> post_ref list" where
  "post_refs values board thread_id =
     List.map_filter (\<lambda>v. contract_post_ref v board thread_id) values"

definition post_url :: "string \<Rightarrow> string \<Rightarrow> int \<Rightarrow> int \<Rightarrow> string" where
  "post_url base board thread_id post_id =
     trim_end_slash base @ ''/'' @ board @ ''/thread/'' @ show_int thread_id @ ''.html#'' @ show_int post_id"

definition contract_post :: "string \<Rightarrow> upstream_post \<Rightarrow> post" where
  "contract_post base u =
     (let thread_id = opt_unwrap_or (up_thread u) (up_id u) in
      \<lparr>p_board = up_board u, p_thread_id = thread_id, p_id = up_id u,
       p_url = post_url base (up_board u) thread_id (up_id u),
       p_date = up_date u, p_subject = clean (up_subject u),
       p_message = contract_message (up_nomarkup u) (up_message u),
       p_name = clean (up_name u), p_tripcode = clean (up_public_tripcode u),
       p_capcode = clean (up_capcode u), p_donor = up_donor u,
       p_country = country_code (up_country u), p_poster_fingerprint = None, p_origin = None,
       p_attachment_count = length (up_files u),
       p_references = post_refs (up_quotes u) (up_board u) thread_id,
       p_referenced_by = post_refs (up_backlinks u) (up_board u) thread_id\<rparr>)"

definition contract_post_from_value :: "codec \<Rightarrow> string \<Rightarrow> json \<Rightarrow> (upstream_error, post) metered" where
  "contract_post_from_value cd base v =
     bindW (decoded_post_try_from cd v) (\<lambda>d. pureW (Inr (contract_post base (dp_post d))))"

section \<open>Events\<close>

record built_event =
  be_event :: webhook_event
  be_payload :: string
  be_poster_identity :: "string option"

definition encode_event :: "codec \<Rightarrow> webhook_event \<Rightarrow> (upstream_error, string) metered" where
  "encode_event cd e =
     (let payload = json_to_vec cd (webhook_event_json cd e) in
      bindW (assert_contract_safe cd payload) (\<lambda>_. pureW (Inr payload)))"

definition event_id_of :: "event_kind \<Rightarrow> string \<Rightarrow> int \<Rightarrow> string" where
  "event_id_of kind board post_id =
     ''ptchan:'' @ event_kind_str kind @ '':'' @ board @ '':'' @ show_int post_id"

definition gateway_event ::
  "codec \<Rightarrow> string \<Rightarrow> json \<Rightarrow> datetime \<Rightarrow> (upstream_error, built_event) metered" where
  "gateway_event cd base value observed_at =
     bindW (decoded_post_try_from cd value) (\<lambda>decoded.
     let post = dp_post decoded;
         kind = (if up_thread post \<noteq> None then PostCreated else ThreadCreated);
         event = \<lparr>we_schema_version = V1, we_event_id = event_id_of kind (up_board post) (up_id post),
                  we_kind = kind, we_source = ''ptchan'', we_observed_at = observed_at,
                  we_post = contract_post base post\<rparr> in
     bindW (encode_event cd event) (\<lambda>payload.
     pureW (Inr \<lparr>be_event = event, be_payload = payload,
                 be_poster_identity = dp_poster_identity decoded\<rparr>)))"

section \<open>Fingerprints\<close>

text \<open>The three updates of the keyed hash, concatenated.\<close>

definition fingerprint_message :: "string \<Rightarrow> string \<Rightarrow> string" where
  "fingerprint_message scope source = scope @ [CHR 0x00] @ source"

definition poster_fingerprint :: "crypto \<Rightarrow> string \<Rightarrow> string \<Rightarrow> string option \<Rightarrow> string option" where
  "poster_fingerprint cr secret scope source =
     map_option (\<lambda>s. ''hmac-sha256:'' @ hex_encode cr (hmac_sha256 cr secret (fingerprint_message scope s))) source"

section \<open>Facts\<close>

lemma contract_post_unattributed:
  "p_origin (contract_post base u) = None" "p_poster_fingerprint (contract_post base u) = None"
  by (simp_all add: contract_post_def Let_def)

lemma contract_post_sel [simp]:
  "p_board (contract_post base u) = up_board u" "p_id (contract_post base u) = up_id u"
  "p_thread_id (contract_post base u) = opt_unwrap_or (up_thread u) (up_id u)"
  by (simp_all add: contract_post_def Let_def)

lemma event_kind_str_no_colon: "CHR '':'' \<notin> set (event_kind_str k)"
  by (cases k) simp_all

lemma event_kind_str_inj: "event_kind_str a = event_kind_str b \<Longrightarrow> a = b"
  by (cases a; cases b) simp_all

lemma event_id_inj:
  assumes "event_id_of k b i = event_id_of k' b' i'"
  shows "k = k' \<and> b = b' \<and> i = i'"
proof -
  have eq: "event_kind_str k @ CHR '':'' # (b @ CHR '':'' # show_int i) =
      event_kind_str k' @ CHR '':'' # (b' @ CHR '':'' # show_int i')"
    using assms by (simp add: event_id_of_def)
  note split = first_field_unique [OF eq event_kind_str_no_colon event_kind_str_no_colon]
  have "b = b' \<and> show_int i = show_int i'"
    by (rule last_field_unique [OF conjunct2 [OF split] show_int_no_colon show_int_no_colon])
  with split show ?thesis using event_kind_str_inj show_int_inj by blast
qed

lemma event_members_safe: "k \<in> event_members \<Longrightarrow> \<not> sensitive_key k \<and> k \<noteq> ''ip''"
  by (auto simp: event_members_def post_members_def sensitive_key_def)

lemma reject_sensitive_fields_ok:
  "(\<forall>k \<in> json_keys v. \<not> sensitive_key k) \<Longrightarrow> reject_sensitive_fields v = ([], Inr ())"
proof (induction v rule: json_induct)
  case (Array vs)
  then have "\<forall>v \<in> set vs. reject_sensitive_fields v = ([], Inr ())" by auto
  then have "forW reject_sensitive_fields vs = ([], Inr ())"
    by (induction vs) (simp_all add: bindW_def)
  then show ?case by simp
next
  case (Object m)
  then have "\<forall>kv \<in> set m. \<not> sensitive_key (fst kv) \<and> reject_sensitive_fields (snd kv) = ([], Inr ())"
    by fastforce
  then have "forW (\<lambda>kv. if sensitive_key (fst kv) then ([MInc REDACTION_DROPS []], Inl (SensitiveField (fst kv)))
      else reject_sensitive_fields (snd kv)) m = ([], Inr ())"
    by (induction m) (simp_all add: bindW_def)
  then show ?case by simp
qed simp_all

text \<open>The safety check never refuses an event the gateway itself built.\<close>

lemma encode_event_ok:
  assumes "json_text_faithful cd"
  shows "encode_event cd e = ([], Inr (json_to_vec cd (webhook_event_json cd e)))"
proof -
  obtain w where w: "json_from_slice cd (json_to_vec cd (webhook_event_json cd e)) = Some w"
    and keys: "json_keys w = json_keys (webhook_event_json cd e)"
    using assms by (auto simp: json_text_faithful_def)
  have "\<forall>k \<in> json_keys w. \<not> sensitive_key k"
    using keys webhook_event_json_keys [of cd e] event_members_safe by blast
  then have "reject_sensitive_fields w = ([], Inr ())" by (rule reject_sensitive_fields_ok)
  with w show ?thesis by (simp add: encode_event_def assert_contract_safe_def bindW_def)
qed

lemma encode_event_payload:
  "snd (encode_event cd e) = Inr p \<Longrightarrow> p = json_to_vec cd (webhook_event_json cd e)"
  by (auto simp: encode_event_def Let_def res_simps)

lemma gateway_event_Inr:
  assumes "snd (gateway_event cd base v now) = Inr b"
  obtains d where "snd (decoded_post_try_from cd v) = Inr d"
    and "we_post (be_event b) = contract_post base (dp_post d)"
    and "be_poster_identity b = poster_identity_source v"
    and "we_kind (be_event b) = (if up_thread (dp_post d) = None then ThreadCreated else PostCreated)"
    and "we_event_id (be_event b) = event_id_of (we_kind (be_event b)) (up_board (dp_post d)) (up_id (dp_post d))"
    and "be_payload b = json_to_vec cd (webhook_event_json cd (be_event b))"
    and "we_observed_at (be_event b) = now"
  using assms
  by (auto simp: gateway_event_def Let_def res_simps decoded_post_try_from_Inr dest!: encode_event_payload)

lemma fingerprint_message_inj:
  assumes "valid_integration_name n" and "valid_integration_name n'"
    and "fingerprint_message n s = fingerprint_message n' s'"
  shows "n = n' \<and> s = s'"
  using assms first_field_unique [of n "CHR 0x00" s n' s'] valid_integration_name_no_nul
  by (simp add: fingerprint_message_def)

end
