(* ===== verification/Origin.thy ===== *)
theory Origin
  imports Config_Facts Contract
begin

text \<open>
  Matching posts to the integrations that wrote them (\<^verbatim>\<open>src/origin.rs\<close>): a hash map from public
  tripcodes to integration names.
\<close>

type_synonym origin_matcher = "string \<Rightarrow> string option"

definition origin_matcher_new :: "posting_config list \<Rightarrow> origin_matcher" where
  "origin_matcher_new postings = collect_map pc_public_tripcode pc_name postings"

definition annotate_post :: "origin_matcher \<Rightarrow> post \<Rightarrow> post" where
  "annotate_post om p =
     p\<lparr>p_origin := map_option (\<lambda>name. \<lparr>po_kind = OriginIntegration, po_name = name\<rparr>)
                    (Option.bind (p_tripcode p) om)\<rparr>"

definition annotate_thread :: "origin_matcher \<Rightarrow> thread \<Rightarrow> thread" where
  "annotate_thread om t = t\<lparr>t_posts := map (annotate_post om) (t_posts t)\<rparr>"

lemma annotate_post_other [simp]:
  "p_board (annotate_post om p) = p_board p" "p_id (annotate_post om p) = p_id p"
  "p_thread_id (annotate_post om p) = p_thread_id p" "p_tripcode (annotate_post om p) = p_tripcode p"
  "p_poster_fingerprint (annotate_post om p) = p_poster_fingerprint p"
  by (simp_all add: annotate_post_def)

lemma annotate_post_idem: "annotate_post om (annotate_post om p) = annotate_post om p"
  by (simp add: annotate_post_def)

lemma annotate_post_origin:
  "p_origin (annotate_post om p) = Some po \<longleftrightarrow>
     (\<exists>t. p_tripcode p = Some t \<and> om t = Some (po_name po))"
  by (cases po; cases "po_kind po") (auto simp: annotate_post_def bind_eq_Some_conv)

lemma tripcodes_resolved:
  assumes "resolve url_ok addr_ok get f = Inr c"
  shows "distinct (map pc_public_tripcode (cf_postings c))"
proof -
  obtain rs where v: "config_valid url_ok addr_ok f"
    and rs: "list_all2 (\<lambda>i r. resolve_integration get i = Inr r) (fc_integrations f) rs"
    and c: "cf_postings c = concat (map (snd \<circ> snd) rs)"
    using assms by (rule resolve_Inr_cases)
  from rs have "map pc_public_tripcode (concat (map (snd \<circ> snd) rs)) =
      concat (map tripcodes_of (fc_integrations f))"
  proof (induction rule: list_all2_induct)
    case (Cons i "is" r rs)
    obtain ic ws ps where r: "r = (ic, ws, ps)" by (cases r)
    have "map pc_public_tripcode ps = tripcodes_of i"
      using resolve_posting_Inr(1) resolve_integration_Inr(7) Cons.hyps(1) r by blast
    with Cons.IH r show ?case by simp
  qed simp
  with v c show ?thesis by (simp add: config_valid_def)
qed

end
