(* ===== verification/Ingest.thy ===== *)
theory Ingest
  imports Event Origin Store_Queue
begin

text \<open>
  Accepting upstream posts (\<^verbatim>\<open>src/socket/ingest.rs\<close>): a post becomes an event, is attributed, is
  encoded once per allowed webhook and is stored together with its deliveries. The result is the
  effects on the metrics, the database and whether the delivery loop is woken.
\<close>

datatype ingest_error = FingerprintSecretMissing | EncodeFailed upstream_error

definition event_delivery_for ::
  "codec \<Rightarrow> crypto \<Rightarrow> built_event \<Rightarrow> string option \<Rightarrow> webhook_config \<Rightarrow> (ingest_error, event_delivery) metered" where
  "event_delivery_for cd cr built fingerprint_secret webhook =
     bindW (pureW (if wc_include_poster_fingerprint webhook
              then bindE (ok_or fingerprint_secret FingerprintSecretMissing) (\<lambda>secret.
                   Inr ((be_event built)\<lparr>we_post := (we_post (be_event built))\<lparr>p_poster_fingerprint :=
                      poster_fingerprint cr secret (wc_name webhook) (be_poster_identity built)\<rparr>\<rparr>))
              else Inr (be_event built))) (\<lambda>event.
     let enc = encode_event cd event in
     bindW (fst enc, map_err EncodeFailed (snd enc)) (\<lambda>payload.
     pureW (Inr \<lparr>ed_webhook = wc_name webhook, ed_payload = payload\<rparr>)))"

definition event_deliveries ::
  "codec \<Rightarrow> crypto \<Rightarrow> built_event \<Rightarrow> webhook_config list \<Rightarrow> string option \<Rightarrow> (ingest_error, event_delivery list) metered" where
  "event_deliveries cd cr built webhooks fingerprint_secret =
     traverseW (event_delivery_for cd cr built fingerprint_secret)
       (filter (\<lambda>w. wc_board_allowed w (p_board (we_post (be_event built)))) webhooks)"

record ingest_result =
  ir_ops :: "metric_op list"
  ir_db :: db
  ir_wakeup :: bool

definition ingest_stop :: "metric_op list \<Rightarrow> string \<Rightarrow> db \<Rightarrow> ingest_result" where
  "ingest_stop ops label db = \<lparr>ir_ops = ops @ [MInc SOCKET_EVENTS [label]], ir_db = db, ir_wakeup = False\<rparr>"

definition labelled :: "string \<Rightarrow> ('e, 'a) metered \<Rightarrow> (string, 'a) metered" where
  "labelled label m = (fst m, map_err (\<lambda>_. label) (snd m))"

text \<open>
  \<^verbatim>\<open>new_post\<close> up to the store call, the only point where it waits: the event with its deliveries, or the label under which
  the post is counted and dropped.
\<close>

definition prepare_event ::
  "codec \<Rightarrow> crypto \<Rightarrow> string \<Rightarrow> json list \<Rightarrow> webhook_config list \<Rightarrow> origin_matcher \<Rightarrow> string option \<Rightarrow> datetime
     \<Rightarrow> (string, webhook_event \<times> string \<times> event_delivery list) metered" where
  "prepare_event cd cr base payload webhooks origins fingerprint_secret now =
     bindW (pureW (case payload of
        value # _ \<Rightarrow> if json_is_object value then Inr value else Inl ''parse_error''
      | [] \<Rightarrow> Inl ''parse_error'')) (\<lambda>value.
     bindW (labelled ''redacted_or_invalid'' (gateway_event cd base value now)) (\<lambda>built.
     let event = (be_event built)\<lparr>we_post := annotate_post origins (we_post (be_event built))\<rparr> in
     bindW (labelled ''redacted_or_invalid'' (encode_event cd event)) (\<lambda>encoded.
     bindW (labelled ''store_error''
              (event_deliveries cd cr (built\<lparr>be_event := event, be_payload := encoded\<rparr>) webhooks fingerprint_secret)) (\<lambda>deliveries.
     pureW (if deliveries = [] then Inl ''no_allowed_webhooks'' else Inr (event, encoded, deliveries))))))"

definition new_post ::
  "codec \<Rightarrow> crypto \<Rightarrow> string \<Rightarrow> json list \<Rightarrow> webhook_config list \<Rightarrow> origin_matcher \<Rightarrow> string option
     \<Rightarrow> datetime \<Rightarrow> bool \<Rightarrow> db \<Rightarrow> ingest_result" where
  "new_post cd cr base payload webhooks origins fingerprint_secret now fault db =
     (let prepared = prepare_event cd cr base payload webhooks origins fingerprint_secret now; ops = fst prepared in
      case snd prepared of
        Inl label \<Rightarrow> ingest_stop ops label db
      | Inr (event, encoded, deliveries) \<Rightarrow>
          (let c = create_event cd fault event encoded deliveries db; ops' = ops @ fst (fst c) in
           case snd (fst c) of
             Inr True \<Rightarrow> \<lparr>ir_ops = ops' @ [MInc SOCKET_EVENTS [''queued''], MSetNow SOCKET_LAST_EVENT_TIMESTAMP_SECONDS],
               ir_db = snd c, ir_wakeup = True\<rparr>
           | Inr False \<Rightarrow> ingest_stop ops' ''duplicate'' (snd c)
           | Inl _ \<Rightarrow> ingest_stop ops' ''store_error'' (snd c)))"

fun join_with :: "string \<Rightarrow> string list \<Rightarrow> string" where
  "join_with sep [] = []"
| "join_with sep [x] = x"
| "join_with sep (x # y # ys) = x @ sep @ join_with sep (y # ys)"

definition json_shape :: "json \<Rightarrow> string" where
  "json_shape v = (case v of
     JObject m \<Rightarrow> ''object keys=['' @ join_with '','' (sort (map fst m)) @ '']''
   | JArray vs \<Rightarrow> ''array len='' @ show_int (int (length vs))
   | JString _ \<Rightarrow> ''string''
   | JNumber _ \<Rightarrow> ''number''
   | JBool _ \<Rightarrow> ''bool''
   | JNull \<Rightarrow> ''null'')"

section \<open>Fan-out\<close>

text \<open>The event as one webhook sees it.\<close>

definition webhook_view :: "crypto \<Rightarrow> string option \<Rightarrow> built_event \<Rightarrow> webhook_config \<Rightarrow> webhook_event" where
  "webhook_view cr secret built w =
     (if wc_include_poster_fingerprint w
      then (be_event built)\<lparr>we_post := (we_post (be_event built))\<lparr>p_poster_fingerprint :=
             (case secret of Some s \<Rightarrow> poster_fingerprint cr s (wc_name w) (be_poster_identity built) | None \<Rightarrow> None)\<rparr>\<rparr>
      else be_event built)"

lemma event_delivery_for_ok:
  assumes "json_text_faithful cd" and "wc_include_poster_fingerprint w \<Longrightarrow> secret \<noteq> None"
  shows "event_delivery_for cd cr built secret w =
    ([], Inr \<lparr>ed_webhook = wc_name w,
              ed_payload = json_to_vec cd (webhook_event_json cd (webhook_view cr secret built w))\<rparr>)"
  using assms
  by (auto simp: event_delivery_for_def webhook_view_def encode_event_ok bindW_def pureW_def Let_def
      split: option.splits)

lemma traverseW_pure:
  "(\<And>x. x \<in> set xs \<Longrightarrow> f x = ([], Inr (g x))) \<Longrightarrow> traverseW f xs = ([], Inr (map g xs))"
  by (induction xs) (simp_all add: bindW_def pureW_def)

lemma event_deliveries_ok:
  assumes "json_text_faithful cd"
    and "list_ex wc_include_poster_fingerprint webhooks \<Longrightarrow> secret \<noteq> None"
  shows "event_deliveries cd cr built webhooks secret =
    ([], Inr (map (\<lambda>w. \<lparr>ed_webhook = wc_name w,
        ed_payload = json_to_vec cd (webhook_event_json cd (webhook_view cr secret built w))\<rparr>)
      (filter (\<lambda>w. wc_board_allowed w (p_board (we_post (be_event built)))) webhooks)))"
  unfolding event_deliveries_def
  by (rule traverseW_pure, rule event_delivery_for_ok)
     (use assms in \<open>auto simp: list_ex_iff\<close>)

section \<open>Effects\<close>

text \<open>Everything before the store only touches the redaction counter.\<close>

abbreviation redaction_only :: "metric_op list \<Rightarrow> bool" where
  "redaction_only ops \<equiv> set ops \<subseteq> {MInc REDACTION_DROPS []}"

lemma drop_ip_fields_redaction: "redaction_only (fst (drop_ip_fields v))"
proof (induction v rule: json_induct)
  case (Object m)
  have "redaction_only (fst (drop_ip_fields (snd kv)))" if "kv \<in> set (map_remove ''ip'' m)" for kv
    using that subsetD [OF map_remove_subset that] Object by (metis prod.collapse)
  then show ?case by (auto simp: Let_def; blast)
qed (auto simp: Let_def)

lemma forW_redaction:
  "(\<And>x. x \<in> set xs \<Longrightarrow> redaction_only (fst (f x))) \<Longrightarrow> redaction_only (fst (forW f xs))"
  by (induction xs) (auto split: sum.splits)

lemma reject_redaction: "redaction_only (fst (reject_sensitive_fields v))"
proof (induction v rule: json_induct)
  case (Object m)
  have "redaction_only (fst (if sensitive_key (fst kv) then ([MInc REDACTION_DROPS []], Inl (SensitiveField (fst kv)))
      else reject_sensitive_fields (snd kv)))" if "kv \<in> set m" for kv
    using Object that by (cases kv) simp
  then show ?case by (simp only: reject_sensitive_fields.simps) (rule forW_redaction)
next
  case (Array vs)
  then show ?case by (simp only: reject_sensitive_fields.simps) (rule forW_redaction)
qed simp_all

lemma bindW_redaction [intro!]:
  "redaction_only (fst m) \<Longrightarrow> (\<And>x. redaction_only (fst (f x))) \<Longrightarrow> redaction_only (fst (bindW m f))"
  by (cases "snd m") simp_all

lemma pureW_redaction [intro!]: "redaction_only (fst (pureW r))"
  by simp

lemma decode_redaction: "redaction_only (fst (decoded_post_try_from cd v))"
  unfolding decoded_post_try_from_def Let_def
  by (intro bindW_redaction pureW_redaction reject_redaction) (simp add: drop_ip_fields_redaction)

lemma encode_redaction: "redaction_only (fst (encode_event cd e))"
  unfolding encode_event_def assert_contract_safe_def Let_def
  by (intro bindW_redaction pureW_redaction reject_redaction)

lemma gateway_event_redaction: "redaction_only (fst (gateway_event cd base v now))"
  unfolding gateway_event_def Let_def
  by (intro bindW_redaction pureW_redaction decode_redaction encode_redaction)

lemma event_deliveries_redaction: "redaction_only (fst (event_deliveries cd cr b ws secret))"
proof -
  have "redaction_only (fst (event_delivery_for cd cr b secret w))" for w
    unfolding event_delivery_for_def Let_def
    by (intro bindW_redaction pureW_redaction) (simp only: fst_conv encode_redaction)
  then show ?thesis
    unfolding event_deliveries_def
    by (intro order_trans [OF traverseW_ops] UN_least) blast
qed

lemma redaction_only_ok: "redaction_only ops \<Longrightarrow> list_all metric_op_ok ops"
  by (auto simp: list_all_iff)

definition event_count :: "metric_op list \<Rightarrow> nat" where
  "event_count ops = length (filter (\<lambda>op. \<exists>ls. op = MInc SOCKET_EVENTS ls) ops)"

lemma event_count_append [simp]: "event_count (xs @ ys) = event_count xs + event_count ys"
  by (simp add: event_count_def)

lemma create_event_ops: "set (fst (fst (create_event cd fault e p ds db))) \<subseteq> {MInc SQLITE_ERRORS []}"
  by (simp add: create_event_def store_call_ops)

lemma event_count_create [simp]: "event_count (fst (fst (create_event cd fault e p ds db))) = 0"
  using create_event_ops [of cd fault e p ds db] by (auto simp: event_count_def filter_empty_conv)

section \<open>Cases of ingestion\<close>

text \<open>
  Either the post is queued, by one successful \<open>create_event\<close>, or the database stays as it is and
  the loop is not woken.
\<close>

lemma labelled_redaction: "redaction_only (fst m) \<Longrightarrow> redaction_only (fst (labelled label m))"
  by (simp add: labelled_def)

lemma prepare_event_redaction: "redaction_only (fst (prepare_event cd cr base payload webhooks origins secret now))"
  unfolding prepare_event_def Let_def
  by (intro bindW_redaction pureW_redaction labelled_redaction gateway_event_redaction encode_redaction event_deliveries_redaction)

lemma prepare_event_Inr:
  assumes "snd (prepare_event cd cr base payload webhooks origins secret now) = Inr (event, encoded, ds)"
  obtains v rest built where "payload = v # rest" "snd (gateway_event cd base v now) = Inr built"
    "event = (be_event built)\<lparr>we_post := annotate_post origins (we_post (be_event built))\<rparr>"
    "snd (encode_event cd event) = Inr encoded"
    "snd (event_deliveries cd cr (built\<lparr>be_event := event, be_payload := encoded\<rparr>) webhooks secret) = Inr ds" "ds \<noteq> []"
  using assms
  by (auto simp: prepare_event_def labelled_def Let_def res_simps split: list.splits if_splits)

lemma new_post_cases:
  obtains (stopped) ops label where
      "new_post cd cr base payload webhooks origins secret now fault db = ingest_stop ops label db"
      "set ops \<subseteq> {MInc REDACTION_DROPS [], MInc SQLITE_ERRORS []}"
  | (queued) ops event encoded ds where
      "snd (fst (create_event cd fault event encoded ds db)) = Inr True"
      "new_post cd cr base payload webhooks origins secret now fault db =
         \<lparr>ir_ops = ops @ [MInc SOCKET_EVENTS [''queued''], MSetNow SOCKET_LAST_EVENT_TIMESTAMP_SECONDS],
          ir_db = snd (create_event cd fault event encoded ds db), ir_wakeup = True\<rparr>"
      "set ops \<subseteq> {MInc REDACTION_DROPS [], MInc SQLITE_ERRORS []}"
      "ds \<noteq> []"
      "\<exists>v rest built. payload = v # rest \<and> snd (gateway_event cd base v now) = Inr built \<and>
         we_event_id event = we_event_id (be_event built)"
proof -
  let ?prep = "prepare_event cd cr base payload webhooks origins secret now"
  note red = prepare_event_redaction [of cd cr base payload webhooks origins secret now]
  show thesis
  proof (cases "snd ?prep")
    case (Inl label)
    with red show thesis by (intro stopped [of "fst ?prep" label]) (auto simp: new_post_def Let_def)
  next
    case (Inr x)
    obtain event encoded ds where x: "x = (event, encoded, ds)" by (cases x)
    note prep = Inr [unfolded x]
    let ?c = "create_event cd fault event encoded ds db"
    let ?ops = "fst ?prep @ fst (fst ?c)"
    have ops: "set ?ops \<subseteq> {MInc REDACTION_DROPS [], MInc SQLITE_ERRORS []}"
      using red create_event_ops [of cd fault event encoded ds db] by auto
    have origin: "ds \<noteq> []" "\<exists>v rest built. payload = v # rest \<and> snd (gateway_event cd base v now) = Inr built \<and>
        we_event_id event = we_event_id (be_event built)"
      using prepare_event_Inr [OF prep] by fastforce+
    show thesis
      using create_event_cases [of event db ds cd fault encoded]
    proof cases
      case new
      then show thesis by (intro queued [OF new(4) _ ops origin]) (simp add: new_post_def prep Let_def)
    next
      case known
      then show thesis by (intro stopped [OF _ ops, of "''duplicate''"]) (simp add: new_post_def prep Let_def)
    next
      case (failed e)
      then show thesis by (intro stopped [OF _ ops, of "''store_error''"]) (simp add: new_post_def prep Let_def)
    qed
  qed
qed

section \<open>Queuing\<close>

lemma create_event_fresh:
  assumes "db_wf db" and "we_event_id e \<notin> ev_id ` set (db_events db)" and "distinct (map ed_webhook ds)"
  shows "snd (create_event cd False e payload ds db) =
      db\<lparr>db_events := db_events db @ [event_row_of cd e payload],
         db_deliveries := db_deliveries db @ map (new_row (we_event_id e) (to_rfc3339 cd (we_observed_at e))) ds\<rparr> \<and>
      snd (fst (create_event cd False e payload ds db)) = Inr True"
proof -
  have "(we_event_id e, w) \<notin> delivery_keys db" for w
    using assms(1,2) by (auto simp: delivery_keys_def delivery_key_def db_wf_def)
  then have "insert_deliveries (we_event_id e) (to_rfc3339 cd (we_observed_at e)) ds
        (db\<lparr>db_events := db_events db @ [event_row_of cd e payload]\<rparr>) =
      Inr (db\<lparr>db_events := db_events db @ [event_row_of cd e payload],
        db_deliveries := db_deliveries db @ map (new_row (we_event_id e) (to_rfc3339 cd (we_observed_at e))) ds\<rparr>)"
    unfolding insert_deliveries_Inr using assms(3) by (simp add: delivery_keys_def event_row_of_def)
  moreover have "\<not> list_ex (\<lambda>r. ev_id r = we_event_id e) (db_events db)"
    using assms(2) by (simp add: list_ex_key)
  ultimately show ?thesis
    by (simp only: create_event_def store_call_def if_False bindE_simps sum.case prod.case snd_conv fst_conv)
qed

lemma new_post_queues:
  assumes "json_text_faithful cd" and "db_wf db" and "json_is_object v"
    and "snd (gateway_event cd base v now) = Inr built"
    and "we_event_id (be_event built) \<notin> ev_id ` set (db_events db)"
    and "distinct (map wc_name webhooks)"
    and "list_ex wc_include_poster_fingerprint webhooks \<Longrightarrow> secret \<noteq> None"
    and "filter (\<lambda>w. wc_board_allowed w (p_board (we_post (be_event built)))) webhooks \<noteq> []"
  shows "let e = (be_event built)\<lparr>we_post := annotate_post om (we_post (be_event built))\<rparr>;
             r = new_post cd cr base (v # rest) webhooks om secret now False db;
             view = webhook_view cr secret (built\<lparr>be_event := e\<rparr>) in
    ir_wakeup r \<and>
    ir_db r = db\<lparr>
      db_events := db_events db @ [event_row_of cd e (json_to_vec cd (webhook_event_json cd e))],
      db_deliveries := db_deliveries db @
        map (\<lambda>w. new_row (we_event_id e) (to_rfc3339 cd (we_observed_at e))
               \<lparr>ed_webhook = wc_name w, ed_payload = json_to_vec cd (webhook_event_json cd (view w))\<rparr>)
          (filter (\<lambda>w. wc_board_allowed w (p_board (we_post (be_event built)))) webhooks)\<rparr>"
proof -
  define e where "e = (be_event built)\<lparr>we_post := annotate_post om (we_post (be_event built))\<rparr>"
  define ws where "ws = filter (\<lambda>w. wc_board_allowed w (p_board (we_post (be_event built)))) webhooks"
  define ed where "ed = (\<lambda>w. \<lparr>ed_webhook = wc_name w,
    ed_payload = json_to_vec cd (webhook_event_json cd (webhook_view cr secret (built\<lparr>be_event := e\<rparr>) w))\<rparr>)"
  let ?payload = "json_to_vec cd (webhook_event_json cd e)"
  have view: "webhook_view cr secret (built\<lparr>be_event := e, be_payload := p\<rparr>) w =
      webhook_view cr secret (built\<lparr>be_event := e\<rparr>) w" for p w
    by (simp add: webhook_view_def split: option.split)
  have board: "p_board (we_post e) = p_board (we_post (be_event built))" by (simp add: e_def)
  have ds: "event_deliveries cd cr (built\<lparr>be_event := e, be_payload := ?payload\<rparr>) webhooks secret = ([], Inr (map ed ws))"
    using event_deliveries_ok [OF assms(1,7), where built = "built\<lparr>be_event := e, be_payload := ?payload\<rparr>"]
    by (simp add: view ed_def ws_def board)
  have enc: "encode_event cd e = ([], Inr ?payload)" by (rule encode_event_ok [OF assms(1)])
  have "distinct (map ed_webhook (map ed ws))"
    using assms(6) by (simp add: ed_def ws_def comp_def distinct_map_filter)
  moreover have "we_event_id e \<notin> ev_id ` set (db_events db)" using assms(5) by (simp add: e_def)
  ultimately have c: "snd (create_event cd False e ?payload (map ed ws) db) =
      db\<lparr>db_events := db_events db @ [event_row_of cd e ?payload],
         db_deliveries := db_deliveries db @ map (new_row (we_event_id e) (to_rfc3339 cd (we_observed_at e))) (map ed ws)\<rparr>"
    "snd (fst (create_event cd False e ?payload (map ed ws) db)) = Inr True"
    using create_event_fresh [OF assms(2)] by blast+
  have ne: "map ed ws \<noteq> []" using assms(8) by (simp add: ws_def)
  have "ir_wakeup (new_post cd cr base (v # rest) webhooks om secret now False db)"
    "ir_db (new_post cd cr base (v # rest) webhooks om secret now False db) = snd (create_event cd False e ?payload (map ed ws) db)"
    using assms(3,4) enc ds c(2) ne
    by (simp_all add: new_post_def prepare_event_def labelled_def Let_def e_def [symmetric] res_simps)
  then show ?thesis
    unfolding Let_def e_def [symmetric] ws_def [symmetric] c(1) by (simp add: ed_def comp_def)
qed

end
