(* ===== verification/Reference_Codec.thy ===== *)
theory Reference_Codec
  imports Event Store_Queue
begin

text \<open>
  Concrete instances of the records that stand for third-party crates. They are not the crates'
  formats; they show that what theorems assume of those formats can hold, and they make the models
  run on concrete inputs. Instants are twelve big-endian bytes, JSON text is the list of the
  member names with an escape before every byte, and the digest of a message is the key and
  the message themselves.
\<close>

section \<open>Instants\<close>

fun be_enc :: "nat \<Rightarrow> int \<Rightarrow> string" where
  "be_enc 0 t = []"
| "be_enc (Suc n) t = char_of (t div 256 ^ n) # be_enc n (t mod 256 ^ n)"

fun be_dec :: "int \<Rightarrow> string \<Rightarrow> int" where
  "be_dec acc [] = acc"
| "be_dec acc (c # cs) = be_dec (acc * 256 + byte c) cs"

lemma char_of_less: "0 \<le> a \<Longrightarrow> b < 256 \<Longrightarrow> a < (b :: int) \<Longrightarrow> (char_of a :: char) < char_of b"
proof -
  assume "0 \<le> a" "b < 256" "a < b"
  then have "byte (char_of a) < byte (char_of b)" by (simp add: byte_def)
  moreover have "byte c = int (of_char c)" for c
    unfolding byte_def by (simp add: of_char_def)
  ultimately show "(char_of a :: char) < char_of b" by (simp add: less_char_def)
qed

lemma div_byte: "0 \<le> t \<Longrightarrow> t < 256 * b \<Longrightarrow> 0 < (b :: int) \<Longrightarrow> 0 \<le> t div b \<and> t div b < 256"
proof -
  assume t: "0 \<le> t" "t < 256 * b" and b: "0 < b"
  have "t div b < 256"
  proof (rule ccontr)
    assume "\<not> t div b < 256"
    then have "256 * b \<le> (t div b) * b" using b by (intro mult_right_mono) simp_all
    also have "\<dots> \<le> t" using b by (metis minus_mod_eq_div_mult le_add_same_cancel1 diff_le_self
        diff_left_mono diff_zero pos_mod_sign)
    finally show False using t by simp
  qed
  then show ?thesis using t b by (simp add: pos_imp_zdiv_nonneg_iff)
qed

lemma be_enc_less:
  assumes "0 \<le> s" and "s < t" and "t < 256 ^ n"
  shows "be_enc n s < be_enc n t"
  using assms
proof (induction n arbitrary: s t)
  case (Suc n)
  let ?b = "256 ^ n :: int"
  have le: "s div ?b \<le> t div ?b" using Suc.prems by (simp add: zdiv_mono1)
  have up: "t div ?b < 256" "s div ?b < 256" using Suc.prems div_byte [of t ?b] div_byte [of s ?b] by simp_all
  show ?case
  proof (cases "s div ?b = t div ?b")
    case True
    have "t div ?b * ?b + s mod ?b < t div ?b * ?b + t mod ?b"
      using Suc.prems(2) True by (metis div_mult_mod_eq)
    then have "s mod ?b < t mod ?b" by (simp only: add_less_cancel_left)
    then have "be_enc n (s mod ?b) < be_enc n (t mod ?b)" by (intro Suc.IH) simp_all
    with True show ?thesis by (simp add: Cons_less_Cons)
  next
    case False
    with le have "s div ?b < t div ?b" by simp
    moreover have "0 \<le> s div ?b" using Suc.prems div_byte [of s ?b] by simp
    ultimately have "(char_of (s div ?b) :: char) < char_of (t div ?b)" using up by (intro char_of_less)
    then show ?thesis by (simp add: Cons_less_Cons)
  qed
qed simp

lemma be_enc_le_iff:
  "0 \<le> s \<Longrightarrow> s < 256 ^ n \<Longrightarrow> 0 \<le> t \<Longrightarrow> t < 256 ^ n \<Longrightarrow> be_enc n s \<le> be_enc n t \<longleftrightarrow> s \<le> t"
  using be_enc_less [of s t n] be_enc_less [of t s n] by (cases s t rule: linorder_cases) auto

lemma be_dec_enc: "0 \<le> t \<Longrightarrow> t < 256 ^ n \<Longrightarrow> be_dec acc (be_enc n t) = acc * 256 ^ n + t"
proof (induction n arbitrary: t acc)
  case (Suc n)
  let ?b = "256 ^ n :: int"
  have "t div ?b < 256" "0 \<le> t div ?b" using Suc.prems div_byte [of t ?b] by simp_all
  then have "byte (char_of (t div ?b)) = t div ?b" by (simp add: byte_char_of)
  moreover have "be_dec a (be_enc n (t mod ?b)) = a * ?b + t mod ?b" for a by (rule Suc.IH) simp_all
  moreover have "t div ?b * ?b + t mod ?b = t" by (rule div_mult_mod_eq)
  ultimately show ?case by (simp add: algebra_simps)
qed simp

section \<open>Member names\<close>

function json_key_list :: "json \<Rightarrow> string list" where
  "json_key_list JNull = []"
| "json_key_list (JBool b) = []"
| "json_key_list (JNumber n) = []"
| "json_key_list (JString s) = []"
| "json_key_list (JArray vs) = concat (map json_key_list vs)"
| "json_key_list (JObject m) = concat (map (\<lambda>kv. fst kv # json_key_list (snd kv)) m)"
  by pat_completeness auto
termination
  by (relation "measure size") (auto dest: size_in_array size_in_object)

lemma set_json_key_list: "set (json_key_list v) = json_keys v"
proof (induction v rule: json_induct)
  case (Object m)
  then have "\<forall>kv \<in> set m. set (json_key_list (snd kv)) = json_keys (snd kv)" by (metis prod.collapse)
  then show ?case by simp
qed simp_all

fun enc_keys :: "string list \<Rightarrow> string" where
  "enc_keys [] = []"
| "enc_keys (k # ks) = concat (map (\<lambda>c. [CHR ''x'', c]) k) @ CHR ''.'' # enc_keys ks"

fun dec_keys :: "string \<Rightarrow> string \<Rightarrow> string list option" where
  "dec_keys cur [] = (if cur = [] then Some [] else None)"
| "dec_keys cur [c] = (if c = CHR ''.'' then Some [cur] else None)"
| "dec_keys cur (c # d # s) =
     (if c = CHR ''.'' then map_option (Cons cur) (dec_keys [] (d # s))
      else if c = CHR ''x'' then dec_keys (cur @ [d]) s else None)"

lemma dec_keys_dot: "dec_keys cur (CHR ''.'' # s) = map_option (Cons cur) (dec_keys [] s)"
  by (cases s) simp_all

lemma dec_keys_escaped:
  "dec_keys cur (concat (map (\<lambda>c. [CHR ''x'', c]) k) @ s) = dec_keys (cur @ k) s"
  by (induction k arbitrary: cur) simp_all

lemma dec_enc_keys: "dec_keys [] (enc_keys ks) = Some ks"
  by (induction ks) (simp_all add: dec_keys_escaped dec_keys_dot)

section \<open>The instances\<close>

definition ref_codec :: codec where
  "ref_codec = \<lparr>
     to_rfc3339 = be_enc 12,
     parse_from_rfc3339 = (\<lambda>s. if length s = 12 then Some (be_dec 0 s) else None),
     serde_datetime = be_enc 12,
     datetime_from_str = (\<lambda>s. if length s = 12 then Some (be_dec 0 s) else None),
     json_to_vec = (\<lambda>v. enc_keys (json_key_list v)),
     json_from_slice = (\<lambda>s. map_option (\<lambda>ks. JObject (map (\<lambda>k. (k, JNull)) ks)) (dec_keys [] s)),
     json_document = (\<lambda>s. map_option (\<lambda>ks. JObject (map (\<lambda>k. (k, JNull)) ks)) (dec_keys [] s))\<rparr>"

definition ref_crypto :: crypto where
  "ref_crypto = \<lparr>hmac_sha256 = (\<lambda>k m. k @ m), hex_encode = (\<lambda>b. b), hex_decode = Some\<rparr>"

definition ref_instants :: "datetime set" where "ref_instants = {0..<256 ^ 12}"

lemma ref_codec_sel [simp]:
  "to_rfc3339 ref_codec = be_enc 12" "serde_datetime ref_codec = be_enc 12"
  "parse_from_rfc3339 ref_codec s = (if length s = 12 then Some (be_dec 0 s) else None)"
  "datetime_from_str ref_codec s = (if length s = 12 then Some (be_dec 0 s) else None)"
  "json_to_vec ref_codec v = enc_keys (json_key_list v)"
  by (simp_all add: ref_codec_def)

lemma length_be_enc [simp]: "length (be_enc n t) = n"
  by (induction n arbitrary: t) simp_all

lemma ref_codec_json: "json_text_faithful ref_codec"
proof -
  have "json_keys (JObject (map (\<lambda>k. (k, JNull)) ks)) = set ks" for ks by auto
  then show ?thesis
    by (auto simp: json_text_faithful_def ref_codec_def dec_enc_keys set_json_key_list)
qed

lemma ref_codec_instants: "text_instants ref_codec ref_instants"
  using be_enc_le_iff [of _ 12] be_dec_enc [of _ 12 0]
  by (simp add: text_instants_def ref_codec_def ref_instants_def)

end
