(* ===== verification/Sample_Data.thy ===== *)
theory Sample_Data
  imports Webhook_Facts Ingest Reference_Codec
begin

text \<open>
  Small concrete events and databases on which the witnesses of the properties run.
\<close>

section \<open>A stored event\<close>

definition sample_post :: post where
  "sample_post = \<lparr>p_board = ''i'', p_thread_id = 100, p_id = 101, p_url = ''u'', p_date = 5,
     p_subject = None, p_message = Some ''hello'', p_name = None, p_tripcode = None, p_capcode = None,
     p_donor = None, p_country = None, p_poster_fingerprint = None, p_origin = None,
     p_attachment_count = 0, p_references = [], p_referenced_by = []\<rparr>"

definition sample_event :: webhook_event where
  "sample_event = \<lparr>we_schema_version = V1, we_event_id = ''e1'', we_kind = PostCreated,
     we_source = ''ptchan'', we_observed_at = 7, we_post = sample_post\<rparr>"

definition sample_empty :: db where
  "sample_empty = \<lparr>db_tables = {''events'', ''deliveries''}, db_wal = True, db_foreign_keys = True,
     db_events = [], db_deliveries = []\<rparr>"

definition sample_delivery :: event_delivery where
  "sample_delivery = \<lparr>ed_webhook = ''hook'', ed_payload = ''{}''\<rparr>"

definition sample_db :: db where
  "sample_db = snd (create_event ref_codec False sample_event ''{}'' [sample_delivery] sample_empty)"

definition sample_row :: delivery_row where
  "sample_row = new_row ''e1'' (be_enc 12 7) sample_delivery"

lemma sample_db_eq:
  "sample_db = sample_empty\<lparr>db_events := [event_row_of ref_codec sample_event ''{}''],
     db_deliveries := [sample_row]\<rparr>"
  by (simp add: sample_db_def create_event_def store_call_def sample_empty_def insert_delivery_def
      event_row_of_def sample_event_def sample_delivery_def sample_row_def new_row_def ref_codec_def)

lemma sample_rows: "db_deliveries sample_db = [sample_row]"
  by (simp add: sample_db_eq)

lemma sample_reach: "reach db_empty (store_step ref_codec) sample_db"
proof -
  have "reach db_empty (store_step ref_codec) sample_empty"
    by (rule reach_start) (simp add: db_empty_def sample_empty_def)
  then show ?thesis unfolding sample_db_def by (rule reach_step) (rule step_create)
qed

lemma sample_wf: "db_wf sample_db"
  using sample_reach by (rule store_inv.inv_reach)

lemma sample_pending: "(''e1'', ''hook'') \<in> pending_keys sample_db"
proof -
  have "sample_row \<in> set (db_deliveries sample_db)" by (simp add: sample_db_eq)
  from pending_keys_iff [OF sample_wf this] show ?thesis by (simp add: sample_row_def sample_delivery_def)
qed

definition sample_delivered_db :: db where
  "sample_delivered_db = snd (mark_delivered ref_codec False ''e1'' ''hook'' 9 sample_db)"

definition sample_delivered_row :: delivery_row where
  "sample_delivered_row = sample_row\<lparr>dl_status := Delivered, dl_delivered_at := Some (be_enc 12 9)\<rparr>"

section \<open>A resolved configuration\<close>

definition sample_file :: file_config where
  "sample_file = \<lparr>fc_ptchan = \<lparr>base_url = ''https://ptchan.test''\<rparr>, fc_runtime = default_runtime,
     fc_storage = \<lparr>sqlite_path = ''data/g.db'', event_retention = default_event_retention\<rparr>,
     fc_integrations = [\<lparr>fi_name = ''hook'', fi_allowed_boards = [''i''], fi_reading = Some (),
       fi_webhook = Some \<lparr>fw_url = ''https://a.test/hook'', fw_include_poster_fingerprint = True\<rparr>,
       fi_posting = Some \<lparr>fp_display_name = None, fp_public_tripcode = ''!!abcdefgh1=''\<rparr>,
       fi_rate_limit = default_rate_limit\<rparr>]\<rparr>"

definition sample_env :: "string \<Rightarrow> config_error + string" where
  "sample_env name = Inr ''s3cret''"

definition sample_webhook :: webhook_config where
  "sample_webhook = \<lparr>wc_name = ''hook'', wc_url = ''https://a.test/hook'', wc_allowed_boards = [''i''],
     wc_include_poster_fingerprint = True, wc_secret = ''s3cret''\<rparr>"

definition sample_posting :: posting_config where
  "sample_posting = \<lparr>pc_name = ''hook'', pc_allowed_boards = [''i''], pc_display_name = None,
     pc_secret = ''s3cret'', pc_tripcode_secret = ''s3cret'', pc_public_tripcode = ''!!abcdefgh1='',
     pc_post_password = ''s3cret''\<rparr>"

definition sample_config :: config where
  "sample_config = \<lparr>cf_ptchan = \<lparr>base_url = ''https://ptchan.test''\<rparr>, cf_runtime = default_runtime,
     cf_storage = \<lparr>sqlite_path = ''data/g.db'', event_retention = default_event_retention\<rparr>,
     cf_integrations = [\<lparr>ic_name = ''hook'', ic_allowed_boards = [''i''], ic_reading = True,
       ic_rate_limit = default_rate_limit, ic_secret = ''s3cret''\<rparr>],
     cf_webhooks = [sample_webhook], cf_postings = [sample_posting], cf_fingerprint_secret = Some ''s3cret''\<rparr>"

lemma sample_bucket:
  "bucket_valid default_reading_rate_limit" "bucket_valid default_posting_rate_limit"
  "bucket_valid default_global_reading_rate_limit" "bucket_valid default_global_posting_rate_limit"
  by (simp_all add: bucket_valid_def default_reading_rate_limit_def default_posting_rate_limit_def
      default_global_reading_rate_limit_def default_global_posting_rate_limit_def
      default_rate_limit_window_def dur_defs)

lemma sample_rate_limits: "rate_limit_valid default_rate_limit" "rate_limit_valid default_runtime_rate_limit"
  by (simp_all add: rate_limit_valid_def default_rate_limit_def default_runtime_rate_limit_def sample_bucket)

lemma sample_texts:
  "valid_integration_name ''hook''" "valid_board_name ''i''" "valid_public_tripcode ''!!abcdefgh1=''"
  "str_trim ''https://ptchan.test'' \<noteq> []" "str_trim ''data/g.db'' \<noteq> []"
  "length (str_chars (str_trim ''hook'' @ ''##'' @ ''s3cret'')) \<le> POSTING_NAME_MAX_CHARS"
  by code_simp+

lemma sample_resolved: "resolve (\<lambda>_. True) (\<lambda>_. True) sample_env sample_file = Inr sample_config"
proof -
  have "config_valid (\<lambda>_. True) (\<lambda>_. True) sample_file"
    by (simp add: config_valid_def sample_file_def sample_texts integration_valid_def posting_valid_def
        sample_rate_limits tripcodes_of_def default_runtime_def default_event_retention_def dur_defs)
  then have "validate (\<lambda>_. True) (\<lambda>_. True) sample_file = Inr ()" by (simp add: validate_iff)
  moreover have "resolve_integration sample_env (hd (fc_integrations sample_file)) =
      Inr (hd (cf_integrations sample_config), [sample_webhook], [sample_posting])"
    using sample_texts(6)
    by (simp add: resolve_integration_def resolve_posting_def resolve_webhook_def sample_env_def sample_file_def
        sample_config_def sample_webhook_def sample_posting_def form_name_def Let_def)
  moreover have "fc_integrations sample_file = [hd (fc_integrations sample_file)]" by (simp add: sample_file_def)
  then have "traverseE (resolve_integration sample_env) (fc_integrations sample_file) =
      traverseE (resolve_integration sample_env) [hd (fc_integrations sample_file)]" by simp
  ultimately show ?thesis
    by (simp add: resolve_def sample_env_def [of "''PTCHAN_FINGERPRINT_SECRET''"])
       (simp add: sample_webhook_def sample_config_def sample_file_def)
qed

end
