(* ===== verification/Round_Properties.thy ===== *)
theory Round_Properties
  imports Sample_Data
begin

text \<open>
  Properties of the due batch, the retry times, the delivery rounds and the wait between them.
\<close>

section \<open>Batches and retries\<close>

text \<open>
  C17: a batch is what the query promises, whatever order SQLite gives to ties: its entries are due
  deliveries, each once, in the order of next attempt and event, as many as the limit allows, and
  no due delivery left out comes before one taken.
\<close>

theorem pending_batch_spec:
  assumes "scan_ok scan" and "reach db_empty (store_step cd) db" and "int limit \<le> i64_max"
  shows "\<exists>rows. pending_deliveries cd scan False limit now db = (([], Inr (map (pending_of db) rows)), db) \<and>
    set rows \<subseteq> {d \<in> set (db_deliveries db). is_pending d \<and> dl_next_attempt_at d \<le> to_rfc3339 cd now} \<and>
    distinct rows \<and> sorted (map due_order rows) \<and>
    length rows = min limit (card {d \<in> set (db_deliveries db). is_pending d \<and> dl_next_attempt_at d \<le> to_rfc3339 cd now}) \<and>
    (\<forall>r \<in> set rows. \<forall>d \<in> set (db_deliveries db). is_pending d \<and> dl_next_attempt_at d \<le> to_rfc3339 cd now \<and>
       d \<notin> set rows \<longrightarrow> due_order r \<le> due_order d)"
proof -
  have wf: "db_wf db" using assms(2) by (rule store_inv.inv_reach)
  have due: "due_rows cd now db = {d \<in> set (db_deliveries db). is_pending d \<and> dl_next_attempt_at d \<le> to_rfc3339 cd now}"
    using due_wf [OF wf] by (auto simp: due_rows_def)
  obtain batch where b: "pending_deliveries cd scan False limit now db = (([], Inr batch), db)"
    using assms(3) by (simp add: pending_deliveries_def store_call_def)
  then have "snd (fst (pending_deliveries cd scan False limit now db)) = Inr batch" by simp
  from pending_deliveries_batch [OF assms(1) wf this] obtain rows where rows: "batch = map (pending_of db) rows"
    "set rows \<subseteq> due_rows cd now db" "distinct rows" "sorted (map due_order rows)"
    "length rows = min limit (card (due_rows cd now db))"
    "\<And>r d. r \<in> set rows \<Longrightarrow> d \<in> due_rows cd now db - set rows \<Longrightarrow> due_order r \<le> due_order d"
    by metis
  show ?thesis
    using b rows unfolding due by (intro exI [of _ rows] conjI ballI impI) auto
qed

theorem pending_batch_spec_witness:
  "\<exists>rows. pending_deliveries ref_codec rev False 50 8 sample_db = (([], Inr (map (pending_of sample_db) rows)), sample_db)"
proof -
  have "scan_ok rev" by (simp add: scan_ok_def)
  moreover have "int 50 \<le> i64_max" by (simp add: i64_max_def)
  ultimately show ?thesis using pending_batch_spec [OF _ sample_reach] by blast
qed

text \<open>
  A failed delivery waits. After a failure is recorded with a next attempt, that delivery is in no
  batch taken before that instant, and it is due from that instant on.
\<close>

theorem retry_waits:
  assumes "db_wf db" and "text_instants cd T" and "next \<in> T" and "now \<in> T"
    and "(i, w) \<in> pending_keys db"
  shows "(i, w) \<in> delivery_key ` due_rows cd now (snd (mark_failed cd False i w err n next db)) \<longleftrightarrow> next \<le> now"
proof -
  let ?db = "snd (mark_failed cd False i w err n next db)"
  have wf: "db_wf ?db" using assms(1) by (rule db_wf_mark_failed)
  have key: "(i, w) \<in> pending_keys ?db" using assms(5) by (simp add: mark_failed_keys)
  have next_at: "dl_next_attempt_at d = to_rfc3339 cd next"
    if "d \<in> set (db_deliveries ?db)" "delivery_key d = (i, w)" for d
    using mark_failed_row [OF that] by simp
  have order: "to_rfc3339 cd next \<le> to_rfc3339 cd now \<longleftrightarrow> next \<le> now"
    using assms(2-4) by (simp add: text_instants_def)
  from key obtain d where d: "d \<in> set (db_deliveries ?db)" "is_pending d" "delivery_key d = (i, w)"
    by (auto simp: pending_keys_def)
  have "d \<in> due_rows cd now ?db \<longleftrightarrow> next \<le> now"
    using d due_wf [OF wf d(1)] next_at [OF d(1,3)] order by (simp add: due_rows_def)
  moreover have "next \<le> now" if "x \<in> due_rows cd now ?db" "delivery_key x = (i, w)" for x
    using that due_wf [OF wf, of x] next_at [of x] order by (auto simp: due_rows_def)
  ultimately show ?thesis using d(3) by force
qed

text \<open>
  The retry delay is a power of two between 2 and 256 seconds for every attempt number an i64 can
  hold, never decreases with the attempts, and reaches its maximum at the eighth; the cap of 300
  seconds in the code is never the value.
\<close>

theorem delivery_backoff_range:
  "dur_secs 2 \<le> delivery_backoff m \<and> delivery_backoff m \<le> dur_secs 256 \<and> delivery_backoff m \<noteq> dur_secs 300 \<and>
   (m \<le> n \<longrightarrow> delivery_backoff m \<le> delivery_backoff n) \<and> (8 \<le> m \<longrightarrow> delivery_backoff m = dur_secs 256)"
proof -
  have "dur_secs 256 < dur_secs 300" by (simp add: dur_secs_def NANOS_PER_SEC_def)
  moreover have "8 \<le> m \<longrightarrow> delivery_backoff m = dur_secs 256" by (simp add: delivery_backoff_secs)
  ultimately show ?thesis
    using delivery_backoff_bounds [of m] delivery_backoff_mono [of m n] by auto
qed

section \<open>Rounds\<close>

text \<open>
  C13: the deliveries of a round run concurrently, and the order in which they complete does not
  matter: any two orders leave the same database.
\<close>

theorem round_order_irrelevant:
  assumes "db_wf db" and "scan_ok (rv_scan env)" and "completion_ok f" and "completion_ok g"
  shows "at_db (deliver_pending cd cr endpoints (env\<lparr>rv_completion := f\<rparr>) db) =
    at_db (deliver_pending cd cr endpoints (env\<lparr>rv_completion := g\<rparr>) db)"
proof -
  let ?b = "round_batch cd env db"
  let ?ops = "\<lambda>h. round_ops cd cr endpoints env (h ?b)"
  have same: "round_batch cd (env\<lparr>rv_completion := h\<rparr>) db = ?b"
    "round_ops cd cr endpoints (env\<lparr>rv_completion := h\<rparr>) ds = round_ops cd cr endpoints env ds" for h ds
    by (simp_all add: round_batch_def round_ops_def)
  have dist: "distinct (map pd_key ?b)" using assms(1,2) by (intro round_batch_keys)
  have run: "at_db (deliver_pending cd cr endpoints (env\<lparr>rv_completion := h\<rparr>) db) =
      db\<lparr>db_deliveries := map (fold (op_row cd) (?ops h)) (db_deliveries db)\<rparr>" if "completion_ok h" for h
    using deliver_pending_db [of "env\<lparr>rv_completion := h\<rparr>"] that round_ops_keys(2)
    by (simp add: same store_runs_rows)
  have "fold (op_row cd) (?ops f) d = fold (op_row cd) (?ops g) d" for d
  proof (rule op_rows_permute)
    show "distinct (map op_key (?ops f))"
      using completion_keys [OF assms(3) dist] by (simp only: round_ops_keys(1) distinct_Some_keys)
    show "\<forall>c \<in> set (?ops f). op_key c \<noteq> None" using round_ops_keys(2) by blast
    show "mset (?ops f) = mset (?ops g)"
      using assms(3,4) by (simp add: round_ops_def completion_ok_def)
  qed
  then show ?thesis using run assms(3,4) by (simp cong: map_cong)
qed

definition sample_attempt :: delivery_env where
  "sample_attempt = \<lparr>de_sent_at = 10,
     de_send = (\<lambda>_. Inr \<lparr>hs_status = 200, hs_set_cookie = [], hs_body = Some []\<rparr>),
     de_status_text = show_int \<circ> int, de_elapsed = 1, de_marked_at = 11, de_mark_fault = False\<rparr>"

definition sample_round :: round_env where
  "sample_round = \<lparr>rv_count_fault = False, rv_keys = [''hook''], rv_scan = (\<lambda>rows. rows),
     rv_counts_fault = False, rv_load_at = 10, rv_load_fault = False, rv_completion = (\<lambda>ds. ds),
     rv_attempt = (\<lambda>_. sample_attempt), rv_oldest_at = 12, rv_oldest_fault = False,
     rv_next_at = 12, rv_next_fault = False\<rparr>"

theorem round_order_irrelevant_witness:
  "at_db (deliver_pending ref_codec ref_crypto Map.empty (sample_round\<lparr>rv_completion := rev\<rparr>) sample_db) =
   at_db (deliver_pending ref_codec ref_crypto Map.empty (sample_round\<lparr>rv_completion := (\<lambda>ds. ds)\<rparr>) sample_db)"
proof -
  have "scan_ok (rv_scan sample_round)" by (simp add: scan_ok_def sample_round_def)
  moreover have "completion_ok rev" "completion_ok (\<lambda>ds. ds)" by (simp_all add: completion_ok_def)
  ultimately show ?thesis using round_order_irrelevant [OF sample_wf] by blast
qed

text \<open>
  C11: a delivery leaves the queue only when its webhook accepted it. If a round removes a pending
  delivery, the round sent to the URL configured for that webhook a request that carries the
  event's identifier, and the answer to it was a success status.
\<close>

theorem delivered_only_if_accepted:
  assumes "reach db_empty (store_step cd) db" and "completion_ok (rv_completion env)"
    and "k \<in> pending_keys db" and "k \<notin> pending_keys (at_db (deliver_pending cd cr endpoints env db))"
  shows "\<exists>d ep r. pd_key d = k \<and> d \<in> set (round_batch cd env db) \<and> endpoints (snd k) = Some ep \<and>
    r \<in> set (at_requests (deliver_pending cd cr endpoints env db)) \<and>
    hr_url r = wc_url ep \<and> header_of r ''x-ptchan-event-id'' = Some (fst k) \<and> hr_body r = Bytes (pd_payload d) \<and>
    accepted (de_send (rv_attempt env d) r)"
proof -
  have wf: "db_wf db" using assms(1) by (rule store_inv.inv_reach)
  let ?ops = "round_ops cd cr endpoints env (rv_completion env (round_batch cd env db))"
  have "k \<notin> pending_keys (fold (store_run cd) ?ops db)"
    using assms(4) by (simp add: deliver_pending_db [OF assms(2)])
  then obtain c where c: "c \<in> set ?ops" "k \<in> op_acks c"
    using store_queue.left_only_by_ack [OF wf assms(3)] by blast
  have s: "set (rv_completion env (round_batch cd env db)) = set (round_batch cd env db)"
    using assms(2) unfolding completion_ok_def by (metis mset_eq_setD)
  from c(1) s obtain d where d: "d \<in> set (round_batch cd env db)"
    "c = delivery_op cd cr endpoints (rv_attempt env d) d"
    by (auto simp: round_ops_def)
  then obtain ep where ep: "k = pd_key d" "endpoints (pd_webhook d) = Some ep"
    "accepted (de_send (rv_attempt env d) (request_of cd cr (rv_attempt env d) ep d))"
    using delivery_op_accepted c(2) by metis
  have "request_of cd cr (rv_attempt env d) ep d \<in> set (at_requests (deliver_pending cd cr endpoints env db))"
    unfolding round_requests [OF assms(2)] using d(1) ep(2) by force
  then show ?thesis
    using d(1) ep
    by (intro exI [of _ d] exI [of _ ep] exI [of _ "request_of cd cr (rv_attempt env d) ep d"])
       (simp add: pd_key_def request_of_def delivery_request_def header_of_def)
qed

definition sample_hook :: webhook_config where
  "sample_hook = \<lparr>wc_name = ''hook'', wc_url = ''https://a.test/hook'', wc_allowed_boards = [],
     wc_include_poster_fingerprint = False, wc_secret = ''s3cret''\<rparr>"

lemma sample_batch:
  "round_batch ref_codec sample_round sample_db = [pending_of sample_db sample_row]"
proof -
  have "find_event sample_db ''e1'' \<noteq> None"
    by (simp add: sample_db_eq find_event_def event_row_of_def sample_event_def)
  moreover have "be_enc 12 7 \<le> be_enc 12 10" by (simp add: be_enc_le_iff)
  ultimately have "due (be_enc 12 10) sample_db sample_row" by (simp add: due_def sample_row_def)
  then have "take DELIVERY_BATCH (sort_key due_order (filter (due (be_enc 12 10) sample_db) (db_deliveries sample_db))) = [sample_row]"
    by (simp add: sample_rows DELIVERY_BATCH_def)
  then show ?thesis
    by (simp add: round_batch_def sample_round_def pending_deliveries_load)
qed

lemma sample_round_completion: "completion_ok (rv_completion sample_round)" "scan_ok (rv_scan sample_round)"
  by (simp_all add: completion_ok_def scan_ok_def sample_round_def)

theorem delivered_only_if_accepted_witness:
  "\<exists>r. r \<in> set (at_requests (deliver_pending ref_codec ref_crypto [''hook'' \<mapsto> sample_hook] sample_round sample_db)) \<and>
     hr_url r = ''https://a.test/hook'' \<and> header_of r ''x-ptchan-event-id'' = Some ''e1''"
proof -
  let ?eps = "[''hook'' \<mapsto> sample_hook]"
  have ops: "round_ops ref_codec ref_crypto ?eps sample_round (rv_completion sample_round (round_batch ref_codec sample_round sample_db))
      = [delivery_op ref_codec ref_crypto ?eps sample_attempt (pending_of sample_db sample_row)]"
    by (simp add: sample_batch round_ops_def) (simp add: sample_round_def)
  have "delivery_op ref_codec ref_crypto ?eps sample_attempt (pending_of sample_db sample_row) =
      (OpDelivered ''e1'' ''hook'' 11, False)"
    by (simp add: delivery_op_cases accepted_def sample_attempt_def is_success_def pending_of_def sample_row_def
      new_row_def sample_delivery_def)
  then have "(''e1'', ''hook'') \<notin> pending_keys (at_db (deliver_pending ref_codec ref_crypto ?eps sample_round sample_db))"
    by (simp add: deliver_pending_db [OF sample_round_completion(1)] ops pending_keys_delivered)
  from delivered_only_if_accepted [OF sample_reach sample_round_completion(1) sample_pending this]
  show ?thesis by (auto simp: sample_hook_def)
qed

text \<open>
  C12: every delivery of a round that can be recorded makes progress. If the webhook accepted it, it is
  settled; otherwise it is still pending, with one more attempt counted and its next attempt set to
  the time of recording plus the backoff of that number of attempts.
\<close>

theorem round_outcome:
  assumes "db_wf db" and "scan_ok (rv_scan env)" and "completion_ok (rv_completion env)"
    and "d \<in> set (round_batch cd env db)" and "\<not> de_mark_fault (rv_attempt env d)"
  shows "let db' = at_db (deliver_pending cd cr endpoints env db); e = rv_attempt env d;
             n = i64_add (pd_attempts d) 1 in
    if \<exists>ep. endpoints (pd_webhook d) = Some ep \<and> accepted (de_send e (request_of cd cr e ep d))
    then pd_key d \<in> settled_keys db'
    else \<exists>r \<in> set (db_deliveries db'). delivery_key r = pd_key d \<and> is_pending r \<and> dl_attempts r = n \<and>
           dl_next_attempt_at r = to_rfc3339 cd (de_marked_at e + int (delivery_backoff n))"
proof -
  let ?e = "rv_attempt env d"
  let ?op = "delivery_op cd cr endpoints ?e d"
  obtain r where r: "is_pending r" "delivery_key r = pd_key d"
    "op_row cd ?op r \<in> set (db_deliveries (at_db (deliver_pending cd cr endpoints env db)))"
    using round_row [OF assms(1-4)] by metis
  show ?thesis
  proof (cases "\<exists>ep. endpoints (pd_webhook d) = Some ep \<and> accepted (de_send ?e (request_of cd cr ?e ep d))")
    case True
    then have "?op = (OpDelivered (pd_event_id d) (pd_webhook d) (de_marked_at ?e), False)"
      using assms(5) by (auto simp: delivery_op_cases)
    then have "dl_status (op_row cd ?op r) = Delivered" "delivery_key (op_row cd ?op r) = pd_key d"
      using r(2) by (simp_all add: pd_key_def delivery_key_def)
    then have "pd_key d \<in> settled_keys (at_db (deliver_pending cd cr endpoints env db))"
      using r(3) by (force simp: settled_keys_def)
    with True show ?thesis by (simp add: Let_def)
  next
    case False
    then have "\<exists>err. ?op = failure_op ?e d err"
      by (cases "endpoints (pd_webhook d)") (auto simp: delivery_op_cases)
    then obtain err where "?op = failure_op ?e d err" by blast
    then have "op_row cd ?op r = r\<lparr>dl_attempts := i64_add (pd_attempts d) 1,
        dl_next_attempt_at := to_rfc3339 cd (de_marked_at ?e + int (delivery_backoff (i64_add (pd_attempts d) 1))),
        dl_last_error := Some (truncate_chars err 500)\<rparr>"
      using r(2) assms(5) by (simp add: failure_op_eq pd_key_def)
    with r have "\<exists>r \<in> set (db_deliveries (at_db (deliver_pending cd cr endpoints env db))).
        delivery_key r = pd_key d \<and> is_pending r \<and> dl_attempts r = i64_add (pd_attempts d) 1 \<and>
        dl_next_attempt_at r = to_rfc3339 cd (de_marked_at ?e + int (delivery_backoff (i64_add (pd_attempts d) 1)))"
      by (intro bexI [of _ "op_row cd ?op r"]) (simp_all add: delivery_key_def is_pending_def)
    then show ?thesis unfolding Let_def if_not_P [OF False] .
  qed
qed

theorem round_outcome_witness:
  "(''e1'', ''hook'') \<in> settled_keys (at_db (deliver_pending ref_codec ref_crypto [''hook'' \<mapsto> sample_hook] sample_round sample_db))"
proof -
  let ?d = "pending_of sample_db sample_row"
  have d: "?d \<in> set (round_batch ref_codec sample_round sample_db)" by (simp add: sample_batch)
  have nf: "\<not> de_mark_fault (rv_attempt sample_round ?d)" by (simp add: sample_round_def sample_attempt_def)
  have key: "pd_key ?d = (''e1'', ''hook'')" "pd_webhook ?d = ''hook''"
    by (simp_all add: pd_key_def pending_of_def sample_row_def new_row_def sample_delivery_def)
  have acc: "accepted (de_send (rv_attempt sample_round ?d) r)" for r
    by (simp add: sample_round_def sample_attempt_def accepted_def is_success_def)
  from round_outcome [OF sample_wf sample_round_completion(2,1) d nf, of ref_crypto "[''hook'' \<mapsto> sample_hook]"]
  show ?thesis by (simp add: Let_def key acc)
qed

section \<open>The wait between rounds\<close>

text \<open>
  C18: the loop sleeps no longer than until the earliest pending attempt: with nothing pending a
  minute; otherwise exactly until the earliest next attempt among the pending deliveries, not at all
  when it is past.
\<close>

theorem delivery_sleep_spec:
  assumes "text_instants cd T" and "\<not> rv_next_fault env"
    and "\<forall>d \<in> set (db_deliveries db). is_pending d \<longrightarrow> (\<exists>t \<in> T. dl_next_attempt_at d = to_rfc3339 cd t)"
  shows "if pending_keys db = {} then delivery_sleep cd env db = dur_mins 1
    else (\<exists>d \<in> set (db_deliveries db). \<exists>t \<in> T. is_pending d \<and> dl_next_attempt_at d = to_rfc3339 cd t \<and>
            delivery_sleep cd env db = nat (t - rv_next_at env)) \<and>
         (\<forall>d \<in> set (db_deliveries db). \<forall>t \<in> T. is_pending d \<and> dl_next_attempt_at d = to_rfc3339 cd t \<longrightarrow>
            delivery_sleep cd env db \<le> nat (t - rv_next_at env))"
proof -
  let ?rows = "filter is_pending (db_deliveries db)"
  have empty: "pending_keys db = {} \<longleftrightarrow> ?rows = []" by (auto simp: pending_keys_def filter_empty_conv)
  show ?thesis
  proof (cases "?rows = []")
    case True
    then have "delivery_sleep cd env db = dur_mins 1"
      using assms(2) by (simp add: delivery_sleep_def next_delivery_delay_def store_call_result text_min_def IDLE_SWEEP_INTERVAL_def)
    with True empty show ?thesis by simp
  next
    case False
    then obtain m where m: "text_min (map dl_next_attempt_at ?rows) = Some m" by (simp add: text_min_def)
    note mem = text_min_mem [OF m]
    then obtain d where d: "d \<in> set (db_deliveries db)" "is_pending d" "dl_next_attempt_at d = m" by auto
    then obtain t where t: "t \<in> T" "m = to_rfc3339 cd t" using assms(3) by blast
    have parse: "parse_from_rfc3339 cd m = Some t" using assms(1) t by (simp add: text_instants_def)
    have sleep: "delivery_sleep cd env db = nat (t - rv_next_at env)"
      using assms(2) m parse by (simp add: delivery_sleep_def next_delivery_delay_def store_call_result since_or_zero_def)
    have "nat (t - rv_next_at env) \<le> nat (u - rv_next_at env)"
      if "x \<in> set (db_deliveries db)" "u \<in> T" "is_pending x" "dl_next_attempt_at x = to_rfc3339 cd u" for x u
    proof -
      have "m \<le> to_rfc3339 cd u" using mem that by force
      then have "t \<le> u" using assms(1) t that(2) by (simp add: text_instants_def)
      then show ?thesis by simp
    qed
    then show ?thesis using False empty d t sleep by auto
  qed
qed

theorem delivery_sleep_spec_witness: "delivery_sleep ref_codec sample_round sample_db = 0"
proof -
  have rows: "\<forall>d \<in> set (db_deliveries sample_db). is_pending d \<longrightarrow>
      (\<exists>t \<in> ref_instants. dl_next_attempt_at d = to_rfc3339 ref_codec t)"
    by (auto simp: sample_db_eq sample_row_def ref_codec_def ref_instants_def intro!: bexI [of _ 7])
  have nf: "\<not> rv_next_fault sample_round" by (simp add: sample_round_def)
  have ne: "(pending_keys sample_db = {}) = False" using sample_pending by blast
  have "is_pending sample_row \<and> dl_next_attempt_at sample_row = to_rfc3339 ref_codec 7"
    by (simp add: sample_row_def)
  moreover have "sample_row \<in> set (db_deliveries sample_db)" by (simp add: sample_rows)
  moreover have "(7 :: datetime) \<in> ref_instants" by (simp add: ref_instants_def)
  ultimately have "delivery_sleep ref_codec sample_round sample_db \<le> nat (7 - rv_next_at sample_round)"
    using delivery_sleep_spec [OF ref_codec_instants nf rows] unfolding ne if_False by blast
  then show ?thesis by (simp add: sample_round_def)
qed

end
