(* ===== verification/Boundary_Properties.thy ===== *)
theory Boundary_Properties
  imports Sample_Data
begin

text \<open>
  Properties of what crosses the boundary between upstream and integrations: redaction, event
  identity, fingerprints, fan-out and ingestion.
\<close>

section \<open>Redaction\<close>

text \<open>
  C15: redaction is complete. When an upstream value is accepted as a post, the value that was decoded
  has no member named ip and none named raw, cloak, session or permissions, at any depth; and a
  value that has such a sensitive member outside an ip member is refused.
\<close>

theorem redaction_complete:
  assumes "snd (decoded_post_try_from cd v) = Inr d"
  shows "post_from_value cd (snd (drop_ip_fields v)) = Inr (dp_post d) \<and>
    json_keys (snd (drop_ip_fields v)) \<subseteq> json_keys v - {''ip'', ''raw'', ''cloak'', ''session'', ''permissions''}"
proof -
  have r: "snd (reject_sensitive_fields (snd (drop_ip_fields v))) = Inr ()"
    and p: "post_from_value cd (snd (drop_ip_fields v)) = Inr (dp_post d)"
    using assms by (simp_all add: decoded_post_try_from_Inr)
  have "\<forall>k \<in> json_keys (snd (drop_ip_fields v)). \<not> sensitive_key k"
    using r by (simp add: reject_sensitive_fields_iff)
  then show ?thesis
    using p drop_ip_fields_subset [of v] drop_ip_fields_no_ip [of v] by (auto simp: sensitive_key_def)
qed

definition sample_json :: json where
  "sample_json = JObject [(''board'', JString ''i''), (''date'', JString ''000000000000''),
     (''ip'', JObject [(''cloak'', JString ''abc''), (''raw'', JNull)]), (''message'', JString ''hello''),
     (''postId'', json_int 101), (''thread'', json_int 100)]"

definition sample_upstream :: upstream_post where
  "sample_upstream = \<lparr>up_date = be_dec 0 ''000000000000'', up_name = None, up_country = None,
     up_board = ''i'', up_public_tripcode = None, up_capcode = None, up_donor = None, up_subject = None,
     up_message = Some ''hello'', up_nomarkup = None, up_thread = Some 100, up_id = 101, up_files = [],
     up_quotes = [], up_backlinks = []\<rparr>"

lemma sample_dropped:
  "drop_ip_fields sample_json = ([MInc REDACTION_DROPS []],
     JObject [(''board'', JString ''i''), (''date'', JString ''000000000000''), (''message'', JString ''hello''),
       (''postId'', json_int 101), (''thread'', json_int 100)])"
  by (simp add: sample_json_def map_remove_def json_int_def)

lemma sample_decoded:
  "decoded_post_try_from ref_codec sample_json =
     ([MInc REDACTION_DROPS []], Inr \<lparr>dp_post = sample_upstream, dp_poster_identity = Some ''abc''\<rparr>)"
proof -
  have id: "poster_identity_source sample_json = Some ''abc''"
    by (simp add: poster_identity_source_def sample_json_def json_get_def as_str_def str_trim_def trim_chars_def
        is_cont_byte_def byte_def char_is_whitespace_def)
  have i: "as_i64 (json_int 100) = Some 100" "as_i64 (json_int 101) = Some 101"
    by (simp_all add: as_i64_json_int i64_defs)
  have o: "opt_field as_i64 (Some (json_int 100)) = Some (Some 100)"
    using i(1) by (simp add: opt_field_def json_int_def)
  have c: "opt_field dec None = Some None" "opt_field dec (Some (JString s)) = map_option Some (dec (JString s))"
    for dec :: "json \<Rightarrow> string option" and s by (simp_all add: opt_field_def)
  have e: "opt_field decode_country None = Some None" "opt_field as_bool None = Some None"
    by (simp_all add: opt_field_def)
  have rej: "reject_sensitive_fields (snd (drop_ip_fields sample_json)) = ([], Inr ())"
    by (rule reject_sensitive_fields_ok) (simp add: sample_dropped sensitive_key_def)
  have "post_from_value ref_codec (snd (drop_ip_fields sample_json)) = Inr sample_upstream"
    by (simp add: sample_dropped post_from_value_def struct_field_def struct_shape_def req_field_def as_str_def
        vec_field_def i o c e sample_upstream_def)
  with rej id show ?thesis
    by (simp add: decoded_post_try_from_def Let_def bindW_def tellW_def pureW_def) (simp add: sample_dropped)
qed

theorem redaction_complete_witness:
  "json_keys (snd (drop_ip_fields sample_json)) \<subseteq>
     json_keys sample_json - {''ip'', ''raw'', ''cloak'', ''session'', ''permissions''}"
proof -
  have "snd (decoded_post_try_from ref_codec sample_json) =
      Inr \<lparr>dp_post = sample_upstream, dp_poster_identity = Some ''abc''\<rparr>"
    by (simp add: sample_decoded)
  from redaction_complete [OF this] show ?thesis by blast
qed



section \<open>Identity\<close>

text \<open>
  An event identifier names one post: two events have the same identifier exactly when they have
  the same kind, board and post number, whatever bytes the upstream board name contains.
\<close>

theorem event_id_identifies:
  "event_id_of k b i = event_id_of k' b' i' \<longleftrightarrow> k = k' \<and> b = b' \<and> i = i'"
  using event_id_inj by blast


definition constant_crypto :: crypto where
  "constant_crypto = \<lparr>hmac_sha256 = (\<lambda>_ _. ''d''), hex_encode = (\<lambda>b. b), hex_decode = Some\<rparr>"


section \<open>Ingestion\<close>


definition sample_built :: built_event where
  "sample_built = (let e = \<lparr>we_schema_version = V1, we_event_id = event_id_of PostCreated ''i'' 101,
       we_kind = PostCreated, we_source = ''ptchan'', we_observed_at = 7,
       we_post = contract_post ''https://ptchan.test'' sample_upstream\<rparr> in
     \<lparr>be_event = e, be_payload = json_to_vec ref_codec (webhook_event_json ref_codec e), be_poster_identity = Some ''abc''\<rparr>)"

lemma sample_gateway_event:
  "snd (gateway_event ref_codec ''https://ptchan.test'' sample_json 7) = Inr sample_built"
  by (simp add: gateway_event_def sample_decoded encode_event_ok [OF ref_codec_json] sample_built_def Let_def
      del: ref_codec_sel) (simp add: sample_upstream_def)

lemma sample_built_board: "p_board (we_post (be_event sample_built)) = ''i''"
  by (simp add: sample_built_def Let_def sample_upstream_def)

lemma sample_allowed:
  "filter (\<lambda>w. wc_board_allowed w (p_board (we_post (be_event sample_built)))) (cf_webhooks sample_config) = [sample_webhook]"
  by (simp add: sample_built_board sample_config_def sample_webhook_def wc_board_allowed_def board_allowed_def)

lemma sample_empty_wf: "db_wf sample_empty" "db_events sample_empty = []"
  by (simp_all add: db_wf_def sample_empty_def)

lemma sample_object: "json_is_object sample_json"
  by (simp add: json_is_object_def sample_json_def)

definition sample_ingest :: ingest_result where
  "sample_ingest = new_post ref_codec ref_crypto ''https://ptchan.test'' [sample_json] (cf_webhooks sample_config)
     (origin_matcher_new (cf_postings sample_config)) (cf_fingerprint_secret sample_config) 7 False sample_empty"


text \<open>
  C16: ingestion is all or nothing. Every post, whatever it contains and whatever SQLite does, is counted
  exactly once in the socket event counter; the delivery loop is woken exactly when the database
  changed; a well-formed database stays well formed; and all metric updates use the labels of
  their family.
\<close>

theorem ingest_atomic:
  "let r = new_post cd cr base payload webhooks origins secret now fault db in
     event_count (ir_ops r) = 1 \<and> (ir_wakeup r \<longleftrightarrow> ir_db r \<noteq> db) \<and> (db_wf db \<longrightarrow> db_wf (ir_db r)) \<and>
     list_all metric_op_ok (ir_ops r)"
proof -
  have one: "event_count [MInc SOCKET_EVENTS ls] = 1" "event_count [MInc SOCKET_EVENTS ls, MSetNow m] = 1" for ls m
    by (simp_all add: event_count_def)
  have zero: "event_count ops = 0 \<and> list_all metric_op_ok ops"
    if "set ops \<subseteq> {MInc REDACTION_DROPS [], MInc SQLITE_ERRORS []}" for ops
    using that by (auto simp: event_count_def filter_empty_conv list_all_iff)
  show ?thesis
  proof (rule new_post_cases [of cd cr base payload webhooks origins secret now fault db])
    fix ops label
    assume "new_post cd cr base payload webhooks origins secret now fault db = ingest_stop ops label db"
      and "set ops \<subseteq> {MInc REDACTION_DROPS [], MInc SQLITE_ERRORS []}"
    then show ?thesis using zero [of ops] one by (simp add: Let_def ingest_stop_def)
  next
    fix ops event encoded ds
    assume c: "snd (fst (create_event cd fault event encoded ds db)) = Inr True"
      and r: "new_post cd cr base payload webhooks origins secret now fault db =
         \<lparr>ir_ops = ops @ [MInc SOCKET_EVENTS [''queued''], MSetNow SOCKET_LAST_EVENT_TIMESTAMP_SECONDS],
          ir_db = snd (create_event cd fault event encoded ds db), ir_wakeup = True\<rparr>"
      and "set ops \<subseteq> {MInc REDACTION_DROPS [], MInc SQLITE_ERRORS []}"
    moreover have "db_events (snd (create_event cd fault event encoded ds db)) \<noteq> db_events db"
      using create_event_cases [of event db ds cd fault encoded] by cases (use c in auto)
    then have "snd (create_event cd fault event encoded ds db) \<noteq> db" by metis
    ultimately show ?thesis
      using zero [of ops] one db_wf_create_event by (simp add: Let_def)
  qed
qed

theorem ingest_atomic_witness: "db_wf (ir_db sample_ingest) \<and> event_count (ir_ops sample_ingest) = 1"
  using ingest_atomic [of ref_codec ref_crypto "''https://ptchan.test''" "[sample_json]" "cf_webhooks sample_config"
      "origin_matcher_new (cf_postings sample_config)" "cf_fingerprint_secret sample_config" 7 False sample_empty]
    sample_empty_wf(1)
  unfolding sample_ingest_def [symmetric] Let_def by blast

text \<open>
  The same post arriving again changes nothing. Once a post has been queued, ingesting the same
  payload later, at any time, with any webhooks, origins and secret, leaves the database as it
  is and does not wake the loop.
\<close>

theorem ingest_repeat:
  assumes "ir_wakeup (new_post cd cr base payload webhooks origins secret now fault db)"
    and "db' = ir_db (new_post cd cr base payload webhooks origins secret now fault db)"
  shows "ir_db (new_post cd cr base payload webhooks' origins' secret' now' fault' db') = db' \<and>
    \<not> ir_wakeup (new_post cd cr base payload webhooks' origins' secret' now' fault' db')"
proof (rule new_post_cases [of cd cr base payload webhooks origins secret now fault db])
  fix ops label
  assume "new_post cd cr base payload webhooks origins secret now fault db = ingest_stop ops label db"
  then show ?thesis using assms(1) by (simp add: ingest_stop_def)
next
  fix ops ev encoded ds
  assume c: "snd (fst (create_event cd fault ev encoded ds db)) = Inr True"
    and r: "new_post cd cr base payload webhooks origins secret now fault db =
         \<lparr>ir_ops = ops @ [MInc SOCKET_EVENTS [''queued''], MSetNow SOCKET_LAST_EVENT_TIMESTAMP_SECONDS],
          ir_db = snd (create_event cd fault ev encoded ds db), ir_wakeup = True\<rparr>"
    and i: "\<exists>v rest built. payload = v # rest \<and> snd (gateway_event cd base v now) = Inr built \<and>
         we_event_id ev = we_event_id (be_event built)"
  have stored: "we_event_id ev \<in> ev_id ` set (db_events db')"
    using create_event_cases [of ev db ds cd fault encoded]
    by cases (use c r assms(2) in \<open>auto simp: event_row_of_def\<close>)
  show ?thesis
  proof (rule new_post_cases [of cd cr base payload webhooks' origins' secret' now' fault' db'])
    fix ops label
    assume "new_post cd cr base payload webhooks' origins' secret' now' fault' db' = ingest_stop ops label db'"
    then show ?thesis by (simp add: ingest_stop_def)
  next
    fix ops' ev' encoded' ds'
    assume c': "snd (fst (create_event cd fault' ev' encoded' ds' db')) = Inr True"
      and i': "\<exists>v rest built. payload = v # rest \<and> snd (gateway_event cd base v now') = Inr built \<and>
         we_event_id ev' = we_event_id (be_event built)"
    from i i' obtain v b b' where v: "snd (gateway_event cd base v now) = Inr b" "snd (gateway_event cd base v now') = Inr b'"
      "we_event_id ev = we_event_id (be_event b)" "we_event_id ev' = we_event_id (be_event b')" by auto
    have "we_event_id (be_event b) = we_event_id (be_event b')"
      by (rule gateway_event_Inr [OF v(1)], rule gateway_event_Inr [OF v(2)]) simp
    then have "we_event_id ev' \<in> ev_id ` set (db_events db')" using stored v by simp
    then show ?thesis using c' create_event_cases [of ev' db' ds' cd fault' encoded'] by auto
  qed
qed

end
