(* ===== verification/Rate_Limit.thy ===== *)
theory Rate_Limit
  imports Config_Facts
begin

text \<open>
  Request rate limits (\<^verbatim>\<open>src/rate_limit.rs\<close>): one pair of limiters per integration and one global
  pair. The limiter itself is the governor crate's; the record \<open>governor\<close> holds the four operations
  the code calls, with the limiter's state made explicit, since \<^verbatim>\<open>check\<close> changes it behind a shared
  reference.
\<close>

record ('q, 'lim) governor =
  quota_with_period :: "duration \<Rightarrow> 'q option"
  quota_allow_burst :: "'q \<Rightarrow> 32 word \<Rightarrow> 'q"
  limiter_direct :: "'q \<Rightarrow> 'lim"
  limiter_check :: "'lim \<Rightarrow> datetime \<Rightarrow> bool \<times> 'lim"

text \<open>governor documents that \<^verbatim>\<open>Quota::with_period\<close> refuses only the zero period.\<close>

definition governor_periods :: "('q, 'lim) governor \<Rightarrow> bool" where
  "governor_periods g = (\<forall>d. quota_with_period g d = None \<longrightarrow> d = 0)"

datatype capability = Reading | Posting

datatype rate_limit_rejection = RejectedByIntegration | RejectedByGlobal

fun rejection_str :: "rate_limit_rejection \<Rightarrow> string" where
  "rejection_str RejectedByIntegration = ''integration''"
| "rejection_str RejectedByGlobal = ''global''"

record 'lim capability_limiters =
  cl_reading :: 'lim
  cl_posting :: 'lim

record 'lim rate_limiters =
  rls_integrations :: "string \<Rightarrow> 'lim capability_limiters option"
  rls_global :: "'lim capability_limiters"

datatype limiter_error = LimiterRequestsZero | LimiterBurstZero | LimiterWindowTooSmall

definition limiter :: "('q, 'lim) governor \<Rightarrow> bucket_config \<Rightarrow> limiter_error + 'lim" where
  "limiter g cfg =
     bindE (ensureE (bk_requests cfg \<noteq> 0) LimiterRequestsZero) (\<lambda>_.
     bindE (ensureE (bk_burst cfg \<noteq> 0) LimiterBurstZero) (\<lambda>_.
     bindE (ok_or (quota_with_period g (bk_window cfg div unat (bk_requests cfg))) LimiterWindowTooSmall)
       (\<lambda>quota. Inr (limiter_direct g (quota_allow_burst g quota (bk_burst cfg))))))"

definition capability_limiters_new ::
  "('q, 'lim) governor \<Rightarrow> bucket_config \<Rightarrow> bucket_config \<Rightarrow> limiter_error + 'lim capability_limiters" where
  "capability_limiters_new g reading posting =
     bindE (limiter g reading) (\<lambda>r.
     bindE (limiter g posting) (\<lambda>p. Inr \<lparr>cl_reading = r, cl_posting = p\<rparr>))"

definition rate_limiters_new ::
  "('q, 'lim) governor \<Rightarrow> integration_config list \<Rightarrow> rate_limit_config \<Rightarrow> limiter_error + 'lim rate_limiters" where
  "rate_limiters_new g integrations global =
     bindE (traverseE (\<lambda>i.
        bindE (capability_limiters_new g (rl_reading (ic_rate_limit i)) (rl_posting (ic_rate_limit i)))
          (\<lambda>l. Inr (ic_name i, l))) integrations) (\<lambda>pairs.
     bindE (capability_limiters_new g (rl_reading global) (rl_posting global)) (\<lambda>gl.
     Inr \<lparr>rls_integrations = collect_map fst snd pairs, rls_global = gl\<rparr>))"

definition capability_check ::
  "('q, 'lim) governor \<Rightarrow> datetime \<Rightarrow> capability \<Rightarrow> 'lim capability_limiters \<Rightarrow> bool \<times> 'lim capability_limiters" where
  "capability_check g now cap l = (case cap of
     Reading \<Rightarrow> (let (ok, x) = limiter_check g (cl_reading l) now in (ok, l\<lparr>cl_reading := x\<rparr>))
   | Posting \<Rightarrow> (let (ok, x) = limiter_check g (cl_posting l) now in (ok, l\<lparr>cl_posting := x\<rparr>)))"

text \<open>The integration's own limiter is asked first; the global one only when that one accepts.\<close>

definition rate_check ::
  "('q, 'lim) governor \<Rightarrow> datetime \<Rightarrow> capability \<Rightarrow> string \<Rightarrow> 'lim rate_limiters
     \<Rightarrow> (rate_limit_rejection + unit) \<times> 'lim rate_limiters" where
  "rate_check g now cap integration rls =
     (let (own_ok, rls1) = (case rls_integrations rls integration of
             None \<Rightarrow> (True, rls)
           | Some l \<Rightarrow> (let (ok, l') = capability_check g now cap l in
               (ok, rls\<lparr>rls_integrations := (rls_integrations rls)(integration \<mapsto> l')\<rparr>)))
      in if \<not> own_ok then (Inl RejectedByIntegration, rls1)
         else (let (ok, gl) = capability_check g now cap (rls_global rls1);
                   rls2 = rls1\<lparr>rls_global := gl\<rparr>
               in (if ok then Inr () else Inl RejectedByGlobal, rls2)))"

definition check_reading ::
  "('q, 'lim) governor \<Rightarrow> datetime \<Rightarrow> string \<Rightarrow> 'lim rate_limiters
     \<Rightarrow> (rate_limit_rejection + unit) \<times> 'lim rate_limiters" where
  "check_reading g now = rate_check g now Reading"

definition check_posting ::
  "('q, 'lim) governor \<Rightarrow> datetime \<Rightarrow> string \<Rightarrow> 'lim rate_limiters
     \<Rightarrow> (rate_limit_rejection + unit) \<times> 'lim rate_limiters" where
  "check_posting g now = rate_check g now Posting"

section \<open>A counting limiter\<close>

text \<open>The simplest instance of the record: a bucket that is never refilled. It shows that what is assumed of governor can hold.\<close>

definition counting_governor :: "(32 word, nat) governor" where
  "counting_governor = \<lparr>
     quota_with_period = (\<lambda>d. if d = 0 then None else Some 1),
     quota_allow_burst = (\<lambda>_ burst. burst),
     limiter_direct = unat,
     limiter_check = (\<lambda>n _. if n = 0 then (False, 0) else (True, n - 1))\<rparr>"

lemma counting_governor_periods: "governor_periods counting_governor"
  by (simp add: governor_periods_def counting_governor_def)

section \<open>Construction\<close>

lemma limiter_ok:
  assumes "governor_periods g" and "bucket_valid b"
  shows "is_ok (limiter g b)"
proof -
  have pos: "0 < unat (bk_requests b)" using assms(2) by (simp add: bucket_valid_def unat_gt_0)
  then have "bk_window b div unat (bk_requests b) \<noteq> 0"
    using assms(2) by (auto simp: bucket_valid_def div_eq_0_iff not_less)
  then obtain q where "quota_with_period g (bk_window b div unat (bk_requests b)) = Some q"
    using assms(1) by (metis governor_periods_def option.exhaust)
  then show ?thesis using assms(2) by (simp add: limiter_def bucket_valid_def)
qed

lemma capability_limiters_new_ok:
  assumes "governor_periods g" and "rate_limit_valid rl"
  shows "is_ok (capability_limiters_new g (rl_reading rl) (rl_posting rl))"
proof -
  obtain r p where "limiter g (rl_reading rl) = Inr r" "limiter g (rl_posting rl) = Inr p"
    using limiter_ok assms by (metis is_ok_iff rate_limit_valid_def)
  then show ?thesis by (simp add: capability_limiters_new_def)
qed

lemma rate_limiters_new_ok:
  assumes "governor_periods g" and "\<forall>i \<in> set is. rate_limit_valid (ic_rate_limit i)"
    and "rate_limit_valid gl"
  shows "is_ok (rate_limiters_new g is gl)"
proof -
  have "is_ok (bindE (capability_limiters_new g (rl_reading (ic_rate_limit i)) (rl_posting (ic_rate_limit i)))
      (\<lambda>l. Inr (ic_name i, l)))" if "i \<in> set is" for i
    using that assms capability_limiters_new_ok [of g "ic_rate_limit i"] by (auto simp: is_ok_iff)
  then obtain ps where "traverseE (\<lambda>i. bindE (capability_limiters_new g (rl_reading (ic_rate_limit i))
      (rl_posting (ic_rate_limit i))) (\<lambda>l. Inr (ic_name i, l))) is = Inr ps"
    using traverseE_is_ok by (metis (no_types, lifting) is_ok_iff)
  moreover obtain x where "capability_limiters_new g (rl_reading gl) (rl_posting gl) = Inr x"
    using capability_limiters_new_ok [OF assms(1,3)] by (auto simp: is_ok_iff)
  ultimately show ?thesis by (simp add: rate_limiters_new_def)
qed

text \<open>Every configured integration has limiters of its own.\<close>

lemma rate_limiters_new_integrations:
  assumes "rate_limiters_new g is gl = Inr rls" and "i \<in> set is"
  shows "rls_integrations rls (ic_name i) \<noteq> None"
proof -
  obtain ps where ps: "list_all2 (\<lambda>i y. bindE (capability_limiters_new g (rl_reading (ic_rate_limit i))
      (rl_posting (ic_rate_limit i))) (\<lambda>l. Inr (ic_name i, l)) = Inr y) is ps"
    and r: "rls_integrations rls = collect_map fst snd ps"
    using assms(1) by (auto simp: rate_limiters_new_def res_simps traverseE_Inr_iff)
  from ps assms(2) have "ic_name i \<in> fst ` set ps"
    by (induction rule: list_all2_induct) (auto simp: res_simps)
  then show ?thesis using r collect_map_None_iff [of fst snd ps "ic_name i"] by simp
qed

section \<open>Checking\<close>

lemma capability_check_other:
  "cap \<noteq> cap' \<Longrightarrow> capability_check g now cap l = (ok, l') \<Longrightarrow>
     (case cap' of Reading \<Rightarrow> cl_reading | Posting \<Rightarrow> cl_posting) l' =
     (case cap' of Reading \<Rightarrow> cl_reading | Posting \<Rightarrow> cl_posting) l"
  by (cases cap; cases cap') (auto simp: capability_check_def split: prod.splits)

lemma rate_check_cases:
  assumes "rate_check g now cap who rls = (res, rls')"
  obtains (own) l l' where "rls_integrations rls who = Some l" "capability_check g now cap l = (False, l')"
      "res = Inl RejectedByIntegration" "rls' = rls\<lparr>rls_integrations := (rls_integrations rls)(who \<mapsto> l')\<rparr>"
  | (global) m gl ok where
      "rls_integrations rls who = None \<and> m = rls_integrations rls \<or>
       (\<exists>l l'. rls_integrations rls who = Some l \<and> capability_check g now cap l = (True, l') \<and>
          m = (rls_integrations rls)(who \<mapsto> l'))"
      "capability_check g now cap (rls_global rls) = (ok, gl)"
      "res = (if ok then Inr () else Inl RejectedByGlobal)"
      "rls' = rls\<lparr>rls_integrations := m, rls_global := gl\<rparr>"
  using assms
  by (auto simp: rate_check_def Let_def split: option.splits prod.splits if_splits)

text \<open>A rejection by the integration's own limiter costs the global budget nothing.\<close>

lemma rate_check_own_rejection_keeps_global:
  "rate_check g now cap who rls = (Inl RejectedByIntegration, rls') \<Longrightarrow> rls_global rls' = rls_global rls"
  by (erule rate_check_cases) (auto split: if_splits)

lemma rate_check_isolates:
  "rate_check g now cap who rls = (res, rls') \<Longrightarrow> other \<noteq> who \<Longrightarrow>
     rls_integrations rls' other = rls_integrations rls other"
  by (erule rate_check_cases) auto

end
