(* ===== verification/Config_Properties.thy ===== *)
theory Config_Properties
  imports Sample_Data Rate_Limit Origin
begin

text \<open>
  Properties of configuration, rate limits and attribution.
\<close>

section \<open>Validation\<close>

text \<open>
  C20: validation accepts exactly the configurations that satisfy the declarative conditions of
  \<open>config_valid\<close>: the loop that threads the sets of names, environment names and tripcodes through
  the integrations computes pairwise distinctness, and the division in the rate limit check says
  that the window holds at least one nanosecond per request.
\<close>

theorem validate_spec:
  "validate url_ok addr_ok c = Inr () \<longleftrightarrow>
     str_trim (base_url (fc_ptchan c)) \<noteq> [] \<and> url_ok (base_url (fc_ptchan c)) \<and>
     addr_ok (runtime_addr_text (http_addr (fc_runtime c))) \<and>
     str_trim (sqlite_path (fc_storage c)) \<noteq> [] \<and> 0 < event_retention (fc_storage c) \<and>
     rate_limit_valid (rt_rate_limit (fc_runtime c)) \<and>
     list_all (integration_valid url_ok) (fc_integrations c) \<and>
     distinct (map (env_safe_name \<circ> fi_name) (fc_integrations c)) \<and>
     distinct (concat (map tripcodes_of (fc_integrations c)))"
  unfolding validate_iff config_valid_def ..

text \<open>
  C24: no two integrations of a valid configuration read the same secret. The environment variables of
  different integrations, and of different kinds of secret, are different variables.
\<close>

theorem secrets_separate:
  assumes "validate url_ok addr_ok c = Inr ()"
    and "i < length (fc_integrations c)" and "j < length (fc_integrations c)"
    and "(i, k) \<noteq> (j, k')"
  shows "secret_env k (fi_name (fc_integrations c ! i)) \<noteq> secret_env k' (fi_name (fc_integrations c ! j))"
proof
  assume same: "secret_env k (fi_name (fc_integrations c ! i)) = secret_env k' (fi_name (fc_integrations c ! j))"
  have d: "distinct (map (env_safe_name \<circ> fi_name) (fc_integrations c))"
    using assms(1) by (simp add: validate_iff config_valid_def)
  have "k = k'" and "env_safe_name (fi_name (fc_integrations c ! i)) = env_safe_name (fi_name (fc_integrations c ! j))"
    using secret_env_inj [OF same] by simp_all
  then show False
    using nth_eq_iff_index_eq [OF d, of i j] assms(2-4) by simp
qed

lemma sample_file_valid: "validate (\<lambda>_. True) (\<lambda>_. True) sample_file = Inr ()"
  using sample_resolved by (auto simp: resolve_def res_simps)

theorem secrets_separate_witness: "integration_tripcode_env ''hook'' \<noteq> integration_post_password_env ''hook''"
  using secrets_separate [OF sample_file_valid, of 0 0 TripcodeSecret PostPassword] by (simp add: sample_file_def)

section \<open>Rate limits\<close>

text \<open>
  A resolved configuration always yields its rate limiters: construction cannot fail at startup,
  given that governor refuses only the zero period, and every integration gets limiters of its own.
\<close>

theorem resolved_limiters_build:
  assumes "governor_periods g" and "resolve url_ok addr_ok get f = Inr c"
  shows "\<exists>rls. rate_limiters_new g (cf_integrations c) (rt_rate_limit (cf_runtime c)) = Inr rls \<and>
    (\<forall>i \<in> set (cf_integrations c). rls_integrations rls (ic_name i) \<noteq> None)"
proof -
  have "is_ok (rate_limiters_new g (cf_integrations c) (rt_rate_limit (cf_runtime c)))"
    using rate_limiters_new_ok [OF assms(1)] resolve_rate_limits_valid [OF assms(2)] by blast
  then obtain rls where "rate_limiters_new g (cf_integrations c) (rt_rate_limit (cf_runtime c)) = Inr rls"
    by (auto simp: is_ok_iff)
  then show ?thesis using rate_limiters_new_integrations by blast
qed

text \<open>
  Rate limits do not leak between integrations. A check changes only the limiters of the
  integration that asks and the global ones, of the capability that is asked for; a
  request refused by the integration's own limiter takes nothing from the global budget; and a
  request passes exactly when both limiters accept it.
\<close>

theorem rate_check_isolated:
  assumes "rate_check g now cap who rls = (res, rls')" and "other \<noteq> who" and "cap' \<noteq> cap"
  shows "rls_integrations rls' other = rls_integrations rls other \<and>
    (case cap' of Reading \<Rightarrow> cl_reading | Posting \<Rightarrow> cl_posting) (rls_global rls') =
      (case cap' of Reading \<Rightarrow> cl_reading | Posting \<Rightarrow> cl_posting) (rls_global rls) \<and>
    (res = Inl RejectedByIntegration \<longrightarrow> rls_global rls' = rls_global rls) \<and>
    (res = Inr () \<longleftrightarrow> fst (capability_check g now cap (rls_global rls)) \<and>
       (\<forall>l. rls_integrations rls who = Some l \<longrightarrow> fst (capability_check g now cap l)))"
proof -
  have "(case cap' of Reading \<Rightarrow> cl_reading | Posting \<Rightarrow> cl_posting) (rls_global rls') =
      (case cap' of Reading \<Rightarrow> cl_reading | Posting \<Rightarrow> cl_posting) (rls_global rls)"
    using assms(1) by (rule rate_check_cases) (use assms(3) capability_check_other [of cap cap' g now] in auto)
  moreover have "res = Inr () \<longleftrightarrow> fst (capability_check g now cap (rls_global rls)) \<and>
       (\<forall>l. rls_integrations rls who = Some l \<longrightarrow> fst (capability_check g now cap l))"
    using assms(1) by (rule rate_check_cases) (auto split: if_splits)
  ultimately show ?thesis
    using rate_check_isolates [OF assms(1,2)] rate_check_own_rejection_keeps_global assms(1) by blast
qed

section \<open>Attribution\<close>

text \<open>
  C25: under a resolved configuration a post is attributed to an integration exactly when its tripcode
  is the public tripcode configured for that integration's postings; the attribution is unambiguous,
  since a tripcode belongs to one posting configuration, and it changes nothing else of the post.
\<close>

theorem attribution_exact:
  assumes "resolve url_ok addr_ok get f = Inr c"
  shows "(p_origin (annotate_post (origin_matcher_new (cf_postings c)) p) = Some po \<longleftrightarrow>
      (\<exists>pc \<in> set (cf_postings c). p_tripcode p = Some (pc_public_tripcode pc) \<and> po_name po = pc_name pc)) \<and>
    (annotate_post (origin_matcher_new (cf_postings c)) p)\<lparr>p_origin := p_origin p\<rparr> = p \<and>
    distinct (map pc_public_tripcode (cf_postings c))"
proof -
  have d: "distinct (map pc_public_tripcode (cf_postings c))" by (rule tripcodes_resolved [OF assms])
  have "origin_matcher_new (cf_postings c) t = Some n \<longleftrightarrow>
      (\<exists>pc \<in> set (cf_postings c). t = pc_public_tripcode pc \<and> n = pc_name pc)" for t n
  proof
    assume "origin_matcher_new (cf_postings c) t = Some n"
    then show "\<exists>pc \<in> set (cf_postings c). t = pc_public_tripcode pc \<and> n = pc_name pc"
      unfolding origin_matcher_new_def by (auto dest: collect_map_Some_D)
  next
    assume "\<exists>pc \<in> set (cf_postings c). t = pc_public_tripcode pc \<and> n = pc_name pc"
    then show "origin_matcher_new (cf_postings c) t = Some n"
      unfolding origin_matcher_new_def using collect_map_distinct [OF d] by auto
  qed
  then show ?thesis using d annotate_post_origin by (auto simp: annotate_post_def)
qed

theorem attribution_exact_witness:
  "p_origin (annotate_post (origin_matcher_new (cf_postings sample_config))
     (sample_post\<lparr>p_tripcode := Some ''!!abcdefgh1=''\<rparr>)) = Some \<lparr>po_kind = OriginIntegration, po_name = ''hook''\<rparr>"
  using attribution_exact [OF sample_resolved, of "sample_post\<lparr>p_tripcode := Some ''!!abcdefgh1=''\<rparr>"
      "\<lparr>po_kind = OriginIntegration, po_name = ''hook''\<rparr>"]
  by (simp add: sample_config_def sample_posting_def)

end
