(* ===== verification/Protocol.thy ===== *)
theory Protocol
  imports Contract
begin

text \<open>
  Engine.IO and Socket.IO packets (\<^verbatim>\<open>src/socket/protocol.rs\<close>).
\<close>

record heartbeat =
  ping_interval :: duration
  ping_timeout :: duration

datatype packet =
    EngineOpen heartbeat
  | EnginePing
  | EngineClose
  | SocketConnected
  | SocketDisconnected nat
  | SocketEvent string "json list"
  | SocketError nat
  | Ignored string string

datatype protocol_error =
    PacketCode | OpenNotJson | OpenNotObject | OpenHeartbeat string
  | SocketIoCode | EventNotJson | EventUnnamed | EventNameNotText

text \<open>\<^verbatim>\<open>str::split_at_checked(1)\<close>: there is a byte, and a character boundary after it.\<close>

definition split_code :: "string \<Rightarrow> (string \<times> string) option" where
  "split_code s = (case s of
     [] \<Rightarrow> None
   | c # r \<Rightarrow> if r \<noteq> [] \<and> is_cont_byte (hd r) then None else Some ([c], r))"

definition packet_millis :: "json_map \<Rightarrow> string \<Rightarrow> protocol_error + duration" where
  "packet_millis m name =
     (case Option.bind (map_of m name) as_u64 of
        Some w \<Rightarrow> if w > 0 then Inr (dur_millis (unat w)) else Inl (OpenHeartbeat name)
      | None \<Rightarrow> Inl (OpenHeartbeat name))"

definition decode_engine_open :: "codec \<Rightarrow> string \<Rightarrow> protocol_error + packet" where
  "decode_engine_open cd payload =
     bindE (ok_or (json_from_slice cd payload) OpenNotJson) (\<lambda>v.
     bindE (ok_or (as_object v) OpenNotObject) (\<lambda>m.
     bindE (packet_millis m ''pingInterval'') (\<lambda>interval.
     bindE (packet_millis m ''pingTimeout'') (\<lambda>timeout.
     Inr (EngineOpen \<lparr>ping_interval = interval, ping_timeout = timeout\<rparr>)))))"

definition decode_event :: "codec \<Rightarrow> string \<Rightarrow> protocol_error + packet" where
  "decode_event cd payload =
     bindE (ok_or (Option.bind (json_from_slice cd payload) as_array) EventNotJson) (\<lambda>values.
     case values of
       [] \<Rightarrow> Inl EventUnnamed
     | v # vs \<Rightarrow> bindE (ok_or (as_str v) EventNameNotText) (\<lambda>name. Inr (SocketEvent name vs)))"

definition decode_socketio :: "codec \<Rightarrow> string \<Rightarrow> protocol_error + packet" where
  "decode_socketio cd text =
     bindE (ok_or (split_code text) SocketIoCode) (\<lambda>(code, payload).
     if code = ''0'' then Inr SocketConnected
     else if code = ''1'' then Inr (SocketDisconnected (length payload))
     else if code = ''2'' then decode_event cd payload
     else if code = ''4'' then Inr (SocketError (length payload))
     else Inr (Ignored ''socket.io'' code))"

definition decode :: "codec \<Rightarrow> string \<Rightarrow> protocol_error + packet" where
  "decode cd text =
     bindE (ok_or (split_code text) PacketCode) (\<lambda>(code, payload).
     if code = ''0'' then decode_engine_open cd payload
     else if code = ''1'' then Inr EngineClose
     else if code = ''2'' then Inr EnginePing
     else if code = ''4'' then decode_socketio cd payload
     else Inr (Ignored ''engine.io'' code))"

section \<open>Facts\<close>

lemma split_code_Cons: "split_code (c # r) = Some ([c], r) \<longleftrightarrow> r = [] \<or> \<not> is_cont_byte (hd r)"
  by (auto simp: split_code_def)

lemma split_code_Some: "split_code s = Some (code, r) \<Longrightarrow> s = code @ r \<and> length code = 1"
  by (auto simp: split_code_def split: list.splits if_splits)

lemma packet_millis_Inr:
  "packet_millis m name = Inr d \<longleftrightarrow>
     (\<exists>w. map_of m name = Some (JNumber (PosInt w)) \<and> 0 < w \<and> d = dur_millis (unat w))"
proof (cases "Option.bind (map_of m name) as_u64")
  case None
  then have "map_of m name \<noteq> Some (JNumber (PosInt w))" for w by (auto simp: as_u64_def)
  with None show ?thesis by (simp add: packet_millis_def)
next
  case (Some w)
  then have "map_of m name = Some (JNumber (PosInt w))" by (auto simp: bind_eq_Some_conv as_u64_iff)
  with Some show ?thesis by (auto simp: packet_millis_def)
qed

lemma packet_millis_pos: "packet_millis m name = Inr d \<Longrightarrow> dur_millis 1 \<le> d"
proof -
  assume "packet_millis m name = Inr d"
  then obtain w :: "64 word" where "0 < w" "d = dur_millis (unat w)" by (auto simp: packet_millis_Inr)
  moreover from this have "1 \<le> unat w" by (simp add: unat_gt_0 Suc_le_eq word_neq_0_conv)
  ultimately show ?thesis by (simp add: dur_millis_def)
qed

lemma decode_event_Inr:
  "decode_event cd q = Inr p \<longleftrightarrow>
     (\<exists>name vs. json_from_slice cd q = Some (JArray (JString name # vs)) \<and> p = SocketEvent name vs)"
  by (auto simp: decode_event_def res_simps accessor_iff bind_eq_Some_conv split: list.splits)
     (metis list.exhaust)+

lemma decode_socketio_not_open: "decode_socketio cd text \<noteq> Inr (EngineOpen h)"
  by (auto simp: decode_socketio_def decode_event_Inr bindE_def split: sum.splits if_splits)

lemma decode_open:
  assumes "decode cd text = Inr (EngineOpen h)"
  shows "dur_millis 1 \<le> ping_interval h \<and> dur_millis 1 \<le> ping_timeout h"
proof -
  from assms obtain p where "decode_engine_open cd p = Inr (EngineOpen h)"
    by (auto simp: decode_def decode_socketio_not_open res_simps split: if_splits)
  then show ?thesis unfolding decode_engine_open_def res_simps
    using packet_millis_pos by (auto simp del: One_nat_def)
qed

lemma decode_socket_event:
  "decode cd text = Inr (SocketEvent name vs) \<longleftrightarrow>
     (\<exists>payload. text = ''42'' @ payload \<and> (payload = [] \<or> \<not> is_cont_byte (hd payload)) \<and>
        json_from_slice cd payload = Some (JArray (JString name # vs)))"
proof
  assume "decode cd text = Inr (SocketEvent name vs)"
  then obtain p where "split_code text = Some (''4'', p)" and d: "decode_socketio cd p = Inr (SocketEvent name vs)"
    by (auto simp: decode_def decode_engine_open_def res_simps split: if_splits)
  then have t: "text = ''4'' @ p" using split_code_Some by blast
  from d obtain q where q: "split_code p = Some (''2'', q)" and e: "decode_event cd q = Inr (SocketEvent name vs)"
    by (auto simp: decode_socketio_def res_simps split: if_splits)
  from q have p: "p = ''2'' @ q" using split_code_Some by blast
  with q have "q = [] \<or> \<not> is_cont_byte (hd q)" by (simp add: split_code_Cons)
  moreover from e have "json_from_slice cd q = Some (JArray (JString name # vs))"
    by (auto simp: decode_event_Inr)
  ultimately show "\<exists>payload. text = ''42'' @ payload \<and> (payload = [] \<or> \<not> is_cont_byte (hd payload)) \<and>
        json_from_slice cd payload = Some (JArray (JString name # vs))" using t p by auto
next
  assume "\<exists>payload. text = ''42'' @ payload \<and> (payload = [] \<or> \<not> is_cont_byte (hd payload)) \<and>
        json_from_slice cd payload = Some (JArray (JString name # vs))"
  then obtain q where t: "text = ''42'' @ q" and q: "q = [] \<or> \<not> is_cont_byte (hd q)"
    and j: "json_from_slice cd q = Some (JArray (JString name # vs))" by blast
  have s: "split_code (''2'' @ q) = Some (''2'', q)" using q by (simp add: split_code_Cons)
  have "split_code text = Some (''4'', ''2'' @ q)"
    by (simp add: t split_code_Cons is_cont_byte_def byte_def)
  then show "decode cd text = Inr (SocketEvent name vs)"
    using s j by (simp add: decode_def decode_socketio_def decode_event_def as_array_def as_str_def)
qed

end
