(* ===== verification/Status.thy ===== *)
theory Status
  imports Metrics
begin

text \<open>
  The health flags shared by the tasks (\<^verbatim>\<open>src/runtime/status.rs\<close>) and the gauges that mirror them.
\<close>

record status =
  upstream_joined :: bool
  auth_healthy :: bool
  upstream_required :: bool

definition flag_gauge :: "metric \<Rightarrow> bool \<Rightarrow> metric_op" where
  "flag_gauge m b = MSet m [] (if b then 1 else 0)"

definition status_new :: "bool \<Rightarrow> metric_op list \<times> status" where
  "status_new required =
     ([flag_gauge UPSTREAM_REQUIRED required],
      \<lparr>upstream_joined = False, auth_healthy = False, upstream_required = required\<rparr>)"

definition set_upstream_joined :: "bool \<Rightarrow> status \<Rightarrow> metric_op list \<times> status" where
  "set_upstream_joined joined st = ([flag_gauge SOCKET_JOINED joined], st\<lparr>upstream_joined := joined\<rparr>)"

definition set_auth_healthy :: "bool \<Rightarrow> status \<Rightarrow> metric_op list \<times> status" where
  "set_auth_healthy healthy st =
     ([flag_gauge UPSTREAM_AUTH_HEALTHY healthy], st\<lparr>auth_healthy := healthy\<rparr>)"

definition ready :: "status \<Rightarrow> bool" where
  "ready st = (\<not> upstream_required st \<or> (auth_healthy st \<and> upstream_joined st))"

lemma status_setters [simp]:
  "snd (set_upstream_joined b st) = st\<lparr>upstream_joined := b\<rparr>"
  "snd (set_auth_healthy b st) = st\<lparr>auth_healthy := b\<rparr>"
  "fst (set_upstream_joined b st) = [flag_gauge SOCKET_JOINED b]"
  "fst (set_auth_healthy b st) = [flag_gauge UPSTREAM_AUTH_HEALTHY b]"
  by (simp_all add: set_upstream_joined_def set_auth_healthy_def)

lemma flag_gauge_ops_ok [simp]:
  "metric_op_ok (flag_gauge SOCKET_JOINED b)" "metric_op_ok (flag_gauge UPSTREAM_AUTH_HEALTHY b)"
  by (simp_all add: flag_gauge_def)

lemma flag_gauge_not_inc [simp]: "flag_gauge m b \<noteq> MInc n ls" "MInc n ls \<noteq> flag_gauge m b"
  by (simp_all add: flag_gauge_def)

text \<open>The last value written to a gauge, the one a scrape reports.\<close>

definition gauge_after :: "metric \<Rightarrow> int \<Rightarrow> metric_op list \<Rightarrow> int" where
  "gauge_after m i ops = fold (\<lambda>op g. case op of
     MSet n [] v \<Rightarrow> if n = m then v else g
   | MInc n [] \<Rightarrow> if n = m then g + 1 else g
   | MDec n \<Rightarrow> if n = m then g - 1 else g
   | _ \<Rightarrow> g) ops i"

lemma gauge_after_append [simp]: "gauge_after m i (xs @ ys) = gauge_after m (gauge_after m i xs) ys"
  by (simp add: gauge_after_def)

lemma gauge_after_Nil [simp]: "gauge_after m i [] = i"
  by (simp add: gauge_after_def)

lemma gauge_after_Cons [simp]:
  "gauge_after m i (MSet n [] v # ops) = gauge_after m (if n = m then v else i) ops"
  "gauge_after m i (MInc n [] # ops) = gauge_after m (if n = m then i + 1 else i) ops"
  "gauge_after m i (MInc n (l # ls) # ops) = gauge_after m i ops"
  "gauge_after m i (MDec n # ops) = gauge_after m (if n = m then i - 1 else i) ops"
  "gauge_after m i (MSetSecs n d # ops) = gauge_after m i ops"
  "gauge_after m i (MSetNow n # ops) = gauge_after m i ops"
  "gauge_after m i (MObserve n ls d # ops) = gauge_after m i ops"
  "gauge_after m i (flag_gauge n b # ops) = gauge_after m (if n = m then (if b then 1 else 0) else i) ops"
  by (simp_all add: gauge_after_def flag_gauge_def)

end
