(* ===== verification/Session.thy ===== *)
theory Session
  imports Status Http Contract Config
begin

text \<open>
  The management session (\<^verbatim>\<open>src/session.rs\<close>): the cookies sent upstream, the refresh request and the
  turn of the refresh loop. The cookie jar is the cookie\_store crate's; it is the record \<open>cookie_lib\<close>,
  whose operations on a jar of type \<open>'cs\<close> take the time at which they run, since the crate
  drops expired cookies. An operation that fails still returns the jar it leaves behind.
\<close>

definition SESSION_REFRESH_RETRY_INTERVAL :: duration where
  "SESSION_REFRESH_RETRY_INTERVAL = dur_mins 1"
definition SESSION_REFRESH_MAX_SAFETY_MARGIN :: duration where
  "SESSION_REFRESH_MAX_SAFETY_MARGIN = dur_hours 1"

datatype cookie_expiration = AtUtc int | SessionEnd

record ('cs, 'raw, 'url) cookie_lib =
  ck_url :: "string \<Rightarrow> 'url option"
  ck_new :: 'cs
  ck_split_parse :: "string \<Rightarrow> 'raw option list"
  ck_insert_raw :: "'raw \<Rightarrow> 'url \<Rightarrow> datetime \<Rightarrow> 'cs \<Rightarrow> bool \<times> 'cs"
  ck_request_values :: "'url \<Rightarrow> datetime \<Rightarrow> 'cs \<Rightarrow> (string \<times> string) list"
  ck_matches :: "'url \<Rightarrow> datetime \<Rightarrow> 'cs \<Rightarrow> cookie_expiration list"
  ck_parse :: "string \<Rightarrow> 'url \<Rightarrow> datetime \<Rightarrow> 'cs \<Rightarrow> bool \<times> 'cs"
  ck_header_text :: "string \<Rightarrow> string option"
  ck_from_timestamp :: "int \<Rightarrow> datetime option"

record ('cs, 'url) session_cookie =
  sc_store :: 'cs
  sc_url :: 'url

datatype session_error =
    CookieBaseUrl | CookieParse | CookieStore | CookieEmpty
  | SetCookieNotText | SetCookieParse
  | RefreshSend | RefreshStatus nat | RefreshBody | RefreshNotJson | RefreshNotRecent
  | NoKnownExpiry

section \<open>Cookies\<close>

fun store_raw_cookies ::
  "('cs, 'raw, 'url) cookie_lib \<Rightarrow> 'url \<Rightarrow> datetime \<Rightarrow> 'raw option list \<Rightarrow> 'cs \<Rightarrow> session_error + 'cs" where
  "store_raw_cookies lib url now [] jar = Inr jar"
| "store_raw_cookies lib url now (c # cs) jar =
     bindE (ok_or c CookieParse) (\<lambda>raw.
     let r = ck_insert_raw lib raw url now jar in
     bindE (ensureE (fst r) CookieStore) (\<lambda>_. store_raw_cookies lib url now cs (snd r)))"

definition session_cookie_new ::
  "('cs, 'raw, 'url) cookie_lib \<Rightarrow> datetime \<Rightarrow> string \<Rightarrow> string \<Rightarrow> session_error + ('cs, 'url) session_cookie" where
  "session_cookie_new lib now cookie base =
     bindE (ok_or (ck_url lib base) CookieBaseUrl) (\<lambda>url.
     bindE (store_raw_cookies lib url now (ck_split_parse lib cookie) (ck_new lib)) (\<lambda>jar.
     bindE (ensureE (ck_request_values lib url now jar \<noteq> []) CookieEmpty) (\<lambda>_.
     Inr \<lparr>sc_store = jar, sc_url = url\<rparr>)))"

fun join_cookies :: "(string \<times> string) list \<Rightarrow> string" where
  "join_cookies [] = []"
| "join_cookies [(n, v)] = n @ ''='' @ v"
| "join_cookies ((n, v) # cs) = n @ ''='' @ v @ ''; '' @ join_cookies cs"

definition session_get ::
  "('cs, 'raw, 'url) cookie_lib \<Rightarrow> datetime \<Rightarrow> ('cs, 'url) session_cookie \<Rightarrow> string" where
  "session_get lib now sc = join_cookies (ck_request_values lib (sc_url sc) now (sc_store sc))"

text \<open>\<^verbatim>\<open>Iterator::min\<close>.\<close>

definition min_opt :: "'a :: linorder list \<Rightarrow> 'a option" where
  "min_opt xs = (if xs = [] then None else Some (Min (set xs)))"

definition expires_at ::
  "('cs, 'raw, 'url) cookie_lib \<Rightarrow> datetime \<Rightarrow> ('cs, 'url) session_cookie \<Rightarrow> datetime option" where
  "expires_at lib now sc =
     min_opt (List.map_filter (\<lambda>c. case c of AtUtc s \<Rightarrow> ck_from_timestamp lib s | SessionEnd \<Rightarrow> None)
       (ck_matches lib (sc_url sc) now (sc_store sc)))"

text \<open>
  \<^verbatim>\<open>merge\<close> works on the shared jar, so the cookies read before a header that fails stay in it.
\<close>

fun merge_headers ::
  "('cs, 'raw, 'url) cookie_lib \<Rightarrow> datetime \<Rightarrow> string list \<Rightarrow> ('cs, 'url) session_cookie
     \<Rightarrow> (session_error + unit) \<times> ('cs, 'url) session_cookie" where
  "merge_headers lib now [] sc = (Inr (), sc)"
| "merge_headers lib now (h # hs) sc =
     (case ck_header_text lib h of
        None \<Rightarrow> (Inl SetCookieNotText, sc)
      | Some text \<Rightarrow>
          (let r = ck_parse lib text (sc_url sc) now (sc_store sc); sc' = sc\<lparr>sc_store := snd r\<rparr> in
           if fst r then merge_headers lib now hs sc' else (Inl SetCookieParse, sc')))"

definition session_merge ::
  "('cs, 'raw, 'url) cookie_lib \<Rightarrow> datetime \<Rightarrow> string list \<Rightarrow> ('cs, 'url) session_cookie
     \<Rightarrow> (session_error + bool) \<times> ('cs, 'url) session_cookie" where
  "session_merge lib now updates sc =
     (let r = merge_headers lib now updates sc in (bindE (fst r) (\<lambda>_. Inr (updates \<noteq> [])), snd r))"

section \<open>Refreshing\<close>

definition ensure_cookie_has_expiry ::
  "('cs, 'raw, 'url) cookie_lib \<Rightarrow> datetime \<Rightarrow> ('cs, 'url) session_cookie \<Rightarrow> session_error + unit" where
  "ensure_cookie_has_expiry lib now sc = ensureE (expires_at lib now sc \<noteq> None) NoKnownExpiry"

definition validate_recent_json :: "json \<Rightarrow> session_error + unit" where
  "validate_recent_json v = ensureE (as_array v \<noteq> None) RefreshNotRecent"

definition next_refresh_delay ::
  "('cs, 'raw, 'url) cookie_lib \<Rightarrow> datetime \<Rightarrow> datetime \<Rightarrow> ('cs, 'url) session_cookie \<Rightarrow> session_error + duration" where
  "next_refresh_delay lib at now sc =
     bindE (ok_or (expires_at lib at sc) NoKnownExpiry) (\<lambda>expiry.
     let remaining = since_or_zero expiry now;
         safety_margin = min (remaining div 5) SESSION_REFRESH_MAX_SAFETY_MARGIN in
     Inr (dur_saturating_sub remaining safety_margin))"

definition refresh_request ::
  "('cs, 'raw, 'url) cookie_lib \<Rightarrow> datetime \<Rightarrow> ptchan_config \<Rightarrow> ('cs, 'url) session_cookie \<Rightarrow> http_request" where
  "refresh_request lib now cfg sc =
     \<lparr>hr_method = GET, hr_url = trim_end_slash (base_url cfg) @ ''/globalmanage/recent.json'',
      hr_timeout = None,
      hr_headers = [(''accept'', ''application/json''), (''cookie'', session_get lib now sc)],
      hr_body = NoBody\<rparr>"

text \<open>
  The turn reads the clock where the source does: \<open>clk 0\<close> for the cookie header, \<open>clk 1\<close> for the
  merge and \<open>clk 2\<close> for the expiry check after it, and in the loop \<open>clk 3\<close> for the expiry reported,
  \<open>clk 4\<close> for \<^verbatim>\<open>Utc::now()\<close> and \<open>clk 5\<close> for the expiry the delay is taken from.
\<close>

definition refresh_accepts :: "codec \<Rightarrow> http_response \<Rightarrow> session_error + unit" where
  "refresh_accepts cd response =
     bindE (ensureE (is_success (hs_status response)) (RefreshStatus (hs_status response))) (\<lambda>_.
     bindE (ok_or (hs_body response) RefreshBody) (\<lambda>body.
     bindE (ok_or (json_from_slice cd body) RefreshNotJson) validate_recent_json))"

definition refresh_once ::
  "codec \<Rightarrow> ('cs, 'raw, 'url) cookie_lib \<Rightarrow> (http_request \<Rightarrow> http_outcome) \<Rightarrow> (nat \<Rightarrow> datetime) \<Rightarrow> ptchan_config
     \<Rightarrow> ('cs, 'url) session_cookie \<Rightarrow> (session_error + bool) \<times> ('cs, 'url) session_cookie" where
  "refresh_once cd lib send clk cfg sc =
     (case send (refresh_request lib (clk 0) cfg sc) of
        Inl _ \<Rightarrow> (Inl RefreshSend, sc)
      | Inr response \<Rightarrow>
          (case refresh_accepts cd response of
             Inl e \<Rightarrow> (Inl e, sc)
           | Inr _ \<Rightarrow>
               if hs_set_cookie response \<noteq> [] then
                 (let r = session_merge lib (clk 1) (hs_set_cookie response) sc in
                  (bindE (fst r) (\<lambda>changed.
                   bindE (ensure_cookie_has_expiry lib (clk 2) (snd r)) (\<lambda>_. Inr changed)), snd r))
               else (bindE (ensure_cookie_has_expiry lib (clk 2) sc) (\<lambda>_. Inr False), sc)))"

definition refresh_failed :: "status \<Rightarrow> metric_op list \<times> status \<times> duration" where
  "refresh_failed st =
     (let h = set_auth_healthy False st in
      (fst h @ [MSet SESSION_EXPIRES_AT_SECONDS [] 0, MInc SESSION_REFRESH [''failure'']], snd h,
       SESSION_REFRESH_RETRY_INTERVAL))"

definition timestamp_secs :: "datetime \<Rightarrow> int" where
  "timestamp_secs t = t div int NANOS_PER_SEC"

text \<open>One turn of \<^verbatim>\<open>refresh_loop\<close> up to its sleep.\<close>

definition refresh_turn ::
  "codec \<Rightarrow> ('cs, 'raw, 'url) cookie_lib \<Rightarrow> (http_request \<Rightarrow> http_outcome) \<Rightarrow> (nat \<Rightarrow> datetime) \<Rightarrow> ptchan_config
     \<Rightarrow> ('cs, 'url) session_cookie \<times> status \<Rightarrow> (metric_op list \<times> duration) \<times> ('cs, 'url) session_cookie \<times> status" where
  "refresh_turn cd lib send clk cfg s =
     (let r = refresh_once cd lib send clk cfg (fst s); sc = snd r;
          failed = (let f = refresh_failed (snd s) in ((fst f, snd (snd f)), sc, fst (snd f))) in
      case fst r of
        Inl _ \<Rightarrow> failed
      | Inr _ \<Rightarrow>
          (let expiry = expires_at lib (clk 3) sc in
           case next_refresh_delay lib (clk 5) (clk 4) sc of
             Inl _ \<Rightarrow> failed
           | Inr sleep_for \<Rightarrow>
               (let h = set_auth_healthy True (snd s) in
                ((fst h
                  @ (case expiry of Some e \<Rightarrow> [MSet SESSION_EXPIRES_AT_SECONDS [] (timestamp_secs e)] | None \<Rightarrow> [])
                  @ [MInc SESSION_REFRESH [''success'']], sleep_for), sc, snd h))))"

text \<open>
  \<^verbatim>\<open>refresh_loop\<close>: whether the client was built, then one entry per turn with the shutdown flag
  read at its head. The result lists what each turn did.
\<close>

fun refresh_turns ::
  "codec \<Rightarrow> ('cs, 'raw, 'url) cookie_lib \<Rightarrow> ptchan_config \<Rightarrow> (bool \<times> (http_request \<Rightarrow> http_outcome) \<times> (nat \<Rightarrow> datetime)) list
     \<Rightarrow> ('cs, 'url) session_cookie \<times> status \<Rightarrow> (metric_op list \<times> duration) list \<times> ('cs, 'url) session_cookie \<times> status" where
  "refresh_turns cd lib cfg [] s = ([], s)"
| "refresh_turns cd lib cfg ((shutdown, send, clk) # ts) s =
     (if shutdown then ([], s)
      else (let r = refresh_turn cd lib send clk cfg s; rest = refresh_turns cd lib cfg ts (snd r) in
            (fst r # fst rest, snd rest)))"

definition refresh_loop ::
  "codec \<Rightarrow> ('cs, 'raw, 'url) cookie_lib \<Rightarrow> ptchan_config \<Rightarrow> bool \<Rightarrow> (bool \<times> (http_request \<Rightarrow> http_outcome) \<times> (nat \<Rightarrow> datetime)) list
     \<Rightarrow> ('cs, 'url) session_cookie \<times> status \<Rightarrow> (metric_op list \<times> duration) list \<times> ('cs, 'url) session_cookie \<times> status" where
  "refresh_loop cd lib cfg client_built turns s =
     (if \<not> client_built
      then (let h = set_auth_healthy False (snd s) in ([(fst h, 0)], fst s, snd h))
      else refresh_turns cd lib cfg turns s)"

section \<open>Facts\<close>

lemma min_opt_Some: "min_opt xs = Some m \<longleftrightarrow> xs \<noteq> [] \<and> m = Min (set xs)"
  by (auto simp: min_opt_def)

lemma expires_at_earliest:
  "expires_at lib now sc = Some e \<Longrightarrow> AtUtc s \<in> set (ck_matches lib (sc_url sc) now (sc_store sc)) \<Longrightarrow>
     ck_from_timestamp lib s = Some t \<Longrightarrow> e \<le> t"
  by (force simp: expires_at_def min_opt_Some List.map_filter_def intro!: Min_le)

lemma next_refresh_delay_bounds:
  assumes "next_refresh_delay lib at now sc = Inr d"
  obtains e where "expires_at lib at sc = Some e" "d \<le> nat (e - now)"
    "nat (e - now) \<le> d + dur_hours 1" "4 * nat (e - now) \<le> 5 * d" "5 \<le> nat (e - now) \<Longrightarrow> d < nat (e - now)"
proof -
  obtain e where e: "expires_at lib at sc = Some e"
    and d: "d = nat (e - now) - min (nat (e - now) div 5) (dur_hours 1)"
    using assms by (auto simp: next_refresh_delay_def res_simps Let_def since_or_zero_def
        dur_saturating_sub_def SESSION_REFRESH_MAX_SAFETY_MARGIN_def)
  define r m where "r = nat (e - now)" and "m = min (r div 5) (dur_hours 1)"
  have "5 * m \<le> r" "m \<le> dur_hours 1" "m \<le> r" unfolding m_def by auto
  moreover have "1 \<le> m" if "5 \<le> r"
    using that unfolding m_def by (simp add: dur_defs div_greater_zero_iff Suc_le_eq)
  moreover have "d = r - m" using d by (simp add: r_def m_def)
  ultimately have "d \<le> r" "r \<le> d + dur_hours 1" "4 * r \<le> 5 * d" "5 \<le> r \<Longrightarrow> d < r"
    by simp_all
  with e that show thesis by (simp add: r_def)
qed

lemma merge_headers_url: "sc_url (snd (merge_headers lib now hs sc)) = sc_url sc"
  by (induction lib now hs sc rule: merge_headers.induct) (simp_all add: Let_def split: option.splits)

lemma refresh_once_url: "sc_url (snd (refresh_once cd lib send clk cfg sc)) = sc_url sc"
  by (simp add: refresh_once_def session_merge_def Let_def merge_headers_url split: sum.splits)

lemma refresh_once_ok:
  assumes "fst (refresh_once cd lib send clk cfg sc) = Inr changed"
  obtains response where "send (refresh_request lib (clk 0) cfg sc) = Inr response"
    "refresh_accepts cd response = Inr ()" "changed = (hs_set_cookie response \<noteq> [])"
    "expires_at lib (clk 2) (snd (refresh_once cd lib send clk cfg sc)) \<noteq> None"
proof -
  from assms obtain response where s: "send (refresh_request lib (clk 0) cfg sc) = Inr response"
    and a: "refresh_accepts cd response = Inr ()"
    by (auto simp: refresh_once_def split: sum.splits)
  with assms have "changed = (hs_set_cookie response \<noteq> [])"
    "expires_at lib (clk 2) (snd (refresh_once cd lib send clk cfg sc)) \<noteq> None"
    by (auto simp: refresh_once_def session_merge_def ensure_cookie_has_expiry_def Let_def res_simps
        split: if_splits)
  with s a show thesis by (rule that)
qed

text \<open>A refused refresh leaves the jar as it was, whatever cookies the response carried.\<close>

lemma refresh_once_refused:
  assumes "send (refresh_request lib (clk 0) cfg sc) = Inl e \<or>
     (\<exists>r. send (refresh_request lib (clk 0) cfg sc) = Inr r \<and> \<not> is_ok (refresh_accepts cd r))"
  shows "snd (refresh_once cd lib send clk cfg sc) = sc \<and> \<not> is_ok (fst (refresh_once cd lib send clk cfg sc))"
  using assms by (auto simp: refresh_once_def is_ok_iff split: sum.splits)

lemma refresh_turn_cases:
  obtains (healthy) changed sleep where
      "fst (refresh_once cd lib send clk cfg (fst s)) = Inr changed"
      "next_refresh_delay lib (clk 5) (clk 4) (snd (refresh_once cd lib send clk cfg (fst s))) = Inr sleep"
      "snd (snd (refresh_turn cd lib send clk cfg s)) = (snd s)\<lparr>auth_healthy := True\<rparr>"
      "snd (fst (refresh_turn cd lib send clk cfg s)) = sleep"
      "metric_count SESSION_REFRESH [''success''] (fst (fst (refresh_turn cd lib send clk cfg s))) = 1"
      "metric_count SESSION_REFRESH [''failure''] (fst (fst (refresh_turn cd lib send clk cfg s))) = 0"
  | (failed) "\<not> is_ok (fst (refresh_once cd lib send clk cfg (fst s))) \<or>
      \<not> is_ok (next_refresh_delay lib (clk 5) (clk 4) (snd (refresh_once cd lib send clk cfg (fst s))))"
      "snd (snd (refresh_turn cd lib send clk cfg s)) = (snd s)\<lparr>auth_healthy := False\<rparr>"
      "snd (fst (refresh_turn cd lib send clk cfg s)) = dur_secs 60"
      "metric_count SESSION_REFRESH [''success''] (fst (fst (refresh_turn cd lib send clk cfg s))) = 0"
      "metric_count SESSION_REFRESH [''failure''] (fst (fst (refresh_turn cd lib send clk cfg s))) = 1"
proof (cases "fst (refresh_once cd lib send clk cfg (fst s))")
  case (Inl e)
  with failed show thesis
    by (simp add: refresh_turn_def refresh_failed_def Let_def SESSION_REFRESH_RETRY_INTERVAL_def dur_mins_def)
next
  case (Inr changed)
  show thesis
  proof (cases "next_refresh_delay lib (clk 5) (clk 4) (snd (refresh_once cd lib send clk cfg (fst s)))")
    case (Inl e)
    with Inr failed show thesis
      by (simp add: refresh_turn_def refresh_failed_def Let_def SESSION_REFRESH_RETRY_INTERVAL_def dur_mins_def)
  next
    case d: (Inr sleep)
    with Inr healthy show thesis
      by (simp add: refresh_turn_def Let_def split: option.splits)
  qed
qed

lemma refresh_turn_jar:
  "fst (snd (refresh_turn cd lib send clk cfg s)) = snd (refresh_once cd lib send clk cfg (fst s))"
  by (simp add: refresh_turn_def refresh_failed_def Let_def split: sum.splits)

end
