(* ===== verification/Socket.thy ===== *)
theory Socket
  imports Protocol Session Ingest
begin

text \<open>
  The upstream socket (\<^verbatim>\<open>src/socket/mod.rs\<close>): the handling of packets, the receive loop with its
  liveness deadline, and the supervisor that reconnects. What comes from outside is explicit: each turn
  of the receive loop is given the instant at which the next item arrives, each turn of the supervisor
  the outcome of the connection. A cancelled connection is dropped between two turns.
\<close>

definition ROOM :: string where "ROOM = ''globalmanage-recent-hashed''"
definition RECONNECT_MIN :: duration where "RECONNECT_MIN = dur_secs 3"
definition RECONNECT_MAX :: duration where "RECONNECT_MAX = dur_mins 1"
definition ENGINE_OPEN_TIMEOUT :: duration where "ENGINE_OPEN_TIMEOUT = dur_secs 30"
definition LIVENESS_GRACE :: duration where "LIVENESS_GRACE = dur_secs 5"
definition SOCKET_REFRESH_INTERVAL :: duration where "SOCKET_REFRESH_INTERVAL = dur_hours 2"

record supervisor =
  sv_cfg :: ptchan_config
  sv_webhooks :: "webhook_config list"
  sv_origins :: origin_matcher
  sv_fingerprint_secret :: "string option"

datatype ws_message =
    WsText string | WsBinary | WsPing string | WsPong string | WsClose "string option" | WsFrame

datatype socket_error =
    SocketUrl | SocketScheme string | SocketHost | SocketRequest | SocketHeader
  | SocketConnect | SocketRead | SocketSend ws_message

text \<open>What the connection shares with the rest of the process, and what it has sent.\<close>

record socket_world =
  sw_status :: status
  sw_db :: db
  sw_wakeups :: nat
  sw_ops :: "metric_op list"
  sw_sent :: "ws_message list"

definition tell :: "metric_op list \<Rightarrow> socket_world \<Rightarrow> socket_world" where
  "tell ops w = w\<lparr>sw_ops := sw_ops w @ ops\<rparr>"

definition world_joined :: "bool \<Rightarrow> socket_world \<Rightarrow> socket_world" where
  "world_joined b w =
     (let r = set_upstream_joined b (sw_status w) in tell (fst r) (w\<lparr>sw_status := snd r\<rparr>))"

text \<open>The flag the session task has set by the time it is read here.\<close>

definition world_auth :: "bool \<Rightarrow> socket_world \<Rightarrow> socket_world" where
  "world_auth b w = w\<lparr>sw_status := (sw_status w)\<lparr>auth_healthy := b\<rparr>\<rparr>"

definition transmit :: "ws_message \<Rightarrow> socket_world \<Rightarrow> socket_world" where
  "transmit msg w = w\<lparr>sw_sent := sw_sent w @ [msg]\<rparr>"

section \<open>The request\<close>

text \<open>The url and http crates: parsing, the parts of a URL, and which texts are header values.\<close>

record 'u url_lib =
  ul_parse :: "string \<Rightarrow> 'u option"
  ul_scheme :: "'u \<Rightarrow> string"
  ul_host_str :: "'u \<Rightarrow> string option"
  ul_port :: "'u \<Rightarrow> int option"
  ul_set_scheme :: "string \<Rightarrow> 'u \<Rightarrow> 'u option"
  ul_set_path :: "string \<Rightarrow> 'u \<Rightarrow> 'u"
  ul_set_query :: "string \<Rightarrow> 'u \<Rightarrow> 'u"
  ul_to_string :: "'u \<Rightarrow> string"
  ul_client_request :: "string \<Rightarrow> bool"
  ul_header_value :: "string \<Rightarrow> bool"

definition socket_url :: "'u url_lib \<Rightarrow> string \<Rightarrow> socket_error + string" where
  "socket_url ul base =
     bindE (ok_or (ul_parse ul base) SocketUrl) (\<lambda>url.
     let other = ul_scheme ul url in
     bindE (if other = ''http'' then Inr ''ws'' else if other = ''https'' then Inr ''wss''
            else Inl (SocketScheme other)) (\<lambda>scheme.
     bindE (ok_or (ul_set_scheme ul scheme url) (SocketScheme scheme)) (\<lambda>url'.
     Inr (ul_to_string ul (ul_set_query ul ''EIO=4&transport=websocket'' (ul_set_path ul ''/socket.io/'' url'))))))"

definition socket_origin :: "'u url_lib \<Rightarrow> string \<Rightarrow> socket_error + string" where
  "socket_origin ul base =
     bindE (ok_or (ul_parse ul base) SocketUrl) (\<lambda>url.
     bindE (ok_or (ul_host_str ul url) SocketHost) (\<lambda>host.
     Inr (case ul_port ul url of
        None \<Rightarrow> ul_scheme ul url @ ''://'' @ host
      | Some port \<Rightarrow> ul_scheme ul url @ ''://'' @ host @ '':'' @ show_int port)))"

definition socket_request ::
  "'u url_lib \<Rightarrow> ptchan_config \<Rightarrow> string \<Rightarrow> socket_error + (string \<times> (string \<times> string) list)" where
  "socket_request ul cfg cookie =
     bindE (socket_origin ul (base_url cfg)) (\<lambda>origin.
     bindE (socket_url ul (base_url cfg)) (\<lambda>url.
     bindE (ensureE (ul_client_request ul url) SocketRequest) (\<lambda>_.
     bindE (ensureE (ul_header_value ul gateway_user_agent) SocketHeader) (\<lambda>_.
     bindE (ensureE (ul_header_value ul origin) SocketHeader) (\<lambda>_.
     bindE (ensureE (ul_header_value ul cookie) SocketHeader) (\<lambda>_.
     Inr (url, [(''user-agent'', gateway_user_agent), (''origin'', origin), (''cookie'', cookie)])))))))"

section \<open>Liveness\<close>

record receive_liveness =
  last_inbound :: nat
  rl_heartbeat :: "heartbeat option"

definition liveness_new :: "nat \<Rightarrow> receive_liveness" where
  "liveness_new now = \<lparr>last_inbound = now, rl_heartbeat = None\<rparr>"

definition allowed_silence :: "receive_liveness \<Rightarrow> duration" where
  "allowed_silence rl = (case rl_heartbeat rl of
     None \<Rightarrow> ENGINE_OPEN_TIMEOUT
   | Some h \<Rightarrow> dur_saturating_add (dur_saturating_add (dur_saturating_mul (ping_interval h) 2) (ping_timeout h))
                LIVENESS_GRACE)"

definition silence :: "nat \<Rightarrow> receive_liveness \<Rightarrow> duration" where
  "silence now rl = now - last_inbound rl"

definition remaining :: "nat \<Rightarrow> receive_liveness \<Rightarrow> duration" where
  "remaining now rl = dur_saturating_sub (allowed_silence rl) (silence now rl)"

section \<open>Packets\<close>

datatype socket_text_result = Continue | EngineOpened heartbeat | RoomJoinEmitted | Closed

text \<open>What one turn of the receive loop meets.\<close>

datatype socket_item = Item ws_message | ItemError | ItemEnd

record socket_turn =
  tn_auth :: bool
  tn_start :: nat
  tn_arrival :: "(nat \<times> socket_item) option"
  tn_prefer_sleep :: bool
  tn_send_ok :: bool
  tn_now :: datetime
  tn_fault :: bool

text \<open>The crates a connection uses and the supervisor it runs for.\<close>

record 'u socket_env =
  se_codec :: codec
  se_crypto :: crypto
  se_url :: "'u url_lib"
  se_sup :: supervisor

record connection =
  cn_joined :: bool
  cn_liveness :: receive_liveness
  cn_world :: socket_world

definition message_is_joined :: "json list \<Rightarrow> bool" where
  "message_is_joined payload = list_ex (\<lambda>v. as_str v = Some ''joined'') payload"

definition handle_socket_event ::
  "'u socket_env \<Rightarrow> socket_turn \<Rightarrow> string \<Rightarrow> json list \<Rightarrow> connection \<Rightarrow> connection" where
  "handle_socket_event env tn event payload cn =
     (if event = ''message'' then
        (if message_is_joined payload
         then cn\<lparr>cn_joined := True,
                cn_world := tell [MSetNow SOCKET_LAST_JOIN_TIMESTAMP_SECONDS] (world_joined True (cn_world cn))\<rparr>
         else cn)
      else if event = ''newPost'' then
        (let sup = se_sup env; w = cn_world cn;
             r = new_post (se_codec env) (se_crypto env) (base_url (sv_cfg sup)) payload (sv_webhooks sup)
                   (sv_origins sup) (sv_fingerprint_secret sup) (tn_now tn) (tn_fault tn) (sw_db w) in
         cn\<lparr>cn_world := tell (ir_ops r)
              (w\<lparr>sw_db := ir_db r, sw_wakeups := sw_wakeups w + (if ir_wakeup r then 1 else 0)\<rparr>)\<rparr>)
      else cn)"

definition send_then ::
  "socket_turn \<Rightarrow> ws_message \<Rightarrow> socket_text_result \<Rightarrow> connection
     \<Rightarrow> (socket_error + socket_text_result) \<times> connection" where
  "send_then tn msg res cn =
     (if tn_send_ok tn then Inr res else Inl (SocketSend msg), cn\<lparr>cn_world := transmit msg (cn_world cn)\<rparr>)"

definition room_join :: "codec \<Rightarrow> string" where
  "room_join cd = ''42'' @ json_to_vec cd (JArray [JString ''room'', JString ROOM])"

definition handle_socket_packet ::
  "'u socket_env \<Rightarrow> socket_turn \<Rightarrow> packet \<Rightarrow> connection \<Rightarrow> (socket_error + socket_text_result) \<times> connection" where
  "handle_socket_packet env tn pkt cn = (case pkt of
     EngineOpen h \<Rightarrow> send_then tn (WsText ''40'') (EngineOpened h) cn
   | EnginePing \<Rightarrow> send_then tn (WsText ''3'') Continue cn
   | EngineClose \<Rightarrow> (Inr Closed, cn)
   | SocketConnected \<Rightarrow> send_then tn (WsText (room_join (se_codec env))) RoomJoinEmitted cn
   | SocketDisconnected _ \<Rightarrow> (Inr Closed, cn)
   | SocketEvent name payload \<Rightarrow> (Inr Continue, handle_socket_event env tn name payload cn)
   | SocketError _ \<Rightarrow> (Inr Continue, cn)
   | Ignored _ _ \<Rightarrow> (Inr Continue, cn))"

section \<open>The receive loop\<close>

definition observe_packet :: "nat \<Rightarrow> connection \<Rightarrow> connection" where
  "observe_packet now cn =
     cn\<lparr>cn_liveness := (cn_liveness cn)\<lparr>last_inbound := now\<rparr>,
        cn_world := tell [MSetNow SOCKET_LAST_INBOUND_TIMESTAMP_SECONDS] (cn_world cn)\<rparr>"

definition set_heartbeat :: "heartbeat \<Rightarrow> connection \<Rightarrow> connection" where
  "set_heartbeat h cn = cn\<lparr>cn_liveness := (cn_liveness cn)\<lparr>rl_heartbeat := Some h\<rparr>\<rparr>"

text \<open>
  A turn ends the loop with an error, ends it with a break, or goes on. The sleep fires at the deadline;
  when the item arrives at the very instant either branch may be taken.
\<close>

datatype turn_outcome = GoOn | Break | Fail socket_error

definition deadline :: "socket_turn \<Rightarrow> connection \<Rightarrow> nat" where
  "deadline tn cn = tn_start tn + remaining (tn_start tn) (cn_liveness cn)"

definition item_first :: "socket_turn \<Rightarrow> connection \<Rightarrow> (nat \<times> socket_item) option" where
  "item_first tn cn = (case tn_arrival tn of
     None \<Rightarrow> None
   | Some (at, item) \<Rightarrow>
       if at < deadline tn cn \<or> (at = deadline tn cn \<and> \<not> tn_prefer_sleep tn) then Some (at, item) else None)"

definition liveness_timeout :: "connection \<Rightarrow> connection" where
  "liveness_timeout cn =
     cn\<lparr>cn_world := world_joined False (tell [MInc SOCKET_LIVENESS_TIMEOUTS []] (cn_world cn))\<rparr>"

definition receive_text :: "'u socket_env \<Rightarrow> socket_turn \<Rightarrow> nat \<Rightarrow> string \<Rightarrow> connection \<Rightarrow> turn_outcome \<times> connection" where
  "receive_text env tn at text cn = (case decode (se_codec env) text of
     Inl _ \<Rightarrow> (GoOn, cn)
   | Inr pkt \<Rightarrow>
       (let r = handle_socket_packet env tn pkt (observe_packet at cn) in
        case fst r of
          Inl e \<Rightarrow> (Fail e, snd r)
        | Inr Continue \<Rightarrow> (GoOn, snd r)
        | Inr (EngineOpened h) \<Rightarrow> (GoOn, set_heartbeat h (snd r))
        | Inr RoomJoinEmitted \<Rightarrow> (GoOn, snd r)
        | Inr Closed \<Rightarrow> (Break, snd r)))"

definition receive_message ::
  "'u socket_env \<Rightarrow> socket_turn \<Rightarrow> nat \<Rightarrow> ws_message \<Rightarrow> connection \<Rightarrow> turn_outcome \<times> connection" where
  "receive_message env tn at msg cn = (case msg of
     WsText text \<Rightarrow> receive_text env tn at text cn
   | WsBinary \<Rightarrow> (GoOn, cn)
   | WsPing payload \<Rightarrow>
       (let r = send_then tn (WsPong payload) Continue (observe_packet at cn) in
        (case fst r of Inl e \<Rightarrow> Fail e | Inr _ \<Rightarrow> GoOn, snd r))
   | WsClose _ \<Rightarrow> (Break, cn)
   | WsPong _ \<Rightarrow> (GoOn, cn)
   | WsFrame \<Rightarrow> (GoOn, cn))"

definition read_auth :: "bool \<Rightarrow> connection \<Rightarrow> connection" where
  "read_auth b cn = cn\<lparr>cn_world := world_auth b (cn_world cn)\<rparr>"

definition receive_turn :: "'u socket_env \<Rightarrow> socket_turn \<Rightarrow> connection \<Rightarrow> turn_outcome \<times> connection" where
  "receive_turn env tn cn0 =
     (let cn = read_auth (tn_auth tn) cn0 in
      if \<not> tn_auth tn then (Break, cn)
      else (case item_first tn cn of
        None \<Rightarrow> (Break, liveness_timeout cn)
      | Some (_, ItemEnd) \<Rightarrow> (Break, cn)
      | Some (_, ItemError) \<Rightarrow> (Fail SocketRead, cn)
      | Some (at, Item msg) \<Rightarrow> receive_message env tn at msg cn))"

text \<open>The loop over the turns so far; \<open>GoOn\<close> when it is still waiting after the last of them.\<close>

fun receive_loop :: "'u socket_env \<Rightarrow> socket_turn list \<Rightarrow> connection \<Rightarrow> turn_outcome \<times> connection" where
  "receive_loop env [] cn = (GoOn, cn)"
| "receive_loop env (tn # tns) cn =
     (let r = receive_turn env tn cn in if fst r = GoOn then receive_loop env tns (snd r) else r)"

section \<open>One connection\<close>

definition guard_new :: "socket_world \<Rightarrow> socket_world" where
  "guard_new w = tell [MInc SOCKET_ACTIVE_CONNECTIONS []] w"

definition guard_drop :: "duration \<Rightarrow> socket_world \<Rightarrow> socket_world" where
  "guard_drop elapsed w = tell [MDec SOCKET_ACTIVE_CONNECTIONS, MObserve SOCKET_CONNECTION_SECONDS [] elapsed] w"

datatype connect_outcome = ConnectFails | ConnectPending | Connected

record socket_attempt =
  at_cookie :: string
  at_connect :: connect_outcome
  at_opened :: nat
  at_turns :: "socket_turn list"
  at_elapsed :: duration

text \<open>
  What one attempt meets: the cookie header of the session at that time, how connecting ends, when the connection
  opens, the turns of its receive loop and how long it is open.
  \<^verbatim>\<open>run_socket_once\<close>: \<open>None\<close> when it has not returned; the caller then drops it, and with it the
  guard of an open connection.
\<close>

definition run_socket_once ::
  "'u socket_env \<Rightarrow> socket_attempt \<Rightarrow> socket_world \<Rightarrow> (socket_error + bool) option \<times> socket_world" where
  "run_socket_once env a w =
     (case socket_request (se_url env) (sv_cfg (se_sup env)) (at_cookie a) of
        Inl e \<Rightarrow> (Some (Inl e), w)
      | Inr _ \<Rightarrow>
          (case at_connect a of
             ConnectFails \<Rightarrow> (Some (Inl SocketConnect), w)
           | ConnectPending \<Rightarrow> (None, w)
           | Connected \<Rightarrow>
               (let r = receive_loop env (at_turns a)
                          \<lparr>cn_joined = False, cn_liveness = liveness_new (at_opened a), cn_world = guard_new w\<rparr>;
                    w' = guard_drop (at_elapsed a) (cn_world (snd r)) in
                case fst r of
                  GoOn \<Rightarrow> (None, w')
                | Break \<Rightarrow> (Some (Inr (cn_joined (snd r))), w')
                | Fail e \<Rightarrow> (Some (Inl e), w'))))"

section \<open>The supervisor\<close>

record supervise_turn =
  sp_shutdown :: bool
  sp_auth :: bool
  sp_attempt :: socket_attempt
  sp_shutdown_during :: bool

record supervise_state =
  sup_delay :: duration
  sup_world :: socket_world

text \<open>
  One turn of \<^verbatim>\<open>supervise\<close>: the task returns, or it sleeps and goes on. When the connection has not
  ended, either shutdown or the refresh interval has.
\<close>

datatype supervise_next = Returned socket_world | Slept duration supervise_state

definition connection_result :: "(socket_error + bool) option \<Rightarrow> bool \<Rightarrow> (socket_error + bool) option" where
  "connection_result r shutdown = (case r of
     Some x \<Rightarrow> Some x
   | None \<Rightarrow> if shutdown then None else Some (Inr True))"

definition supervise_turn_fn :: "'u socket_env \<Rightarrow> supervise_turn \<Rightarrow> supervise_state \<Rightarrow> supervise_next" where
  "supervise_turn_fn env sp s =
     (let w = world_auth (sp_auth sp) (sup_world s) in
      if sp_shutdown sp then Returned (world_joined False w)
      else if \<not> sp_auth sp then Slept RECONNECT_MIN (s\<lparr>sup_world := world_joined False w\<rparr>)
      else (let r = run_socket_once env (sp_attempt sp) (tell [MInc SOCKET_CONNECTION_ATTEMPTS []] w);
                w1 = world_joined False (snd r) in
        case connection_result (fst r) (sp_shutdown_during sp) of
          None \<Rightarrow> Returned w1
        | Some res \<Rightarrow>
            (let delay = (if res = Inr True then RECONNECT_MIN else sup_delay s);
                 w2 = (if res = Inr False then tell [MInc SOCKET_JOIN_FAILURES []] w1 else w1) in
             Slept delay \<lparr>sup_delay = min (dur_saturating_mul delay 2) RECONNECT_MAX, sup_world = w2\<rparr>)))"

fun supervise :: "'u socket_env \<Rightarrow> supervise_turn list \<Rightarrow> supervise_state \<Rightarrow> duration list \<times> supervise_next" where
  "supervise env [] s = ([], Slept 0 s)"
| "supervise env (sp # sps) s = (case supervise_turn_fn env sp s of
     Returned w \<Rightarrow> ([], Returned w)
   | Slept d s' \<Rightarrow> (let r = supervise env sps s' in (d # fst r, snd r)))"

definition supervise_init :: "socket_world \<Rightarrow> supervise_state" where
  "supervise_init w = \<lparr>sup_delay = RECONNECT_MIN, sup_world = w\<rparr>"

section \<open>Diagnostics\<close>

definition event_values_debug :: "(json_number \<Rightarrow> string) \<Rightarrow> json list \<Rightarrow> string" where
  "event_values_debug show_number vs = (case vs of
     [] \<Rightarrow> ''values=0''
   | v # _ \<Rightarrow> (case v of
       JString text \<Rightarrow> ''string_len='' @ show_int (int (length text))
     | JNumber n \<Rightarrow> ''number='' @ show_number n
     | JBool b \<Rightarrow> ''bool='' @ (if b then ''true'' else ''false'')
     | JNull \<Rightarrow> ''null''
     | _ \<Rightarrow> ''values='' @ show_int (int (length vs))))"

definition capped :: "string \<Rightarrow> string" where
  "capped s = (if length s \<le> 200 then s else str_take_chars 200 s @ ''...'')"

end
