(* ===== verification/Socket_Facts.thy ===== *)
theory Socket_Facts
  imports Socket
begin

text \<open>
  What a socket connection may do to the rest of the process, where a room join comes from, what the
  gateway says on the wire, the liveness deadline, and the invariant of the supervisor.
\<close>

section \<open>Effects on the process\<close>

lemma world_sel [simp]:
  "sw_status (tell ops w) = sw_status w" "sw_db (tell ops w) = sw_db w" "sw_wakeups (tell ops w) = sw_wakeups w"
  "sw_sent (tell ops w) = sw_sent w" "sw_ops (tell ops w) = sw_ops w @ ops"
  "sw_status (world_joined b w) = (sw_status w)\<lparr>upstream_joined := b\<rparr>" "sw_db (world_joined b w) = sw_db w"
  "sw_sent (world_joined b w) = sw_sent w" "sw_ops (world_joined b w) = sw_ops w @ [flag_gauge SOCKET_JOINED b]"
  "sw_status (world_auth b w) = (sw_status w)\<lparr>auth_healthy := b\<rparr>" "sw_db (world_auth b w) = sw_db w"
  "sw_sent (world_auth b w) = sw_sent w" "sw_ops (world_auth b w) = sw_ops w"
  "sw_status (transmit m w) = sw_status w" "sw_db (transmit m w) = sw_db w" "sw_ops (transmit m w) = sw_ops w"
  "sw_sent (transmit m w) = sw_sent w @ [m]"
  by (simp_all add: tell_def world_joined_def world_auth_def transmit_def Let_def)

text \<open>
  Effects that name existing metrics, leave the gauges of active connections and of the session's health as they were,
  and keep the joined gauge equal to the flag.
\<close>

definition quiet :: "metric_op list \<Rightarrow> bool" where
  "quiet ops = (list_all metric_op_ok ops \<and> (\<forall>i. gauge_after SOCKET_ACTIVE_CONNECTIONS i ops = i) \<and>
      (\<forall>i. gauge_after UPSTREAM_AUTH_HEALTHY i ops = i))"

definition mirrors :: "socket_world \<Rightarrow> bool" where
  "mirrors w = (gauge_after SOCKET_JOINED 0 (sw_ops w) = (if upstream_joined (sw_status w) then 1 else 0))"

lemma quiet_append: "quiet xs \<Longrightarrow> quiet ys \<Longrightarrow> quiet (xs @ ys)"
  by (simp add: quiet_def)

definition keeps :: "codec \<Rightarrow> socket_world \<Rightarrow> socket_world \<Rightarrow> bool" where
  "keeps cd w w' =
     ((\<exists>ops. sw_ops w' = sw_ops w @ ops \<and> quiet ops) \<and> (mirrors w \<longrightarrow> mirrors w') \<and>
      (store_step cd)\<^sup>*\<^sup>* (sw_db w) (sw_db w') \<and> pending_keys (sw_db w) \<subseteq> pending_keys (sw_db w') \<and>
      upstream_required (sw_status w') = upstream_required (sw_status w))"

lemma keeps_refl [simp, intro]: "keeps cd w w"
  by (simp add: keeps_def quiet_def)

lemma keeps_trans [trans]:
  assumes "keeps cd u v" and "keeps cd v w"
  shows "keeps cd u w"
proof -
  obtain a b where "sw_ops v = sw_ops u @ a" "quiet a" "sw_ops w = sw_ops v @ b" "quiet b"
    using assms by (auto simp: keeps_def)
  then have "sw_ops w = sw_ops u @ (a @ b)" "quiet (a @ b)" by (simp_all add: quiet_append)
  with assms show ?thesis unfolding keeps_def by (blast intro: rtranclp_trans)
qed

lemma keeps_tell:
  "quiet ops \<Longrightarrow> (\<And>i. gauge_after SOCKET_JOINED i ops = i) \<Longrightarrow> keeps cd w (tell ops w)"
  by (simp add: keeps_def mirrors_def)

lemma keeps_joined: "keeps cd w (world_joined b w)"
  by (simp add: keeps_def mirrors_def quiet_def)

lemma keeps_transmit: "keeps cd w (transmit m w)"
  by (simp add: keeps_def mirrors_def quiet_def)

lemma keeps_auth: "keeps cd w (world_auth b w)"
  by (simp add: keeps_def mirrors_def quiet_def)

lemma counters_silent:
  assumes "set ops \<subseteq> {MInc REDACTION_DROPS [], MInc SQLITE_ERRORS [], MSetNow SOCKET_LAST_EVENT_TIMESTAMP_SECONDS}
      \<union> range (\<lambda>l. MInc SOCKET_EVENTS [l])"
  shows "quiet ops" "gauge_after SOCKET_JOINED i ops = i"
proof -
  have "list_all metric_op_ok ops \<and> gauge_after m i ops = i"
    if "m \<in> {SOCKET_ACTIVE_CONNECTIONS, SOCKET_JOINED, UPSTREAM_AUTH_HEALTHY}" for m i
    using assms that by (induction ops arbitrary: i) auto
  then show "quiet ops" "gauge_after SOCKET_JOINED i ops = i" by (auto simp: quiet_def)
qed

lemma new_post_keeps:
  fixes w :: socket_world
  assumes r_def: "r = new_post cd cr base payload webhooks origins secret now fault (sw_db w)"
  shows "keeps cd w (tell (ir_ops r) (w\<lparr>sw_db := ir_db r, sw_wakeups := n\<rparr>))"
proof -
  have "(\<exists>ops. sw_ops v = sw_ops w @ ops \<and> quiet ops) \<and> (mirrors w \<longrightarrow> mirrors v)"
    if "set (ir_ops r) \<subseteq> {MInc REDACTION_DROPS [], MInc SQLITE_ERRORS [], MSetNow SOCKET_LAST_EVENT_TIMESTAMP_SECONDS}
      \<union> range (\<lambda>l. MInc SOCKET_EVENTS [l])" "v = tell (ir_ops r) (w\<lparr>sw_db := ir_db r, sw_wakeups := n\<rparr>)" for v
    using counters_silent [OF that(1)] that(2) by (simp add: mirrors_def)
  moreover have "set (ir_ops r) \<subseteq> {MInc REDACTION_DROPS [], MInc SQLITE_ERRORS [], MSetNow SOCKET_LAST_EVENT_TIMESTAMP_SECONDS}
      \<union> range (\<lambda>l. MInc SOCKET_EVENTS [l]) \<and> (store_step cd)\<^sup>*\<^sup>* (sw_db w) (ir_db r) \<and>
      pending_keys (sw_db w) \<subseteq> pending_keys (ir_db r)"
    unfolding r_def
  proof (rule new_post_cases [of cd cr base payload webhooks origins secret now fault "sw_db w"], goal_cases)
    case (1 ops label)
    then show ?case by (auto simp: ingest_stop_def)
  next
    case (2 ops event encoded ds)
    have "store_step cd (sw_db w) (snd (create_event cd fault event encoded ds (sw_db w)))" by (rule step_create)
    with 2 show ?case using pending_keys_create [of "sw_db w" cd fault event encoded ds] by auto
  qed
  ultimately show ?thesis by (simp add: keeps_def)
qed

lemma handle_event_keeps: "keeps (se_codec env) (cn_world cn) (cn_world (handle_socket_event env tn event payload cn))"
proof -
  have "keeps cd w (tell [MSetNow SOCKET_LAST_JOIN_TIMESTAMP_SECONDS] (world_joined True w))" for cd w
    by (rule keeps_trans [OF keeps_joined keeps_tell]) (simp_all add: quiet_def)
  then show ?thesis by (simp add: handle_socket_event_def Let_def new_post_keeps [OF refl])
qed

lemma observe_keeps: "keeps cd (cn_world cn) (cn_world (observe_packet at cn))"
  unfolding observe_packet_def by (simp, rule keeps_tell) (simp_all add: quiet_def)

lemma send_then_keeps: "keeps cd (cn_world cn) (cn_world (snd (send_then tn m res cn)))"
  by (simp add: send_then_def keeps_transmit)

lemma handle_packet_keeps:
  "keeps (se_codec env) (cn_world cn) (cn_world (snd (handle_socket_packet env tn pkt cn)))"
  by (cases pkt) (simp_all add: handle_socket_packet_def send_then_keeps handle_event_keeps)

lemma receive_text_keeps: "keeps (se_codec env) (cn_world cn) (cn_world (snd (receive_text env tn at text cn)))"
proof (cases "decode (se_codec env) text")
  case (Inr pkt)
  have "keeps (se_codec env) (cn_world cn) (cn_world (snd (handle_socket_packet env tn pkt (observe_packet at cn))))"
    by (rule keeps_trans [OF observe_keeps handle_packet_keeps])
  then show ?thesis using Inr
    by (simp add: receive_text_def Let_def set_heartbeat_def split: sum.split socket_text_result.split)
qed (simp add: receive_text_def)

lemma receive_turn_keeps: "keeps (se_codec env) (cn_world cn) (cn_world (snd (receive_turn env tn cn)))"
proof -
  define c where "c = read_auth (tn_auth tn) cn"
  have "keeps (se_codec env) (cn_world c) (cn_world (liveness_timeout c))"
    unfolding liveness_timeout_def
    by simp (rule keeps_trans [OF keeps_tell keeps_joined], simp_all add: quiet_def)
  moreover have "keeps (se_codec env) (cn_world c) (cn_world (snd (receive_message env tn at msg c)))" for at msg
    using receive_text_keeps keeps_trans [OF observe_keeps send_then_keeps]
    by (cases msg) (simp_all add: receive_message_def Let_def)
  ultimately have "keeps (se_codec env) (cn_world c) (cn_world (snd (receive_turn env tn cn)))"
    by (simp add: receive_turn_def Let_def c_def [symmetric] split: option.split socket_item.split)
  then show ?thesis using keeps_auth keeps_trans by (fastforce simp: c_def read_auth_def)
qed

lemma receive_loop_keeps: "keeps (se_codec env) (cn_world cn) (cn_world (snd (receive_loop env tns cn)))"
proof (induction tns arbitrary: cn)
  case (Cons tn tns)
  then show ?case using receive_turn_keeps [of env cn tn] by (auto simp: Let_def intro: keeps_trans)
qed simp

text \<open>A connection is counted while it is open, however it ends.\<close>

lemma run_socket_once_keeps: "keeps (se_codec env) w (snd (run_socket_once env a w))"
proof -
  define r where "r = receive_loop env (at_turns a)
    \<lparr>cn_joined = False, cn_liveness = liveness_new (at_opened a), cn_world = guard_new w\<rparr>"
  have k: "keeps (se_codec env) (guard_new w) (cn_world (snd r))"
    using receive_loop_keeps [of env "\<lparr>cn_joined = False, cn_liveness = liveness_new (at_opened a), cn_world = guard_new w\<rparr>" "at_turns a"]
    by (simp add: r_def)
  then obtain ops where ops: "sw_ops (cn_world (snd r)) = sw_ops (guard_new w) @ ops" "quiet ops" by (auto simp: keeps_def)
  let ?ops = "MInc SOCKET_ACTIVE_CONNECTIONS [] # ops @ [MDec SOCKET_ACTIVE_CONNECTIONS, MObserve SOCKET_CONNECTION_SECONDS [] (at_elapsed a)]"
  have "sw_ops (guard_drop (at_elapsed a) (cn_world (snd r))) = sw_ops w @ ?ops" "quiet ?ops"
    using ops by (simp_all add: guard_new_def guard_drop_def quiet_def)
  then have "\<exists>ops. sw_ops (guard_drop (at_elapsed a) (cn_world (snd r))) = sw_ops w @ ops \<and> quiet ops" by blast
  moreover have "mirrors w \<longrightarrow> mirrors (guard_drop (at_elapsed a) (cn_world (snd r)))"
    using k by (simp add: keeps_def mirrors_def guard_new_def guard_drop_def)
  ultimately have "keeps (se_codec env) w (guard_drop (at_elapsed a) (cn_world (snd r)))"
    using k unfolding keeps_def by (simp only: guard_new_def guard_drop_def world_sel simp_thms)
  then show ?thesis
    by (simp add: run_socket_once_def Let_def r_def [symmetric] split: sum.split connect_outcome.split turn_outcome.split)
qed

section \<open>Joining\<close>

text \<open>The item of a turn is the room's \<^verbatim>\<open>joined\<close> message.\<close>

definition turn_joins :: "codec \<Rightarrow> socket_turn \<Rightarrow> bool" where
  "turn_joins cd tn = (case tn_arrival tn of
     Some (_, Item (WsText text)) \<Rightarrow>
       (case decode cd text of
          Inr (SocketEvent name payload) \<Rightarrow> name = ''message'' \<and> message_is_joined payload
        | _ \<Rightarrow> False)
   | _ \<Rightarrow> False)"

abbreviation conn_upstream_joined :: "connection \<Rightarrow> bool" where
  "conn_upstream_joined cn \<equiv> upstream_joined (sw_status (cn_world cn))"

lemma handle_event_joined:
  "cn_joined (handle_socket_event env tn event payload cn) \<longleftrightarrow>
     cn_joined cn \<or> (event = ''message'' \<and> message_is_joined payload)"
  "conn_upstream_joined (handle_socket_event env tn event payload cn) \<longleftrightarrow>
     conn_upstream_joined cn \<or> (event = ''message'' \<and> message_is_joined payload)"
  by (auto simp: handle_socket_event_def Let_def)

lemma handle_packet_joined:
  "cn_joined (snd (handle_socket_packet env tn pkt cn)) \<longleftrightarrow>
     cn_joined cn \<or> (\<exists>payload. pkt = SocketEvent ''message'' payload \<and> message_is_joined payload)"
  "conn_upstream_joined (snd (handle_socket_packet env tn pkt cn)) \<longleftrightarrow>
     conn_upstream_joined cn \<or> (\<exists>payload. pkt = SocketEvent ''message'' payload \<and> message_is_joined payload)"
  by (cases pkt; auto simp: handle_socket_packet_def send_then_def handle_event_joined)+

lemma observe_joined [simp]:
  "cn_joined (observe_packet at cn) = cn_joined cn" "conn_upstream_joined (observe_packet at cn) = conn_upstream_joined cn"
  by (simp_all add: observe_packet_def)

lemma receive_text_joined:
  "cn_joined (snd (receive_text env tn at text cn)) \<longleftrightarrow>
     cn_joined cn \<or> (\<exists>payload. decode (se_codec env) text = Inr (SocketEvent ''message'' payload) \<and> message_is_joined payload)"
  "conn_upstream_joined (snd (receive_text env tn at text cn)) \<longleftrightarrow>
     conn_upstream_joined cn \<or> (\<exists>payload. decode (se_codec env) text = Inr (SocketEvent ''message'' payload) \<and> message_is_joined payload)"
proof -
  have *: "cn_joined (snd (receive_text env tn at text cn)) =
      cn_joined (snd (handle_socket_packet env tn pkt (observe_packet at cn)))"
    "cn_world (snd (receive_text env tn at text cn)) =
      cn_world (snd (handle_socket_packet env tn pkt (observe_packet at cn)))"
    if "decode (se_codec env) text = Inr pkt" for pkt
    using that by (simp_all add: receive_text_def Let_def set_heartbeat_def split: sum.split socket_text_result.split)
  show "cn_joined (snd (receive_text env tn at text cn)) \<longleftrightarrow>
     cn_joined cn \<or> (\<exists>payload. decode (se_codec env) text = Inr (SocketEvent ''message'' payload) \<and> message_is_joined payload)"
    by (cases "decode (se_codec env) text") (simp add: receive_text_def, simp add: * handle_packet_joined)
  show "conn_upstream_joined (snd (receive_text env tn at text cn)) \<longleftrightarrow>
     conn_upstream_joined cn \<or> (\<exists>payload. decode (se_codec env) text = Inr (SocketEvent ''message'' payload) \<and> message_is_joined payload)"
    by (cases "decode (se_codec env) text") (simp add: receive_text_def, simp add: * handle_packet_joined)
qed

lemma receive_turn_joined:
  "cn_joined (snd (receive_turn env tn cn)) \<Longrightarrow> cn_joined cn \<or> tn_auth tn \<and> turn_joins (se_codec env) tn"
  "(conn_upstream_joined cn \<longrightarrow> cn_joined cn) \<Longrightarrow>
     conn_upstream_joined (snd (receive_turn env tn cn)) \<longrightarrow> cn_joined (snd (receive_turn env tn cn))"
proof -
  define c where "c = read_auth (tn_auth tn) cn"
  have c: "cn_joined c = cn_joined cn" "conn_upstream_joined c = conn_upstream_joined cn" by (simp_all add: c_def read_auth_def)
  have m: "cn_joined (snd (receive_message env tn at msg c)) \<longleftrightarrow> cn_joined c \<or>
      (\<exists>text payload. msg = WsText text \<and> decode (se_codec env) text = Inr (SocketEvent ''message'' payload) \<and> message_is_joined payload)"
    "conn_upstream_joined (snd (receive_message env tn at msg c)) \<longleftrightarrow> conn_upstream_joined c \<or>
      (\<exists>text payload. msg = WsText text \<and> decode (se_codec env) text = Inr (SocketEvent ''message'' payload) \<and> message_is_joined payload)"
    for at msg
    by (cases msg; simp add: receive_message_def Let_def receive_text_joined send_then_def)+
  have i: "item_first tn c = Some (at, item) \<Longrightarrow> tn_arrival tn = Some (at, item)" for at item
    by (auto simp: item_first_def split: option.splits if_splits)
  show "cn_joined (snd (receive_turn env tn cn)) \<Longrightarrow> cn_joined cn \<or> tn_auth tn \<and> turn_joins (se_codec env) tn"
    by (auto simp: receive_turn_def Let_def c_def [symmetric] m c liveness_timeout_def turn_joins_def
        dest!: i split: option.splits socket_item.splits if_splits)
  show "(conn_upstream_joined cn \<longrightarrow> cn_joined cn) \<Longrightarrow>
     conn_upstream_joined (snd (receive_turn env tn cn)) \<longrightarrow> cn_joined (snd (receive_turn env tn cn))"
    by (auto simp: receive_turn_def Let_def c_def [symmetric] m c liveness_timeout_def
        split: option.splits socket_item.splits)
qed

lemma receive_loop_joined:
  "cn_joined (snd (receive_loop env tns cn)) \<Longrightarrow>
     cn_joined cn \<or> (\<exists>tn \<in> set tns. tn_auth tn \<and> turn_joins (se_codec env) tn)"
proof (induction tns arbitrary: cn)
  case (Cons tn tns)
  then show ?case using receive_turn_joined(1) [of env tn cn] by (auto simp: Let_def split: if_splits)
qed simp

lemma receive_loop_flag:
  "(conn_upstream_joined cn \<longrightarrow> cn_joined cn) \<Longrightarrow>
     conn_upstream_joined (snd (receive_loop env tns cn)) \<longrightarrow> cn_joined (snd (receive_loop env tns cn))"
proof (induction tns arbitrary: cn)
  case (Cons tn tns)
  then show ?case using receive_turn_joined(2) [of cn env tn] by (simp add: Let_def)
qed simp

section \<open>What the gateway says\<close>

text \<open>The answer to a message, by the protocol: one text to each of three packets and a pong to a ping.\<close>

definition answer :: "codec \<Rightarrow> ws_message \<Rightarrow> ws_message list" where
  "answer cd msg = (case msg of
     WsText text \<Rightarrow> (case decode cd text of
         Inr (EngineOpen _) \<Rightarrow> [WsText ''40'']
       | Inr EnginePing \<Rightarrow> [WsText ''3'']
       | Inr SocketConnected \<Rightarrow> [WsText (room_join cd)]
       | _ \<Rightarrow> [])
   | WsPing payload \<Rightarrow> [WsPong payload]
   | _ \<Rightarrow> [])"

lemma sent_simps [simp]:
  "sw_sent (cn_world (handle_socket_event env tn event payload cn)) = sw_sent (cn_world cn)"
  "sw_sent (cn_world (observe_packet at cn)) = sw_sent (cn_world cn)"
  "sw_sent (cn_world (set_heartbeat h cn)) = sw_sent (cn_world cn)"
  "sw_sent (cn_world (snd (send_then tn m res cn))) = sw_sent (cn_world cn) @ [m]"
  "sw_sent (cn_world (read_auth b cn)) = sw_sent (cn_world cn)"
  "sw_sent (cn_world (liveness_timeout cn)) = sw_sent (cn_world cn)"
  by (simp_all add: handle_socket_event_def observe_packet_def set_heartbeat_def send_then_def read_auth_def
      liveness_timeout_def Let_def)

lemma receive_text_sent:
  "sw_sent (cn_world (snd (receive_text env tn at text cn))) = sw_sent (cn_world cn) @ answer (se_codec env) (WsText text)"
proof (cases "decode (se_codec env) text")
  case (Inr pkt)
  have "sw_sent (cn_world (snd (receive_text env tn at text cn))) =
      sw_sent (cn_world (snd (handle_socket_packet env tn pkt (observe_packet at cn))))"
    using Inr by (simp add: receive_text_def Let_def split: sum.split socket_text_result.split)
  with Inr show ?thesis by (cases pkt) (simp_all add: handle_socket_packet_def answer_def)
qed (simp add: receive_text_def answer_def)

lemma receive_message_sent:
  "sw_sent (cn_world (snd (receive_message env tn at msg cn))) = sw_sent (cn_world cn) @ answer (se_codec env) msg"
  by (cases msg) (simp_all add: receive_message_def receive_text_sent Let_def answer_def)

lemma receive_turn_sent:
  "sw_sent (cn_world (snd (receive_turn env tn cn))) = sw_sent (cn_world cn) @
     (case item_first tn (read_auth (tn_auth tn) cn) of
        Some (_, Item msg) \<Rightarrow> if tn_auth tn then answer (se_codec env) msg else [] | _ \<Rightarrow> [])"
  by (simp add: receive_turn_def Let_def receive_message_sent split: option.split socket_item.split)

text \<open>The messages that arrive in the given turns.\<close>

definition arrived :: "socket_turn list \<Rightarrow> ws_message list" where
  "arrived tns = List.map_filter (\<lambda>tn. case tn_arrival tn of Some (_, Item msg) \<Rightarrow> Some msg | _ \<Rightarrow> None) tns"

lemma arrived_Cons:
  "arrived (tn # tns) = (case tn_arrival tn of Some (_, Item msg) \<Rightarrow> [msg] | _ \<Rightarrow> []) @ arrived tns"
  by (simp add: arrived_def map_filter_simps split: option.split socket_item.split)

lemma arrived_Nil [simp]: "arrived [] = []"
  by (simp add: arrived_def map_filter_simps)

text \<open>A turn either takes the item that arrives or ends the loop.\<close>

lemma receive_turn_takes:
  "sw_sent (cn_world (snd (receive_turn env tn cn))) =
     sw_sent (cn_world cn) @ concat (map (answer (se_codec env)) (arrived [tn])) \<or>
   sw_sent (cn_world (snd (receive_turn env tn cn))) = sw_sent (cn_world cn) \<and> fst (receive_turn env tn cn) \<noteq> GoOn"
proof (cases "tn_auth tn \<and> item_first tn (read_auth (tn_auth tn) cn) \<noteq> None")
  case True
  then obtain at item where i: "item_first tn (read_auth (tn_auth tn) cn) = Some (at, item)" by auto
  then have "tn_arrival tn = Some (at, item)" by (auto simp: item_first_def split: option.splits if_splits)
  then show ?thesis using i True by (cases item) (simp_all add: receive_turn_sent arrived_Cons)
next
  case False
  then consider "\<not> tn_auth tn" | "tn_auth tn" "item_first tn (read_auth True cn) = None" by fastforce
  then show ?thesis by cases (simp_all add: receive_turn_def Let_def)
qed

lemma receive_loop_sent:
  "\<exists>n \<le> length tns. sw_sent (cn_world (snd (receive_loop env tns cn))) =
     sw_sent (cn_world cn) @ concat (map (answer (se_codec env)) (arrived (take n tns)))"
proof (induction tns arbitrary: cn)
  case (Cons tn tns)
  let ?r = "receive_turn env tn cn"
  have step: "arrived (take (Suc n) (tn # tns)) = arrived [tn] @ arrived (take n tns)" for n
    by (simp add: arrived_Cons)
  from receive_turn_takes [of env tn cn] show ?case
  proof
    assume t: "sw_sent (cn_world (snd ?r)) = sw_sent (cn_world cn) @ concat (map (answer (se_codec env)) (arrived [tn]))"
    show ?thesis
    proof (cases "fst ?r = GoOn")
      case True
      obtain n where "n \<le> length tns" "sw_sent (cn_world (snd (receive_loop env tns (snd ?r)))) =
          sw_sent (cn_world (snd ?r)) @ concat (map (answer (se_codec env)) (arrived (take n tns)))"
        using Cons.IH by blast
      then show ?thesis using True t by (intro exI [of _ "Suc n"]) (simp add: Let_def step del: take_Suc_Cons)
    next
      case False
      then show ?thesis using t by (intro exI [of _ "Suc 0"]) (simp add: Let_def step del: take_Suc_Cons)
    qed
  next
    assume "sw_sent (cn_world (snd ?r)) = sw_sent (cn_world cn) \<and> fst ?r \<noteq> GoOn"
    then show ?thesis by (intro exI [of _ 0]) (simp add: Let_def)
  qed
qed simp

section \<open>Liveness\<close>

text \<open>The saturating arithmetic is exact for the heartbeats that can be decoded.\<close>

lemma decoded_heartbeat_small:
  assumes "decode cd text = Inr (EngineOpen h)"
  shows "ping_interval h < dur_millis (2 ^ 64)" "ping_timeout h < dur_millis (2 ^ 64)"
proof -
  have b: "d < dur_millis (2 ^ 64)" if pm: "packet_millis m name = Inr d" for m name d
  proof -
    obtain w :: "64 word" where "d = dur_millis (unat w)"
      using pm unfolding packet_millis_Inr by blast
    moreover have "unat w < 2 ^ 64" using unsigned_less [of w] by simp
    ultimately show ?thesis by (simp add: dur_millis_def)
  qed
  from assms obtain p where "decode_engine_open cd p = Inr (EngineOpen h)"
    by (auto simp: decode_def decode_socketio_not_open res_simps split: if_splits)
  then show "ping_interval h < dur_millis (2 ^ 64)" "ping_timeout h < dur_millis (2 ^ 64)"
    unfolding decode_engine_open_def res_simps using b by auto
qed

lemma allowed_silence_exact:
  assumes "decode cd text = Inr (EngineOpen h)" and "rl_heartbeat rl = Some h"
  shows "allowed_silence rl = 2 * ping_interval h + ping_timeout h + dur_secs 5"
  using decoded_heartbeat_small [OF assms(1)] assms(2)
  by (simp add: allowed_silence_def LIVENESS_GRACE_def dur_defs)

lemma deadline_bound:
  assumes "last_inbound (cn_liveness cn) \<le> tn_start tn"
  shows "deadline tn cn = max (tn_start tn) (last_inbound (cn_liveness cn) + allowed_silence (cn_liveness cn))"
  using assms by (simp add: deadline_def remaining_def silence_def dur_saturating_sub_def)

lemma read_auth_sel [simp]:
  "cn_liveness (read_auth b cn) = cn_liveness cn" "cn_world (read_auth b cn) = world_auth b (cn_world cn)"
  by (simp_all add: read_auth_def)

lemma deadline_read_auth [simp]: "deadline tn (read_auth b cn) = deadline tn cn"
  by (simp add: deadline_def)

section \<open>The supervisor\<close>

inductive supervise_step :: "'u socket_env \<Rightarrow> supervise_state \<Rightarrow> supervise_state \<Rightarrow> bool" for env where
  supervise_slept: "supervise_turn_fn env sp s = Slept d t \<Longrightarrow> supervise_step env s t"

inductive_cases supervise_stepE: "supervise_step env s t"

definition delay_ok :: "duration \<Rightarrow> bool" where
  "delay_ok d = (RECONNECT_MIN \<le> d \<and> d \<le> RECONNECT_MAX)"

lemma delay_doubles: "delay_ok d \<Longrightarrow> delay_ok (min (dur_saturating_mul d 2) RECONNECT_MAX)"
  by (auto simp: delay_ok_def RECONNECT_MIN_def RECONNECT_MAX_def dur_defs)

definition supervisor_start :: "db \<Rightarrow> supervise_state \<Rightarrow> bool" where
  "supervisor_start db s = (\<exists>st. s = supervise_init \<lparr>sw_status = st, sw_db = db, sw_wakeups = 0, sw_ops = [], sw_sent = []\<rparr>
     \<and> \<not> upstream_joined st)"

text \<open>
  Between connections: the delay is within its bounds, no connection is counted as active, the room is not
  reported as joined by the flag or the gauge, and the database was only changed by steps of the store that
  keep every pending delivery.
\<close>

definition supervisor_inv :: "codec \<Rightarrow> db \<Rightarrow> supervise_state \<Rightarrow> bool" where
  "supervisor_inv cd db s =
     (delay_ok (sup_delay s) \<and> \<not> upstream_joined (sw_status (sup_world s)) \<and> mirrors (sup_world s) \<and>
      quiet (sw_ops (sup_world s)) \<and> (store_step cd)\<^sup>*\<^sup>* db (sw_db (sup_world s)) \<and>
      pending_keys db \<subseteq> pending_keys (sw_db (sup_world s)))"

text \<open>The world a turn leaves to the next.\<close>

lemma supervise_turn_world:
  assumes "supervise_turn_fn env sp s = Slept d t"
  shows "keeps (se_codec env) (sup_world s) (sup_world t) \<and> \<not> upstream_joined (sw_status (sup_world t))"
proof -
  define w where "w = world_auth (sp_auth sp) (sup_world s)"
  define r where "r = run_socket_once env (sp_attempt sp) (tell [MInc SOCKET_CONNECTION_ATTEMPTS []] w)"
  have k0: "keeps (se_codec env) (sup_world s) w" unfolding w_def by (rule keeps_auth)
  have "keeps (se_codec env) w (tell [MInc SOCKET_CONNECTION_ATTEMPTS []] w)" by (rule keeps_tell) (simp_all add: quiet_def)
  then have "keeps (se_codec env) w (snd r)" unfolding r_def using run_socket_once_keeps by (rule keeps_trans)
  then have k1: "keeps (se_codec env) (sup_world s) (world_joined False (snd r))"
    using k0 keeps_joined by (blast intro: keeps_trans)
  have k2: "keeps (se_codec env) (sup_world s) (tell [MInc SOCKET_JOIN_FAILURES []] (world_joined False (snd r)))"
    using k1 by (rule keeps_trans) (rule keeps_tell, simp_all add: quiet_def)
  have k3: "keeps (se_codec env) (sup_world s) (world_joined False w)" using k0 keeps_joined by (rule keeps_trans)
  show ?thesis
    using assms k1 k2 k3
    by (auto simp: supervise_turn_fn_def Let_def w_def [symmetric] r_def [symmetric] split: if_splits option.splits)
qed

lemma supervise_turn_delay:
  assumes "supervise_turn_fn env sp s = Slept d t" and "delay_ok (sup_delay s)"
  shows "delay_ok d \<and> delay_ok (sup_delay t)"
proof -
  have "delay_ok RECONNECT_MIN" by (simp add: delay_ok_def RECONNECT_MIN_def RECONNECT_MAX_def dur_defs)
  then show ?thesis
    using assms delay_doubles
    by (auto simp: supervise_turn_fn_def Let_def split: if_splits option.splits)
qed

interpretation supervisor: component_invariant "supervisor_start db" "supervise_step env" "supervisor_inv (se_codec env) db"
  for db env
proof unfold_locales
  show "supervisor_start db s \<Longrightarrow> supervisor_inv (se_codec env) db s" for s
    by (auto simp: supervisor_start_def supervisor_inv_def supervise_init_def delay_ok_def mirrors_def quiet_def
        RECONNECT_MIN_def RECONNECT_MAX_def dur_defs)
  show "supervisor_inv (se_codec env) db s \<Longrightarrow> supervise_step env s t \<Longrightarrow> supervisor_inv (se_codec env) db t" for s t
  proof (erule supervise_stepE)
    fix sp d
    assume inv: "supervisor_inv (se_codec env) db s" and st: "supervise_turn_fn env sp s = Slept d t"
    note w = supervise_turn_world [OF st]
    have "delay_ok (sup_delay t)" using supervise_turn_delay [OF st] inv by (simp add: supervisor_inv_def)
    with inv w show "supervisor_inv (se_codec env) db t"
      by (fastforce simp: supervisor_inv_def keeps_def intro: quiet_append rtranclp_trans)
  qed
qed

text \<open>The sleeps of a run of attempts that all fail, whatever state they start in.\<close>

definition attempt_fails :: "'u socket_env \<Rightarrow> supervise_turn \<Rightarrow> bool" where
  "attempt_fails env sp =
     (\<not> sp_shutdown sp \<and> sp_auth sp \<and>
      (\<forall>w. \<exists>res. connection_result (fst (run_socket_once env (sp_attempt sp) w)) (sp_shutdown_during sp) = Some res \<and>
           res \<noteq> Inr True))"

lemma failing_turn:
  assumes "attempt_fails env sp"
  shows "\<exists>w. supervise_turn_fn env sp s =
    Slept (sup_delay s) \<lparr>sup_delay = min (dur_saturating_mul (sup_delay s) 2) RECONNECT_MAX, sup_world = w\<rparr>"
proof -
  obtain res where "connection_result (fst (run_socket_once env (sp_attempt sp)
      (tell [MInc SOCKET_CONNECTION_ATTEMPTS []] (world_auth (sp_auth sp) (sup_world s))))) (sp_shutdown_during sp) = Some res"
    "res \<noteq> Inr True"
    using assms by (auto simp: attempt_fails_def)
  then show ?thesis using assms by (simp add: attempt_fails_def supervise_turn_fn_def Let_def)
qed

definition backoff :: "nat \<Rightarrow> duration" where
  "backoff k = min (dur_secs (3 * 2 ^ k)) RECONNECT_MAX"

lemma backoff_Suc: "min (dur_saturating_mul (backoff k) 2) RECONNECT_MAX = backoff (Suc k)"
  by (auto simp: backoff_def RECONNECT_MAX_def dur_defs min_def)

lemma failing_sleeps:
  "\<forall>sp \<in> set sps. attempt_fails env sp \<Longrightarrow> sup_delay s = backoff k \<Longrightarrow>
     fst (supervise env sps s) = map backoff [k..<k + length sps]"
proof (induction sps arbitrary: s k)
  case (Cons sp sps)
  obtain w where t: "supervise_turn_fn env sp s =
      Slept (backoff k) \<lparr>sup_delay = backoff (Suc k), sup_world = w\<rparr>"
    using failing_turn [of env sp s] Cons.prems by (auto simp: backoff_Suc)
  have "fst (supervise env sps \<lparr>sup_delay = backoff (Suc k), sup_world = w\<rparr>) = map backoff [Suc k..<Suc k + length sps]"
    using Cons.prems by (intro Cons.IH) simp_all
  moreover have "[k..<k + length (sp # sps)] = k # [Suc k..<Suc k + length sps]" by (simp add: upt_conv_Cons del: upt_Suc)
  ultimately show ?case by (simp add: t Let_def del: upt_Suc)
qed simp

end
