(* ===== verification/Connection_Properties.thy ===== *)
theory Connection_Properties
  imports Socket_Facts Sample_Data
begin

text \<open>
  Properties of the management session and of the upstream socket.
\<close>

section \<open>Samples\<close>

text \<open>A jar that only remembers expiry times; every text sets the expiry of one cookie.\<close>

definition sample_jar :: "(cookie_expiration list, unit, unit) cookie_lib" where
  "sample_jar = \<lparr>ck_url = (\<lambda>_. Some ()), ck_new = [], ck_split_parse = (\<lambda>_. [Some ()]),
     ck_insert_raw = (\<lambda>_ _ _ jar. (True, SessionEnd # jar)), ck_request_values = (\<lambda>_ _ jar. map (\<lambda>_. (''s'', ''v'')) jar),
     ck_matches = (\<lambda>_ _ jar. jar), ck_parse = (\<lambda>text _ _ _. (True, [AtUtc (int (length text))])),
     ck_header_text = Some, ck_from_timestamp = (\<lambda>s. Some (s * int NANOS_PER_SEC))\<rparr>"

definition sample_session :: "(cookie_expiration list, unit) session_cookie" where
  "sample_session = \<lparr>sc_store = [SessionEnd, AtUtc 100], sc_url = ()\<rparr>"

definition sample_status :: status where
  "sample_status = \<lparr>upstream_joined = False, auth_healthy = False, upstream_required = True\<rparr>"

definition sample_supervisor :: supervisor where
  "sample_supervisor = \<lparr>sv_cfg = \<lparr>base_url = ''https://ptchan.test''\<rparr>, sv_webhooks = [sample_webhook],
     sv_origins = Map.empty, sv_fingerprint_secret = Some ''s3cret''\<rparr>"

text \<open>A codec that reads every payload as the room's answer, and one that reads it as a heartbeat.\<close>

definition joined_codec :: codec where
  "joined_codec = ref_codec\<lparr>json_from_slice := (\<lambda>_. Some (JArray [JString ''message'', JString ''joined'']))\<rparr>"

definition open_codec :: codec where
  "open_codec = ref_codec\<lparr>json_from_slice := (\<lambda>_. Some (JObject [(''pingInterval'', JNumber (PosInt 25000)),
     (''pingTimeout'', JNumber (PosInt 20000))]))\<rparr>"

text \<open>A URL is its text.\<close>

definition sample_urls :: "string url_lib" where
  "sample_urls = \<lparr>ul_parse = Some, ul_scheme = (\<lambda>_. ''https''), ul_host_str = (\<lambda>_. Some ''ptchan.test''), ul_port = (\<lambda>_. None),
     ul_set_scheme = (\<lambda>_. Some), ul_set_path = (\<lambda>_ u. u), ul_set_query = (\<lambda>_ u. u), ul_to_string = (\<lambda>u. u),
     ul_client_request = (\<lambda>_. True), ul_header_value = (\<lambda>_. True)\<rparr>"

definition sample_socket_env :: "codec \<Rightarrow> string socket_env" where
  "sample_socket_env cd = \<lparr>se_codec = cd, se_crypto = ref_crypto, se_url = sample_urls, se_sup = sample_supervisor\<rparr>"

lemma sample_socket_request:
  "\<exists>q. socket_request (se_url (sample_socket_env cd))
     (sv_cfg (se_sup (sample_socket_env cd))) cookie = Inr q"
  by (simp add: socket_request_def socket_origin_def socket_url_def sample_socket_env_def sample_urls_def)

definition sample_turn :: "(nat \<times> socket_item) option \<Rightarrow> socket_turn" where
  "sample_turn item = \<lparr>tn_auth = True, tn_start = 0, tn_arrival = item, tn_prefer_sleep = False, tn_send_ok = True,
     tn_now = 7, tn_fault = False\<rparr>"

definition sample_world :: socket_world where
  "sample_world = \<lparr>sw_status = sample_status, sw_db = sample_db, sw_wakeups = 0, sw_ops = [], sw_sent = []\<rparr>"

definition sample_connect :: "connect_outcome \<Rightarrow> socket_turn list \<Rightarrow> socket_attempt" where
  "sample_connect c tns = \<lparr>at_cookie = ''s=v'', at_connect = c, at_opened = 0, at_turns = tns, at_elapsed = 0\<rparr>"

definition sample_supervise_turn :: supervise_turn where
  "sample_supervise_turn = \<lparr>sp_shutdown = False, sp_auth = True, sp_attempt = sample_connect ConnectFails [],
     sp_shutdown_during = False\<rparr>"

lemma sample_connect_fails: "attempt_fails (sample_socket_env cd) sample_supervise_turn"
  using sample_socket_request [of cd "''s=v''"]
  by (auto simp: attempt_fails_def sample_supervise_turn_def sample_connect_def run_socket_once_def connection_result_def)

section \<open>The session\<close>

text \<open>
  C34: the delay before the next refresh ends before the session does. It is at most the time left to the
  earliest known expiry of a cookie that is sent, at least four fifths of it, at most an hour short of it, and
  strictly shorter unless fewer than five nanoseconds are left.
\<close>

theorem refresh_before_expiry:
  assumes "next_refresh_delay lib at now sc = Inr d"
  shows "\<exists>e. expires_at lib at sc = Some e \<and>
    (\<forall>s t. AtUtc s \<in> set (ck_matches lib (sc_url sc) at (sc_store sc)) \<longrightarrow> ck_from_timestamp lib s = Some t \<longrightarrow> e \<le> t) \<and>
    d \<le> nat (e - now) \<and> nat (e - now) \<le> d + dur_hours 1 \<and> 4 * nat (e - now) \<le> 5 * d \<and>
    (5 \<le> nat (e - now) \<longrightarrow> d < nat (e - now))"
  using assms by (rule next_refresh_delay_bounds) (use expires_at_earliest in blast)

theorem refresh_before_expiry_witness:
  "next_refresh_delay sample_jar 0 (int (dur_secs 50)) sample_session = Inr (dur_secs 40) \<and>
   (\<exists>e. expires_at sample_jar 0 sample_session = Some e \<and> nat (e - int (dur_secs 50)) \<le> dur_secs 40 + dur_hours 1)"
proof -
  have "next_refresh_delay sample_jar 0 (int (dur_secs 50)) sample_session = Inr (dur_secs 40)"
    by (simp add: next_refresh_delay_def expires_at_def sample_jar_def sample_session_def List.map_filter_def min_opt_def
        since_or_zero_def dur_defs SESSION_REFRESH_MAX_SAFETY_MARGIN_def)
  with refresh_before_expiry [OF this] show ?thesis by blast
qed


text \<open>Upstream answers with an empty list of recent posts and a new cookie.\<close>

definition sample_recent :: "http_request \<Rightarrow> http_outcome" where
  "sample_recent request = Inr \<lparr>hs_status = 200, hs_set_cookie = [''s=v; Max-Age=9''], hs_body = Some ''[]''\<rparr>"


section \<open>The supervisor\<close>

lemma store_steps_wf: "(store_step cd)\<^sup>*\<^sup>* db db' \<Longrightarrow> db_wf db \<Longrightarrow> db_wf db'"
  by (induction rule: rtranclp_induct) (simp_all add: store_inv.inv_step)

text \<open>
  In every state the supervisor can reach between connections the reconnect delay is between
  three seconds and a minute; the room is not reported as joined, neither by the flag nor by the gauge; no
  connection is counted as active; every effect so far named an existing metric with its labels; and the
  database is as well formed as it was at the start and still has every delivery that was pending then.
\<close>

theorem supervisor_reachable:
  assumes "reach (supervisor_start db) (supervise_step env) s" and "db_wf db"
  shows "dur_secs 3 \<le> sup_delay s \<and> sup_delay s \<le> dur_secs 60 \<and>
    \<not> upstream_joined (sw_status (sup_world s)) \<and>
    gauge_after SOCKET_JOINED 0 (sw_ops (sup_world s)) = 0 \<and>
    gauge_after SOCKET_ACTIVE_CONNECTIONS 0 (sw_ops (sup_world s)) = 0 \<and>
    list_all metric_op_ok (sw_ops (sup_world s)) \<and>
    db_wf (sw_db (sup_world s)) \<and> pending_keys db \<subseteq> pending_keys (sw_db (sup_world s))"
  using supervisor.inv_reach [OF assms(1)] store_steps_wf [OF _ assms(2)]
  by (auto simp: supervisor_inv_def delay_ok_def mirrors_def quiet_def RECONNECT_MIN_def RECONNECT_MAX_def dur_mins_def)

text \<open>
  C38: attempts that keep failing are separated by sleeps of 3, 6, 12, 24, 48 and then always 60 seconds; after a
  connection that joined the room (or reached the refresh interval) the next sleep is three seconds again.
\<close>

theorem reconnect_backoff:
  assumes "\<forall>sp \<in> set sps. attempt_fails env sp"
  shows "fst (supervise env sps (supervise_init w)) =
      map (\<lambda>k. if k < 5 then dur_secs (3 * 2 ^ k) else dur_secs 60) [0..<length sps] \<and>
    (\<forall>sp s. \<not> sp_shutdown sp \<and> sp_auth sp \<and>
       connection_result (fst (run_socket_once env (sp_attempt sp)
         (tell [MInc SOCKET_CONNECTION_ATTEMPTS []] (world_auth True (sup_world s))))) (sp_shutdown_during sp) = Some (Inr True) \<longrightarrow>
       (\<exists>w'. supervise_turn_fn env sp s = Slept (dur_secs 3) \<lparr>sup_delay = dur_secs 6, sup_world = w'\<rparr>))"
proof -
  have b: "backoff k = (if k < 5 then dur_secs (3 * 2 ^ k) else dur_secs 60)" for k
  proof (cases "k < 5")
    case True
    then have "k \<in> {0, 1, 2, 3, 4}" by auto
    then show ?thesis by (auto simp: backoff_def RECONNECT_MAX_def dur_defs)
  next
    case False
    then have "(2 :: nat) ^ 5 \<le> 2 ^ k" by (intro power_increasing) simp_all
    with False show ?thesis by (simp add: backoff_def RECONNECT_MAX_def dur_defs)
  qed
  have "sup_delay (supervise_init w) = backoff 0"
    by (simp add: supervise_init_def backoff_def RECONNECT_MIN_def RECONNECT_MAX_def dur_defs)
  from failing_sleeps [OF assms this] have "fst (supervise env sps (supervise_init w)) = map backoff [0..<length sps]"
    by simp
  then show ?thesis
    unfolding b by (auto simp: supervise_turn_fn_def Let_def RECONNECT_MIN_def RECONNECT_MAX_def dur_defs)
qed

theorem reconnect_backoff_witness:
  "fst (supervise (sample_socket_env ref_codec) (replicate 7 sample_supervise_turn) (supervise_init sample_world)) =
     map dur_secs [3, 6, 12, 24, 48, 60, 60]"
  using reconnect_backoff [of "replicate 7 sample_supervise_turn" "sample_socket_env ref_codec" sample_world]
    sample_connect_fails
  by (simp add: upt_rec)

section \<open>The connection\<close>

text \<open>
  C1: a connection returns as joined, and reports the room as joined while it runs, only when the session was
  healthy and upstream sent a Socket.IO \<^verbatim>\<open>message\<close> event with the text \<^verbatim>\<open>joined\<close> on this connection.
\<close>

theorem joined_only_when_told:
  assumes "fst (run_socket_once env a w) = Some (Inr True) \<or>
    upstream_joined (sw_status (snd (run_socket_once env a w)))"
    and "\<not> upstream_joined (sw_status w)"
  shows "at_connect a = Connected \<and> (\<exists>tn \<in> set (at_turns a). tn_auth tn \<and> turn_joins (se_codec env) tn)"
proof -
  let ?c = "\<lparr>cn_joined = False, cn_liveness = liveness_new (at_opened a), cn_world = guard_new w\<rparr>"
  let ?r = "receive_loop env (at_turns a) ?c"
  have c: "\<not> conn_upstream_joined ?c" using assms(2) by (simp add: guard_new_def)
  have "at_connect a = Connected \<and> (cn_joined (snd ?r) \<or> conn_upstream_joined (snd ?r))"
    using assms
    by (auto simp: run_socket_once_def Let_def guard_drop_def split: sum.splits connect_outcome.splits turn_outcome.splits)
  moreover have "conn_upstream_joined (snd ?r) \<longrightarrow> cn_joined (snd ?r)"
    using c by (intro receive_loop_flag) simp
  ultimately show ?thesis using receive_loop_joined [of env "at_turns a" ?c] by auto
qed

definition joined_attempt :: socket_attempt where
  "joined_attempt = sample_connect Connected [sample_turn (Some (1, Item (WsText ''42x''))), sample_turn (Some (2, ItemEnd))]"

theorem joined_only_when_told_witness:
  "fst (run_socket_once (sample_socket_env joined_codec) joined_attempt sample_world) = Some (Inr True) \<and>
   (\<exists>tn \<in> set (at_turns joined_attempt). turn_joins joined_codec tn)"
proof -
  have cont: "\<not> is_cont_byte CHR ''2''" "\<not> is_cont_byte CHR ''x''" by (simp_all add: is_cont_byte_def byte_def)
  obtain q where q: "socket_request (se_url (sample_socket_env joined_codec))
     (sv_cfg (se_sup (sample_socket_env joined_codec))) ''s=v'' = Inr q" using sample_socket_request by blast
  have c: "se_codec (sample_socket_env joined_codec) = joined_codec"
    "json_from_slice joined_codec s = Some (JArray [JString ''message'', JString ''joined''])" for s
    by (simp_all add: sample_socket_env_def joined_codec_def)
  have "fst (run_socket_once (sample_socket_env joined_codec) joined_attempt sample_world) = Some (Inr True)"
    by (simp add: q c run_socket_once_def joined_attempt_def sample_connect_def sample_turn_def receive_turn_def item_first_def
        deadline_def remaining_def allowed_silence_def silence_def liveness_new_def read_auth_def receive_message_def
        receive_text_def decode_def split_code_def cont decode_socketio_def decode_event_def
        as_array_def as_str_def handle_socket_packet_def handle_socket_event_def message_is_joined_def observe_packet_def
        ENGINE_OPEN_TIMEOUT_def dur_defs Let_def)
  with joined_only_when_told [of "sample_socket_env joined_codec" joined_attempt sample_world] show ?thesis
    by (auto simp: sample_world_def sample_status_def sample_socket_env_def)
qed

text \<open>
  C37: on an open connection the gateway speaks only when spoken to. What it has sent is, in order, the protocol's
  answer to each message of some initial part of what arrived: the namespace connect to the opening packet, the
  pong to a ping of either layer, the room join to the namespace's acknowledgement, and nothing to anything else.
\<close>

theorem socket_answers:
  "\<exists>n. n \<le> length (at_turns a) \<and> sw_sent (snd (run_socket_once env a w)) = sw_sent w @
    concat (map (\<lambda>msg. case msg of
        WsText text \<Rightarrow> (case decode (se_codec env) text of
            Inr (EngineOpen _) \<Rightarrow> [WsText ''40'']
          | Inr EnginePing \<Rightarrow> [WsText ''3'']
          | Inr SocketConnected \<Rightarrow> [WsText (room_join (se_codec env))]
          | _ \<Rightarrow> [])
      | WsPing payload \<Rightarrow> [WsPong payload]
      | _ \<Rightarrow> []) (arrived (take n (at_turns a))))"
proof -
  let ?c = "\<lparr>cn_joined = False, cn_liveness = liveness_new (at_opened a), cn_world = guard_new w\<rparr>"
  obtain n where n: "n \<le> length (at_turns a)" "sw_sent (cn_world (snd (receive_loop env (at_turns a) ?c))) =
      sw_sent (cn_world ?c) @ concat (map (answer (se_codec env)) (arrived (take n (at_turns a))))"
    using receive_loop_sent by blast
  have "sw_sent (snd (run_socket_once env a w)) = sw_sent w \<or>
      sw_sent (snd (run_socket_once env a w)) = sw_sent (cn_world (snd (receive_loop env (at_turns a) ?c)))"
    by (simp add: run_socket_once_def Let_def guard_drop_def split: sum.split connect_outcome.split turn_outcome.split)
  then show ?thesis
    unfolding answer_def [symmetric] using n by (auto simp: guard_new_def intro: exI [of _ 0])
qed

text \<open>
  C36: a heartbeat announced by upstream bounds the silence exactly. As long as the session is healthy, a message
  that arrives less than two ping intervals, a ping timeout and five seconds after the last packet is
  handled; when nothing arrives by then (nor before the turn began), the connection ends, the timeout is counted
  and the room is no longer reported as joined.
\<close>

theorem heartbeat_liveness:
  assumes "decode (se_codec env) text = Inr (EngineOpen h)" and "rl_heartbeat (cn_liveness cn) = Some h"
    and "tn_auth tn" and "last_inbound (cn_liveness cn) \<le> tn_start tn"
    and "limit = last_inbound (cn_liveness cn) + 2 * ping_interval h + ping_timeout h + dur_secs 5"
  shows "(\<forall>at msg. tn_arrival tn = Some (at, Item msg) \<and> at < limit \<longrightarrow>
      receive_turn env tn cn = receive_message env tn at msg (read_auth True cn)) \<and>
    ((\<forall>at item. tn_arrival tn = Some (at, item) \<longrightarrow> max (tn_start tn) limit < at) \<longrightarrow>
      fst (receive_turn env tn cn) = Break \<and>
      \<not> upstream_joined (sw_status (cn_world (snd (receive_turn env tn cn)))) \<and>
      metric_count SOCKET_LIVENESS_TIMEOUTS [] (sw_ops (cn_world (snd (receive_turn env tn cn)))) =
        Suc (metric_count SOCKET_LIVENESS_TIMEOUTS [] (sw_ops (cn_world cn))))"
proof -
  have d: "deadline tn (read_auth True cn) = max (tn_start tn) limit"
    using deadline_bound [of "read_auth True cn" tn] allowed_silence_exact [OF assms(1,2)] assms(4,5)
    by (simp add: add.assoc)
  have first: "item_first tn (read_auth True cn) = (case tn_arrival tn of None \<Rightarrow> None
      | Some (at, item) \<Rightarrow> if at < max (tn_start tn) limit \<or> at = max (tn_start tn) limit \<and> \<not> tn_prefer_sleep tn
          then Some (at, item) else None)"
    unfolding item_first_def d ..
  show ?thesis
    using assms(3) by (auto simp: receive_turn_def Let_def first liveness_timeout_def split: option.split)
qed

definition sample_heartbeat :: heartbeat where
  "sample_heartbeat = \<lparr>ping_interval = dur_secs 25, ping_timeout = dur_secs 20\<rparr>"

definition sample_connection :: connection where
  "sample_connection = \<lparr>cn_joined = True, cn_liveness = \<lparr>last_inbound = 0, rl_heartbeat = Some sample_heartbeat\<rparr>,
     cn_world = sample_world\<rparr>"

theorem heartbeat_liveness_witness:
  "receive_turn (sample_socket_env open_codec) (sample_turn (Some (dur_secs 74, Item WsBinary))) sample_connection =
     (GoOn, read_auth True sample_connection) \<and>
   fst (receive_turn (sample_socket_env open_codec) (sample_turn None) sample_connection) = Break"
proof -
  have d: "decode (se_codec (sample_socket_env open_codec)) ''0'' = Inr (EngineOpen sample_heartbeat)"
    by (simp add: decode_def split_code_def sample_socket_env_def open_codec_def decode_engine_open_def as_object_def
        packet_millis_def as_u64_def sample_heartbeat_def dur_defs)
  note live = heartbeat_liveness [OF d _ _ _ refl, of sample_connection]
  show ?thesis
    using live [of "sample_turn (Some (dur_secs 74, Item WsBinary))"] live [of "sample_turn None"]
    by (simp add: sample_connection_def sample_turn_def sample_heartbeat_def dur_defs receive_message_def)
qed

end
