(* ===== verification/Responses.thy ===== *)
theory Responses
  imports Contract Config Metrics Http Status Rate_Limit Store Origin
begin

text \<open>
  What the handlers of \<^verbatim>\<open>src/runtime\<close> share: the application state, requests and responses, error
  responses (\<^verbatim>\<open>responses.rs\<close>), the request counters (\<^verbatim>\<open>telemetry.rs\<close>) and the health endpoints.
\<close>

text \<open>
  A request as axum hands it over: the extracted path, query and body, each with the rejection
  axum gives when it cannot extract it, and the text of a header, when the header is present and is text.
\<close>

record inbound =
  in_method :: string
  in_target :: string
  in_header :: "string \<Rightarrow> string option"
  in_path :: "nat + string \<times> string"
  in_query :: "nat + nat option"
  in_body :: "nat + string"

datatype response_body =
    ErrorEnvelope error_body | ThreadBody thread | ReplyBody reply_response | PlainText string | OpenApiBody json | EmptyBody
  | AxumRejection

record response =
  rs_status :: nat
  rs_body :: response_body

record 'lim app_state =
  as_status :: status
  as_store :: db
  as_base_url :: string
  as_integrations :: "string \<Rightarrow> integration_config option"
  as_postings :: "string \<Rightarrow> posting_config option"
  as_origins :: origin_matcher
  as_rate_limiters :: "'lim rate_limiters"

text \<open>The state \<^verbatim>\<open>spawn_http\<close> builds from a resolved configuration.\<close>

definition app_state_new ::
  "('q, 'lim) governor \<Rightarrow> config \<Rightarrow> status \<Rightarrow> db \<Rightarrow> limiter_error + 'lim app_state" where
  "app_state_new g cfg st db =
     bindE (rate_limiters_new g (cf_integrations cfg) (rt_rate_limit (cf_runtime cfg))) (\<lambda>limiters.
     Inr \<lparr>as_status = st, as_store = db, as_base_url = base_url (cf_ptchan cfg),
          as_integrations = collect_map ic_name (\<lambda>i. i) (cf_integrations cfg),
          as_postings = collect_map pc_name (\<lambda>p. p) (cf_postings cfg),
          as_origins = origin_matcher_new (cf_postings cfg), as_rate_limiters = limiters\<rparr>)"

section \<open>Errors\<close>

record api_error =
  ae_status :: nat
  ae_body :: error_body

definition api_error_new :: "nat \<Rightarrow> error_code \<Rightarrow> string \<Rightarrow> api_error" where
  "api_error_new status code message =
     \<lparr>ae_status = status, ae_body = \<lparr>eb_code = code, eb_message = message,
        eb_retryable = error_code_retryable code, eb_upstream_status = None\<rparr>\<rparr>"

definition with_retryable :: "bool \<Rightarrow> api_error \<Rightarrow> api_error" where
  "with_retryable b e = e\<lparr>ae_body := (ae_body e)\<lparr>eb_retryable := b\<rparr>\<rparr>"

definition with_upstream_status :: "nat \<Rightarrow> api_error \<Rightarrow> api_error" where
  "with_upstream_status s e = e\<lparr>ae_body := (ae_body e)\<lparr>eb_upstream_status := Some s\<rparr>\<rparr>"

definition into_response :: "api_error \<Rightarrow> response" where
  "into_response e = \<lparr>rs_status = ae_status e, rs_body = ErrorEnvelope (ae_body e)\<rparr>"

definition posting_status_for_upstream :: "nat \<Rightarrow> nat" where
  "posting_status_for_upstream status = (if 400 \<le> status \<and> status < 500 then status else 502)"

definition gateway_rate_limited_error :: api_error where
  "gateway_rate_limited_error = api_error_new 429 RateLimited ''gateway rate limit exceeded''"

section \<open>Request counters\<close>

definition metric_board :: "string \<Rightarrow> string" where
  "metric_board board = (if valid_board_name board then board else ''invalid'')"

definition record_reading_request :: "string \<Rightarrow> string \<Rightarrow> string \<Rightarrow> duration \<Rightarrow> metric_op list" where
  "record_reading_request integration board result elapsed =
     (let labels = [integration, metric_board board, result] in
      [MInc READING_REQUESTS labels, MObserve READING_REQUEST_SECONDS labels elapsed])"

definition record_posting_request :: "string \<Rightarrow> string \<Rightarrow> string \<Rightarrow> duration \<Rightarrow> metric_op list" where
  "record_posting_request integration board result elapsed =
     (let labels = [integration, metric_board board, result] in
      [MInc POSTING_REQUESTS labels, MObserve POSTING_REQUEST_SECONDS labels elapsed])"

text \<open>
  \<^verbatim>\<open>accept_\<close> and \<^verbatim>\<open>reject_\<close> differ in what they log; both record the request.
\<close>

definition accept_reading_request :: "string \<Rightarrow> string \<Rightarrow> string \<Rightarrow> duration \<Rightarrow> metric_op list" where
  "accept_reading_request integration board result elapsed = record_reading_request integration board result elapsed"

definition reject_reading_request :: "string \<Rightarrow> string \<Rightarrow> string \<Rightarrow> duration \<Rightarrow> metric_op list" where
  "reject_reading_request integration board result elapsed = record_reading_request integration board result elapsed"

definition accept_posting_request :: "string \<Rightarrow> string \<Rightarrow> string \<Rightarrow> duration \<Rightarrow> metric_op list" where
  "accept_posting_request integration board result elapsed = record_posting_request integration board result elapsed"

definition reject_posting_request :: "string \<Rightarrow> string \<Rightarrow> string \<Rightarrow> duration \<Rightarrow> metric_op list" where
  "reject_posting_request integration board result elapsed = record_posting_request integration board result elapsed"

definition record_gateway_rate_limited_request :: "string \<Rightarrow> string \<Rightarrow> string \<Rightarrow> string \<Rightarrow> metric_op list" where
  "record_gateway_rate_limited_request integration board capability scope =
     [MInc GATEWAY_RATE_LIMITED_REQUESTS [integration, metric_board board, capability, scope]]"

lemmas telemetry_defs = accept_reading_request_def reject_reading_request_def accept_posting_request_def
  reject_posting_request_def record_reading_request_def record_posting_request_def
  record_gateway_rate_limited_request_def Let_def

section \<open>Health\<close>

definition healthz :: response where
  "healthz = \<lparr>rs_status = 200, rs_body = PlainText (''ok'' @ [CHR 0x0A])\<rparr>"

definition readyz :: "bool \<Rightarrow> 'lim app_state \<Rightarrow> metric_op list \<times> response" where
  "readyz fault st =
     (let upstream_ready = ready (as_status st); storage = fst (is_ready fault (as_store st)) in
      (fst storage,
       if upstream_ready \<and> snd storage = Inr True
       then \<lparr>rs_status = 200, rs_body = PlainText (''ready'' @ [CHR 0x0A])\<rparr>
       else \<lparr>rs_status = 503, rs_body = PlainText (''not ready'' @ [CHR 0x0A])\<rparr>))"

text \<open>\<^verbatim>\<open>check_health\<close>: the health command's request and verdict, given the resolved address.\<close>

definition check_health :: "(http_request \<Rightarrow> http_outcome) \<Rightarrow> string option \<Rightarrow> bool" where
  "check_health send addr = (case addr of
     None \<Rightarrow> False
   | Some a \<Rightarrow> (case send \<lparr>hr_method = GET, hr_url = ''http://'' @ a @ ''/healthz'', hr_timeout = None,
                       hr_headers = [], hr_body = NoBody\<rparr> of
       Inl _ \<Rightarrow> False
     | Inr r \<Rightarrow> is_success (hs_status r)))"

section \<open>Handlers\<close>

text \<open>What a handler does: its effects, the requests it sends upstream, its response and the limiters it leaves.\<close>

record 'lim outcome =
  oc_ops :: "metric_op list"
  oc_calls :: "http_request list"
  oc_response :: response
  oc_limiters :: "'lim rate_limiters"

text \<open>What a handler meets: the crates, the time and how upstream behaves.\<close>

record handler_env =
  he_codec :: codec
  he_crypto :: crypto
  he_now :: datetime
  he_elapsed :: duration
  he_send :: "http_request \<Rightarrow> http_outcome"

definition path_thread_id :: "string \<Rightarrow> int" where
  "path_thread_id s = (case parse_i64 s of Some i \<Rightarrow> i | None \<Rightarrow> 0)"

section \<open>Facts\<close>

text \<open>An envelope says that a request may be retried exactly when its code says so.\<close>

definition envelope_consistent :: "response \<Rightarrow> bool" where
  "envelope_consistent r = (case rs_body r of
     ErrorEnvelope b \<Rightarrow> eb_retryable b = error_code_retryable (eb_code b) | _ \<Rightarrow> True)"

definition response_label :: "response \<Rightarrow> string" where
  "response_label r = (case rs_body r of ErrorEnvelope b \<Rightarrow> error_code_str (eb_code b) | _ \<Rightarrow> ''success'')"

lemma api_error_response [simp]:
  "envelope_consistent (into_response (api_error_new s c m))"
  "response_label (into_response (api_error_new s c m)) = error_code_str c"
  "rs_status (into_response (api_error_new s c m)) = s"
  "rs_body (into_response (api_error_new s c m)) = ErrorEnvelope \<lparr>eb_code = c, eb_message = m,
     eb_retryable = error_code_retryable c, eb_upstream_status = None\<rparr>"
  by (simp_all add: envelope_consistent_def response_label_def into_response_def api_error_new_def)

lemma posting_status_error: "400 \<le> posting_status_for_upstream s \<and> posting_status_for_upstream s < 600"
  by (simp add: posting_status_for_upstream_def)

end
