(* ===== verification/Auth.thy ===== *)
theory Auth
  imports Responses
begin

text \<open>
  Request authentication (\<^verbatim>\<open>src/runtime/auth.rs\<close>): which integration a request claims to be from,
  the age of its timestamp and its signature.
\<close>

definition REQUEST_MAX_SKEW_SECONDS :: nat where "REQUEST_MAX_SKEW_SECONDS = 5 * 60"

datatype verify_error =
    MissingTimestamp | BadTimestamp | StaleTimestamp | MissingSignature | BadScheme | BadHex | Mismatch

text \<open>The message a client signs: the body only of requests that have one.\<close>

definition request_message :: "string \<Rightarrow> string \<Rightarrow> string \<Rightarrow> string option \<Rightarrow> string" where
  "request_message timestamp meth target body =
     timestamp @ ''.'' @ meth @ ''.'' @ target @ (case body of None \<Rightarrow> [] | Some b \<Rightarrow> ''.'' @ b)"

definition verify_request_signature ::
  "crypto \<Rightarrow> string \<Rightarrow> string \<Rightarrow> inbound \<Rightarrow> string option \<Rightarrow> string \<Rightarrow> verify_error + unit" where
  "verify_request_signature cr secret timestamp r body signature =
     bindE (ok_or (strip_prefix ''hmac-sha256='' signature) BadScheme) (\<lambda>hex.
     bindE (ok_or (hex_decode cr hex) BadHex) (\<lambda>provided.
     ensureE (hmac_sha256 cr secret (request_message timestamp (in_method r) (in_target r) body) = provided) Mismatch))"

text \<open>\<^verbatim>\<open>TimeDelta::num_seconds\<close> drops the fraction of a second, towards zero.\<close>

definition skew_seconds :: "datetime \<Rightarrow> datetime \<Rightarrow> nat" where
  "skew_seconds now t = nat \<bar>now - t\<bar> div NANOS_PER_SEC"

definition verify_request_headers ::
  "handler_env \<Rightarrow> string \<Rightarrow> inbound \<Rightarrow> string option \<Rightarrow> verify_error + unit" where
  "verify_request_headers env secret r body =
     bindE (ok_or (in_header r ''x-ptchan-timestamp'') MissingTimestamp) (\<lambda>timestamp.
     bindE (ok_or (parse_from_rfc3339 (he_codec env) timestamp) BadTimestamp) (\<lambda>parsed.
     bindE (ensureE (\<not> skew_seconds (he_now env) parsed > REQUEST_MAX_SKEW_SECONDS) StaleTimestamp) (\<lambda>_.
     bindE (ok_or (in_header r ''x-ptchan-signature'') MissingSignature) (\<lambda>signature.
     verify_request_signature (he_crypto env) secret timestamp r body signature))))"

definition requested_integration_label :: "'lim app_state \<Rightarrow> inbound \<Rightarrow> string" where
  "requested_integration_label st r = (case in_header r ''x-ptchan-integration'' of
     None \<Rightarrow> ''unknown''
   | Some name \<Rightarrow> if as_integrations st name \<noteq> None \<or> as_postings st name \<noteq> None then name else ''unknown'')"

text \<open>An \<^verbatim>\<open>AuthError\<close> carries the label of the request.\<close>

definition find_reading_config :: "'lim app_state \<Rightarrow> inbound \<Rightarrow> string + integration_config" where
  "find_reading_config st r =
     bindE (ok_or (in_header r ''x-ptchan-integration'') (requested_integration_label st r)) (\<lambda>name.
     ok_or (as_integrations st name) (requested_integration_label st r))"

definition find_posting_config :: "'lim app_state \<Rightarrow> inbound \<Rightarrow> string + posting_config" where
  "find_posting_config st r =
     bindE (ok_or (in_header r ''x-ptchan-integration'') (requested_integration_label st r)) (\<lambda>name.
     ok_or (as_postings st name) (requested_integration_label st r))"

definition authenticate_reading :: "handler_env \<Rightarrow> 'lim app_state \<Rightarrow> inbound \<Rightarrow> string + integration_config" where
  "authenticate_reading env st r =
     bindE (find_reading_config st r) (\<lambda>integration.
     bindE (map_err (\<lambda>_. requested_integration_label st r)
              (verify_request_headers env (ic_secret integration) r None)) (\<lambda>_.
     Inr integration))"

definition authenticate_posting :: "handler_env \<Rightarrow> 'lim app_state \<Rightarrow> inbound \<Rightarrow> string \<Rightarrow> string + posting_config" where
  "authenticate_posting env st r body =
     bindE (find_posting_config st r) (\<lambda>posting.
     bindE (map_err (\<lambda>_. requested_integration_label st r)
              (verify_request_headers env (pc_secret posting) r (Some body))) (\<lambda>_.
     Inr posting))"

definition auth_error_response :: response where
  "auth_error_response = into_response (api_error_new 401 Unauthorized ''request authentication failed'')"

section \<open>Facts\<close>

text \<open>A request signed with a secret, at an age that is accepted.\<close>

definition signed_by :: "handler_env \<Rightarrow> string \<Rightarrow> inbound \<Rightarrow> string option \<Rightarrow> bool" where
  "signed_by env secret r body =
     (\<exists>ts t hex. in_header r ''x-ptchan-timestamp'' = Some ts \<and> parse_from_rfc3339 (he_codec env) ts = Some t \<and>
        \<bar>he_now env - t\<bar> < int (dur_secs 301) \<and>
        in_header r ''x-ptchan-signature'' = Some (''hmac-sha256='' @ hex) \<and>
        hex_decode (he_crypto env) hex =
          Some (hmac_sha256 (he_crypto env) secret (request_message ts (in_method r) (in_target r) body)))"

lemma skew_accepted: "\<not> skew_seconds now t > REQUEST_MAX_SKEW_SECONDS \<longleftrightarrow> \<bar>now - t\<bar> < int (dur_secs 301)"
proof -
  have "nat x div 1000000000 \<le> 300 \<longleftrightarrow> nat x < 301 * 1000000000" for x
    using div_less_iff_less_mult [of "1000000000 :: nat" "nat x" 301] by linarith
  then show ?thesis
    by (simp add: skew_seconds_def REQUEST_MAX_SKEW_SECONDS_def NANOS_PER_SEC_def dur_secs_def not_less)
       (simp add: nat_less_iff)
qed

lemma verify_request_headers_iff: "verify_request_headers env secret r body = Inr u \<longleftrightarrow> signed_by env secret r body"
  unfolding verify_request_headers_def verify_request_signature_def signed_by_def
  by (auto simp: res_simps skew_accepted strip_prefix_Some_iff simp del: not_less)

lemma authenticate_reading_iff:
  "authenticate_reading env st r = Inr ic \<longleftrightarrow>
     (\<exists>name. in_header r ''x-ptchan-integration'' = Some name \<and> as_integrations st name = Some ic) \<and>
     signed_by env (ic_secret ic) r None"
  by (auto simp: authenticate_reading_def find_reading_config_def res_simps verify_request_headers_iff)

lemma authenticate_posting_iff:
  "authenticate_posting env st r body = Inr pc \<longleftrightarrow>
     (\<exists>name. in_header r ''x-ptchan-integration'' = Some name \<and> as_postings st name = Some pc) \<and>
     signed_by env (pc_secret pc) r (Some body)"
  by (auto simp: authenticate_posting_def find_posting_config_def res_simps verify_request_headers_iff)

text \<open>The label of a refused request is a configured name or a constant: a client cannot invent metric labels.\<close>

lemma requested_label_bounded:
  "requested_integration_label st r \<in> insert ''unknown'' (dom (as_integrations st) \<union> dom (as_postings st))"
  by (auto simp: requested_integration_label_def split: option.split)

lemma authenticate_error_label:
  "authenticate_reading env st r = Inl l \<Longrightarrow> l = requested_integration_label st r"
  "authenticate_posting env st r body = Inl l \<Longrightarrow> l = requested_integration_label st r"
  by (auto simp: authenticate_reading_def authenticate_posting_def find_reading_config_def find_posting_config_def
      bindE_Inl_iff ok_or_def map_err_def split: option.splits sum.splits)

end
