(* ===== verification/Reading.thy ===== *)
theory Reading
  imports Event Http
begin

text \<open>
  Reading threads (\<^verbatim>\<open>src/reading.rs\<close>): the request, its guards, and the window of posts. The result
  pairs the requests sent with the effects and the outcome.
\<close>

definition DEFAULT_THREAD_LIMIT :: nat where "DEFAULT_THREAD_LIMIT = 50"
definition MAX_THREAD_LIMIT :: nat where "MAX_THREAD_LIMIT = 200"

datatype thread_read_error =
    ReadInvalidBoard | ReadInvalidThread | ReadSendFailed | ReadStatus nat | ReadBodyFailed
  | ReadNotJson | ReadNotObject | ReadPost upstream_error

definition ensure_board :: "string \<Rightarrow> json_map \<Rightarrow> json_map" where
  "ensure_board board m = map_or_insert ''board'' (JString board) m"

definition ensure_thread :: "int \<Rightarrow> json_map \<Rightarrow> json_map" where
  "ensure_thread thread_id m = map_or_insert ''thread'' (json_int thread_id) m"

text \<open>The objects that become posts: the root without its replies, then the replies that are objects.\<close>

definition thread_objects :: "string \<Rightarrow> int \<Rightarrow> json_map \<Rightarrow> json list" where
  "thread_objects board thread_id root =
     (let replies = (case map_of root ''replies'' of Some (JArray vs) \<Rightarrow> vs | _ \<Rightarrow> []) in
      JObject (ensure_board board (map_remove ''replies'' root)) #
      List.map_filter (\<lambda>r. case r of
        JObject m \<Rightarrow> Some (JObject (ensure_thread thread_id (ensure_board board m))) | _ \<Rightarrow> None) replies)"

definition post_or_error :: "codec \<Rightarrow> string \<Rightarrow> json \<Rightarrow> (thread_read_error, post) metered" where
  "post_or_error cd base v =
     (let r = contract_post_from_value cd base v in (fst r, map_err ReadPost (snd r)))"

definition thread_from_value ::
  "codec \<Rightarrow> string \<Rightarrow> string \<Rightarrow> int \<Rightarrow> json \<Rightarrow> nat \<Rightarrow> (thread_read_error, thread) metered" where
  "thread_from_value cd base board thread_id value limit =
     bindW (pureW (ok_or (as_object value) ReadNotObject)) (\<lambda>root.
     bindW (traverseW (post_or_error cd base) (thread_objects board thread_id root)) (\<lambda>posts0.
     let posts = sort_key p_id posts0; truncated = length posts > limit in
     pureW (Inr \<lparr>t_board = board, t_id = thread_id,
       t_posts = (if truncated then drop (length posts - limit) posts else posts),
       t_truncated = truncated\<rparr>)))"

definition thread_request :: "string \<Rightarrow> string \<Rightarrow> int \<Rightarrow> http_request" where
  "thread_request base board thread_id =
     \<lparr>hr_method = GET,
      hr_url = trim_end_slash base @ ''/'' @ board @ ''/thread/'' @ show_int thread_id @ ''.json'',
      hr_timeout = None, hr_headers = [(''accept'', ''application/json'')], hr_body = NoBody\<rparr>"

definition fetch_thread ::
  "codec \<Rightarrow> (http_request \<Rightarrow> http_outcome) \<Rightarrow> string \<Rightarrow> string \<Rightarrow> int \<Rightarrow> nat
     \<Rightarrow> http_request list \<times> (thread_read_error, thread option) metered" where
  "fetch_thread cd send base board thread_id limit0 =
     (if \<not> valid_board_name board then ([], pureW (Inl ReadInvalidBoard))
      else if thread_id \<le> 0 then ([], pureW (Inl ReadInvalidThread))
      else (let limit = max 1 (min limit0 MAX_THREAD_LIMIT);
                request = thread_request base board thread_id in
        ([request],
         case send request of
           Inl _ \<Rightarrow> pureW (Inl ReadSendFailed)
         | Inr response \<Rightarrow>
             if hs_status response = 404 then pureW (Inr None)
             else if hs_status response \<noteq> 200 then pureW (Inl (ReadStatus (hs_status response)))
             else bindW (pureW (ok_or (hs_body response) ReadBodyFailed)) (\<lambda>body.
                  bindW (pureW (ok_or (json_from_slice cd body) ReadNotJson)) (\<lambda>value.
                  bindW (thread_from_value cd base board thread_id value limit) (\<lambda>t.
                  pureW (Inr (Some t))))))))"

section \<open>Facts\<close>

definition decoded_posts :: "codec \<Rightarrow> string \<Rightarrow> json list \<Rightarrow> upstream_error + post list" where
  "decoded_posts cd base vs = traverseE (\<lambda>v. snd (contract_post_from_value cd base v)) vs"

lemma traverse_post_or_error:
  "snd (traverseW (post_or_error cd base) vs) = Inr ps \<longleftrightarrow> decoded_posts cd base vs = Inr ps"
  unfolding traverseW_snd decoded_posts_def traverseE_Inr_iff
  by (simp add: post_or_error_def Let_def map_err_Inr_iff)

lemma thread_from_value_Inr:
  "snd (thread_from_value cd base board tid v limit) = Inr t \<longleftrightarrow>
     (\<exists>root ps. v = JObject root \<and> decoded_posts cd base (thread_objects board tid root) = Inr ps \<and>
        t = \<lparr>t_board = board, t_id = tid, t_posts = drop (length ps - limit) (sort_key p_id ps),
             t_truncated = (length ps > limit)\<rparr>)"
proof -
  have d: "(if limit < length ps then drop (length ps - limit) (sort_key p_id ps) else sort_key p_id ps) =
      drop (length ps - limit) (sort_key p_id ps)" for ps :: "post list"
    by simp
  show ?thesis
    by (simp add: thread_from_value_def Let_def res_simps accessor_iff traverse_post_or_error d eq_commute [of t] cong: if_cong
        split del: if_split)
qed

lemma fetch_thread_ok:
  assumes "snd (snd (fetch_thread cd send base board tid limit)) = Inr (Some t)"
  obtains response body v where "valid_board_name board" "0 < tid"
    "fst (fetch_thread cd send base board tid limit) = [thread_request base board tid]"
    "send (thread_request base board tid) = Inr response" "hs_status response = 200"
    "hs_body response = Some body" "json_from_slice cd body = Some v"
    "snd (thread_from_value cd base board tid v (max 1 (min limit MAX_THREAD_LIMIT))) = Inr t"
  using assms
  by (auto simp: fetch_thread_def Let_def res_simps split: if_splits sum.splits)

end
