(* ===== verification/Threads.thy ===== *)
theory Threads
  imports Auth Reading
begin

text \<open>
  The thread endpoint (\<^verbatim>\<open>src/runtime/threads.rs\<close>, with the extractor \<^verbatim>\<open>VerifiedReading\<close> of
  \<^verbatim>\<open>auth.rs\<close>): authentication, the guards in their order, and the response.
\<close>

definition read_error ::
  "handler_env \<Rightarrow> string \<Rightarrow> string \<Rightarrow> error_code \<Rightarrow> nat \<Rightarrow> string \<Rightarrow> metric_op list \<times> api_error" where
  "read_error env integration board code status message =
     (reject_reading_request integration board (error_code_str code) (he_elapsed env), api_error_new status code message)"

record prepared_read =
  pr_integration :: string
  pr_read_board :: string
  pr_read_thread :: int
  pr_limit :: nat

text \<open>\<^verbatim>\<open>PreparedRead::new\<close>, with the limiters it leaves.\<close>

definition prepared_read_new ::
  "handler_env \<Rightarrow> ('q, 'lim) governor \<Rightarrow> 'lim app_state \<Rightarrow> string \<Rightarrow> string \<Rightarrow> nat + nat option \<Rightarrow> integration_config
     \<Rightarrow> ((metric_op list \<times> api_error) + prepared_read) \<times> 'lim rate_limiters" where
  "prepared_read_new env g st board thread_text query ic =
     (let integration = ic_name ic; thread_id = path_thread_id thread_text; rls = as_rate_limiters st in
      if \<not> ic_reading ic then
        (Inl (read_error env integration board CapabilityNotEnabled 403
           ''integration does not have the reading capability''), rls)
      else if \<not> ic_board_allowed ic board then
        (Inl (read_error env integration board BoardNotAllowed 403
           ''integration is not allowed to read this board''), rls)
      else (let c = check_reading g (he_now env) integration rls; rls' = snd c in
        case fst c of
          Inl rejection \<Rightarrow>
            (Inl (reject_reading_request integration board (error_code_str RateLimited) (he_elapsed env)
                  @ record_gateway_rate_limited_request integration board ''reading'' (rejection_str rejection),
                  gateway_rate_limited_error), rls')
        | Inr _ \<Rightarrow>
            (bindE (ensureE (valid_board_name board)
                (read_error env integration board InvalidBoard 400 ''board is invalid'')) (\<lambda>_.
             bindE (ensureE (\<not> thread_id \<le> 0)
                (read_error env integration board InvalidThreadId 400 ''thread_id must be positive'')) (\<lambda>_.
             case query of
               Inl _ \<Rightarrow> Inl (read_error env integration board InvalidQuery 400 ''query parameters are invalid'')
             | Inr limit \<Rightarrow> Inr \<lparr>pr_integration = integration, pr_read_board = board, pr_read_thread = thread_id,
                 pr_limit = (case limit of Some n \<Rightarrow> n | None \<Rightarrow> DEFAULT_THREAD_LIMIT)\<rparr>)), rls')))"

definition prepared_read_fetch ::
  "handler_env \<Rightarrow> 'lim app_state \<Rightarrow> prepared_read \<Rightarrow> metric_op list \<times> http_request list \<times> response" where
  "prepared_read_fetch env st p =
     (let f = fetch_thread (he_codec env) (he_send env) (as_base_url st) (pr_read_board p) (pr_read_thread p) (pr_limit p);
          fail = (\<lambda>code status message.
            (let e = read_error env (pr_integration p) (pr_read_board p) code status message in
             (fst (snd f) @ fst e, fst f, into_response (snd e)))) in
      case snd (snd f) of
        Inr (Some t) \<Rightarrow>
          (fst (snd f) @ accept_reading_request (pr_integration p) (pr_read_board p) ''success'' (he_elapsed env), fst f,
           \<lparr>rs_status = 200, rs_body = ThreadBody (annotate_thread (as_origins st) t)\<rparr>)
      | Inr None \<Rightarrow> fail ThreadNotFound 404 ''thread was not found''
      | Inl _ \<Rightarrow> fail UpstreamUnavailable 502 ''ptchan thread reading failed'')"

definition thread_handler ::
  "handler_env \<Rightarrow> ('q, 'lim) governor \<Rightarrow> string \<Rightarrow> string \<Rightarrow> inbound \<Rightarrow> 'lim app_state \<Rightarrow> 'lim outcome" where
  "thread_handler env g board thread_text r st = (case authenticate_reading env st r of
     Inl label \<Rightarrow> \<lparr>oc_ops = reject_reading_request label board ''unauthorized'' (he_elapsed env), oc_calls = [],
         oc_response = auth_error_response, oc_limiters = as_rate_limiters st\<rparr>
   | Inr ic \<Rightarrow> (let p = prepared_read_new env g st board thread_text (in_query r) ic in
       case fst p of
         Inl e \<Rightarrow> \<lparr>oc_ops = fst e, oc_calls = [], oc_response = into_response (snd e), oc_limiters = snd p\<rparr>
       | Inr read \<Rightarrow> (let f = prepared_read_fetch env st read in
           \<lparr>oc_ops = fst f, oc_calls = fst (snd f), oc_response = snd (snd f), oc_limiters = snd p\<rparr>)))"

definition integration_thread ::
  "handler_env \<Rightarrow> ('q, 'lim) governor \<Rightarrow> inbound \<Rightarrow> 'lim app_state \<Rightarrow> 'lim outcome" where
  "integration_thread env g r st = (case in_path r of
     Inl status \<Rightarrow> \<lparr>oc_ops = [], oc_calls = [], oc_response = \<lparr>rs_status = status, rs_body = AxumRejection\<rparr>,
         oc_limiters = as_rate_limiters st\<rparr>
   | Inr (board, thread_text) \<Rightarrow> thread_handler env g board thread_text r st)"

section \<open>Facts\<close>

lemma prepared_read_new_ok:
  assumes "fst (prepared_read_new env g st board tt query ic) = Inr p"
  shows "ic_reading ic" "ic_board_allowed ic board"
    "fst (check_reading g (he_now env) (ic_name ic) (as_rate_limiters st)) = Inr ()"
    "valid_board_name board" "0 < path_thread_id tt" "\<exists>l. query = Inr l"
    "pr_read_board p = board" "pr_read_thread p = path_thread_id tt" "pr_integration p = ic_name ic"
    "query = Inr (Some n) \<Longrightarrow> pr_limit p = n" "query = Inr None \<Longrightarrow> pr_limit p = 50"
  using assms
  by (auto simp: prepared_read_new_def Let_def res_simps DEFAULT_THREAD_LIMIT_def split: if_splits sum.splits)

text \<open>A refusal is one error with its record; it is not about the rate unless the limiters were asked.\<close>

lemma prepared_read_new_error:
  assumes "fst (prepared_read_new env g st board tt query ic) = Inl e"
  obtains code status message extra where
    "snd e = api_error_new status code message" "400 \<le> status" "status < 500"
    "fst e = reject_reading_request (ic_name ic) board (error_code_str code) (he_elapsed env) @ extra"
    "\<forall>op \<in> set extra. \<exists>ls. op = MInc GATEWAY_RATE_LIMITED_REQUESTS ls"
    "list_all metric_op_ok extra"
    "code \<in> {CapabilityNotEnabled, BoardNotAllowed} \<longrightarrow>
       snd (prepared_read_new env g st board tt query ic) = as_rate_limiters st"
  using assms
  by (fastforce simp: prepared_read_new_def Let_def read_error_def ensureE_def bindE_def
      gateway_rate_limited_error_def record_gateway_rate_limited_request_def split: if_splits sum.splits)

end
