(* ===== verification/Posting.thy ===== *)
theory Posting
  imports Event Http
begin

text \<open>
  Posting replies (\<^verbatim>\<open>src/posting.rs\<close>): validation, the form, the classification of upstream refusals
  and the outcome of one attempt. An outcome distinguishes a reply upstream refused from one whose
  fate is unknown.
\<close>

definition MAX_REPLY_MESSAGE_BYTES :: nat where "MAX_REPLY_MESSAGE_BYTES = 8000"
definition REPLY_TIMEOUT :: duration where "REPLY_TIMEOUT = dur_secs 15"

datatype reply_validation_error =
    RvInvalidBoard | RvInvalidThreadId | RvMissingMessage | RvMessageTooLong | RvInvalidMessage

fun reply_validation_code :: "reply_validation_error \<Rightarrow> error_code" where
  "reply_validation_code RvInvalidBoard = InvalidBoard"
| "reply_validation_code RvInvalidThreadId = InvalidThreadId"
| "reply_validation_code RvMissingMessage = MissingMessage"
| "reply_validation_code RvMessageTooLong = MessageTooLong"
| "reply_validation_code RvInvalidMessage = InvalidMessage"

fun reply_validation_message :: "reply_validation_error \<Rightarrow> string" where
  "reply_validation_message RvInvalidBoard = ''board is invalid''"
| "reply_validation_message RvInvalidThreadId = ''thread_id must be positive''"
| "reply_validation_message RvMissingMessage = ''message is required''"
| "reply_validation_message RvMessageTooLong = ''message is too long''"
| "reply_validation_message RvInvalidMessage = ''message contains unsupported control characters''"

record upstream_reply_error =
  ur_status :: nat
  ur_code :: error_code

datatype reply_error =
    ReplyUpstream upstream_reply_error
  | ReplyUnknown string bool

definition public_message :: "upstream_reply_error \<Rightarrow> string" where
  "public_message e = (case ur_code e of
     CaptchaRequired \<Rightarrow> ''ptchan requires captcha verification''
   | BlockBypassRequired \<Rightarrow> ''ptchan requires a block bypass''
   | RateLimited \<Rightarrow> ''ptchan rate limit exceeded''
   | ThreadNotFound \<Rightarrow> ''thread was not found''
   | ThreadLocked \<Rightarrow> ''thread is locked''
   | ThreadReplyLimit \<Rightarrow> ''thread reply limit reached''
   | BoardLocked \<Rightarrow> ''board is locked''
   | _ \<Rightarrow> ''ptchan rejected the reply'')"

definition forbidden_control :: "string \<Rightarrow> bool" where
  "forbidden_control ch = (char_is_control ch \<and> ch \<noteq> [CHR 0x0A] \<and> ch \<noteq> [CHR 0x0D] \<and> ch \<noteq> [CHR 0x09])"

definition validate_reply :: "string \<Rightarrow> int \<Rightarrow> string \<Rightarrow> reply_validation_error + unit" where
  "validate_reply board thread_id message =
     bindE (ensureE (valid_board_name board) RvInvalidBoard) (\<lambda>_.
     bindE (ensureE (\<not> thread_id \<le> 0) RvInvalidThreadId) (\<lambda>_.
     bindE (ensureE (str_trim message \<noteq> []) RvMissingMessage) (\<lambda>_.
     bindE (ensureE (\<not> length message > MAX_REPLY_MESSAGE_BYTES) RvMessageTooLong) (\<lambda>_.
     ensureE (\<not> list_ex forbidden_control (str_chars message)) RvInvalidMessage))))"

definition posting_url :: "string \<Rightarrow> string \<Rightarrow> string" where
  "posting_url base board = trim_end_slash base @ ''/forms/board/'' @ board @ ''/post''"

definition thread_url :: "string \<Rightarrow> string \<Rightarrow> int \<Rightarrow> string" where
  "thread_url base board thread_id =
     trim_end_slash base @ ''/'' @ board @ ''/thread/'' @ show_int thread_id @ ''.html''"

definition reply_form :: "posting_config \<Rightarrow> int \<Rightarrow> reply_request \<Rightarrow> (string \<times> string) list" where
  "reply_form posting thread_id request =
     [(''thread'', show_int thread_id), (''message'', rq_message request)]
     @ (if rq_sage request then [(''email'', ''sage'')] else [])
     @ [(''name'', form_name posting), (''postpassword'', pc_post_password posting)]"

definition make_reply_request :: "string \<Rightarrow> posting_config \<Rightarrow> string \<Rightarrow> int \<Rightarrow> reply_request \<Rightarrow> http_request" where
  "make_reply_request base posting board thread_id request =
     \<lparr>hr_method = POST, hr_url = posting_url base board, hr_timeout = Some REPLY_TIMEOUT,
      hr_headers = [(''accept'', ''application/json''), (''referer'', thread_url base board thread_id),
        (''x-using-xhr'', ''true'')],
      hr_body = Form (reply_form posting thread_id request)\<rparr>"

definition classify_upstream_error :: "nat \<Rightarrow> string \<Rightarrow> error_code" where
  "classify_upstream_error status body =
     (let haystack = str_lowercase body in
      if str_contains haystack ''captcha'' then CaptchaRequired
      else if str_contains haystack ''block bypass'' \<or> str_contains haystack ''bypass_minimal'' then BlockBypassRequired
      else if status = 429 \<or> str_contains haystack ''flood'' \<or> str_contains haystack ''wait before'' then RateLimited
      else if str_contains haystack ''thread does not exist'' then ThreadNotFound
      else if str_contains haystack ''thread locked'' then ThreadLocked
      else if str_contains haystack ''reply limit'' then ThreadReplyLimit
      else if str_contains haystack ''board locked'' \<or> str_contains haystack ''thread creation locked'' then BoardLocked
      else Rejected)"

definition from_response :: "nat \<Rightarrow> string \<Rightarrow> upstream_reply_error" where
  "from_response status body = \<lparr>ur_status = status, ur_code = classify_upstream_error status body\<rparr>"

definition from_unreadable_response :: "nat \<Rightarrow> upstream_reply_error" where
  "from_unreadable_response status = \<lparr>ur_status = status, ur_code = classify_upstream_error status []\<rparr>"

text \<open>
  The derived reader of \<^verbatim>\<open>UpstreamReply\<close>: an object whose only known member is an optional integer
  that occurs at most once, or a one-element array.
\<close>

definition decode_upstream_reply :: "json \<Rightarrow> int option option" where
  "decode_upstream_reply v = (case v of
     JObject m \<Rightarrow>
       if length (filter (\<lambda>kv. fst kv = ''postId'') m) > 1 then None
       else opt_field as_i64 (map_of m ''postId'')
   | JArray [x] \<Rightarrow> opt_field as_i64 (Some x)
   | _ \<Rightarrow> None)"

definition reply ::
  "codec \<Rightarrow> (http_request \<Rightarrow> http_outcome) \<Rightarrow> string \<Rightarrow> posting_config \<Rightarrow> string \<Rightarrow> int \<Rightarrow> reply_request
     \<Rightarrow> reply_error + reply_response" where
  "reply cd send base posting board thread_id request =
     (case send (make_reply_request base posting board thread_id request) of
        Inl _ \<Rightarrow> Inl (ReplyUnknown ''send ptchan reply'' False)
      | Inr response \<Rightarrow>
          (let status = hs_status response in
           case hs_body response of
             None \<Rightarrow>
               if is_success status then Inl (ReplyUnknown ''read ptchan reply response'' True)
               else Inl (ReplyUpstream (from_unreadable_response status))
           | Some body \<Rightarrow>
               if \<not> is_success status then Inl (ReplyUpstream (from_response status body))
               else bindE (ok_or (Option.bind (json_document cd body) decode_upstream_reply)
                             (ReplyUnknown ''decode ptchan reply response'' True)) (\<lambda>created.
                    bindE (ok_or created
                             (ReplyUnknown ''ptchan reply response did not include postId'' True)) (\<lambda>post_id.
                    Inr \<lparr>rr_board = board, rr_thread_id = thread_id, rr_post_id = post_id,
                         rr_url = thread_url base board thread_id @ ''#'' @ show_int post_id,
                         rr_origin = \<lparr>po_kind = OriginIntegration, po_name = pc_name posting\<rparr>\<rparr>))))"

section \<open>Facts\<close>

lemma validate_reply_iff:
  "validate_reply board tid message = Inr u \<longleftrightarrow>
     valid_board_name board \<and> 0 < tid \<and> str_trim message \<noteq> [] \<and> length message \<le> 8000 \<and>
     (\<forall>ch \<in> set (str_chars message). char_is_control ch \<longrightarrow> ch \<in> {[CHR 0x0A], [CHR 0x0D], [CHR 0x09]})"
  by (auto simp: validate_reply_def res_simps list_ex_iff forbidden_control_def MAX_REPLY_MESSAGE_BYTES_def not_le not_less)

lemma classify_range:
  "classify_upstream_error status body \<in>
     {CaptchaRequired, BlockBypassRequired, RateLimited, ThreadNotFound, ThreadLocked, ThreadReplyLimit, BoardLocked, Rejected}"
  by (simp add: classify_upstream_error_def Let_def)

lemma reply_upstream_cases:
  "reply cd send base posting board tid rq = Inl (ReplyUpstream e) \<Longrightarrow>
     \<exists>r body. send (make_reply_request base posting board tid rq) = Inr r \<and> \<not> is_success (hs_status r) \<and>
       e = from_response (hs_status r) body"
  by (fastforce simp: reply_def Let_def bindE_def ok_or_def from_unreadable_response_def from_response_def
      split: sum.splits option.splits if_splits)

lemma make_reply_request_no_cookie: "header_of (make_reply_request base posting board tid rq) ''cookie'' = None"
  by (simp add: header_of_def make_reply_request_def)

end
