(* ===== verification/Replies.thy ===== *)
theory Replies
  imports Auth Posting
begin

text \<open>
  The reply endpoint (\<^verbatim>\<open>src/runtime/replies.rs\<close>): the body, authentication over it, the guards,
  validation and submission.
\<close>

text \<open>
  The derived reader of \<^verbatim>\<open>ReplyRequest\<close> with \<^verbatim>\<open>deny_unknown_fields\<close>: an object with the members
  \<^verbatim>\<open>message\<close> and, optionally, \<^verbatim>\<open>sage\<close>, each once, or an array of the fields in order.
\<close>

definition decode_reply_request :: "json \<Rightarrow> reply_request option" where
  "decode_reply_request v =
     (let sage_of = (\<lambda>x. case x of None \<Rightarrow> Some False | Some y \<Rightarrow> as_bool y);
          build = (\<lambda>message sage. Option.bind (Option.bind message as_str) (\<lambda>m.
            Option.bind (sage_of sage) (\<lambda>s. Some \<lparr>rq_message = m, rq_sage = s\<rparr>))) in
      case v of
        JObject m \<Rightarrow>
          if distinct (map fst m) \<and> set (map fst m) \<subseteq> {''message'', ''sage''}
          then build (map_of m ''message'') (map_of m ''sage'') else None
      | JArray vs \<Rightarrow> if length vs \<le> 2 then build (nth_opt vs 0) (nth_opt vs 1) else None
      | _ \<Rightarrow> None)"

record signed_reply =
  sr_posting :: posting_config
  sr_body :: reply_request

definition body_rejection :: "nat \<Rightarrow> response" where
  "body_rejection status =
     (if status = 413
      then into_response (api_error_new status PayloadTooLarge ''request body exceeds the gateway body limit'')
      else into_response (api_error_new status InvalidJson ''request body could not be read''))"

text \<open>\<^verbatim>\<open>SignedReply::from_request\<close> after the body has been read, with the limiters it leaves.\<close>

definition signed_reply_from ::
  "handler_env \<Rightarrow> ('q, 'lim) governor \<Rightarrow> 'lim app_state \<Rightarrow> string \<Rightarrow> inbound \<Rightarrow> string
     \<Rightarrow> ((metric_op list \<times> response) + signed_reply) \<times> 'lim rate_limiters" where
  "signed_reply_from env g st board r body =
     (let rls = as_rate_limiters st in
      case authenticate_posting env st r body of
        Inl label \<Rightarrow> (Inl (reject_posting_request label board ''unauthorized'' (he_elapsed env), auth_error_response), rls)
      | Inr posting \<Rightarrow>
          (let integration = pc_name posting in
           if \<not> pc_board_allowed posting board then
             (Inl (reject_posting_request integration board (error_code_str BoardNotAllowed) (he_elapsed env),
                   into_response (api_error_new 403 BoardNotAllowed ''integration is not allowed to post on this board'')), rls)
           else (let c = check_posting g (he_now env) integration rls; rls' = snd c in
             case fst c of
               Inl rejection \<Rightarrow>
                 (Inl (reject_posting_request integration board (error_code_str RateLimited) (he_elapsed env)
                       @ record_gateway_rate_limited_request integration board ''posting'' (rejection_str rejection),
                       into_response gateway_rate_limited_error), rls')
             | Inr _ \<Rightarrow>
                 (case Option.bind (json_document (he_codec env) body) decode_reply_request of
                    None \<Rightarrow>
                      (Inl (reject_posting_request integration board ''invalid_json'' (he_elapsed env),
                            into_response (api_error_new 400 InvalidJson ''request body must be valid JSON'')), rls')
                  | Some request \<Rightarrow> (Inr \<lparr>sr_posting = posting, sr_body = request\<rparr>, rls')))))"

definition prepared_reply_new ::
  "handler_env \<Rightarrow> string \<Rightarrow> int \<Rightarrow> signed_reply \<Rightarrow> (metric_op list \<times> api_error) + signed_reply" where
  "prepared_reply_new env board thread_id sr =
     map_err (\<lambda>e. (reject_posting_request (pc_name (sr_posting sr)) board (error_code_str (reply_validation_code e))
                     (he_elapsed env),
                   api_error_new 400 (reply_validation_code e) (reply_validation_message e)))
       (bindE (validate_reply board thread_id (rq_message (sr_body sr))) (\<lambda>_. Inr sr))"

definition reply_accepted :: "handler_env \<Rightarrow> string \<Rightarrow> signed_reply \<Rightarrow> reply_response \<Rightarrow> metric_op list \<times> response" where
  "reply_accepted env board sr resp =
     (accept_posting_request (pc_name (sr_posting sr)) board ''success'' (he_elapsed env),
      \<lparr>rs_status = 200, rs_body = ReplyBody resp\<rparr>)"

definition reply_rejected ::
  "handler_env \<Rightarrow> string \<Rightarrow> signed_reply \<Rightarrow> upstream_reply_error \<Rightarrow> metric_op list \<times> response" where
  "reply_rejected env board sr e =
     (let status = posting_status_for_upstream (ur_status e) in
      (reject_posting_request (pc_name (sr_posting sr)) board (error_code_str (ur_code e)) (he_elapsed env),
       into_response (with_upstream_status (ur_status e) (with_retryable (error_code_retryable (ur_code e))
         (api_error_new status (ur_code e) (public_message e))))))"

definition reply_state_unknown :: "handler_env \<Rightarrow> string \<Rightarrow> signed_reply \<Rightarrow> bool \<Rightarrow> metric_op list \<times> response" where
  "reply_state_unknown env board sr accepted =
     (reject_posting_request (pc_name (sr_posting sr)) board ''reply_state_unknown'' (he_elapsed env),
      into_response (with_retryable False (api_error_new 502 ReplyStateUnknown
        (if accepted then ''ptchan may have accepted the reply; check the thread before retrying''
         else ''ptchan reply result is unknown; check the thread before retrying''))))"

definition reply_submit ::
  "handler_env \<Rightarrow> 'lim app_state \<Rightarrow> string \<Rightarrow> int \<Rightarrow> signed_reply \<Rightarrow> metric_op list \<times> http_request list \<times> response" where
  "reply_submit env st board thread_id sr =
     (let out = (case reply (he_codec env) (he_send env) (as_base_url st) (sr_posting sr) board thread_id (sr_body sr) of
          Inr resp \<Rightarrow> reply_accepted env board sr resp
        | Inl (ReplyUpstream e) \<Rightarrow> reply_rejected env board sr e
        | Inl (ReplyUnknown _ accepted) \<Rightarrow> reply_state_unknown env board sr accepted) in
      (fst out, [make_reply_request (as_base_url st) (sr_posting sr) board thread_id (sr_body sr)], snd out))"

definition reply_handler ::
  "handler_env \<Rightarrow> ('q, 'lim) governor \<Rightarrow> string \<Rightarrow> string \<Rightarrow> inbound \<Rightarrow> string \<Rightarrow> 'lim app_state \<Rightarrow> 'lim outcome" where
  "reply_handler env g board thread_text r body st =
     (let s = signed_reply_from env g st board r body in
      case fst s of
        Inl e \<Rightarrow> \<lparr>oc_ops = fst e, oc_calls = [], oc_response = snd e, oc_limiters = snd s\<rparr>
      | Inr sr \<Rightarrow>
          (case prepared_reply_new env board (path_thread_id thread_text) sr of
             Inl e \<Rightarrow> \<lparr>oc_ops = fst e, oc_calls = [], oc_response = into_response (snd e), oc_limiters = snd s\<rparr>
           | Inr p \<Rightarrow> (let f = reply_submit env st board (path_thread_id thread_text) p in
               \<lparr>oc_ops = fst f, oc_calls = fst (snd f), oc_response = snd (snd f), oc_limiters = snd s\<rparr>)))"

definition integration_reply ::
  "handler_env \<Rightarrow> ('q, 'lim) governor \<Rightarrow> inbound \<Rightarrow> 'lim app_state \<Rightarrow> 'lim outcome" where
  "integration_reply env g r st = (case in_path r of
     Inl status \<Rightarrow> \<lparr>oc_ops = [], oc_calls = [], oc_response = \<lparr>rs_status = status, rs_body = AxumRejection\<rparr>,
         oc_limiters = as_rate_limiters st\<rparr>
   | Inr (board, thread_text) \<Rightarrow> (case in_body r of
       Inl status \<Rightarrow> \<lparr>oc_ops = [], oc_calls = [], oc_response = body_rejection status, oc_limiters = as_rate_limiters st\<rparr>
     | Inr body \<Rightarrow> reply_handler env g board thread_text r body st))"

section \<open>Facts\<close>

lemma signed_reply_ok:
  assumes "fst (signed_reply_from env g st board r body) = Inr sr"
  shows "authenticate_posting env st r body = Inr (sr_posting sr)" "pc_board_allowed (sr_posting sr) board"
    "fst (check_posting g (he_now env) (pc_name (sr_posting sr)) (as_rate_limiters st)) = Inr ()"
    "Option.bind (json_document (he_codec env) body) decode_reply_request = Some (sr_body sr)"
  using assms by (auto simp: signed_reply_from_def Let_def split: if_splits sum.splits option.splits)

lemma signed_reply_error:
  assumes "fst (signed_reply_from env g st board r body) = Inl e"
  obtains who code status message extra where
    "snd e = into_response (api_error_new status code message)" "400 \<le> status" "status < 500"
    "fst e = reject_posting_request who board (error_code_str code) (he_elapsed env) @ extra"
    "\<forall>op \<in> set extra. \<exists>ls. op = MInc GATEWAY_RATE_LIMITED_REQUESTS ls"
    "list_all metric_op_ok extra"
    "code \<in> {Unauthorized, BoardNotAllowed} \<longrightarrow>
       snd (signed_reply_from env g st board r body) = as_rate_limiters st"
  using assms
  by (fastforce simp: signed_reply_from_def Let_def auth_error_response_def gateway_rate_limited_error_def
      record_gateway_rate_limited_request_def split: if_splits sum.splits option.splits)

lemma prepared_reply_new_ok:
  "prepared_reply_new env board tid sr = Inr p \<longleftrightarrow>
     p = sr \<and> validate_reply board tid (rq_message (sr_body sr)) = Inr ()"
  by (auto simp: prepared_reply_new_def res_simps)

lemma prepared_reply_new_error:
  "prepared_reply_new env board tid sr = Inl e \<Longrightarrow>
     \<exists>v. validate_reply board tid (rq_message (sr_body sr)) = Inl v \<and>
       e = (reject_posting_request (pc_name (sr_posting sr)) board (error_code_str (reply_validation_code v)) (he_elapsed env),
            api_error_new 400 (reply_validation_code v) (reply_validation_message v))"
  by (auto simp: prepared_reply_new_def map_err_def bindE_def split: sum.splits)

lemma reply_response_shapes:
  "envelope_consistent (snd (reply_accepted env board sr resp))"
  "response_label (snd (reply_accepted env board sr resp)) = ''success''"
  "envelope_consistent (snd (reply_rejected env board sr e))"
  "response_label (snd (reply_rejected env board sr e)) = error_code_str (ur_code e)"
  "envelope_consistent (snd (reply_state_unknown env board sr acc))"
  "response_label (snd (reply_state_unknown env board sr acc)) = ''reply_state_unknown''"
  by (simp_all add: envelope_consistent_def response_label_def reply_accepted_def reply_rejected_def
      reply_state_unknown_def into_response_def with_upstream_status_def with_retryable_def api_error_new_def
      Let_def error_code_retryable_def)

text \<open>The three ways a submission ends, with the label it is recorded under.\<close>

lemma reply_submit_shape:
  "fst (reply_submit env st board tid sr) =
     record_posting_request (pc_name (sr_posting sr)) board (response_label (snd (snd (reply_submit env st board tid sr))))
       (he_elapsed env)"
  "envelope_consistent (snd (snd (reply_submit env st board tid sr)))"
  by (simp_all add: reply_submit_def Let_def reply_response_shapes split: sum.split reply_error.split)
     (simp_all add: reply_accepted_def reply_rejected_def reply_state_unknown_def telemetry_defs)

text \<open>What the client is told, by what upstream did.\<close>

lemma reply_submit_told:
  assumes "request = make_reply_request (as_base_url st) (sr_posting sr) board tid (sr_body sr)"
    and "body = rs_body (snd (snd (reply_submit env st board tid sr)))"
  shows "case he_send env request of
      Inl _ \<Rightarrow> \<exists>b. body = ErrorEnvelope b \<and> eb_code b = ReplyStateUnknown \<and> \<not> eb_retryable b
    | Inr response \<Rightarrow>
        if is_success (hs_status response)
        then (\<exists>resp. body = ReplyBody resp) \<or>
          (\<exists>b. body = ErrorEnvelope b \<and> eb_code b = ReplyStateUnknown \<and> \<not> eb_retryable b)
        else (\<exists>b t. body = ErrorEnvelope b \<and> eb_code b = classify_upstream_error (hs_status response) t \<and>
          eb_upstream_status b = Some (hs_status response))"
  using assms
  by (auto simp: reply_submit_def reply_def Let_def bindE_def ok_or_def reply_accepted_def reply_rejected_def
      reply_state_unknown_def into_response_def with_retryable_def with_upstream_status_def api_error_new_def
      from_response_def from_unreadable_response_def split: sum.splits option.splits if_splits)

end
