(* ===== verification/Endpoints.thy ===== *)
theory Endpoints
  imports Threads Replies Ingest
begin

text \<open>
  The contract the two integration endpoints share: every request is recorded once under the label of its
  response, at most one request goes upstream, and only after the limiters were charged. Facts about
  sequences of requests are proved from the contract.
\<close>

section \<open>The contract\<close>

text \<open>A sequence of requests to one endpoint; the limiters carry over from one to the next.\<close>

fun serve :: "('r \<Rightarrow> 'lim app_state \<Rightarrow> 'lim outcome) \<Rightarrow> 'r list \<Rightarrow> 'lim app_state \<Rightarrow> 'lim outcome list" where
  "serve handle [] st = []"
| "serve handle (r # rs) st =
     (let oc = handle r st in oc # serve handle rs (st\<lparr>as_rate_limiters := oc_limiters oc\<rparr>))"

definition request_records :: "metric \<Rightarrow> metric_op list \<Rightarrow> string list list" where
  "request_records m ops = List.map_filter (\<lambda>op. case op of MInc n ls \<Rightarrow> if n = m then Some ls else None | _ \<Rightarrow> None) ops"

definition upstream_calls :: "'lim outcome list \<Rightarrow> http_request list" where
  "upstream_calls ocs = concat (map oc_calls ocs)"

locale endpoint =
  fixes handle :: "'r \<Rightarrow> 'lim app_state \<Rightarrow> 'lim outcome"
    and counter :: metric
    and charge :: "string \<Rightarrow> 'lim rate_limiters \<Rightarrow> (rate_limit_rejection + unit) \<times> 'lim rate_limiters"
  assumes one_record: "\<exists>who board. request_records counter (oc_ops (handle r st)) =
        [[who, board, response_label (oc_response (handle r st))]]"
    and one_call: "length (oc_calls (handle r st)) \<le> 1"
    and pays: "oc_limiters (handle r st) = as_rate_limiters st \<and> oc_calls (handle r st) = [] \<or>
        (\<exists>who res. charge who (as_rate_limiters st) = (res, oc_limiters (handle r st)) \<and>
           (res \<noteq> Inr () \<longrightarrow> oc_calls (handle r st) = []))"
    and ops_ok: "list_all metric_op_ok (oc_ops (handle r st))"
    and consistent: "envelope_consistent (oc_response (handle r st))"
begin

lemma records_total:
  "map (\<lambda>ls. ls ! 2) (concat (map (request_records counter \<circ> oc_ops) (serve handle rs st))) =
     map (response_label \<circ> oc_response) (serve handle rs st)"
proof (induction rs arbitrary: st)
  case (Cons r rs)
  obtain who board where
    "request_records counter (oc_ops (handle r st)) = [[who, board, response_label (oc_response (handle r st))]]"
    using one_record by blast
  then show ?case using Cons by (simp add: Let_def)
qed simp

lemma calls_within_credit:
  assumes paid: "\<And>who l l'. charge who l = (Inr (), l') \<Longrightarrow> credit l' + 1 \<le> credit l"
    and refused: "\<And>who l l' e. charge who l = (Inl e, l') \<Longrightarrow> credit l' \<le> (credit l :: nat)"
  shows "length (upstream_calls (serve handle rs st)) \<le> credit (as_rate_limiters st)"
proof (induction rs arbitrary: st)
  case (Cons r rs)
  let ?o = "handle r st"
  have "length (oc_calls ?o) + credit (oc_limiters ?o) \<le> credit (as_rate_limiters st)"
    using pays [of r st]
  proof (elim disjE exE conjE)
    fix who res
    assume c: "charge who (as_rate_limiters st) = (res, oc_limiters ?o)" and z: "res \<noteq> Inr () \<longrightarrow> oc_calls ?o = []"
    show ?thesis
    proof (cases res)
      case (Inl e)
      with z refused [of who "as_rate_limiters st" e] c show ?thesis by simp
    next
      case (Inr u)
      then have "credit (oc_limiters ?o) + 1 \<le> credit (as_rate_limiters st)" using paid c by simp
      then show ?thesis using one_call [of r st] by linarith
    qed
  qed simp
  moreover have "length (upstream_calls (serve handle rs (st\<lparr>as_rate_limiters := oc_limiters ?o\<rparr>))) \<le> credit (oc_limiters ?o)"
    using Cons [of "st\<lparr>as_rate_limiters := oc_limiters ?o\<rparr>"] by simp
  ultimately show ?case by (simp add: upstream_calls_def Let_def)
qed (simp add: upstream_calls_def)

end

section \<open>The endpoints satisfy it\<close>

lemma request_records_append: "request_records m (xs @ ys) = request_records m xs @ request_records m ys"
  by (simp add: request_records_def List.map_filter_def)

lemma request_records_other:
  "(\<And>op ls. op \<in> set ops \<Longrightarrow> op \<noteq> MInc m ls) \<Longrightarrow> request_records m ops = []"
  by (fastforce simp: request_records_def List.map_filter_def filter_empty_conv split: metric_op.splits if_splits)

lemma request_records_record [simp]:
  "request_records READING_REQUESTS (record_reading_request who board l el) = [[who, metric_board board, l]]"
  "request_records POSTING_REQUESTS (record_posting_request who board l el) = [[who, metric_board board, l]]"
  by (simp_all add: request_records_def record_reading_request_def record_posting_request_def List.map_filter_def Let_def)

lemma record_ops_ok [simp]:
  "list_all metric_op_ok (record_reading_request who board l el)"
  "list_all metric_op_ok (record_posting_request who board l el)"
  by (simp_all add: record_reading_request_def record_posting_request_def Let_def)

abbreviation thread_endpoint ::
  "handler_env \<Rightarrow> ('q, 'lim) governor \<Rightarrow> string \<times> string \<times> inbound \<Rightarrow> 'lim app_state \<Rightarrow> 'lim outcome" where
  "thread_endpoint env g \<equiv> \<lambda>(board, tt, r) st. thread_handler env g board tt r st"

abbreviation reply_endpoint ::
  "handler_env \<Rightarrow> ('q, 'lim) governor \<Rightarrow> string \<times> string \<times> inbound \<times> string \<Rightarrow> 'lim app_state \<Rightarrow> 'lim outcome" where
  "reply_endpoint env g \<equiv> \<lambda>(board, tt, r, body) st. reply_handler env g board tt r body st"

subsection \<open>Threads\<close>

lemma fetch_thread_redaction: "redaction_only (fst (snd (fetch_thread cd send base board tid limit)))"
proof -
  have "redaction_only (fst (contract_post_from_value cd base v))" for v
    unfolding contract_post_from_value_def by (intro bindW_redaction pureW_redaction decode_redaction)
  then have "redaction_only (fst (traverseW (post_or_error cd base) vs))" for vs
    by (intro order_trans [OF traverseW_ops] UN_least) (simp add: post_or_error_def Let_def)
  then have "redaction_only (fst (thread_from_value cd base board tid v n))" for v n
    unfolding thread_from_value_def Let_def by (intro bindW_redaction pureW_redaction)
  then have "redaction_only (fst (bindW (pureW x) (\<lambda>body. bindW (pureW (y body)) (\<lambda>v.
      bindW (thread_from_value cd base board tid v n) (\<lambda>t. pureW (Inr (Some t)))))))"
    for x :: "thread_read_error + string" and y n
    by (intro bindW_redaction pureW_redaction)
  then show ?thesis by (simp add: fetch_thread_def Let_def pureW_def [symmetric] split: sum.split)
qed

lemma fetch_thread_calls: "length (fst (fetch_thread cd send base board tid limit)) \<le> 1"
  by (simp add: fetch_thread_def Let_def)

lemma redaction_records:
  assumes "redaction_only ops"
  shows "request_records READING_REQUESTS ops = []"
  by (rule request_records_other) (use assms in auto)

text \<open>A read that passed the guards: its record carries the label of its response.\<close>

lemma fetch_shape:
  assumes f_def: "f = prepared_read_fetch env st p"
  shows "\<exists>ops. redaction_only ops \<and> fst f = ops @ record_reading_request (pr_integration p) (pr_read_board p)
      (response_label (snd (snd f))) (he_elapsed env)"
    and "envelope_consistent (snd (snd f))"
    and "length (fst (snd f)) \<le> 1"
proof -
  let ?f = "fetch_thread (he_codec env) (he_send env) (as_base_url st) (pr_read_board p) (pr_read_thread p) (pr_limit p)"
  have "fst f = fst (snd ?f) @ record_reading_request (pr_integration p) (pr_read_board p)
      (response_label (snd (snd f))) (he_elapsed env) \<and> envelope_consistent (snd (snd f)) \<and> fst (snd f) = fst ?f"
    unfolding f_def prepared_read_fetch_def Let_def
    by (simp add: read_error_def accept_reading_request_def reject_reading_request_def
        response_label_def [of "\<lparr>rs_status = _, rs_body = _\<rparr>"] envelope_consistent_def [of "\<lparr>rs_status = _, rs_body = _\<rparr>"]
        split: sum.split option.split)
  then show "\<exists>ops. redaction_only ops \<and> fst f = ops @ record_reading_request (pr_integration p) (pr_read_board p)
      (response_label (snd (snd f))) (he_elapsed env)" "envelope_consistent (snd (snd f))" "length (fst (snd f)) \<le> 1"
    using fetch_thread_redaction fetch_thread_calls by metis+
qed

lemma prepared_read_new_limiters:
  "snd (prepared_read_new env g st board tt query ic) = as_rate_limiters st \<and>
     \<not> is_ok (fst (prepared_read_new env g st board tt query ic)) \<or>
   (\<exists>res. check_reading g (he_now env) (ic_name ic) (as_rate_limiters st) =
       (res, snd (prepared_read_new env g st board tt query ic)) \<and>
     (res \<noteq> Inr () \<longrightarrow> \<not> is_ok (fst (prepared_read_new env g st board tt query ic))))"
  by (cases "check_reading g (he_now env) (ic_name ic) (as_rate_limiters st)")
     (auto simp: prepared_read_new_def Let_def is_ok_iff split: sum.splits)

lemma thread_handler_cases:
  obtains (refused) who code status message extra where
      "oc_response (thread_handler env g board tt r st) = into_response (api_error_new status code message)"
      "oc_ops (thread_handler env g board tt r st) =
         record_reading_request who board (error_code_str code) (he_elapsed env) @ extra"
      "\<forall>op \<in> set extra. \<exists>ls. op = MInc GATEWAY_RATE_LIMITED_REQUESTS ls" "list_all metric_op_ok extra"
      "oc_calls (thread_handler env g board tt r st) = []"
  | (fetched) ic p where "authenticate_reading env st r = Inr ic"
      "fst (prepared_read_new env g st board tt (in_query r) ic) = Inr p"
      "oc_ops (thread_handler env g board tt r st) = fst (prepared_read_fetch env st p)"
      "oc_calls (thread_handler env g board tt r st) = fst (snd (prepared_read_fetch env st p))"
      "oc_response (thread_handler env g board tt r st) = snd (snd (prepared_read_fetch env st p))"
proof (cases "authenticate_reading env st r")
  case (Inl l)
  then show thesis
    by (intro refused [of 401 Unauthorized "''request authentication failed''" l "[]"])
       (simp_all add: thread_handler_def auth_error_response_def reject_reading_request_def)
next
  case (Inr ic)
  show thesis
  proof (cases "fst (prepared_read_new env g st board tt (in_query r) ic)")
    case (Inl e)
    then obtain code status message extra where e: "snd e = api_error_new status code message"
      "fst e = reject_reading_request (ic_name ic) board (error_code_str code) (he_elapsed env) @ extra"
      "\<forall>op \<in> set extra. \<exists>ls. op = MInc GATEWAY_RATE_LIMITED_REQUESTS ls" "list_all metric_op_ok extra"
      by (rule prepared_read_new_error)
    with Inl Inr show thesis
      by (intro refused [of status code message "ic_name ic" extra])
         (simp_all add: thread_handler_def Let_def reject_reading_request_def)
  next
    case p: (Inr p)
    with Inr show thesis by (intro fetched [of ic p]) (simp_all add: thread_handler_def Let_def)
  qed
qed

lemma rate_limited_not_record:
  assumes "\<forall>op \<in> set ops. \<exists>ls. op = MInc GATEWAY_RATE_LIMITED_REQUESTS ls"
  shows "request_records READING_REQUESTS ops = []" "request_records POSTING_REQUESTS ops = []"
  by (rule request_records_other, use assms in fastforce)+

lemma thread_handler_record:
  "\<exists>who. request_records READING_REQUESTS (oc_ops (thread_handler env g board tt r st)) =
     [[who, metric_board board, response_label (oc_response (thread_handler env g board tt r st))]] \<and>
   list_all metric_op_ok (oc_ops (thread_handler env g board tt r st)) \<and>
   envelope_consistent (oc_response (thread_handler env g board tt r st)) \<and>
   length (oc_calls (thread_handler env g board tt r st)) \<le> 1"
proof (cases rule: thread_handler_cases [of env g board tt r st])
  case refused
  then show ?thesis by (simp add: request_records_append rate_limited_not_record)
next
  case (fetched ic p)
  obtain ops where ops: "redaction_only ops" "fst (prepared_read_fetch env st p) = ops @
      record_reading_request (pr_integration p) (pr_read_board p)
        (response_label (snd (snd (prepared_read_fetch env st p)))) (he_elapsed env)"
    using fetch_shape(1) [OF refl] by blast
  then show ?thesis
    using fetched(3-5) fetch_shape(2,3) [OF refl, of env st p] prepared_read_new_ok(7) [OF fetched(2)]
    by (simp add: request_records_append redaction_records redaction_only_ok)
qed

interpretation thread_api: endpoint "thread_endpoint env g" READING_REQUESTS "check_reading g (he_now env)" for env g
proof (unfold_locales, goal_cases)
  case (1 x st)
  then show ?case using thread_handler_record [of env g] by (cases x) fastforce
next
  case (2 x st)
  then show ?case using thread_handler_record [of env g] by (cases x) fastforce
next
  case (3 x st)
  then show ?case
    using prepared_read_new_limiters [of env g st]
    by (cases x) (fastforce simp: thread_handler_def Let_def is_ok_iff split: sum.splits)
next
  case (4 x st)
  then show ?case using thread_handler_record [of env g] by (cases x) fastforce
next
  case (5 x st)
  then show ?case using thread_handler_record [of env g] by (cases x) fastforce
qed

subsection \<open>Replies\<close>

lemma reply_handler_cases:
  obtains (refused) who code status message extra where
      "oc_response (reply_handler env g board tt r body st) = into_response (api_error_new status code message)"
      "oc_ops (reply_handler env g board tt r body st) =
         record_posting_request who board (error_code_str code) (he_elapsed env) @ extra"
      "\<forall>op \<in> set extra. \<exists>ls. op = MInc GATEWAY_RATE_LIMITED_REQUESTS ls" "list_all metric_op_ok extra"
      "oc_calls (reply_handler env g board tt r body st) = []"
  | (submitted) sr where "fst (signed_reply_from env g st board r body) = Inr sr"
      "validate_reply board (path_thread_id tt) (rq_message (sr_body sr)) = Inr ()"
      "oc_ops (reply_handler env g board tt r body st) = fst (reply_submit env st board (path_thread_id tt) sr)"
      "oc_calls (reply_handler env g board tt r body st) = fst (snd (reply_submit env st board (path_thread_id tt) sr))"
      "oc_response (reply_handler env g board tt r body st) = snd (snd (reply_submit env st board (path_thread_id tt) sr))"
proof (cases "fst (signed_reply_from env g st board r body)")
  case (Inl e)
  then obtain who code status message extra where
    "snd e = into_response (api_error_new status code message)"
    "fst e = reject_posting_request who board (error_code_str code) (he_elapsed env) @ extra"
    "\<forall>op \<in> set extra. \<exists>ls. op = MInc GATEWAY_RATE_LIMITED_REQUESTS ls" "list_all metric_op_ok extra"
    by (rule signed_reply_error)
  with Inl show thesis
    by (intro refused [of status code message who extra])
       (simp_all add: reply_handler_def Let_def reject_posting_request_def)
next
  case (Inr sr)
  show thesis
  proof (cases "prepared_reply_new env board (path_thread_id tt) sr")
    case (Inl e)
    then obtain v where "e = (reject_posting_request (pc_name (sr_posting sr)) board
        (error_code_str (reply_validation_code v)) (he_elapsed env),
        api_error_new 400 (reply_validation_code v) (reply_validation_message v))"
      using prepared_reply_new_error by blast
    with Inl Inr show thesis
      by (intro refused [of 400 "reply_validation_code v" "reply_validation_message v" "pc_name (sr_posting sr)" "[]"])
         (simp_all add: reply_handler_def Let_def reject_posting_request_def)
  next
    case p: (Inr p)
    then have "p = sr" "validate_reply board (path_thread_id tt) (rq_message (sr_body sr)) = Inr ()"
      by (simp_all add: prepared_reply_new_ok)
    with Inr p show thesis by (intro submitted [of sr]) (simp_all add: reply_handler_def Let_def)
  qed
qed

lemma signed_reply_limiters:
  "snd (signed_reply_from env g st board r body) = as_rate_limiters st \<and>
     \<not> is_ok (fst (signed_reply_from env g st board r body)) \<or>
   (\<exists>who res. check_posting g (he_now env) who (as_rate_limiters st) =
       (res, snd (signed_reply_from env g st board r body)) \<and>
     (res \<noteq> Inr () \<longrightarrow> \<not> is_ok (fst (signed_reply_from env g st board r body))))"
proof (cases "authenticate_posting env st r body")
  case (Inr pc)
  show ?thesis
  proof (cases "pc_board_allowed pc board")
    case True
    obtain res l where c: "check_posting g (he_now env) (pc_name pc) (as_rate_limiters st) = (res, l)" by fastforce
    with True Inr have "snd (signed_reply_from env g st board r body) = l"
      "res \<noteq> Inr () \<longrightarrow> \<not> is_ok (fst (signed_reply_from env g st board r body))"
      by (simp_all add: signed_reply_from_def Let_def is_ok_iff split: sum.split option.split)
    with c show ?thesis by blast
  qed (simp add: signed_reply_from_def Let_def Inr)
qed (simp add: signed_reply_from_def Let_def)

lemma reply_submit_calls:
  "fst (snd (reply_submit env st board tid sr)) =
     [make_reply_request (as_base_url st) (sr_posting sr) board tid (sr_body sr)]"
  by (simp add: reply_submit_def Let_def)

lemma reply_handler_limiters: "oc_limiters (reply_handler env g board tt r body st) = snd (signed_reply_from env g st board r body)"
  by (simp add: reply_handler_def Let_def split: sum.split)

lemma reply_handler_record:
  "\<exists>who. request_records POSTING_REQUESTS (oc_ops (reply_handler env g board tt r body st)) =
     [[who, metric_board board, response_label (oc_response (reply_handler env g board tt r body st))]] \<and>
   list_all metric_op_ok (oc_ops (reply_handler env g board tt r body st)) \<and>
   envelope_consistent (oc_response (reply_handler env g board tt r body st)) \<and>
   length (oc_calls (reply_handler env g board tt r body st)) \<le> 1"
proof (cases rule: reply_handler_cases [of env g board tt r body st])
  case refused
  then show ?thesis by (simp add: request_records_append rate_limited_not_record)
next
  case (submitted sr)
  then show ?thesis by (simp only: reply_submit_shape(1)) (simp add: reply_submit_shape(2) reply_submit_calls)
qed

interpretation reply_api: endpoint "reply_endpoint env g" POSTING_REQUESTS "check_posting g (he_now env)" for env g
proof (unfold_locales, goal_cases)
  case (1 x st)
  then show ?case using reply_handler_record [of env g] by (cases x) fastforce
next
  case (2 x st)
  then show ?case using reply_handler_record [of env g] by (cases x) fastforce
next
  case (3 x st)
  obtain board tt r body where x: "x = (board, tt, r, body)" by (cases x)
  have "\<not> is_ok (fst (signed_reply_from env g st board r body)) \<Longrightarrow> oc_calls (reply_handler env g board tt r body st) = []"
    by (auto simp: reply_handler_def Let_def is_ok_iff split: sum.splits)
  then show ?case using signed_reply_limiters [of env g st board r body] by (auto simp: x reply_handler_limiters)
next
  case (4 x st)
  then show ?case using reply_handler_record [of env g] by (cases x) fastforce
next
  case (5 x st)
  then show ?case using reply_handler_record [of env g] by (cases x) fastforce
qed

section \<open>Refusals are free\<close>

abbreviation access_refusals :: "error_code set" where
  "access_refusals \<equiv> {Unauthorized, CapabilityNotEnabled, BoardNotAllowed}"

lemma fetch_not_refused: "response_label (snd (snd (prepared_read_fetch env st p))) \<notin> error_code_str ` access_refusals"
  by (simp add: prepared_read_fetch_def Let_def read_error_def response_label_def [of "\<lparr>rs_status = _, rs_body = _\<rparr>"]
      split: sum.split option.split)

lemma submit_not_refused: "response_label (snd (snd (reply_submit env st board tid sr))) \<notin> error_code_str ` access_refusals"
proof (cases "reply (he_codec env) (he_send env) (as_base_url st) (sr_posting sr) board tid (sr_body sr)")
  case (Inl e)
  then show ?thesis
  proof (cases e)
    case (ReplyUpstream u)
    with Inl obtain status msg where "ur_code u = classify_upstream_error status msg"
      using reply_upstream_cases [of "he_codec env" "he_send env"] by (fastforce simp: from_response_def)
    then show ?thesis
      using Inl ReplyUpstream classify_range [of status msg]
      by (auto simp: reply_submit_def Let_def reply_response_shapes)
  qed (simp add: reply_submit_def Let_def reply_response_shapes)
qed (simp add: reply_submit_def Let_def reply_response_shapes)

lemma error_code_str_refusal:
  "error_code_str c = ''unauthorized'' \<longleftrightarrow> c = Unauthorized"
  "error_code_str c = ''capability_not_enabled'' \<longleftrightarrow> c = CapabilityNotEnabled"
  "error_code_str c = ''board_not_allowed'' \<longleftrightarrow> c = BoardNotAllowed"
  by (cases c; simp)+

lemma thread_refusal_free:
  assumes "response_label (oc_response (thread_handler env g board tt r st)) \<in> error_code_str ` access_refusals"
  shows "oc_limiters (thread_handler env g board tt r st) = as_rate_limiters st \<and>
    oc_calls (thread_handler env g board tt r st) = []"
proof (cases "authenticate_reading env st r")
  case (Inr ic)
  let ?p = "prepared_read_new env g st board tt (in_query r) ic"
  show ?thesis
  proof (cases "fst ?p")
    case (Inl e)
    then obtain code status message where e: "snd e = api_error_new status code message"
      "code \<in> {CapabilityNotEnabled, BoardNotAllowed} \<longrightarrow> snd ?p = as_rate_limiters st"
      by (rule prepared_read_new_error)
    have "code \<noteq> Unauthorized"
      using Inl e(1)
      by (auto simp: prepared_read_new_def Let_def read_error_def ensureE_def bindE_def api_error_new_def
          gateway_rate_limited_error_def split: if_splits sum.splits)
    then show ?thesis using assms Inl Inr e by (auto simp: thread_handler_def Let_def error_code_str_refusal)
  next
    case p: (Inr p)
    then show ?thesis using assms Inr fetch_not_refused [of env st p] by (simp add: thread_handler_def Let_def)
  qed
qed (simp add: thread_handler_def)

lemma reply_refusal_free:
  assumes "response_label (oc_response (reply_handler env g board tt r body st)) \<in> error_code_str ` access_refusals"
  shows "oc_limiters (reply_handler env g board tt r body st) = as_rate_limiters st \<and>
    oc_calls (reply_handler env g board tt r body st) = []"
proof (cases "fst (signed_reply_from env g st board r body)")
  case (Inl e)
  then obtain code status message where e: "snd e = into_response (api_error_new status code message)"
    "code \<in> {Unauthorized, BoardNotAllowed} \<longrightarrow> snd (signed_reply_from env g st board r body) = as_rate_limiters st"
    by (rule signed_reply_error)
  have "code \<noteq> CapabilityNotEnabled"
    using Inl e(1)
    by (auto simp: signed_reply_from_def Let_def auth_error_response_def gateway_rate_limited_error_def into_response_def
        api_error_new_def split: if_splits sum.splits option.splits)
  then show ?thesis using assms Inl e by (auto simp: reply_handler_def Let_def error_code_str_refusal)
next
  case (Inr sr)
  have v: "reply_validation_code v \<notin> access_refusals" for v by (cases v) simp_all
  show ?thesis
  proof (cases "prepared_reply_new env board (path_thread_id tt) sr")
    case (Inl e)
    then obtain v' where "snd e = api_error_new 400 (reply_validation_code v') (reply_validation_message v')"
      using prepared_reply_new_error by fastforce
    then show ?thesis using assms Inl Inr v [of v'] by (auto simp: reply_handler_def Let_def error_code_str_refusal)
  next
    case p: (Inr p)
    then show ?thesis using assms Inr submit_not_refused [of env st board "path_thread_id tt" p]
      by (simp add: reply_handler_def Let_def)
  qed
qed

end
