(* ===== verification/Api_Properties.thy ===== *)
theory Api_Properties
  imports Endpoints Sample_Data
begin

text \<open>
  Properties of the signed integration API: authentication, the guards before anything goes upstream, what
  clients are told, the limits and the thread window.
\<close>

section \<open>Samples\<close>

definition sample_headers :: "string \<Rightarrow> string option" where
  "sample_headers k = (if k = ''x-ptchan-integration'' then Some ''hook''
     else if k = ''x-ptchan-timestamp'' then Some (be_enc 12 9) else None)"

definition sample_limiters :: "nat rate_limiters" where
  "sample_limiters = \<lparr>rls_integrations = [''hook'' \<mapsto> \<lparr>cl_reading = 2, cl_posting = 2\<rparr>],
     rls_global = \<lparr>cl_reading = 1, cl_posting = 1\<rparr>\<rparr>"

definition sample_app :: "nat app_state" where
  "sample_app = \<lparr>as_status = \<lparr>upstream_joined = True, auth_healthy = True, upstream_required = True\<rparr>, as_store = sample_db,
     as_base_url = ''https://ptchan.test'',
     as_integrations = collect_map ic_name (\<lambda>i. i) (cf_integrations sample_config),
     as_postings = collect_map pc_name (\<lambda>p. p) (cf_postings sample_config),
     as_origins = origin_matcher_new (cf_postings sample_config), as_rate_limiters = sample_limiters\<rparr>"

lemma sample_app_sel: "as_base_url sample_app = ''https://ptchan.test''" "as_rate_limiters sample_app = sample_limiters"
  by (simp_all add: sample_app_def)

lemma sample_app_lookup:
  "as_integrations sample_app ''hook'' = Some (hd (cf_integrations sample_config))"
  "as_postings sample_app ''hook'' = Some sample_posting"
  by (simp_all add: sample_app_def collect_map_def sample_config_def sample_posting_def)

definition sample_read :: "string option \<Rightarrow> inbound" where
  "sample_read sig = \<lparr>in_method = ''GET'', in_target = ''/t'', in_header = sample_headers(''x-ptchan-signature'' := sig),
     in_path = Inr (''i'', ''7''), in_query = Inr None, in_body = Inr []\<rparr>"

text \<open>The header a client computes.\<close>

definition client_signature :: "crypto \<Rightarrow> string \<Rightarrow> string \<Rightarrow> string \<Rightarrow> string \<Rightarrow> string option \<Rightarrow> string" where
  "client_signature cr secret timestamp meth target body =
     ''hmac-sha256='' @ hex_encode cr (hmac_sha256 cr secret (request_message timestamp meth target body))"

section \<open>Authentication\<close>



definition api_env :: "http_outcome \<Rightarrow> handler_env" where
  "api_env answer = \<lparr>he_codec = ref_codec, he_crypto = ref_crypto, he_now = 9, he_elapsed = 0, he_send = (\<lambda>_. answer)\<rparr>"

definition sample_signature :: "string option \<Rightarrow> string" where
  "sample_signature body = client_signature ref_crypto ''s3cret'' (be_enc 12 9) ''GET'' ''/t'' body"

lemma sample_read_headers:
  "in_header (sample_read sig) ''x-ptchan-integration'' = Some ''hook''"
  "in_header (sample_read sig) ''x-ptchan-timestamp'' = Some (be_enc 12 9)"
  "in_header (sample_read sig) ''x-ptchan-signature'' = sig"
  by (simp_all add: sample_read_def sample_headers_def)

lemma api_env_timestamp: "parse_from_rfc3339 (he_codec (api_env answer)) (be_enc 12 9) = Some 9"
  using be_dec_enc [of 9 12 0] by (simp add: api_env_def)


lemma sample_read_authentic:
  "authenticate_reading (api_env answer) sample_app (sample_read (Some (sample_signature None))) =
     Inr (hd (cf_integrations sample_config))"
  unfolding authenticate_reading_iff signed_by_def
  by (simp add: sample_read_headers sample_app_lookup api_env_timestamp)
     (simp add: api_env_def ref_crypto_def sample_signature_def client_signature_def sample_read_def sample_config_def dur_defs)

lemma sample_post_authentic:
  "authenticate_posting (api_env answer) sample_app (sample_read (Some (sample_signature (Some body)))) body =
     Inr sample_posting"
  unfolding authenticate_posting_iff signed_by_def
  by (simp add: sample_read_headers sample_app_lookup api_env_timestamp)
     (simp add: api_env_def ref_crypto_def sample_signature_def client_signature_def sample_read_def sample_posting_def dur_defs)

lemma sample_thread_seven: "path_thread_id ''7'' = 7"
  by code_simp

lemma sample_boards:
  "ic_board_allowed (hd (cf_integrations sample_config)) ''i''" "pc_board_allowed sample_posting ''i''"
  by (simp_all add: ic_board_allowed_def pc_board_allowed_def board_allowed_def sample_config_def sample_posting_def)

lemma sample_checks:
  "fst (check_reading counting_governor now ''hook'' sample_limiters) = Inr ()"
  "fst (check_posting counting_governor now ''hook'' sample_limiters) = Inr ()"
  by (simp_all add: check_reading_def check_posting_def rate_check_def sample_limiters_def capability_check_def
      counting_governor_def)

section \<open>Guards\<close>

text \<open>
  C26: the thread endpoint sends a request upstream only for a request that is authenticated, from an
  integration with the reading capability that may read the board, within its own and the global rate limit, with a
  valid board name, a positive thread number and a valid query; and then exactly one request, for that thread.
\<close>

theorem thread_guarded:
  assumes "oc_calls (integration_thread env g r st) \<noteq> []"
  shows "\<exists>board tt ic limit. in_path r = Inr (board, tt) \<and> authenticate_reading env st r = Inr ic \<and>
    ic_reading ic \<and> ic_board_allowed ic board \<and>
    fst (check_reading g (he_now env) (ic_name ic) (as_rate_limiters st)) = Inr () \<and>
    valid_board_name board \<and> 0 < path_thread_id tt \<and> in_query r = Inr limit \<and>
    oc_calls (integration_thread env g r st) = [thread_request (as_base_url st) board (path_thread_id tt)]"
proof -
  obtain board tt where path: "in_path r = Inr (board, tt)"
    using assms by (cases "in_path r") (auto simp: integration_thread_def)
  then have eq: "integration_thread env g r st = thread_handler env g board tt r st"
    by (simp add: integration_thread_def)
  show ?thesis
  proof (cases rule: thread_handler_cases [of env g board tt r st])
    case refused
    then show ?thesis using assms eq by simp
  next
    case (fetched ic p)
    note ok = prepared_read_new_ok [OF fetched(2)]
    have "oc_calls (thread_handler env g board tt r st) = [thread_request (as_base_url st) board (path_thread_id tt)]"
      using fetched(4) ok(4,5,7,8)
      by (simp add: prepared_read_fetch_def Let_def fetch_thread_def split: sum.split option.split)
    then show ?thesis using path eq fetched(1) ok by auto
  qed
qed

lemma sample_read_calls:
  "oc_calls (integration_thread (api_env answer) counting_governor (sample_read (Some (sample_signature None))) sample_app)
     = [thread_request ''https://ptchan.test'' ''i'' 7]"
proof -
  let ?ic = "hd (cf_integrations sample_config)"
  have c: "check_reading counting_governor 9 (ic_name ?ic) (as_rate_limiters sample_app) =
      (Inr (), snd (check_reading counting_governor 9 ''hook'' sample_limiters))"
    using sample_checks(1) [of 9] by (simp add: prod_eq_iff sample_app_sel sample_config_def)
  have "\<exists>l. prepared_read_new (api_env answer) counting_governor sample_app ''i'' ''7'' (Inr None) ?ic =
      (Inr \<lparr>pr_integration = ''hook'', pr_read_board = ''i'', pr_read_thread = 7, pr_limit = 50\<rparr>, l)"
    using c sample_boards(1) sample_texts(2) sample_thread_seven
    by (simp add: prepared_read_new_def Let_def DEFAULT_THREAD_LIMIT_def api_env_def)
       (simp add: sample_config_def)
  then obtain l where p: "prepared_read_new (api_env answer) counting_governor sample_app ''i'' ''7'' (Inr None) ?ic =
      (Inr \<lparr>pr_integration = ''hook'', pr_read_board = ''i'', pr_read_thread = 7, pr_limit = 50\<rparr>, l)" ..
  have "in_path (sample_read (Some (sample_signature None))) = Inr (''i'', ''7'')"
    "in_query (sample_read (Some (sample_signature None))) = Inr None" by (simp_all add: sample_read_def)
  then show ?thesis
    using sample_texts(2)
    by (simp add: integration_thread_def thread_handler_def sample_read_authentic p prepared_read_fetch_def Let_def
        fetch_thread_def sample_app_sel split: sum.split option.split)
qed

theorem thread_guarded_witness:
  "\<exists>ic. authenticate_reading (api_env (Inl TransportTimeout)) sample_app (sample_read (Some (sample_signature None))) = Inr ic
     \<and> ic_reading ic"
  using thread_guarded [of "api_env (Inl TransportTimeout)" counting_governor "sample_read (Some (sample_signature None))" sample_app]
  by (auto simp: sample_read_calls)

text \<open>
  C27: the reply endpoint sends a request upstream only for a request whose whole body is authenticated, from an
  integration that may post on the board, within its own and the global rate limit, whose body is the JSON of a
  reply request with a valid board name, a positive thread number and a message that is not blank, has at most
  8000 bytes and no control characters but line breaks and tabs; and then exactly one form, for that reply.
\<close>

theorem reply_guarded:
  assumes "oc_calls (integration_reply env g r st) \<noteq> []"
  shows "\<exists>board tt body pc request v. in_path r = Inr (board, tt) \<and> in_body r = Inr body \<and>
    authenticate_posting env st r body = Inr pc \<and> pc_board_allowed pc board \<and>
    fst (check_posting g (he_now env) (pc_name pc) (as_rate_limiters st)) = Inr () \<and>
    json_document (he_codec env) body = Some v \<and> decode_reply_request v = Some request \<and>
    valid_board_name board \<and> 0 < path_thread_id tt \<and> str_trim (rq_message request) \<noteq> [] \<and>
    length (rq_message request) \<le> 8000 \<and>
    set (filter char_is_control (str_chars (rq_message request))) \<subseteq> {[CHR 0x0A], [CHR 0x0D], [CHR 0x09]} \<and>
    oc_calls (integration_reply env g r st) =
      [make_reply_request (as_base_url st) pc board (path_thread_id tt) request]"
proof -
  obtain board tt body where path: "in_path r = Inr (board, tt)" "in_body r = Inr body"
    using assms by (cases "in_path r"; cases "in_body r") (auto simp: integration_reply_def)
  then have eq: "integration_reply env g r st = reply_handler env g board tt r body st"
    by (simp add: integration_reply_def)
  show ?thesis
  proof (cases rule: reply_handler_cases [of env g board tt r body st])
    case refused
    then show ?thesis using assms eq by simp
  next
    case (submitted sr)
    note ok = signed_reply_ok [OF submitted(1)]
    obtain v where v: "json_document (he_codec env) body = Some v" "decode_reply_request v = Some (sr_body sr)"
      using ok(4) by (auto simp: bind_eq_Some_conv)
    show ?thesis
      using path ok(1-3) v submitted(2,4) unfolding eq validate_reply_iff reply_submit_calls by auto
  qed
qed

text \<open>A codec that reads every body as the same reply.\<close>

definition reply_env :: "http_outcome \<Rightarrow> handler_env" where
  "reply_env answer = (api_env answer)\<lparr>he_codec := ref_codec\<lparr>json_document := (\<lambda>_. Some (JObject [(''message'', JString ''hi'')]))\<rparr>\<rparr>"

definition sample_reply :: inbound where
  "sample_reply = (sample_read (Some (sample_signature (Some ''b''))))\<lparr>in_body := Inr ''b''\<rparr>"

lemma sample_reply_decoded:
  "Option.bind (json_document (he_codec (reply_env answer)) ''b'') decode_reply_request = Some \<lparr>rq_message = ''hi'', rq_sage = False\<rparr>"
  by (simp add: reply_env_def api_env_def decode_reply_request_def as_str_def)

lemma sample_reply_valid: "validate_reply ''i'' 7 ''hi'' = Inr ()"
  by code_simp

lemma sample_reply_prepared:
  "\<exists>l. signed_reply_from (reply_env answer) counting_governor sample_app ''i'' sample_reply ''b'' =
     (Inr \<lparr>sr_posting = sample_posting, sr_body = \<lparr>rq_message = ''hi'', rq_sage = False\<rparr>\<rparr>, l)"
proof -
  have c: "check_posting counting_governor 9 (pc_name sample_posting) (as_rate_limiters sample_app) =
      (Inr (), snd (check_posting counting_governor 9 ''hook'' sample_limiters))"
    using sample_checks(2) [of 9] by (simp add: prod_eq_iff sample_app_sel sample_posting_def)
  have "authenticate_posting (reply_env answer) sample_app sample_reply ''b'' = Inr sample_posting"
    using sample_post_authentic [of answer "''b''"]
    unfolding authenticate_posting_iff signed_by_def by (simp add: reply_env_def sample_reply_def api_env_def)
  then show ?thesis
    using c sample_boards(2) sample_reply_decoded [of answer]
    by (simp add: signed_reply_from_def Let_def) (simp add: reply_env_def api_env_def)
qed

lemma sample_reply_outcome:
  defines "sr \<equiv> \<lparr>sr_posting = sample_posting, sr_body = \<lparr>rq_message = ''hi'', rq_sage = False\<rparr>\<rparr>"
  shows "oc_calls (integration_reply (reply_env answer) counting_governor sample_reply sample_app) =
      [make_reply_request ''https://ptchan.test'' sample_posting ''i'' 7 \<lparr>rq_message = ''hi'', rq_sage = False\<rparr>]"
    and "oc_response (integration_reply (reply_env answer) counting_governor sample_reply sample_app) =
      snd (snd (reply_submit (reply_env answer) sample_app ''i'' 7 sr))"
proof -
  obtain l where p: "signed_reply_from (reply_env answer) counting_governor sample_app ''i'' sample_reply ''b'' =
     (Inr \<lparr>sr_posting = sample_posting, sr_body = \<lparr>rq_message = ''hi'', rq_sage = False\<rparr>\<rparr>, l)"
    using sample_reply_prepared by blast
  have q: "prepared_reply_new (reply_env answer) ''i'' 7 sr = Inr sr"
    by (simp add: prepared_reply_new_ok sr_def sample_reply_valid)
  have "in_path sample_reply = Inr (''i'', ''7'')" "in_body sample_reply = Inr ''b''"
    by (simp_all add: sample_reply_def sample_read_def)
  then have "integration_reply (reply_env answer) counting_governor sample_reply sample_app =
      (let f = reply_submit (reply_env answer) sample_app ''i'' 7 sr in
       \<lparr>oc_ops = fst f, oc_calls = fst (snd f), oc_response = snd (snd f), oc_limiters = l\<rparr>)"
    using p q by (simp add: integration_reply_def reply_handler_def sample_thread_seven sr_def)
  then show "oc_calls (integration_reply (reply_env answer) counting_governor sample_reply sample_app) =
      [make_reply_request ''https://ptchan.test'' sample_posting ''i'' 7 \<lparr>rq_message = ''hi'', rq_sage = False\<rparr>]"
    "oc_response (integration_reply (reply_env answer) counting_governor sample_reply sample_app) =
      snd (snd (reply_submit (reply_env answer) sample_app ''i'' 7 sr))"
    by (simp_all add: Let_def reply_submit_calls sr_def sample_app_sel)
qed

theorem reply_guarded_witness:
  "\<exists>pc. authenticate_posting (reply_env (Inl TransportTimeout)) sample_app sample_reply ''b'' = Inr pc \<and>
     pc_board_allowed pc ''i''"
  using reply_guarded [of "reply_env (Inl TransportTimeout)" counting_governor sample_reply sample_app]
  by (auto simp: sample_reply_outcome(1)) (auto simp: sample_reply_def sample_read_def)

section \<open>What clients are told\<close>



text \<open>
  C39: every error response of the two endpoints calls itself retryable exactly for the two codes that are, and its
  code appears on the wire as the documented name, before the message, that flag and the upstream status, if any.
\<close>

theorem error_envelopes:
  assumes "oc \<in> {integration_thread env g r st, integration_reply env g r st}"
    and "rs_body (oc_response oc) = ErrorEnvelope b"
  shows "(eb_retryable b \<longleftrightarrow> eb_code b \<in> {RateLimited, UpstreamUnavailable}) \<and>
    json_get (error_envelope_json b) ''error'' = Some (JObject
      ([(''code'', JString (error_code_str (eb_code b))), (''message'', JString (eb_message b)),
        (''retryable'', JBool (eb_retryable b))] @
       (case eb_upstream_status b of None \<Rightarrow> [] | Some n \<Rightarrow> [(''upstream_status'', JNumber (PosInt (word_of_nat n)))])))"
proof -
  have "envelope_consistent (oc_response (integration_thread env g r st))"
    using thread_handler_record [of env g] 
    by (fastforce simp: integration_thread_def envelope_consistent_def split: sum.split)
  moreover have "envelope_consistent (oc_response (integration_reply env g r st))"
    using reply_handler_record [of env g] 
    by (fastforce simp: integration_reply_def envelope_consistent_def body_rejection_def split: sum.split)
  ultimately show ?thesis
    using assms
    by (auto simp: envelope_consistent_def error_code_retryable_def error_envelope_json_def json_get_def
        error_code_json_def error_code_wire_agrees opt_member_def split: option.split)
qed

lemma sample_read_unsigned:
  "\<exists>b. integration_thread (api_env answer) counting_governor (sample_read None) sample_app =
     \<lparr>oc_ops = record_reading_request ''hook'' ''i'' ''unauthorized'' 0, oc_calls = [],
      oc_response = \<lparr>rs_status = 401, rs_body = ErrorEnvelope b\<rparr>, oc_limiters = sample_limiters\<rparr> \<and> eb_code b = Unauthorized"
proof -
  have "\<not> signed_by env secret (sample_read None) body" for env secret body
    by (simp add: signed_by_def sample_read_headers)
  then have "authenticate_reading (api_env answer) sample_app (sample_read None) \<noteq> Inr ic" for ic
    by (simp add: authenticate_reading_iff)
  then obtain l where l: "authenticate_reading (api_env answer) sample_app (sample_read None) = Inl l"
    by (metis sum.exhaust)
  then have "l = ''hook''"
    using authenticate_error_label(1) [OF l]
    by (simp add: requested_integration_label_def sample_read_headers sample_app_lookup)
  moreover have "in_path (sample_read None) = Inr (''i'', ''7'')" by (simp add: sample_read_def)
  ultimately show ?thesis
    using l by (simp add: integration_thread_def thread_handler_def auth_error_response_def sample_app_sel
        reject_reading_request_def into_response_def api_error_new_def) (simp add: api_env_def)
qed

theorem error_envelopes_witness:
  "let oc = integration_thread (api_env (Inl TransportTimeout)) counting_governor (sample_read None) sample_app in
   \<exists>b. rs_body (oc_response oc) = ErrorEnvelope b \<and> \<not> eb_retryable b"
proof -
  let ?oc = "integration_thread (api_env (Inl TransportTimeout)) counting_governor (sample_read None) sample_app"
  obtain b where b: "rs_body (oc_response ?oc) = ErrorEnvelope b" "eb_code b = Unauthorized"
    using sample_read_unsigned [of "Inl TransportTimeout"] by auto
  from error_envelopes [OF _ b(1), of "api_env (Inl TransportTimeout)" counting_governor "sample_read None" sample_app] b
  show ?thesis by simp
qed


section \<open>Limits\<close>

text \<open>
  A request that is refused because it is not authenticated, the capability is not enabled or the board is not
  allowed spends nothing from any rate limiter and sends nothing upstream.
\<close>

theorem refusals_free:
  assumes "oc \<in> {integration_thread env g r st, integration_reply env g r st}"
    and "rs_body (oc_response oc) = ErrorEnvelope b"
    and "eb_code b \<in> {Unauthorized, CapabilityNotEnabled, BoardNotAllowed}"
  shows "oc_limiters oc = as_rate_limiters st \<and> oc_calls oc = []"
proof -
  have l: "response_label (oc_response oc) \<in> error_code_str ` access_refusals"
    using assms(2,3) by (auto simp: response_label_def)
  consider (thread) board tt where "oc = thread_handler env g board tt r st"
    | (reply) board tt body where "oc = reply_handler env g board tt r body st"
    | (neither) "oc_limiters oc = as_rate_limiters st \<and> oc_calls oc = []"
    using assms(1) by (cases "in_path r"; cases "in_body r") (fastforce simp: integration_thread_def integration_reply_def)+
  then show ?thesis
  proof cases
    case thread
    then show ?thesis using thread_refusal_free l by blast
  next
    case reply
    then show ?thesis using reply_refusal_free l by blast
  qed
qed

text \<open>
  C1: the global limits bound what goes upstream. Let \<open>credit\<close> measure what a limiter still admits at an instant: an
  admission lowers it and a refusal does not raise it. Then of any number of requests handled at that instant, for
  whichever integrations, at most the credit of the global limiter of their kind reach upstream.
\<close>

theorem upstream_burst_bounded:
  assumes "\<And>l l'. limiter_check g l (he_now env) = (True, l') \<Longrightarrow> credit l' + 1 \<le> credit l"
    and "\<And>l l'. limiter_check g l (he_now env) = (False, l') \<Longrightarrow> credit l' \<le> (credit l :: nat)"
  shows "length (upstream_calls (serve (\<lambda>(board, tt, r) st. thread_handler env g board tt r st) reads st))
      \<le> credit (cl_reading (rls_global (as_rate_limiters st))) \<and>
    length (upstream_calls (serve (\<lambda>(board, tt, r, body) st. reply_handler env g board tt r body st) replies st))
      \<le> credit (cl_posting (rls_global (as_rate_limiters st)))"
proof
  have pay: "credit (sel l') + 1 \<le> credit (sel (rls_global rls))"
    if "rate_check g (he_now env) cap who rls = (Inr (), rls')" "l' = rls_global rls'"
      "sel = (case cap of Reading \<Rightarrow> cl_reading | Posting \<Rightarrow> cl_posting)" for cap who rls rls' l' sel
    using that(1)
    by (rule rate_check_cases)
       (use that(2,3) assms(1) in \<open>auto simp: capability_check_def split: if_splits capability.splits prod.splits\<close>)
  have free: "credit (sel l') \<le> credit (sel (rls_global rls))"
    if "rate_check g (he_now env) cap who rls = (Inl e, rls')" "l' = rls_global rls'"
      "sel = (case cap of Reading \<Rightarrow> cl_reading | Posting \<Rightarrow> cl_posting)" for cap who rls rls' l' sel e
    using that(1)
    by (rule rate_check_cases)
       (use that(2,3) assms(2) in \<open>auto simp: capability_check_def split: if_splits capability.splits prod.splits\<close>)
  show "length (upstream_calls (serve (\<lambda>(board, tt, r) st. thread_handler env g board tt r st) reads st))
      \<le> credit (cl_reading (rls_global (as_rate_limiters st)))"
    by (rule thread_api.calls_within_credit)
       (use pay [where cap = Reading] free [where cap = Reading] in \<open>simp_all add: check_reading_def\<close>)
  show "length (upstream_calls (serve (\<lambda>(board, tt, r, body) st. reply_handler env g board tt r body st) replies st))
      \<le> credit (cl_posting (rls_global (as_rate_limiters st)))"
    by (rule reply_api.calls_within_credit)
       (use pay [where cap = Posting] free [where cap = Posting] in \<open>simp_all add: check_posting_def\<close>)
qed

theorem upstream_burst_bounded_witness:
  "length (upstream_calls (serve (\<lambda>(board, tt, r) st. thread_handler (api_env (Inl TransportTimeout)) counting_governor board tt r st)
     (replicate 5 (''i'', ''7'', sample_read (Some (sample_signature None)))) sample_app)) \<le> 1"
proof -
  have "limiter_check counting_governor l t = (True, l') \<Longrightarrow> l' + 1 \<le> l"
    "limiter_check counting_governor l t = (False, l') \<Longrightarrow> l' \<le> l" for l l' t
    by (auto simp: counting_governor_def split: if_splits)
  from upstream_burst_bounded [where g = counting_governor and env = "api_env (Inl TransportTimeout)" and
      credit = "\<lambda>l. l" and st = sample_app, OF this] show ?thesis
    by (simp add: sample_app_sel sample_limiters_def)
qed

section \<open>The thread window\<close>


definition sample_post_object :: "int \<Rightarrow> json_map" where
  "sample_post_object i = [(''board'', JString ''i''), (''date'', JString ''d''), (''postId'', json_int i), (''thread'', json_int 7)]"

text \<open>A codec whose texts are all a thread of three posts, and whose dates are all the epoch.\<close>

definition sample_thread_object :: json_map where
  "sample_thread_object = [(''board'', JString ''i''), (''date'', JString ''d''), (''postId'', json_int 7),
     (''replies'', JArray [JObject (sample_post_object 9), JNull, JObject (sample_post_object 8)]), (''thread'', json_int 7)]"

definition thread_codec :: codec where
  "thread_codec = ref_codec\<lparr>datetime_from_str := (\<lambda>_. Some 0), json_from_slice := (\<lambda>_. Some (JObject sample_thread_object))\<rparr>"

definition sample_send :: "http_request \<Rightarrow> http_outcome" where
  "sample_send request = Inr \<lparr>hs_status = 200, hs_set_cookie = [], hs_body = Some []\<rparr>"

lemma sample_object_post:
  assumes "in_i64 i"
  shows "\<exists>p. snd (contract_post_from_value thread_codec base (JObject (sample_post_object i))) = Inr p \<and> p_id p = i"
proof -
  have n: "drop_ip_fields (json_int k) = ([], json_int k)" "reject_sensitive_fields (json_int k) = ([], Inr ())" for k
    by (simp_all add: json_int_def)
  have d: "drop_ip_fields (JObject (sample_post_object i)) = ([], JObject (sample_post_object i))"
    by (simp add: sample_post_object_def map_remove_def n)
  have r: "reject_sensitive_fields (JObject (sample_post_object i)) = ([], Inr ())"
    by (simp add: sample_post_object_def sensitive_key_def n bindW_def)
  have "as_i64 (json_int i) = Some i" "as_i64 (json_int 7) = Some 7"
    using assms by (simp_all add: as_i64_json_int i64_defs)
  then have "\<exists>u. post_from_value thread_codec (JObject (sample_post_object i)) = Inr u \<and> up_id u = i"
    by (simp add: post_from_value_def struct_field_def struct_shape_def req_field_def opt_field_def vec_field_def as_str_def
        sample_post_object_def thread_codec_def json_int_def)
  then show ?thesis
    using d r by (auto simp: contract_post_from_value_def decoded_post_try_from_def Let_def contract_post_def)
qed

lemma sample_window:
  "\<exists>t. snd (snd (fetch_thread thread_codec sample_send ''https://ptchan.test'' ''i'' 7 2)) = Inr (Some t) \<and>
     map p_id (t_posts t) = [8, 9] \<and> t_truncated t"
proof -
  have objects: "thread_objects ''i'' 7 sample_thread_object =
      [JObject (sample_post_object 7), JObject (sample_post_object 9), JObject (sample_post_object 8)]"
    by (simp add: thread_objects_def sample_thread_object_def sample_post_object_def map_remove_def ensure_board_def
        ensure_thread_def map_or_insert_def List.map_filter_def)
  have "in_i64 7" "in_i64 9" "in_i64 8" by (simp_all add: i64_defs)
  then obtain p7 p9 p8 where p: "p_id p7 = 7" "p_id p9 = 9" "p_id p8 = 8"
    "snd (contract_post_from_value thread_codec ''https://ptchan.test'' (JObject (sample_post_object 7))) = Inr p7"
    "snd (contract_post_from_value thread_codec ''https://ptchan.test'' (JObject (sample_post_object 9))) = Inr p9"
    "snd (contract_post_from_value thread_codec ''https://ptchan.test'' (JObject (sample_post_object 8))) = Inr p8"
    by (metis sample_object_post)
  then have dec: "decoded_posts thread_codec ''https://ptchan.test'' (thread_objects ''i'' 7 sample_thread_object) = Inr [p7, p9, p8]"
    by (simp add: decoded_posts_def objects)
  have "\<exists>t. snd (thread_from_value thread_codec ''https://ptchan.test'' ''i'' 7 (JObject sample_thread_object) 2) = Inr t \<and>
      map p_id (t_posts t) = [8, 9] \<and> t_truncated t"
    unfolding thread_from_value_Inr by (simp add: dec p)
  moreover have "max 1 (min 2 MAX_THREAD_LIMIT) = 2" by (simp add: MAX_THREAD_LIMIT_def)
  moreover have "json_from_slice thread_codec s = Some (JObject sample_thread_object)" for s by (simp add: thread_codec_def)
  ultimately show ?thesis
    using sample_texts(2) by (simp add: fetch_thread_def Let_def sample_send_def res_simps numeral_2_eq_2)
qed


end
