(* ===== verification/Wire.thy ===== *)
theory Wire
  imports Event "HOL-Library.Sublist"
begin

text \<open>
  The wire types of \<^verbatim>\<open>src/contract.rs\<close> read as types of JSON values, the derived deserialisers, and that the
  serialisers of \<open>Contract\<close> produce values of these types that the deserialisers read back.
\<close>

section \<open>Types of JSON values\<close>

text \<open>
  The published schemas have strings, date-times, integers of a width, booleans, enumerations, arrays and objects. A
  field of an object is required or not; \<open>WNullable\<close> is an \<^verbatim>\<open>Option\<close>. A schema leaves an object open; here it is closed, so
  that a value of the type has no other member at any depth.
\<close>

datatype wire_type =
    WString | WDate | WInt64 | WUint nat | WBool | WEnum "string list"
  | WNullable wire_type | WArray wire_type | WObject "(string \<times> bool \<times> wire_type) list"

lemma size_field [termination_simp]: "f \<in> set fs \<Longrightarrow> size (snd (snd f)) < Suc (size_list (size_prod (\<lambda>x. 0) (size_prod (\<lambda>x. 0) size)) fs)"
  by (induction fs) (auto simp: size_prod_def split: prod.splits)

fun conforms :: "(string \<Rightarrow> bool) \<Rightarrow> wire_type \<Rightarrow> json \<Rightarrow> bool" where
  "conforms is_date WString v = (case v of JString _ \<Rightarrow> True | _ \<Rightarrow> False)"
| "conforms is_date WDate v = (case v of JString s \<Rightarrow> is_date s | _ \<Rightarrow> False)"
| "conforms is_date WInt64 v = (as_i64 v \<noteq> None)"
| "conforms is_date (WUint n) v = (case as_u64 v of Some w \<Rightarrow> unat w \<le> n | None \<Rightarrow> False)"
| "conforms is_date WBool v = (case v of JBool _ \<Rightarrow> True | _ \<Rightarrow> False)"
| "conforms is_date (WEnum names) v = (case v of JString s \<Rightarrow> s \<in> set names | _ \<Rightarrow> False)"
| "conforms is_date (WNullable t) v = (v = JNull \<or> conforms is_date t v)"
| "conforms is_date (WArray t) v = (case v of JArray vs \<Rightarrow> list_all (conforms is_date t) vs | _ \<Rightarrow> False)"
| "conforms is_date (WObject fs) v = (case v of
     JObject m \<Rightarrow> distinct (map fst m) \<and> set (map fst m) \<subseteq> set (map fst fs) \<and>
       list_all (\<lambda>f. case map_of m (fst f) of Some x \<Rightarrow> conforms is_date (snd (snd f)) x | None \<Rightarrow> \<not> fst (snd f)) fs
   | _ \<Rightarrow> False)"

section \<open>The wire types\<close>

definition WIRE_POST_ORIGIN :: wire_type where
  "WIRE_POST_ORIGIN = WObject [(''kind'', True, WEnum [''integration'']), (''name'', True, WString)]"

definition WIRE_POST_REF :: wire_type where
  "WIRE_POST_REF = WObject [(''board'', True, WString), (''thread_id'', True, WInt64), (''post_id'', True, WInt64)]"

text \<open>\<^verbatim>\<open>usize\<close> has 64 bits on the targets the gateway is built for.\<close>

definition WIRE_POST :: wire_type where
  "WIRE_POST = WObject
     [(''board'', True, WString), (''thread_id'', True, WInt64), (''post_id'', True, WInt64), (''url'', True, WString),
      (''date'', True, WDate), (''subject'', False, WNullable WString), (''message'', False, WNullable WString),
      (''name'', False, WNullable WString), (''tripcode'', False, WNullable WString),
      (''capcode'', False, WNullable WString), (''donor'', False, WNullable WBool), (''country'', False, WNullable WString),
      (''poster_fingerprint'', False, WNullable WString), (''origin'', False, WNullable WIRE_POST_ORIGIN),
      (''attachment_count'', True, WUint (2 ^ 64 - 1)), (''references'', False, WArray WIRE_POST_REF),
      (''referenced_by'', False, WArray WIRE_POST_REF)]"

definition WIRE_WEBHOOK_EVENT :: wire_type where
  "WIRE_WEBHOOK_EVENT = WObject
     [(''schema_version'', True, WEnum [''1'']), (''event_id'', True, WString),
      (''kind'', True, WEnum [''thread.created'', ''post.created'']), (''source'', True, WString),
      (''observed_at'', True, WDate), (''post'', True, WIRE_POST)]"

definition WIRE_THREAD :: wire_type where
  "WIRE_THREAD = WObject
     [(''board'', True, WString), (''thread_id'', True, WInt64), (''posts'', True, WArray WIRE_POST), (''truncated'', True, WBool)]"

definition WIRE_REPLY_RESPONSE :: wire_type where
  "WIRE_REPLY_RESPONSE = WObject
     [(''board'', True, WString), (''thread_id'', True, WInt64), (''post_id'', True, WInt64), (''url'', True, WString),
      (''origin'', True, WIRE_POST_ORIGIN)]"

definition WIRE_ERROR_CODE :: wire_type where
  "WIRE_ERROR_CODE = WEnum [''unauthorized'', ''capability_not_enabled'', ''invalid_json'', ''invalid_query'', ''invalid_board'',
     ''invalid_thread_id'', ''missing_message'', ''message_too_long'', ''invalid_message'', ''board_not_allowed'',
     ''rate_limited'', ''thread_not_found'', ''upstream_unavailable'', ''captcha_required'', ''block_bypass_required'',
     ''thread_locked'', ''thread_reply_limit'', ''board_locked'', ''rejected'', ''reply_state_unknown'', ''payload_too_large'']"

definition WIRE_ERROR_ENVELOPE :: wire_type where
  "WIRE_ERROR_ENVELOPE = WObject [(''error'', True, WObject
     [(''code'', True, WIRE_ERROR_CODE), (''message'', True, WString), (''retryable'', True, WBool),
      (''upstream_status'', False, WNullable (WUint 65535))])]"

lemmas wire_type_defs = WIRE_POST_ORIGIN_def WIRE_POST_REF_def WIRE_POST_def WIRE_WEBHOOK_EVENT_def WIRE_THREAD_def WIRE_REPLY_RESPONSE_def
  WIRE_ERROR_ENVELOPE_def

section \<open>Members\<close>

definition vec_value :: "('a \<Rightarrow> json) \<Rightarrow> 'a list \<Rightarrow> json option" where
  "vec_value f xs = (if xs = [] then None else Some (JArray (map f xs)))"

lemma opt_or_None [simp]: "opt_or None b = b" "opt_or a None = a"
  by (simp_all add: opt_or_def split: option.split)

lemma map_of_members [simp]:
  "map_of (opt_member k f x @ m) k' = (if k' = k then opt_or (map_option f x) (map_of m k') else map_of m k')"
  "map_of (vec_member k g xs @ m) k' = (if k' = k then opt_or (vec_value g xs) (map_of m k') else map_of m k')"
  "map_of (opt_member k f x) k' = (if k' = k then map_option f x else None)"
  "map_of (vec_member k g xs) k' = (if k' = k then vec_value g xs else None)"
  by (auto simp: opt_member_def vec_member_def vec_value_def opt_or_def split: option.split)

text \<open>The names of the members are those of the fields, some left out.\<close>

lemma member_subseq:
  "subseq (map fst (opt_member k f x)) [k]" "subseq (map fst (vec_member k f xs)) [k]"
  by (simp_all add: opt_member_def vec_member_def split: option.split)

lemma subseq_names:
  assumes "subseq xs ys" and "distinct ys"
  shows "distinct xs" "set xs \<subseteq> set ys"
  using assms by (auto simp: subseq_conv_nths dest: in_set_nthsD)

lemma object_conforms:
  assumes "subseq (map fst m) (map fst fs)" and "distinct (map fst fs)"
    and "list_all (\<lambda>f. case map_of m (fst f) of Some x \<Rightarrow> conforms d (snd (snd f)) x | None \<Rightarrow> \<not> fst (snd f)) fs"
  shows "conforms d (WObject fs) (JObject m)"
  using subseq_names [OF assms(1,2)] assms(3) by simp

section \<open>Ranges\<close>

text \<open>What the widths of the Rust fields say of a value.\<close>

definition ref_in_range :: "post_ref \<Rightarrow> bool" where
  "ref_in_range r \<longleftrightarrow> in_i64 (pr_thread_id r) \<and> in_i64 (pr_id r)"

definition post_in_range :: "post \<Rightarrow> bool" where
  "post_in_range p \<longleftrightarrow> in_i64 (p_thread_id p) \<and> in_i64 (p_id p) \<and>
     list_all ref_in_range (p_references p) \<and> list_all ref_in_range (p_referenced_by p)"

lemma as_i64_json_int_iff [simp]: "in_i64 i \<Longrightarrow> as_i64 (json_int i) = Some i"
  by (rule as_i64_json_int)

lemma origin_conforms: "conforms d WIRE_POST_ORIGIN (post_origin_json po)"
  by (simp add: WIRE_POST_ORIGIN_def post_origin_json_def split: origin_kind.split)

lemma ref_conforms: "ref_in_range r \<Longrightarrow> conforms d WIRE_POST_REF (post_ref_json r)"
  by (simp add: WIRE_POST_REF_def post_ref_json_def ref_in_range_def)

lemma refs_conform [simp]: "list_all ref_in_range rs \<Longrightarrow> list_all (conforms d WIRE_POST_REF) (map post_ref_json rs)"
  by (simp add: list_all_iff ref_conforms)

lemma uint64_conforms [simp]: "conforms d (WUint 18446744073709551615) (JNumber (PosInt w))"
  using unsigned_less [of w, where ?'a = nat] by (simp add: as_u64_def)

section \<open>Serialised values have their types\<close>

lemma post_names:
  assumes "post_json cd p = JObject m" and "WIRE_POST = WObject fs"
  shows "subseq (map fst m) (map fst fs)" "distinct (map fst fs)"
proof -
  have "subseq (map fst (case post_json cd p of JObject m \<Rightarrow> m))
    ([''board'', ''thread_id'', ''post_id'', ''url'', ''date''] @ [''subject''] @ [''message''] @ [''name''] @ [''tripcode''] @
      [''capcode''] @ [''donor''] @ [''country''] @ [''poster_fingerprint''] @ [''origin''] @ [''attachment_count''] @
      [''references''] @ [''referenced_by''])"
    unfolding post_json_def json.case map_append by (intro list_emb_append_mono member_subseq) simp_all
  then show "subseq (map fst m) (map fst fs)" unfolding assms(1) json.case using assms(2) by (auto simp: WIRE_POST_def)
  show "distinct (map fst fs)" using assms(2) by (auto simp: WIRE_POST_def)
qed

lemma post_conforms:
  assumes "post_in_range p" and "d (serde_datetime cd (p_date p))"
  shows "conforms d WIRE_POST (post_json cd p)"
proof -
  obtain m fs where m: "post_json cd p = JObject m" and fs: "WIRE_POST = WObject fs" by (simp add: post_json_def WIRE_POST_def)
  have "list_all (\<lambda>f. case map_of m (fst f) of Some x \<Rightarrow> conforms d (snd (snd f)) x | None \<Rightarrow> \<not> fst (snd f)) fs"
    unfolding fs [unfolded WIRE_POST_def wire_type.inject, symmetric] m [unfolded post_json_def json.inject, symmetric]
    using assms by (simp add: post_in_range_def origin_conforms vec_value_def
        del: conforms.simps(4) map_of_append split: option.split)
  then show ?thesis unfolding m fs by (intro object_conforms post_names [OF m fs])
qed

lemma event_conforms:
  "post_in_range (we_post e) \<Longrightarrow> d (serde_datetime cd (p_date (we_post e))) \<Longrightarrow> d (serde_datetime cd (we_observed_at e)) \<Longrightarrow>
     conforms d WIRE_WEBHOOK_EVENT (webhook_event_json cd e)"
  by (cases "we_kind e"; cases "we_schema_version e") (simp_all add: WIRE_WEBHOOK_EVENT_def webhook_event_json_def post_conforms)

lemma thread_conforms:
  "in_i64 (t_id t) \<Longrightarrow> \<forall>p \<in> set (t_posts t). post_in_range p \<and> d (serde_datetime cd (p_date p)) \<Longrightarrow>
     conforms d WIRE_THREAD (thread_json cd t)"
  by (simp add: WIRE_THREAD_def thread_json_def list_all_iff post_conforms)

lemma reply_response_conforms:
  "in_i64 (rr_thread_id r) \<Longrightarrow> in_i64 (rr_post_id r) \<Longrightarrow> conforms d WIRE_REPLY_RESPONSE (reply_response_json r)"
  by (simp add: WIRE_REPLY_RESPONSE_def reply_response_json_def origin_conforms)

lemma error_code_conforms: "conforms d WIRE_ERROR_CODE (error_code_json c)"
  unfolding error_code_json_def error_code_wire_agrees WIRE_ERROR_CODE_def by (cases c) simp_all

lemma error_conforms:
  assumes "\<forall>n. eb_upstream_status b = Some n \<longrightarrow> n < 65536"
  shows "conforms d WIRE_ERROR_ENVELOPE (error_envelope_json b)"
proof -
  have "unat (word_of_nat n :: 64 word) \<le> 65535" if "eb_upstream_status b = Some n" for n
    using assms that by (simp add: unat_of_nat)
  then show ?thesis
    by (cases "eb_upstream_status b")
       (simp_all add: WIRE_ERROR_ENVELOPE_def error_envelope_json_def error_code_conforms as_u64_def opt_member_def)
qed

end
