(* ===== verification/Wire_Decode.thy ===== *)
theory Wire_Decode
  imports Wire Replies
begin

text \<open>
  The deserialisers serde derives for the wire types of \<^verbatim>\<open>src/contract.rs\<close>, and that they read back what the
  serialisers write.
\<close>

section \<open>Fields\<close>

text \<open>
  A struct is read from an object, in which a known member may occur once and others are ignored, or from an array with
  the fields in their order. A missing member of an object is \<^verbatim>\<open>None\<close> for an \<^verbatim>\<open>Option\<close>; a missing element of an array
  is an error unless the field has a default.
\<close>

definition struct_ok :: "string list \<Rightarrow> json \<Rightarrow> bool" where
  "struct_ok names v = (case v of
     JObject m \<Rightarrow> list_all (\<lambda>k. length (filter (\<lambda>kv. fst kv = k) m) \<le> 1) names
   | JArray vs \<Rightarrow> length vs \<le> length names
   | _ \<Rightarrow> False)"

definition wire_opt :: "(json \<Rightarrow> 'a option) \<Rightarrow> json \<Rightarrow> nat \<Rightarrow> string \<Rightarrow> 'a option option" where
  "wire_opt dec v i k = (case v of
     JArray vs \<Rightarrow> Option.bind (nth_opt vs i) (\<lambda>x. opt_field dec (Some x))
   | _ \<Rightarrow> opt_field dec (struct_field v i k))"

definition wire_req :: "(json \<Rightarrow> 'a option) \<Rightarrow> json \<Rightarrow> nat \<Rightarrow> string \<Rightarrow> 'a option" where
  "wire_req dec v i k = req_field dec (struct_field v i k)"

definition wire_vec :: "(json \<Rightarrow> 'a option) \<Rightarrow> json option \<Rightarrow> 'a list option" where
  "wire_vec dec x = (case x of None \<Rightarrow> Some [] | Some v \<Rightarrow> Option.bind (as_array v) (\<lambda>vs. those (map dec vs)))"

text \<open>A variant without data is its name, or an object with that name and \<^verbatim>\<open>null\<close>.\<close>

definition unit_variant :: "json \<Rightarrow> string option" where
  "unit_variant v = (case v of JString s \<Rightarrow> Some s | JObject [(k, JNull)] \<Rightarrow> Some k | _ \<Rightarrow> None)"

definition decode_date :: "codec \<Rightarrow> json \<Rightarrow> datetime option" where
  "decode_date cd v = Option.bind (as_str v) (datetime_from_str cd)"

definition decode_usize :: "json \<Rightarrow> nat option" where
  "decode_usize v = map_option unat (as_u64 v)"

definition decode_u16 :: "json \<Rightarrow> nat option" where
  "decode_u16 v = Option.bind (as_u64 v) (\<lambda>w. if unat w < 65536 then Some (unat w) else None)"

section \<open>Structs\<close>

definition decode_post_origin :: "json \<Rightarrow> post_origin option" where
  "decode_post_origin v =
     (if struct_ok [''kind'', ''name''] v then
        Option.bind (wire_req unit_variant v 0 ''kind'') (\<lambda>kind.
        Option.bind (if kind = ''integration'' then Some OriginIntegration else None) (\<lambda>kind.
        Option.bind (wire_req as_str v 1 ''name'') (\<lambda>name. Some \<lparr>po_kind = kind, po_name = name\<rparr>)))
      else None)"

definition decode_post_ref :: "json \<Rightarrow> post_ref option" where
  "decode_post_ref v =
     (if struct_ok [''board'', ''thread_id'', ''post_id''] v then
        Option.bind (wire_req as_str v 0 ''board'') (\<lambda>board.
        Option.bind (wire_req as_i64 v 1 ''thread_id'') (\<lambda>thread_id.
        Option.bind (wire_req as_i64 v 2 ''post_id'') (\<lambda>id. Some \<lparr>pr_board = board, pr_thread_id = thread_id, pr_id = id\<rparr>)))
      else None)"

definition decode_post :: "codec \<Rightarrow> json \<Rightarrow> post option" where
  "decode_post cd v =
     (if struct_ok [''board'', ''thread_id'', ''post_id'', ''url'', ''date'', ''subject'', ''message'', ''name'', ''tripcode'',
           ''capcode'', ''donor'', ''country'', ''poster_fingerprint'', ''origin'', ''attachment_count'', ''references'',
           ''referenced_by''] v then
        Option.bind (wire_req as_str v 0 ''board'') (\<lambda>board.
        Option.bind (wire_req as_i64 v 1 ''thread_id'') (\<lambda>thread_id.
        Option.bind (wire_req as_i64 v 2 ''post_id'') (\<lambda>id.
        Option.bind (wire_req as_str v 3 ''url'') (\<lambda>url.
        Option.bind (wire_req (decode_date cd) v 4 ''date'') (\<lambda>date.
        Option.bind (wire_opt as_str v 5 ''subject'') (\<lambda>subject.
        Option.bind (wire_opt as_str v 6 ''message'') (\<lambda>message.
        Option.bind (wire_opt as_str v 7 ''name'') (\<lambda>name.
        Option.bind (wire_opt as_str v 8 ''tripcode'') (\<lambda>tripcode.
        Option.bind (wire_opt as_str v 9 ''capcode'') (\<lambda>capcode.
        Option.bind (wire_opt as_bool v 10 ''donor'') (\<lambda>donor.
        Option.bind (wire_opt as_str v 11 ''country'') (\<lambda>country.
        Option.bind (wire_opt as_str v 12 ''poster_fingerprint'') (\<lambda>poster_fingerprint.
        Option.bind (wire_opt decode_post_origin v 13 ''origin'') (\<lambda>origin.
        Option.bind (wire_req decode_usize v 14 ''attachment_count'') (\<lambda>attachment_count.
        Option.bind (wire_vec decode_post_ref (struct_field v 15 ''references'')) (\<lambda>references.
        Option.bind (wire_vec decode_post_ref (struct_field v 16 ''referenced_by'')) (\<lambda>referenced_by.
        Some \<lparr>p_board = board, p_thread_id = thread_id, p_id = id, p_url = url, p_date = date, p_subject = subject,
          p_message = message, p_name = name, p_tripcode = tripcode, p_capcode = capcode, p_donor = donor,
          p_country = country, p_poster_fingerprint = poster_fingerprint, p_origin = origin,
          p_attachment_count = attachment_count, p_references = references, p_referenced_by = referenced_by\<rparr>)))))))))))))))))
      else None)"

definition decode_webhook_event :: "codec \<Rightarrow> json \<Rightarrow> webhook_event option" where
  "decode_webhook_event cd v =
     (if struct_ok [''schema_version'', ''event_id'', ''kind'', ''source'', ''observed_at'', ''post''] v then
        Option.bind (wire_req unit_variant v 0 ''schema_version'') (\<lambda>version.
        Option.bind (if version = ''1'' then Some V1 else None) (\<lambda>version.
        Option.bind (wire_req as_str v 1 ''event_id'') (\<lambda>event_id.
        Option.bind (wire_req unit_variant v 2 ''kind'') (\<lambda>kind.
        Option.bind (if kind = ''thread.created'' then Some ThreadCreated
                     else if kind = ''post.created'' then Some PostCreated else None) (\<lambda>kind.
        Option.bind (wire_req as_str v 3 ''source'') (\<lambda>source.
        Option.bind (wire_req (decode_date cd) v 4 ''observed_at'') (\<lambda>observed_at.
        Option.bind (wire_req (decode_post cd) v 5 ''post'') (\<lambda>post.
        Some \<lparr>we_schema_version = version, we_event_id = event_id, we_kind = kind, we_source = source,
          we_observed_at = observed_at, we_post = post\<rparr>))))))))
      else None)"

definition decode_thread :: "codec \<Rightarrow> json \<Rightarrow> thread option" where
  "decode_thread cd v =
     (if struct_ok [''board'', ''thread_id'', ''posts'', ''truncated''] v then
        Option.bind (wire_req as_str v 0 ''board'') (\<lambda>board.
        Option.bind (wire_req as_i64 v 1 ''thread_id'') (\<lambda>id.
        Option.bind (wire_req (\<lambda>x. wire_vec (decode_post cd) (Some x)) v 2 ''posts'') (\<lambda>posts.
        Option.bind (wire_req as_bool v 3 ''truncated'') (\<lambda>truncated.
        Some \<lparr>t_board = board, t_id = id, t_posts = posts, t_truncated = truncated\<rparr>))))
      else None)"

definition decode_reply_response :: "json \<Rightarrow> reply_response option" where
  "decode_reply_response v =
     (if struct_ok [''board'', ''thread_id'', ''post_id'', ''url'', ''origin''] v then
        Option.bind (wire_req as_str v 0 ''board'') (\<lambda>board.
        Option.bind (wire_req as_i64 v 1 ''thread_id'') (\<lambda>thread_id.
        Option.bind (wire_req as_i64 v 2 ''post_id'') (\<lambda>post_id.
        Option.bind (wire_req as_str v 3 ''url'') (\<lambda>url.
        Option.bind (wire_req decode_post_origin v 4 ''origin'') (\<lambda>origin.
        Some \<lparr>rr_board = board, rr_thread_id = thread_id, rr_post_id = post_id, rr_url = url, rr_origin = origin\<rparr>)))))
      else None)"

definition error_codes :: "error_code list" where
  "error_codes = [Unauthorized, CapabilityNotEnabled, InvalidJson, InvalidQuery, InvalidBoard, InvalidThreadId, MissingMessage,
     MessageTooLong, InvalidMessage, BoardNotAllowed, RateLimited, ThreadNotFound, UpstreamUnavailable, CaptchaRequired,
     BlockBypassRequired, ThreadLocked, ThreadReplyLimit, BoardLocked, Rejected, ReplyStateUnknown, PayloadTooLarge]"

definition decode_error_code :: "json \<Rightarrow> error_code option" where
  "decode_error_code v = Option.bind (unit_variant v) (\<lambda>s. find (\<lambda>c. snake_case (error_code_ident c) = s) error_codes)"

definition decode_error_body :: "json \<Rightarrow> error_body option" where
  "decode_error_body v =
     (if struct_ok [''code'', ''message'', ''retryable'', ''upstream_status''] v then
        Option.bind (wire_req decode_error_code v 0 ''code'') (\<lambda>code.
        Option.bind (wire_req as_str v 1 ''message'') (\<lambda>message.
        Option.bind (wire_req as_bool v 2 ''retryable'') (\<lambda>retryable.
        Option.bind (wire_opt decode_u16 v 3 ''upstream_status'') (\<lambda>upstream_status.
        Some \<lparr>eb_code = code, eb_message = message, eb_retryable = retryable, eb_upstream_status = upstream_status\<rparr>))))
      else None)"

definition decode_error_envelope :: "json \<Rightarrow> error_body option" where
  "decode_error_envelope v = (if struct_ok [''error''] v then wire_req decode_error_body v 0 ''error'' else None)"

section \<open>Reading back\<close>

lemma struct_ok_distinct: "distinct (map fst m) \<Longrightarrow> struct_ok names (JObject m)"
proof -
  have "length (filter (\<lambda>kv. fst kv = k) m) \<le> 1" if "distinct (map fst m)" for k
    using that by (induction m) (auto simp: filter_empty_conv image_iff)
  then show "distinct (map fst m) \<Longrightarrow> struct_ok names (JObject m)" by (simp add: struct_ok_def list_all_iff)
qed

lemma wire_object [simp]:
  "wire_req dec (JObject m) i k = Option.bind (map_of m k) dec"
  "wire_opt dec (JObject m) i k = opt_field dec (map_of m k)"
  "struct_field (JObject m) i k = map_of m k"
  by (simp_all add: wire_req_def wire_opt_def req_field_def struct_field_def)

lemma scalars_back [simp]:
  "as_str (JString s) = Some s" "as_bool (JBool b) = Some b" "unit_variant (JString s) = Some s"
  "decode_usize (JNumber (PosInt w)) = Some (unat w)"
  by (simp_all add: as_str_def as_bool_def unit_variant_def decode_usize_def as_u64_def)

lemma opt_field_map [simp]:
  "(\<And>y. x = Some y \<Longrightarrow> f y \<noteq> JNull \<and> dec (f y) = Some y) \<Longrightarrow> opt_field dec (map_option f x) = Some x"
  by (cases x) (auto simp: opt_field_def split: json.split)

lemma wire_vec_value:
  "(\<And>y. y \<in> set xs \<Longrightarrow> dec (f y) = Some y) \<Longrightarrow> wire_vec dec (vec_value f xs) = Some xs"
  "(\<And>y. y \<in> set xs \<Longrightarrow> dec (f y) = Some y) \<Longrightarrow> wire_vec dec (Some (JArray (map f xs))) = Some xs"
proof -
  assume "\<And>y. y \<in> set xs \<Longrightarrow> dec (f y) = Some y"
  then have "those (map (\<lambda>y. dec (f y)) xs) = Some xs" by (induction xs) auto
  then show "wire_vec dec (vec_value f xs) = Some xs" "wire_vec dec (Some (JArray (map f xs))) = Some xs"
    by (simp_all add: wire_vec_def vec_value_def as_array_def comp_def)
qed

lemma origin_back [simp]: "decode_post_origin (post_origin_json po) = Some po"
  by (cases po; cases "po_kind po") (simp add: decode_post_origin_def post_origin_json_def struct_ok_distinct)

lemma ref_back: "ref_in_range r \<Longrightarrow> decode_post_ref (post_ref_json r) = Some r"
  by (cases r) (simp add: decode_post_ref_def post_ref_json_def struct_ok_distinct ref_in_range_def)

text \<open>The instant is one that chrono reads back.\<close>

definition date_back :: "codec \<Rightarrow> datetime \<Rightarrow> bool" where
  "date_back cd t \<longleftrightarrow> datetime_from_str cd (serde_datetime cd t) = Some t"

lemma decode_date_back [simp]: "date_back cd t \<Longrightarrow> decode_date cd (JString (serde_datetime cd t)) = Some t"
  by (simp add: decode_date_def date_back_def)

lemma usize_back: "n < 2 ^ 64 \<Longrightarrow> unat (word_of_nat n :: 64 word) = n"
  by (simp add: unat_of_nat)

lemma post_back:
  assumes "post_in_range p" and "p_attachment_count p < 2 ^ 64" and "date_back cd (p_date p)"
  shows "decode_post cd (post_json cd p) = Some p"
proof -
  obtain m fs where m: "post_json cd p = JObject m" and fs: "WIRE_POST = WObject fs" by (simp add: post_json_def WIRE_POST_def)
  have ok: "struct_ok names (JObject m)" for names
    by (rule struct_ok_distinct) (rule subseq_names(1) [OF post_names [OF m fs]])
  have refs: "wire_vec decode_post_ref (vec_value post_ref_json rs) = Some rs" if "list_all ref_in_range rs" for rs
    using that by (intro wire_vec_value ref_back) (simp add: list_all_iff)
  have origin: "post_origin_json po \<noteq> JNull" for po by (simp add: post_origin_json_def)
  note m' = m [unfolded post_json_def json.inject, symmetric]
  show ?thesis
    unfolding m decode_post_def using ok assms
    by (simp add: m' post_in_range_def refs origin usize_back del: map_of_append)
qed

lemma event_back:
  assumes "post_in_range (we_post e)" and "p_attachment_count (we_post e) < 2 ^ 64" and "date_back cd (p_date (we_post e))"
    and "date_back cd (we_observed_at e)"
  shows "decode_webhook_event cd (webhook_event_json cd e) = Some e"
  using assms
  by (cases e; cases "we_kind e"; cases "we_schema_version e")
     (simp_all add: decode_webhook_event_def webhook_event_json_def struct_ok_distinct post_back)

lemma thread_back:
  assumes "in_i64 (t_id t)"
    and "\<forall>p \<in> set (t_posts t). post_in_range p \<and> p_attachment_count p < 2 ^ 64 \<and> date_back cd (p_date p)"
  shows "decode_thread cd (thread_json cd t) = Some t"
proof -
  have "wire_vec (decode_post cd) (Some (JArray (map (post_json cd) (t_posts t)))) = Some (t_posts t)"
    by (intro wire_vec_value post_back) (use assms(2) in blast)+
  then show ?thesis using assms(1) by (simp add: decode_thread_def thread_json_def struct_ok_distinct)
qed

lemma reply_response_back:
  "in_i64 (rr_thread_id r) \<Longrightarrow> in_i64 (rr_post_id r) \<Longrightarrow> decode_reply_response (reply_response_json r) = Some r"
  by (simp add: decode_reply_response_def reply_response_json_def struct_ok_distinct)

lemma error_code_back [simp]: "decode_error_code (error_code_json c) = Some c"
  unfolding decode_error_code_def error_code_json_def error_code_wire_agrees error_codes_def by (cases c) simp_all

lemma error_back:
  assumes "\<And>n. eb_upstream_status b = Some n \<Longrightarrow> n < 65536"
  shows "decode_error_envelope (error_envelope_json b) = Some b"
proof -
  have "opt_field decode_u16 (map_option (\<lambda>n. JNumber (PosInt (word_of_nat n))) (eb_upstream_status b)) = Some (eb_upstream_status b)"
    by (rule opt_field_map) (use assms in \<open>auto simp: decode_u16_def as_u64_def unat_of_nat\<close>)
  moreover have "distinct (map fst (opt_member ''upstream_status'' f (eb_upstream_status b)))" for f :: "nat \<Rightarrow> json"
    by (simp add: opt_member_def split: option.split)
  ultimately show ?thesis
    by (cases "eb_upstream_status b")
       (simp_all add: decode_error_envelope_def decode_error_body_def error_envelope_json_def struct_ok_distinct opt_member_def)
qed

end
