(* ===== verification/Artifacts.thy ===== *)
theory Artifacts
  imports Event Replies
begin

text \<open>
  The committed contract artifacts (\<^verbatim>\<open>src/contract/artifacts.rs\<close>): what is rendered, writing it below
  \<^verbatim>\<open>docs/contract\<close> and checking that what is committed is up to date. Pretty printing (serde\_json), the schemas
  (schemars), the OpenAPI document (utoipa) and the file system are given: files are a map from paths to their text.
\<close>

datatype contract_type = WebhookEventType | ThreadType | ReplyRequestType | ReplyResponseType | ErrorEnvelopeType

record artifact_lib =
  al_codec :: codec
  al_pretty :: "json \<Rightarrow> string option"
  al_schema :: "contract_type \<Rightarrow> json"
  al_manifest_dir :: string
  al_create_dir :: "string \<Rightarrow> bool"
  al_write :: "string \<Rightarrow> bool"

type_synonym files = "string \<Rightarrow> string option"

datatype artifact_error =
    FixtureTimestamp string | EncodeArtifact | CreateDirectory string | WriteArtifact string
  | ReadArtifact string | StaleArtifact string

record artifact =
  ar_path :: string
  ar_body :: string

definition ARTIFACT_DIR :: string where "ARTIFACT_DIR = ''docs/contract''"

definition path_join :: "string \<Rightarrow> string \<Rightarrow> string" where
  "path_join dir p = dir @ ''/'' @ p"

definition path_parent :: "string \<Rightarrow> string" where
  "path_parent p = rev (tl (dropWhile (\<lambda>c. c \<noteq> CHR ''/'') (rev p)))"

definition default_dir :: "artifact_lib \<Rightarrow> string" where
  "default_dir lib = path_join (al_manifest_dir lib) ARTIFACT_DIR"

section \<open>Fixtures\<close>

record fixtures =
  fx_webhook_event :: webhook_event
  fx_thread :: thread
  fx_reply_request :: reply_request
  fx_reply_response :: reply_response
  fx_error :: error_body

definition timestamp :: "codec \<Rightarrow> string \<Rightarrow> artifact_error + datetime" where
  "timestamp cd value = ok_or (parse_from_rfc3339 cd value) (FixtureTimestamp value)"

definition example_message :: string where
  "example_message = ''>>397'' @ [CHR 0x0A] @ ''hello from the integration''"

definition fixture_post :: "datetime \<Rightarrow> post" where
  "fixture_post date =
     \<lparr>p_board = ''test'', p_thread_id = 397, p_id = 399, p_url = ''https://ptchan.org/test/thread/397.html#399'',
      p_date = date, p_subject = None, p_message = Some example_message, p_name = Some ''gateway'',
      p_tripcode = Some ''!!X8NXmAS44='', p_capcode = None, p_donor = Some False, p_country = Some ''PT'',
      p_poster_fingerprint = None, p_origin = Some \<lparr>po_kind = OriginIntegration, po_name = ''example''\<rparr>,
      p_attachment_count = 0, p_references = [], p_referenced_by = []\<rparr>"

definition fixtures_of :: "codec \<Rightarrow> artifact_error + fixtures" where
  "fixtures_of cd =
     bindE (timestamp cd ''2026-07-19T12:00:02Z'') (\<lambda>observed_at.
     bindE (timestamp cd ''2026-07-19T12:00:00Z'') (\<lambda>date.
     let p = fixture_post date in
     Inr \<lparr>fx_webhook_event = \<lparr>we_schema_version = V1, we_event_id = ''ptchan:post.created:test:399'',
            we_kind = PostCreated, we_source = ''ptchan'', we_observed_at = observed_at, we_post = p\<rparr>,
          fx_thread = \<lparr>t_board = ''test'', t_id = 397, t_posts = [p], t_truncated = False\<rparr>,
          fx_reply_request = \<lparr>rq_message = example_message, rq_sage = False\<rparr>,
          fx_reply_response = \<lparr>rr_board = ''test'', rr_thread_id = 397, rr_post_id = 399,
            rr_url = ''https://ptchan.org/test/thread/397.html#399'',
            rr_origin = \<lparr>po_kind = OriginIntegration, po_name = ''example''\<rparr>\<rparr>,
          fx_error = \<lparr>eb_code = RateLimited, eb_message = ''gateway rate limit exceeded'', eb_retryable = True,
            eb_upstream_status = None\<rparr>\<rparr>))"

section \<open>Rendering\<close>

definition reply_request_json :: "reply_request \<Rightarrow> json" where
  "reply_request_json r = JObject [(''message'', JString (rq_message r)), (''sage'', JBool (rq_sage r))]"

definition make_artifact :: "artifact_lib \<Rightarrow> string \<Rightarrow> json \<Rightarrow> artifact_error + artifact" where
  "make_artifact lib path value =
     bindE (ok_or (al_pretty lib value) EncodeArtifact) (\<lambda>body.
     Inr \<lparr>ar_path = path, ar_body = body @ [CHR 0x0A]\<rparr>)"

definition schema_artifact :: "artifact_lib \<Rightarrow> string \<Rightarrow> contract_type \<Rightarrow> artifact_error + artifact" where
  "schema_artifact lib path t = make_artifact lib path (al_schema lib t)"

text \<open>The vector of \<^verbatim>\<open>render\<close>, evaluated in its order; the first failure is returned.\<close>

definition render :: "artifact_lib \<Rightarrow> json \<Rightarrow> artifact_error + artifact list" where
  "render lib openapi =
     bindE (fixtures_of (al_codec lib)) (\<lambda>fx.
     traverseE (\<lambda>a. a)
       [make_artifact lib ''openapi.json'' openapi,
        schema_artifact lib ''schemas/webhook-event.schema.json'' WebhookEventType,
        schema_artifact lib ''schemas/thread.schema.json'' ThreadType,
        schema_artifact lib ''schemas/reply-request.schema.json'' ReplyRequestType,
        schema_artifact lib ''schemas/reply-response.schema.json'' ReplyResponseType,
        schema_artifact lib ''schemas/error.schema.json'' ErrorEnvelopeType,
        make_artifact lib ''examples/webhook-event.json'' (webhook_event_json (al_codec lib) (fx_webhook_event fx)),
        make_artifact lib ''examples/thread.json'' (thread_json (al_codec lib) (fx_thread fx)),
        make_artifact lib ''examples/reply-request.json'' (reply_request_json (fx_reply_request fx)),
        make_artifact lib ''examples/reply-response.json'' (reply_response_json (fx_reply_response fx)),
        make_artifact lib ''examples/error.json'' (error_envelope_json (fx_error fx))])"

section \<open>Writing and checking\<close>

fun write_artifacts :: "artifact_lib \<Rightarrow> string \<Rightarrow> artifact list \<Rightarrow> files \<Rightarrow> (artifact_error + unit) \<times> files" where
  "write_artifacts lib root [] fs = (Inr (), fs)"
| "write_artifacts lib root (a # as) fs =
     (let path = path_join root (ar_path a); parent = path_parent path in
      if \<not> al_create_dir lib parent then (Inl (CreateDirectory parent), fs)
      else if \<not> al_write lib path then (Inl (WriteArtifact path), fs)
      else write_artifacts lib root as (fs(path \<mapsto> ar_body a)))"

definition artifacts_write :: "artifact_lib \<Rightarrow> json \<Rightarrow> files \<Rightarrow> (artifact_error + unit) \<times> files" where
  "artifacts_write lib openapi fs =
     (case render lib openapi of
        Inl e \<Rightarrow> (Inl e, fs)
      | Inr as \<Rightarrow> write_artifacts lib (default_dir lib) as fs)"

fun check_artifacts :: "string \<Rightarrow> artifact list \<Rightarrow> files \<Rightarrow> artifact_error + unit" where
  "check_artifacts root [] fs = Inr ()"
| "check_artifacts root (a # as) fs =
     (let path = path_join root (ar_path a) in
      bindE (ok_or (fs path) (ReadArtifact path)) (\<lambda>committed.
      bindE (ensureE (\<not> committed \<noteq> ar_body a) (StaleArtifact path)) (\<lambda>_. check_artifacts root as fs)))"

definition artifacts_check :: "artifact_lib \<Rightarrow> json \<Rightarrow> files \<Rightarrow> artifact_error + unit" where
  "artifacts_check lib openapi fs =
     bindE (render lib openapi) (\<lambda>as. check_artifacts (default_dir lib) as fs)"

section \<open>Facts\<close>

lemma path_join_inj [simp]: "path_join dir p = path_join dir q \<longleftrightarrow> p = q"
  by (simp add: path_join_def)

lemma make_artifact_path: "make_artifact lib path v = Inr a \<Longrightarrow> ar_path a = path"
  by (auto simp: make_artifact_def res_simps)

definition artifact_paths :: "string list" where
  "artifact_paths = [''openapi.json'', ''schemas/webhook-event.schema.json'', ''schemas/thread.schema.json'',
     ''schemas/reply-request.schema.json'', ''schemas/reply-response.schema.json'', ''schemas/error.schema.json'',
     ''examples/webhook-event.json'', ''examples/thread.json'', ''examples/reply-request.json'',
     ''examples/reply-response.json'', ''examples/error.json'']"

lemma make_artifacts_paths:
  assumes "list_all2 (\<lambda>x y. x = Inr y) (map2 (make_artifact lib) ps vs) as" and "length vs = length ps"
  shows "map ar_path as = ps"
proof (rule nth_equalityI)
  show "length (map ar_path as) = length ps" using assms by (auto dest: list_all2_lengthD)
  fix i assume i: "i < length (map ar_path as)"
  then have "make_artifact lib (ps ! i) (vs ! i) = Inr (as ! i)" using assms by (simp add: list_all2_conv_all_nth)
  with i show "map ar_path as ! i = ps ! i" by (simp add: make_artifact_path)
qed

lemma render_paths:
  assumes "render lib openapi = Inr as"
  shows "map ar_path as = artifact_paths"
proof -
  let ?cd = "al_codec lib"
  from assms obtain fx where fx: "fixtures_of ?cd = Inr fx" by (auto simp only: render_def res_simps)
  let ?vs = "[openapi, al_schema lib WebhookEventType, al_schema lib ThreadType, al_schema lib ReplyRequestType,
       al_schema lib ReplyResponseType, al_schema lib ErrorEnvelopeType, webhook_event_json ?cd (fx_webhook_event fx),
       thread_json ?cd (fx_thread fx), reply_request_json (fx_reply_request fx),
       reply_response_json (fx_reply_response fx), error_envelope_json (fx_error fx)]"
  have "traverseE (\<lambda>a. a) (map2 (make_artifact lib) artifact_paths ?vs) = render lib openapi"
    by (simp only: render_def fx bindE_simps schema_artifact_def artifact_paths_def zip_Cons_Cons zip_Nil list.map prod.case)
  with assms have "list_all2 (\<lambda>x y. x = Inr y) (map2 (make_artifact lib) artifact_paths ?vs) as"
    by (simp only: traverseE_Inr_iff)
  then show ?thesis by (rule make_artifacts_paths) (simp add: artifact_paths_def)
qed

lemma artifact_paths_distinct: "distinct artifact_paths"
  by (simp add: artifact_paths_def)

lemma check_artifacts_iff:
  "check_artifacts root as fs = Inr () \<longleftrightarrow> (\<forall>a \<in> set as. fs (path_join root (ar_path a)) = Some (ar_body a))"
  by (induction as) (auto simp: Let_def res_simps)

lemma write_artifacts_other:
  "q \<notin> path_join root ` ar_path ` set as \<Longrightarrow> snd (write_artifacts lib root as fs) q = fs q"
  by (induction as arbitrary: fs) (auto simp: Let_def)

lemma write_artifacts_ok:
  "fst (write_artifacts lib root as fs) = Inr () \<Longrightarrow> distinct (map ar_path as) \<Longrightarrow> a \<in> set as \<Longrightarrow>
     snd (write_artifacts lib root as fs) (path_join root (ar_path a)) = Some (ar_body a)"
proof (induction as arbitrary: fs)
  case (Cons b bs)
  then have w: "snd (write_artifacts lib root (b # bs) fs) =
      snd (write_artifacts lib root bs (fs(path_join root (ar_path b) \<mapsto> ar_body b)))"
    "fst (write_artifacts lib root bs (fs(path_join root (ar_path b) \<mapsto> ar_body b))) = Inr ()"
    by (auto simp: Let_def split: if_splits)
  show ?case
  proof (cases "a = b")
    case True
    have "path_join root (ar_path b) \<notin> path_join root ` ar_path ` set bs" using Cons.prems(2) by auto
    from write_artifacts_other [OF this] show ?thesis by (simp only: w True fun_upd_same)
  next
    case False
    with Cons w show ?thesis by simp
  qed
qed simp

lemma reply_request_roundtrip: "decode_reply_request (reply_request_json r) = Some r"
  by (cases r) (simp add: decode_reply_request_def reply_request_json_def as_str_def as_bool_def Let_def)

end
