(* ===== verification/Wire_Properties.thy ===== *)
theory Wire_Properties
  imports Wire_Decode Api_Properties Boundary_Properties Artifacts
begin

text \<open>
  Properties of what goes over the wire: every JSON value the gateway sends has its published type, and the wire types
  can be read back.
\<close>

section \<open>Numbers stay in range\<close>

lemma number_in_range: "number_as_i64 n = Some i \<Longrightarrow> in_i64 i"
  using as_i64_in_range [of "JNumber n" i] by (simp add: as_i64_def)

lemma parse_in_range: "parse_i64 s = Some i \<Longrightarrow> in_i64 i"
  by (auto simp: parse_i64_def split: option.splits if_splits)

lemma path_thread_in_range: "in_i64 (path_thread_id s)"
  using parse_in_range by (auto simp: path_thread_id_def i64_defs split: option.split)

lemma post_ref_in_range:
  assumes "contract_post_ref v board thread_id = Some r" and "in_i64 thread_id"
  shows "ref_in_range r"
  using assms number_in_range parse_in_range as_i64_in_range
  by (auto simp: contract_post_ref_def ref_in_range_def opt_unwrap_or_def Let_def bind_eq_Some_conv
      split: json.splits option.splits)

lemma post_refs_in_range: "in_i64 thread_id \<Longrightarrow> list_all ref_in_range (post_refs vs board thread_id)"
  using post_ref_in_range by (fastforce simp: post_refs_def list_all_iff List.map_filter_def)

lemma post_from_value_numbers:
  assumes "post_from_value cd v = Inr u"
  shows "req_field as_i64 (struct_field v 11 ''postId'') = Some (up_id u)"
    "opt_field as_i64 (struct_field v 10 ''thread'') = Some (up_thread u)"
  using assms by (auto simp: post_from_value_def Let_def res_simps)

lemma decoded_in_range:
  assumes "snd (decoded_post_try_from cd v) = Inr d"
  shows "post_in_range (contract_post base (dp_post d))"
proof -
  have p: "post_from_value cd (snd (drop_ip_fields v)) = Inr (dp_post d)" using assms by (simp add: decoded_post_try_from_Inr)
  have id: "in_i64 (up_id (dp_post d))"
    using post_from_value_numbers(1) [OF p] as_i64_in_range by (auto simp: req_field_def bind_eq_Some_conv)
  have thread: "in_i64 t" if "up_thread (dp_post d) = Some t" for t
    using post_from_value_numbers(2) [OF p] that as_i64_in_range by (auto simp: opt_field_def split: option.splits json.splits)
  have "in_i64 (opt_unwrap_or (up_thread (dp_post d)) (up_id (dp_post d)))"
    using id thread by (simp add: opt_unwrap_or_def split: option.split)
  then show ?thesis using id post_refs_in_range by (simp add: post_in_range_def contract_post_def Let_def)
qed

lemma annotate_in_range [simp]: "post_in_range (annotate_post om p) = post_in_range p"
  by (simp add: post_in_range_def annotate_post_def)

lemma fetched_thread:
  assumes "snd (snd (fetch_thread cd send base board tid limit)) = Inr (Some t)"
  shows "t_id t = tid \<and> (\<forall>p \<in> set (t_posts t). post_in_range p)"
proof -
  obtain v n where "snd (thread_from_value cd base board tid v n) = Inr t"
    using assms by (rule fetch_thread_ok)
  then obtain root ps where ps: "decoded_posts cd base (thread_objects board tid root) = Inr ps"
    and t: "t_posts t = drop (length ps - n) (sort_key p_id ps)" "t_id t = tid"
    unfolding thread_from_value_Inr by auto
  have "post_in_range p" if "p \<in> set (t_posts t)" for p
  proof -
    have "p \<in> set ps" using that t(1) by (metis in_set_dropD set_sort)
    with ps obtain v where "snd (contract_post_from_value cd base v) = Inr p"
      by (auto simp: decoded_posts_def traverseE_Inr_iff list_all2_conv_all_nth in_set_conv_nth)
    then show ?thesis using decoded_in_range by (auto simp: contract_post_from_value_def res_simps)
  qed
  with t(2) show ?thesis by blast
qed

section \<open>Responses\<close>

definition readable :: "codec \<Rightarrow> string \<Rightarrow> bool" where
  "readable cd s = (datetime_from_str cd s \<noteq> None)"

definition response_typed :: "codec \<Rightarrow> response \<Rightarrow> bool" where
  "response_typed cd r = (case rs_body r of
     ThreadBody t \<Rightarrow> conforms (readable cd) WIRE_THREAD (thread_json cd t)
   | ReplyBody rr \<Rightarrow> conforms (readable cd) WIRE_REPLY_RESPONSE (reply_response_json rr)
   | ErrorEnvelope b \<Rightarrow> conforms (readable cd) WIRE_ERROR_ENVELOPE (error_envelope_json b)
   | _ \<Rightarrow> True)"

lemma error_response_typed: "response_typed cd (into_response (api_error_new status code message))"
  by (simp add: response_typed_def error_conforms del: conforms.simps)

lemma fetched_typed:
  assumes "\<forall>t. readable cd (serde_datetime cd t)" and "cd = he_codec env" and "in_i64 (pr_read_thread p)"
  shows "response_typed cd (snd (snd (prepared_read_fetch env st p)))"
proof -
  let ?f = "fetch_thread (he_codec env) (he_send env) (as_base_url st) (pr_read_board p) (pr_read_thread p) (pr_limit p)"
  have "conforms (readable cd) WIRE_THREAD (thread_json cd (annotate_thread om t))" if f: "snd (snd ?f) = Inr (Some t)" for om t
  proof (rule thread_conforms)
    have "t_id t = pr_read_thread p" using fetched_thread [OF f] by blast
    then show "in_i64 (t_id (annotate_thread om t))" using assms(3) by (simp add: annotate_thread_def)
    show "\<forall>p \<in> set (t_posts (annotate_thread om t)). post_in_range p \<and> readable cd (serde_datetime cd (p_date p))"
      using fetched_thread [OF f] assms(1) by (auto simp: annotate_thread_def)
  qed
  then show ?thesis
    by (auto simp: prepared_read_fetch_def Let_def read_error_def error_response_typed
        response_typed_def [of _ "\<lparr>rs_status = _, rs_body = ThreadBody _\<rparr>"]
        split: sum.split option.split simp del: conforms.simps)
qed

lemma upstream_reply_in_range: "decode_upstream_reply v = Some (Some i) \<Longrightarrow> in_i64 i"
proof -
  have "opt_field as_i64 x = Some (Some i) \<Longrightarrow> in_i64 i" for x
    using as_i64_in_range by (auto simp: opt_field_def split: option.splits json.splits)
  then show "decode_upstream_reply v = Some (Some i) \<Longrightarrow> in_i64 i"
    by (auto simp: decode_upstream_reply_def split: json.splits list.splits if_splits)
qed

lemma reply_ids_in_range:
  assumes "reply cd send base posting board tid rq = Inr rr" and "in_i64 tid"
  shows "in_i64 (rr_thread_id rr)" "in_i64 (rr_post_id rr)"
  using assms upstream_reply_in_range
  by (auto simp: reply_def Let_def res_simps bind_eq_Some_conv split: sum.splits option.splits if_splits)

lemma submitted_typed:
  assumes "\<forall>req r. he_send env req = Inr r \<longrightarrow> hs_status r < 65536" and "in_i64 tid"
  shows "response_typed cd (snd (snd (reply_submit env st board tid sr)))"
proof (cases "reply (he_codec env) (he_send env) (as_base_url st) (sr_posting sr) board tid (sr_body sr)")
  case (Inr rr)
  then show ?thesis
    using reply_ids_in_range [OF Inr assms(2)]
    by (simp add: reply_submit_def reply_accepted_def response_typed_def reply_response_conforms Let_def del: conforms.simps)
next
  case (Inl e)
  show ?thesis
  proof (cases e)
    case (ReplyUpstream u)
    then have "ur_status u < 65536" using reply_upstream_cases [OF Inl [unfolded ReplyUpstream]] assms(1) by (auto simp: from_response_def)
    then show ?thesis using Inl ReplyUpstream
      by (simp add: reply_submit_def reply_rejected_def response_typed_def into_response_def with_upstream_status_def
          with_retryable_def api_error_new_def error_conforms Let_def del: conforms.simps)
  next
    case (ReplyUnknown x accepted)
    then show ?thesis using Inl
      by (simp add: reply_submit_def reply_state_unknown_def response_typed_def into_response_def with_retryable_def
          api_error_new_def error_conforms Let_def del: conforms.simps)
  qed
qed

lemma thread_response_typed:
  assumes "\<forall>t. readable (he_codec env) (serde_datetime (he_codec env) t)"
  shows "response_typed (he_codec env) (oc_response (integration_thread env g r st))"
proof (cases "in_path r")
  case (Inr bt)
  obtain board tt where bt: "bt = (board, tt)" by (cases bt)
  have "response_typed (he_codec env) (oc_response (thread_handler env g board tt r st))"
  proof (cases rule: thread_handler_cases [of env g board tt r st])
    case refused
    then show ?thesis by (simp only: error_response_typed)
  next
    case (fetched ic p)
    then have "in_i64 (pr_read_thread p)" using prepared_read_new_ok(8) [OF fetched(2)] path_thread_in_range by simp
    then show ?thesis using fetched_typed [OF assms refl] fetched(5) by simp
  qed
  then show ?thesis using Inr bt by (simp add: integration_thread_def)
qed (simp add: integration_thread_def response_typed_def)

lemma reply_response_typed:
  assumes "\<forall>req r. he_send env req = Inr r \<longrightarrow> hs_status r < 65536"
  shows "response_typed cd (oc_response (integration_reply env g r st))"
proof -
  have "response_typed cd (oc_response (reply_handler env g board tt r body st))" for board tt body
  proof (cases rule: reply_handler_cases [of env g board tt r body st])
    case refused
    then show ?thesis by (simp only: error_response_typed)
  next
    case (submitted sr)
    then show ?thesis using submitted_typed [OF assms path_thread_in_range] by simp
  qed
  then show ?thesis
    by (auto simp: integration_reply_def body_rejection_def error_response_typed
        response_typed_def [of _ "\<lparr>rs_status = _, rs_body = AxumRejection\<rparr>"] split: sum.split)
qed

section \<open>Payloads\<close>

definition payload_typed :: "codec \<Rightarrow> string \<Rightarrow> bool" where
  "payload_typed cd payload \<longleftrightarrow>
     (\<exists>v. payload = json_to_vec cd v \<and> conforms (readable cd) WIRE_WEBHOOK_EVENT v)"

lemma encoded_payload_typed:
  assumes "snd (encode_event cd e) = Inr payload" and "post_in_range (we_post e)"
    and "\<forall>t. readable cd (serde_datetime cd t)"
  shows "payload_typed cd payload"
  using assms event_conforms [of e "readable cd" cd] by (auto simp: encode_event_def payload_typed_def Let_def res_simps)

lemma deliveries_typed:
  assumes "snd (event_deliveries cd cr built ws secret) = Inr ds" and "post_in_range (we_post (be_event built))"
    and "\<forall>t. readable cd (serde_datetime cd t)" and "d \<in> set ds"
  shows "payload_typed cd (ed_payload d)"
proof -
  obtain w where w: "snd (event_delivery_for cd cr built secret w) = Inr d"
    using assms(1,4) by (auto simp: event_deliveries_def traverseW_snd traverseE_Inr_iff list_all2_conv_all_nth in_set_conv_nth)
  then have "snd (encode_event cd (webhook_view cr secret built w)) = Inr (ed_payload d)"
    by (cases "wc_include_poster_fingerprint w") (auto simp: event_delivery_for_def webhook_view_def Let_def res_simps)
  moreover have "post_in_range (we_post (webhook_view cr secret built w))"
    using assms(2) by (simp add: webhook_view_def post_in_range_def)
  ultimately show ?thesis using assms(3) by (rule encoded_payload_typed)
qed

lemma gateway_event_in_range:
  "snd (gateway_event cd base v now) = Inr built \<Longrightarrow> post_in_range (we_post (be_event built))"
  using decoded_in_range by (auto simp: gateway_event_def Let_def res_simps)

lemma new_post_typed:
  assumes "\<forall>t. readable cd (serde_datetime cd t)"
    and "d \<in> set (db_deliveries (ir_db (new_post cd cr base payload ws om secret now fault db)))"
  shows "d \<in> set (db_deliveries db) \<or> (\<exists>text. dl_payload d = Some text \<and> payload_typed cd text)"
proof (cases "snd (prepare_event cd cr base payload ws om secret now)")
  case (Inl label)
  then show ?thesis using assms(2) by (simp add: new_post_def ingest_stop_def Let_def)
next
  case (Inr x)
  obtain event encoded ds where x: "x = (event, encoded, ds)" by (cases x)
  from Inr [unfolded x] have typed: "payload_typed cd (ed_payload e)" if "e \<in> set ds" for e
  proof (rule prepare_event_Inr)
    fix v rest built
    assume built: "snd (gateway_event cd base v now) = Inr built"
      "event = (be_event built)\<lparr>we_post := annotate_post om (we_post (be_event built))\<rparr>"
      "snd (event_deliveries cd cr (built\<lparr>be_event := event, be_payload := encoded\<rparr>) ws secret) = Inr ds"
    show ?thesis
      by (rule deliveries_typed [OF built(3) _ assms(1) that]) (simp add: built(2) gateway_event_in_range [OF built(1)])
  qed
  have "ir_db (new_post cd cr base payload ws om secret now fault db) = snd (create_event cd fault event encoded ds db)"
    using Inr x by (simp add: new_post_def ingest_stop_def Let_def split: sum.split bool.split)
  then show ?thesis
    using assms(2) typed
    by (cases rule: create_event_cases [of event db ds cd fault encoded]) (auto simp: new_row_def)
qed

section \<open>Claims\<close>

text \<open>
  C20: what the gateway sends has its published type. With dates that chrono reads back and upstream statuses of sixteen
  bits, the JSON body of every answer of the thread and reply endpoints is a value of the thread, reply or error type,
  and every payload that ingesting a post adds to the deliveries is the text of a value of the event type: each member is
  there when it is required, has its type at every depth, and there are no others.
\<close>

theorem wire_typed:
  assumes "\<forall>t. readable (he_codec env) (serde_datetime (he_codec env) t)"
    and "\<forall>req r. he_send env req = Inr r \<longrightarrow> hs_status r < 65536"
  shows "response_typed (he_codec env) (oc_response (integration_thread env g r st)) \<and>
    response_typed (he_codec env) (oc_response (integration_reply env g r st)) \<and>
    (\<forall>d \<in> set (db_deliveries (ir_db (new_post (he_codec env) cr base payload ws om secret now fault db))).
       d \<in> set (db_deliveries db) \<or> (\<exists>text. dl_payload d = Some text \<and> payload_typed (he_codec env) text))"
  using thread_response_typed [OF assms(1)] reply_response_typed [OF assms(2)] new_post_typed [OF assms(1)] by blast

lemma ref_readable: "readable ref_codec (serde_datetime ref_codec t)"
  by (simp add: readable_def ref_codec_def)

definition sample_not_found :: http_outcome where
  "sample_not_found = Inr \<lparr>hs_status = 404, hs_set_cookie = [], hs_body = None\<rparr>"

lemma sample_ingest_row: "\<exists>row. db_deliveries (ir_db sample_ingest) = [row]"
proof -
  have "cf_fingerprint_secret sample_config \<noteq> None"
    "filter (\<lambda>w. wc_board_allowed w (p_board (we_post (be_event sample_built)))) (cf_webhooks sample_config) \<noteq> []"
    by (simp_all only: sample_allowed) (simp_all add: sample_config_def)
  then show ?thesis
    using new_post_queues [OF ref_codec_json sample_empty_wf(1) sample_object sample_gateway_event _
        resolve_webhook_names(1) [OF sample_resolved], of "cf_fingerprint_secret sample_config"
        "origin_matcher_new (cf_postings sample_config)" ref_crypto "[]"]
    unfolding Let_def sample_ingest_def [symmetric] sample_allowed by (simp add: sample_empty_wf) (simp add: sample_empty_def)
qed

theorem wire_typed_witness:
  "response_typed ref_codec (oc_response (integration_thread (api_env sample_not_found) counting_governor
      (sample_read (Some (sample_signature None))) sample_app)) \<and>
   response_typed ref_codec (oc_response (integration_reply (api_env sample_not_found) counting_governor sample_reply sample_app)) \<and>
   (\<exists>row text. db_deliveries (ir_db sample_ingest) = [row] \<and> dl_payload row = Some text \<and> payload_typed ref_codec text)"
proof -
  let ?env = "api_env sample_not_found"
  have sel: "he_codec ?env = ref_codec" "he_send ?env = (\<lambda>_. sample_not_found)" by (simp_all add: api_env_def)
  have "\<forall>t. readable (he_codec ?env) (serde_datetime (he_codec ?env) t)"
    "\<forall>req r. he_send ?env req = Inr r \<longrightarrow> hs_status r < 65536"
    unfolding sel by (simp_all only: ref_readable) (auto simp: sample_not_found_def)
  note typed = wire_typed [OF this, unfolded sel]
  obtain row where row: "db_deliveries (ir_db sample_ingest) = [row]" using sample_ingest_row by blast
  have "row \<in> set (db_deliveries sample_empty) \<or> (\<exists>text. dl_payload row = Some text \<and> payload_typed ref_codec text)"
  proof (rule typed [THEN conjunct2, THEN conjunct2, THEN bspec])
    have "row \<in> set (db_deliveries (ir_db sample_ingest))" by (simp add: row)
    then show "row \<in> set (db_deliveries (ir_db (new_post ref_codec ref_crypto ''https://ptchan.test'' [sample_json]
        (cf_webhooks sample_config) (origin_matcher_new (cf_postings sample_config)) (cf_fingerprint_secret sample_config) 7 False
        sample_empty)))" unfolding sample_ingest_def .
  qed
  then have "\<exists>text. dl_payload row = Some text \<and> payload_typed ref_codec text" by (simp add: sample_empty_def)
  with row show ?thesis by (intro conjI typed [THEN conjunct1] typed [THEN conjunct2, THEN conjunct1]) blast
qed

text \<open>
  C21: a client of the contract reads what the gateway sends. For values within the widths of their fields and dates that
  chrono reads back, the derived deserialisers applied to the derived serialisers give the value itself: the event from
  the text of its payload, a thread, the answer to a reply, a reply request and the error envelope, with every optional
  member present or left out.
\<close>

theorem wire_roundtrip:
  assumes "post_in_range (we_post e)" and "p_attachment_count (we_post e) < 2 ^ 64"
    and "date_back cd (p_date (we_post e))" and "date_back cd (we_observed_at e)"
    and "json_document cd (json_to_vec cd (webhook_event_json cd e)) = Some (webhook_event_json cd e)"
    and "snd (encode_event cd e) = Inr payload"
    and "in_i64 (t_id t)"
    and "\<forall>p \<in> set (t_posts t). post_in_range p \<and> p_attachment_count p < 2 ^ 64 \<and> date_back cd (p_date p)"
    and "in_i64 (rr_thread_id rr)" and "in_i64 (rr_post_id rr)"
    and "\<forall>n. eb_upstream_status b = Some n \<longrightarrow> n < 65536"
  shows "Option.bind (json_document cd payload) (decode_webhook_event cd) = Some e \<and>
    decode_thread cd (thread_json cd t) = Some t \<and>
    decode_reply_response (reply_response_json rr) = Some rr \<and>
    decode_reply_request (reply_request_json rq) = Some rq \<and>
    decode_error_envelope (error_envelope_json b) = Some b"
proof (intro conjI)
  show "Option.bind (json_document cd payload) (decode_webhook_event cd) = Some e"
    using event_back [OF assms(1-4)] assms(5) encode_event_payload [OF assms(6)] by simp
  show "decode_error_envelope (error_envelope_json b) = Some b" using error_back assms(11) by blast
qed (use assms thread_back reply_response_back reply_request_roundtrip in blast)+

text \<open>A codec that reads the text of the sample event.\<close>

definition event_codec :: codec where
  "event_codec = ref_codec\<lparr>json_document := (\<lambda>_. Some (webhook_event_json ref_codec sample_event)),
     json_from_slice := (\<lambda>_. Some (webhook_event_json ref_codec sample_event))\<rparr>"

lemma event_codec_sel: "serde_datetime event_codec = be_enc 12" "datetime_from_str event_codec = datetime_from_str ref_codec"
  "json_document event_codec s = Some (webhook_event_json ref_codec sample_event)"
  by (simp_all add: event_codec_def ref_codec_def)

lemma event_codec_json: "webhook_event_json event_codec e = webhook_event_json ref_codec e"
  by (simp add: webhook_event_json_def post_json_def event_codec_sel)

lemma event_codec_encodes: "\<exists>payload. snd (encode_event event_codec sample_event) = Inr payload"
proof -
  have from_slice: "json_from_slice event_codec s = Some (webhook_event_json ref_codec sample_event)" for s
    by (simp add: event_codec_def)
  have "\<forall>k \<in> json_keys (webhook_event_json ref_codec sample_event). \<not> sensitive_key k"
    using webhook_event_json_keys [of ref_codec sample_event] event_members_safe by blast
  then have "reject_sensitive_fields (webhook_event_json ref_codec sample_event) = ([], Inr ())"
    by (rule reject_sensitive_fields_ok)
  then show ?thesis by (simp add: encode_event_def assert_contract_safe_def from_slice Let_def bindW_def pureW_def)
qed

lemma event_codec_back: "0 \<le> t \<Longrightarrow> t < 256 ^ 12 \<Longrightarrow> date_back event_codec t"
  using be_dec_enc [of t 12 0] by (simp add: date_back_def event_codec_sel)

definition sample_thread :: thread where
  "sample_thread = \<lparr>t_board = ''i'', t_id = 100, t_posts = [sample_post], t_truncated = False\<rparr>"

definition sample_reply_response :: reply_response where
  "sample_reply_response = \<lparr>rr_board = ''i'', rr_thread_id = 100, rr_post_id = 102, rr_url = ''u'',
     rr_origin = \<lparr>po_kind = OriginIntegration, po_name = ''hook''\<rparr>\<rparr>"

definition sample_error :: error_body where
  "sample_error = \<lparr>eb_code = Rejected, eb_message = ''no'', eb_retryable = False, eb_upstream_status = Some 503\<rparr>"

theorem wire_roundtrip_witness:
  "decode_thread event_codec (thread_json event_codec sample_thread) = Some sample_thread \<and>
   decode_reply_response (reply_response_json sample_reply_response) = Some sample_reply_response \<and>
   decode_reply_request (reply_request_json \<lparr>rq_message = ''hi'', rq_sage = True\<rparr>) = Some \<lparr>rq_message = ''hi'', rq_sage = True\<rparr> \<and>
   decode_error_envelope (error_envelope_json sample_error) = Some sample_error \<and>
   (\<exists>payload. snd (encode_event event_codec sample_event) = Inr payload \<and>
     Option.bind (json_document event_codec payload) (decode_webhook_event event_codec) = Some sample_event)"
proof -
  obtain payload where p: "snd (encode_event event_codec sample_event) = Inr payload" using event_codec_encodes by blast
  have post: "post_in_range sample_post" "p_attachment_count sample_post < 2 ^ 64" "date_back event_codec (p_date sample_post)"
    by (simp_all add: sample_post_def post_in_range_def i64_defs event_codec_back)
  have event: "we_post sample_event = sample_post" "date_back event_codec (we_observed_at sample_event)"
    by (simp_all add: sample_event_def event_codec_back)
  have doc: "json_document event_codec (json_to_vec event_codec (webhook_event_json event_codec sample_event)) =
      Some (webhook_event_json event_codec sample_event)" by (simp only: event_codec_sel event_codec_json)
  note round = wire_roundtrip [OF post [folded event(1)] event(2) doc p]
  show ?thesis
    using round [of sample_thread sample_reply_response sample_error "\<lparr>rq_message = ''hi'', rq_sage = True\<rparr>"] p post
    by (simp add: sample_thread_def sample_reply_response_def sample_error_def i64_defs)
qed

end
