(* ===== verification/Outbox.thy ===== *)
theory Outbox
  imports Store_Queue
begin

text \<open>
  What the store promises, without tables: events with the text of their creation time and one entry per event and
  webhook. The tables of \<^verbatim>\<open>src/store.rs\<close> implement this outbox operation by operation.
\<close>

section \<open>Refinement\<close>

locale functional_refinement =
  fixes wf :: "'s \<Rightarrow> bool"
    and abs :: "'s \<Rightarrow> 'a"
    and run :: "'c \<Rightarrow> 's \<Rightarrow> 's"
    and spec :: "'c \<Rightarrow> 'a \<Rightarrow> 'a"
  assumes wf_step: "wf s \<Longrightarrow> wf (run c s)"
    and abs_step: "wf s \<Longrightarrow> abs (run c s) = spec c (abs s)"
begin

lemma abs_steps: "wf s \<Longrightarrow> abs (fold run cs s) = fold spec cs (abs s)"
  by (induction cs arbitrary: s) (simp_all add: wf_step abs_step)

end

section \<open>The outbox\<close>

record entry =
  en_payload :: string
  en_attempts :: int
  en_due :: string
  en_settled :: bool

record outbox =
  ob_events :: "string \<Rightarrow> string option"
  ob_entries :: "string \<times> string \<Rightarrow> entry option"

definition outbox_accept :: "string \<Rightarrow> string \<Rightarrow> event_delivery list \<Rightarrow> outbox \<Rightarrow> outbox" where
  "outbox_accept i created ds ob =
     (if ob_events ob i \<noteq> None \<or> \<not> distinct (map ed_webhook ds) then ob
      else ob\<lparr>ob_events := (ob_events ob)(i \<mapsto> created),
              ob_entries := ob_entries ob ++ map_of (map (\<lambda>d. ((i, ed_webhook d),
                \<lparr>en_payload = ed_payload d, en_attempts = 0, en_due = created, en_settled = False\<rparr>)) ds)\<rparr>)"

definition outbox_change :: "string \<times> string \<Rightarrow> (entry \<Rightarrow> entry) \<Rightarrow> outbox \<Rightarrow> outbox" where
  "outbox_change k f ob = ob\<lparr>ob_entries := (ob_entries ob)(k := map_option f (ob_entries ob k))\<rparr>"

definition collectable :: "string \<Rightarrow> outbox \<Rightarrow> string \<Rightarrow> bool" where
  "collectable cutoff ob i \<longleftrightarrow>
     (\<exists>created. ob_events ob i = Some created \<and> created < cutoff) \<and>
     (\<forall>w en. ob_entries ob (i, w) = Some en \<longrightarrow> en_settled en)"

definition outbox_collect :: "string \<Rightarrow> outbox \<Rightarrow> outbox" where
  "outbox_collect cutoff ob =
     ob\<lparr>ob_events := ob_events ob |` {i. \<not> collectable cutoff ob i},
        ob_entries := ob_entries ob |` {k. \<not> collectable cutoff ob (fst k)}\<rparr>"

text \<open>A call that SQLite fails leaves everything as it was.\<close>

fun outbox_run :: "codec \<Rightarrow> store_op \<times> bool \<Rightarrow> outbox \<Rightarrow> outbox" where
  "outbox_run cd (opn, True) ob = ob"
| "outbox_run cd (OpCreate e payload ds, False) ob =
     outbox_accept (we_event_id e) (to_rfc3339 cd (we_observed_at e)) ds ob"
| "outbox_run cd (OpDelivered i w now, False) ob = outbox_change (i, w) (\<lambda>en. en\<lparr>en_settled := True\<rparr>) ob"
| "outbox_run cd (OpFailed i w err n next, False) ob =
     outbox_change (i, w) (\<lambda>en. en\<lparr>en_attempts := n, en_due := to_rfc3339 cd next\<rparr>) ob"
| "outbox_run cd (OpPrune cutoff, False) ob = outbox_collect (to_rfc3339 cd cutoff) ob"

text \<open>The outbox a database holds. The payload of a row without one is its event's.\<close>

definition entry_of :: "db \<Rightarrow> delivery_row \<Rightarrow> entry" where
  "entry_of db d = \<lparr>en_payload = pd_payload (pending_of db d), en_attempts = dl_attempts d,
     en_due = dl_next_attempt_at d, en_settled = (dl_status d = Delivered)\<rparr>"

definition outbox_of :: "db \<Rightarrow> outbox" where
  "outbox_of db =
     \<lparr>ob_events = map_of (map (\<lambda>e. (ev_id e, ev_created_at e)) (db_events db)),
      ob_entries = map_of (map (\<lambda>d. (delivery_key d, entry_of db d)) (db_deliveries db))\<rparr>"

definition outstanding :: "outbox \<Rightarrow> (string \<times> string) set" where
  "outstanding ob = {k. \<exists>en. ob_entries ob k = Some en \<and> \<not> en_settled en}"

section \<open>Lookups\<close>

lemma map_of_keyed:
  "distinct (map key xs) \<Longrightarrow> map_of (map (\<lambda>x. (key x, val x)) xs) k = Some v \<longleftrightarrow> (\<exists>x \<in> set xs. key x = k \<and> val x = v)"
  by (subst map_of_eq_Some_iff) (auto simp: comp_def)

lemma map_of_keyed_None: "map_of (map (\<lambda>x. (key x, val x)) xs) k = None \<longleftrightarrow> k \<notin> key ` set xs"
  by (auto simp: map_of_eq_None_iff image_image)

lemma map_of_keyed_append:
  assumes "key ` set xs \<inter> key ` set ys = {}"
  shows "map_of (map (\<lambda>x. (key x, val x)) (xs @ ys)) =
    map_of (map (\<lambda>x. (key x, val x)) xs) ++ map_of (map (\<lambda>x. (key x, val x)) ys)"
proof -
  have "dom (map_of (map (\<lambda>x. (key x, val x)) zs)) = key ` set zs" for zs
    by (simp add: dom_map_of_conv_image_fst image_image)
  with assms have "map_of (map (\<lambda>x. (key x, val x)) ys) ++ map_of (map (\<lambda>x. (key x, val x)) xs) =
      map_of (map (\<lambda>x. (key x, val x)) xs) ++ map_of (map (\<lambda>x. (key x, val x)) ys)"
    by (intro map_add_comm) (simp add: Int_commute)
  then show ?thesis by simp
qed

lemma map_of_keyed_change:
  assumes "\<And>x. x \<in> set xs \<Longrightarrow> key (f x) = key x"
    and "\<And>x. x \<in> set xs \<Longrightarrow> val' (f x) = (if key x = k then g (val x) else val x)"
  shows "map_of (map (\<lambda>x. (key x, val' x)) (map f xs)) =
    (map_of (map (\<lambda>x. (key x, val x)) xs))(k := map_option g (map_of (map (\<lambda>x. (key x, val x)) xs) k))"
  using assms by (induction xs) (auto simp: fun_eq_iff)

lemma map_of_keyed_filter:
  assumes "\<And>x. x \<in> set xs \<Longrightarrow> P x \<longleftrightarrow> key x \<in> A" and "\<And>x. x \<in> set xs \<Longrightarrow> P x \<Longrightarrow> val' x = val x"
  shows "map_of (map (\<lambda>x. (key x, val' x)) (filter P xs)) = map_of (map (\<lambda>x. (key x, val x)) xs) |` A"
  using assms by (induction xs) (auto simp: fun_eq_iff restrict_map_def)

lemma find_filter: "\<forall>x \<in> set xs. P x \<longrightarrow> Q x \<Longrightarrow> List.find P (filter Q xs) = List.find P xs"
  by (induction xs) auto

lemma find_appended: "List.find P xs = Some x \<Longrightarrow> List.find P (xs @ ys) = Some x"
  by (induction xs) (auto split: if_splits)

lemma outbox_event_iff:
  "db_wf db \<Longrightarrow> ob_events (outbox_of db) i = Some c \<longleftrightarrow> (\<exists>e \<in> set (db_events db). ev_id e = i \<and> ev_created_at e = c)"
  by (simp add: outbox_of_def db_wf_def map_of_keyed)

lemma outbox_entry_iff:
  "db_wf db \<Longrightarrow> ob_entries (outbox_of db) k = Some en \<longleftrightarrow>
     (\<exists>d \<in> set (db_deliveries db). delivery_key d = k \<and> entry_of db d = en)"
  by (simp add: outbox_of_def db_wf_def map_of_keyed)

lemma entry_of_cong:
  "find_event db' (dl_event_id d) = find_event db (dl_event_id d) \<Longrightarrow> entry_of db' d = entry_of db d"
  by (simp add: entry_of_def pending_of_def split: option.split)

lemma en_settled_entry_of [simp]: "en_settled (entry_of db d) \<longleftrightarrow> dl_status d = Delivered"
  by (simp add: entry_of_def)

lemma not_settled: "dl_status d \<noteq> Delivered \<longleftrightarrow> is_pending d"
  by (cases "dl_status d") (simp_all add: is_pending_def)

lemma outbox_entries_where:
  assumes "db_wf db"
  shows "{k. \<exists>en. ob_entries (outbox_of db) k = Some en \<and> Q en} = delivery_key ` {d \<in> set (db_deliveries db). Q (entry_of db d)}"
proof -
  have "(\<exists>en. ob_entries (outbox_of db) k = Some en \<and> Q en) \<longleftrightarrow>
      k \<in> delivery_key ` {d \<in> set (db_deliveries db). Q (entry_of db d)}" for k
    unfolding outbox_entry_iff [OF assms] image_iff by (metis (no_types, lifting) mem_Collect_eq)
  then show ?thesis by (rule Collect_eqI [THEN trans]) simp
qed

lemma outstanding_pending: "db_wf db \<Longrightarrow> outstanding (outbox_of db) = pending_keys db"
  unfolding outstanding_def outbox_entries_where pending_keys_def by (simp add: not_settled)

section \<open>The store implements it\<close>

lemma outbox_of_change:
  assumes "\<And>d. delivery_key (f d) = delivery_key d" and "\<And>d. dl_payload (f d) = dl_payload d"
    and "\<And>d. entry_of db (f d) = (if delivery_key d = k then g (entry_of db d) else entry_of db d)"
  shows "outbox_of (db\<lparr>db_deliveries := map f (db_deliveries db)\<rparr>) = outbox_change k g (outbox_of db)"
proof -
  have "entry_of (db\<lparr>db_deliveries := map f (db_deliveries db)\<rparr>) d = entry_of db d" for d
    by (rule entry_of_cong) (simp add: find_event_def)
  then show ?thesis
    unfolding outbox_of_def outbox_change_def
    using map_of_keyed_change [of "db_deliveries db" delivery_key f "entry_of db" k g "entry_of db"] assms(1,3)
    by simp
qed

lemma create_outbox:
  assumes "db_wf db"
  shows "outbox_of (snd (create_event cd False e payload ds db)) =
    outbox_accept (we_event_id e) (to_rfc3339 cd (we_observed_at e)) ds (outbox_of db)"
proof -
  let ?i = "we_event_id e" and ?c = "to_rfc3339 cd (we_observed_at e)" and ?r = "event_row_of cd e payload"
  have known: "ob_events (outbox_of db) ?i \<noteq> None \<longleftrightarrow> ?i \<in> ev_id ` set (db_events db)"
    by (simp add: outbox_of_def map_of_keyed_None)
  have fresh: "\<forall>d \<in> set ds. (?i, ed_webhook d) \<notin> delivery_keys db" if "?i \<notin> ev_id ` set (db_events db)"
    using that assms by (force simp: delivery_keys_def delivery_key_def db_wf_def)
  show ?thesis
  proof (cases "?i \<in> ev_id ` set (db_events db) \<or> \<not> distinct (map ed_webhook ds)")
    case True
    then have "snd (create_event cd False e payload ds db) = db"
      by (cases rule: create_event_cases [of e db ds cd False payload]) auto
    with True known show ?thesis by (simp add: outbox_accept_def)
  next
    case False
    let ?db = "db\<lparr>db_events := db_events db @ [?r], db_deliveries := db_deliveries db @ map (new_row ?i ?c) ds\<rparr>"
    have "insert_deliveries ?i ?c ds (db\<lparr>db_events := db_events db @ [?r]\<rparr>) = Inr ?db"
      using False fresh by (simp add: insert_deliveries_Inr delivery_keys_def event_row_of_def)
    then have db': "snd (create_event cd False e payload ds db) = ?db"
      using False by (simp add: create_event_def store_call_def list_ex_key)
    have "find_event ?db (dl_event_id d) = find_event db (dl_event_id d)" if "d \<in> set (db_deliveries db)" for d
      using find_event_wf [OF assms that] find_appended [of _ "db_events db"] by (auto simp: find_event_def)
    then have "entry_of ?db d = entry_of db d" if "d \<in> set (db_deliveries db)" for d
      using that by (intro entry_of_cong) simp
    then have old: "map (\<lambda>d. (delivery_key d, entry_of ?db d)) (db_deliveries db) =
        map (\<lambda>d. (delivery_key d, entry_of db d)) (db_deliveries db)"
      by (intro map_cong refl) simp
    have new: "map (\<lambda>d. (delivery_key d, entry_of ?db d)) (map (new_row ?i ?c) ds) =
        map (\<lambda>d. ((?i, ed_webhook d), \<lparr>en_payload = ed_payload d, en_attempts = 0, en_due = ?c, en_settled = False\<rparr>)) ds"
      by (simp add: entry_of_def pending_of_def new_row_def delivery_key_def)
    have "delivery_key ` set (db_deliveries db) \<inter> delivery_key ` set (map (new_row ?i ?c) ds) = {}"
      using False fresh by (auto simp: delivery_keys_def)
    from map_of_keyed_append [OF this, of "entry_of ?db"]
    have "ob_entries (outbox_of ?db) = ob_entries (outbox_of db) ++ map_of (map (\<lambda>d. ((?i, ed_webhook d),
        \<lparr>en_payload = ed_payload d, en_attempts = 0, en_due = ?c, en_settled = False\<rparr>)) ds)"
      unfolding old new by (simp add: outbox_of_def)
    moreover have "ev_id ` set (db_events db) \<inter> ev_id ` set [?r] = {}"
      using False by (simp add: event_row_of_def)
    from map_of_keyed_append [OF this, of ev_created_at]
    have "ob_events (outbox_of ?db) = (ob_events (outbox_of db))(?i \<mapsto> ?c)"
      by (simp add: outbox_of_def event_row_of_def)
    ultimately show ?thesis unfolding db' outbox_accept_def using False known by simp
  qed
qed

lemma prunable_collectable:
  assumes "db_wf db" and "e \<in> set (db_events db)"
  shows "prunable cutoff db e \<longleftrightarrow> collectable cutoff (outbox_of db) (ev_id e)"
proof -
  have "ob_events (outbox_of db) (ev_id e) = Some (ev_created_at e)"
    using outbox_event_iff [OF assms(1)] assms(2) by blast
  then have "(\<exists>created. ob_events (outbox_of db) (ev_id e) = Some created \<and> created < cutoff) \<longleftrightarrow> ev_created_at e < cutoff"
    by simp
  moreover have "(\<forall>w en. ob_entries (outbox_of db) (ev_id e, w) = Some en \<longrightarrow> en_settled en) \<longleftrightarrow>
      (\<forall>d \<in> set (db_deliveries db). dl_event_id d = ev_id e \<longrightarrow> dl_status d = Delivered)"
  proof -
    have "ob_entries (outbox_of db) (ev_id e, w) = Some en \<longleftrightarrow>
        (\<exists>d \<in> set (db_deliveries db). dl_event_id d = ev_id e \<and> dl_webhook d = w \<and> entry_of db d = en)" for w en
      unfolding outbox_entry_iff [OF assms(1)] delivery_key_def by simp
    then show ?thesis unfolding en_settled_entry_of [of db, symmetric] by metis
  qed
  ultimately show ?thesis by (auto simp: prunable_def collectable_def list_ex_iff)
qed

lemma prune_outbox:
  assumes "db_wf db"
  shows "outbox_of (snd (prune_delivered_events cd False cutoff db)) = outbox_collect (to_rfc3339 cd cutoff) (outbox_of db)"
proof -
  let ?t = "to_rfc3339 cd cutoff" and ?ob = "outbox_of db" and ?db = "snd (prune_delivered_events cd False cutoff db)"
  let ?gone = "filter (prunable ?t db) (db_events db)"
  note pc = prunable_collectable [OF assms]
  have rows: "(\<not> list_ex (\<lambda>e. ev_id e = dl_event_id d) ?gone) \<longleftrightarrow> \<not> collectable ?t ?ob (dl_event_id d)"
    if "d \<in> set (db_deliveries db)" for d
    using find_event_wf [OF assms that] pc by (fastforce simp: list_ex_iff)
  have evs: "db_events ?db = filter (\<lambda>e. \<not> prunable ?t db e) (db_events db)"
    and dls: "db_deliveries ?db = filter (\<lambda>d. \<not> list_ex (\<lambda>e. ev_id e = dl_event_id d) ?gone) (db_deliveries db)"
    using assms by (simp_all add: prune_db db_wf_def)
  have "entry_of ?db d = entry_of db d"
    if "d \<in> set (db_deliveries db)" "\<not> list_ex (\<lambda>e. ev_id e = dl_event_id d) ?gone" for d
    by (rule entry_of_cong, unfold find_event_def evs, rule find_filter) (use that in \<open>auto simp: list_ex_iff\<close>)
  then have "ob_entries (outbox_of ?db) = ob_entries ?ob |` {k. \<not> collectable ?t ?ob (fst k)}"
    unfolding outbox_of_def [of ?db] outbox.select_convs dls
    by (subst map_of_keyed_filter [where val = "entry_of db"]) (simp_all add: rows delivery_key_def outbox_of_def)
  moreover have "ob_events (outbox_of ?db) = ob_events ?ob |` {i. \<not> collectable ?t ?ob i}"
    unfolding outbox_of_def [of ?db] outbox.select_convs evs
    by (subst map_of_keyed_filter [where val = ev_created_at]) (simp_all add: pc outbox_of_def)
  ultimately show ?thesis by (simp add: outbox_collect_def)
qed

lemma outbox_run_step:
  assumes "db_wf db"
  shows "outbox_of (store_run cd c db) = outbox_run cd c (outbox_of db)"
proof (cases "snd c")
  case True
  have "store_run cd (opn, True) db = db" for opn
    by (cases opn) (simp_all add: create_event_def store_call_def mark_delivered_db mark_failed_db prune_db)
  with True show ?thesis by (cases c) simp
next
  case False
  then obtain opn where c: "c = (opn, False)" by (cases c) simp
  show ?thesis
  proof (cases opn)
    case (OpDelivered i w now)
    show ?thesis unfolding c OpDelivered
      by (simp add: mark_delivered_db, rule outbox_of_change) (auto simp: delivery_key_def entry_of_def pending_of_def split: option.split)
  next
    case (OpFailed i w err n nxt)
    show ?thesis unfolding c OpFailed
      by (simp add: mark_failed_db, rule outbox_of_change) (auto simp: delivery_key_def entry_of_def pending_of_def split: option.split)
  qed (simp_all add: c create_outbox prune_outbox assms)
qed

interpretation store_outbox: functional_refinement db_wf outbox_of "store_run cd" "outbox_run cd" for cd
  by unfold_locales (simp_all add: db_wf_store_run outbox_run_step)

section \<open>Queries\<close>

lemma pending_rows_card:
  assumes "db_wf db"
  shows "length (filter (\<lambda>d. is_pending d \<and> P (delivery_key d)) (db_deliveries db)) =
    card {k \<in> outstanding (outbox_of db). P k}"
proof -
  let ?rows = "filter (\<lambda>d. is_pending d \<and> P (delivery_key d)) (db_deliveries db)"
  have "distinct (map delivery_key ?rows)" using assms by (simp add: db_wf_def distinct_map_filter)
  then have "length ?rows = card (delivery_key ` set ?rows)" by (metis distinct_card length_map set_map)
  also have "delivery_key ` set ?rows = {k \<in> outstanding (outbox_of db). P k}"
    unfolding outstanding_pending [OF assms] pending_keys_def by auto
  finally show ?thesis .
qed

lemma count_filtered: "count_list (map f xs) y = length (filter (\<lambda>x. f x = y) xs)"
  by (induction xs) auto

lemma counted_iff:
  "(w, n) \<in> set (map (\<lambda>w. (w, int (count_list ws w))) (remdups ws)) \<longleftrightarrow> 0 < n \<and> n = int (count_list ws w)"
proof -
  have "0 < count_list ws w \<longleftrightarrow> w \<in> set ws" using count_list_0_iff [of ws w] by linarith
  then show ?thesis by (auto simp: image_iff)
qed

lemma counts_by_webhook_card:
  assumes "db_wf db" and "scan_ok scan"
  shows "int (count_list (map dl_webhook (filter is_pending (scan (db_deliveries db)))) w) =
    int (card {k \<in> outstanding (outbox_of db). snd k = w})"
proof -
  have "mset (scan (db_deliveries db)) = mset (db_deliveries db)" using assms(2) by (simp add: scan_ok_def)
  then have "length (filter (\<lambda>d. is_pending d \<and> dl_webhook d = w) (scan (db_deliveries db))) =
      length (filter (\<lambda>d. is_pending d \<and> dl_webhook d = w) (db_deliveries db))"
    by (metis mset_filter size_mset)
  then show ?thesis
    using pending_rows_card [OF assms(1), of "\<lambda>k. snd k = w"]
    by (simp add: count_filtered conj_commute delivery_key_def)
qed

lemma outbox_payload:
  assumes "db_wf db" and "d \<in> set (db_deliveries db)"
  shows "ob_entries (outbox_of db) (delivery_key d) = Some (entry_of db d)"
  using outbox_entry_iff [OF assms(1)] assms(2) by blast

end
