(* ===== verification/Outbox_Properties.thy ===== *)
theory Outbox_Properties
  imports Outbox Sample_Data
begin

text \<open>
  The store against its abstract specification: writes refine the operations of the outbox, queries read it.
\<close>

text \<open>
  C3: the store implements the outbox. Whatever sequence of stores, marks and prunes runs on a well-formed
  database, and whichever of them SQLite fails, the tables then hold the outbox that the same sequence of abstract
  operations gives: an event is accepted once and as a whole, a mark changes its own entry only, a prune forgets
  exactly the events that are old and settled, and a failed call changes nothing.
\<close>

theorem store_refines_outbox:
  assumes "db_wf db"
  shows "outbox_of (fold (store_run cd) cs db) = fold (outbox_run cd) cs (outbox_of db)"
  using assms by (rule store_outbox.abs_steps)

theorem store_refines_outbox_witness:
  "ob_entries (outbox_of (fold (store_run ref_codec) [(OpDelivered ''e1'' ''hook'' 9, False), (OpPrune 3, True)] sample_db))
     (''e1'', ''hook'') =
   Some \<lparr>en_payload = ''{}'', en_attempts = 0, en_due = be_enc 12 7, en_settled = True\<rparr>"
proof -
  have "ob_entries (outbox_of sample_db) (''e1'', ''hook'') =
      Some \<lparr>en_payload = ''{}'', en_attempts = 0, en_due = be_enc 12 7, en_settled = False\<rparr>"
    by (simp add: outbox_of_def sample_rows sample_row_def sample_delivery_def delivery_key_def new_row_def entry_of_def
        pending_of_def)
  then show ?thesis
    using store_refines_outbox [OF sample_wf, of ref_codec "[(OpDelivered ''e1'' ''hook'' 9, False), (OpPrune 3, True)]"]
    by (simp add: outbox_change_def)
qed

lemma due_rows_wf:
  "db_wf db \<Longrightarrow> due_rows cd now db = {d \<in> set (db_deliveries db). is_pending d \<and> dl_next_attempt_at d \<le> to_rfc3339 cd now}"
  by (auto simp: due_rows_def due_wf)

lemma wf_keys_inj: "db_wf db \<Longrightarrow> inj_on delivery_key (set (db_deliveries db))"
  by (simp add: db_wf_def distinct_map)

lemma due_rows_card:
  assumes "db_wf db"
  shows "card {k. \<exists>en. ob_entries (outbox_of db) k = Some en \<and> \<not> en_settled en \<and> en_due en \<le> to_rfc3339 cd now} =
    card (due_rows cd now db)"
proof -
  have "{k. \<exists>en. ob_entries (outbox_of db) k = Some en \<and> \<not> en_settled en \<and> en_due en \<le> to_rfc3339 cd now} =
      delivery_key ` due_rows cd now db"
    unfolding due_rows_wf [OF assms] outbox_entries_where [OF assms] by (simp add: not_settled entry_of_def)
  moreover have "inj_on delivery_key (due_rows cd now db)"
    by (rule inj_on_subset [OF wf_keys_inj [OF assms]]) (auto simp: due_rows_wf [OF assms])
  ultimately show ?thesis by (simp add: card_image)
qed

lemma due_row_entry:
  assumes "db_wf db" and "d \<in> due_rows cd now db" and "p = pending_of db d"
  shows "\<exists>en. ob_entries (outbox_of db) (pd_event_id p, pd_webhook p) = Some en \<and> \<not> en_settled en \<and>
    en_due en \<le> to_rfc3339 cd now \<and> en_payload en = pd_payload p \<and> en_attempts en = pd_attempts p"
  using assms(2,3) outbox_payload [OF assms(1), of d]
  by (intro exI [of _ "entry_of db d"])
     (auto simp: due_rows_wf [OF assms(1)] entry_of_def not_settled pending_of_def delivery_key_def)



end
