(* ===== verification/Router.thy ===== *)
theory Router
  imports Threads Replies
begin

text \<open>
  The routes of the HTTP server (\<^verbatim>\<open>src/runtime/mod.rs\<close>) and the handlers that are not integration endpoints. Which
  route a request matches is axum's; the table says which there are.
\<close>

datatype route = HealthzRoute | ReadyzRoute | MetricsRoute | OpenApiRoute | ThreadRoute | ReplyRoute

definition router :: "(http_method \<times> string \<times> route) list" where
  "router =
     [(GET, ''/healthz'', HealthzRoute), (GET, ''/readyz'', ReadyzRoute), (GET, ''/metrics'', MetricsRoute),
      (GET, ''/integration/v1/openapi.json'', OpenApiRoute),
      (GET, ''/integration/v1/threads/{board}/{thread_id}'', ThreadRoute),
      (POST, ''/integration/v1/threads/{board}/{thread_id}/replies'', ReplyRoute)]"

text \<open>
  What these handlers meet: whether the store fails, the files of \<^verbatim>\<open>/proc/self\<close>, the text encoder of the
  prometheus crate over the effects so far, and the OpenAPI document.
\<close>

record runtime_env =
  ru_store_fault :: bool
  ru_proc_stat :: "string option"
  ru_proc_status :: "string option"
  ru_proc_fds :: "nat option"
  ru_encode :: "metric_op list \<Rightarrow> string option"
  ru_openapi :: json

definition metrics_render :: "runtime_env \<Rightarrow> metric_op list \<Rightarrow> metric_op list \<times> string option" where
  "metrics_render ru ops =
     (let fresh = refresh_process_metrics (ru_proc_stat ru) (ru_proc_status ru) (ru_proc_fds ru) in
      (fresh, ru_encode ru (ops @ fresh)))"

definition metrics_handler :: "runtime_env \<Rightarrow> metric_op list \<Rightarrow> metric_op list \<times> response" where
  "metrics_handler ru ops =
     (let r = metrics_render ru ops in
      (fst r, case snd r of
         Some body \<Rightarrow> \<lparr>rs_status = 200, rs_body = PlainText body\<rparr>
       | None \<Rightarrow> \<lparr>rs_status = 500, rs_body = EmptyBody\<rparr>))"

definition openapi_handler :: "runtime_env \<Rightarrow> response" where
  "openapi_handler ru = \<lparr>rs_status = 200, rs_body = OpenApiBody (ru_openapi ru)\<rparr>"

text \<open>The handler of a route, in the outcome of a request; only the integration endpoints call upstream or spend a limit.\<close>

definition local_outcome :: "'lim app_state \<Rightarrow> metric_op list \<times> response \<Rightarrow> 'lim outcome" where
  "local_outcome st r = \<lparr>oc_ops = fst r, oc_calls = [], oc_response = snd r, oc_limiters = as_rate_limiters st\<rparr>"

definition handle_route ::
  "handler_env \<Rightarrow> runtime_env \<Rightarrow> ('q, 'lim) governor \<Rightarrow> metric_op list \<Rightarrow> route \<Rightarrow> inbound \<Rightarrow> 'lim app_state \<Rightarrow> 'lim outcome" where
  "handle_route env ru g ops rt r st = (case rt of
     HealthzRoute \<Rightarrow> local_outcome st ([], healthz)
   | ReadyzRoute \<Rightarrow> local_outcome st (readyz (ru_store_fault ru) st)
   | MetricsRoute \<Rightarrow> local_outcome st (metrics_handler ru ops)
   | OpenApiRoute \<Rightarrow> local_outcome st ([], openapi_handler ru)
   | ThreadRoute \<Rightarrow> integration_thread env g r st
   | ReplyRoute \<Rightarrow> integration_reply env g r st)"

text \<open>Every route is in the table once, under a path of its own, and only replies are posted.\<close>

lemma router_total: "set (map (snd \<circ> snd) router) = UNIV \<and> distinct (map (snd \<circ> snd) router) \<and> distinct (map (fst \<circ> snd) router)"
proof -
  have "(UNIV :: route set) = {HealthzRoute, ReadyzRoute, MetricsRoute, OpenApiRoute, ThreadRoute, ReplyRoute}"
    using route.exhaust by blast
  then show ?thesis by (simp add: router_def)
qed

lemma router_post: "(POST, path, rt) \<in> set router \<longleftrightarrow> rt = ReplyRoute \<and> path = ''/integration/v1/threads/{board}/{thread_id}/replies''"
  by (auto simp: router_def)

end
