(* ===== verification/Process.thy ===== *)
theory Process
  imports Artifacts Router Socket Webhook
begin

text \<open>
  The program as a whole (\<^verbatim>\<open>src/main.rs\<close>): the command line, startup, and the tasks that \<^verbatim>\<open>run\<close> spawns,
  interleaved. A state of the process holds what the tasks share (the status flags, the store, the limiters) and where
  each task is. An event is one uninterrupted stretch of one task: a refresh of the session, a turn of the socket's
  receive loop, the loading of a batch of deliveries, the completion of one delivery, a prune, an API request.
\<close>

section \<open>The command line\<close>

datatype command = Run | CheckConfig | CheckContract | CheckHealth | WriteContract

datatype command_error = UnknownArgument string | TooManyArguments

definition command_from_str :: "string \<Rightarrow> command_error + command" where
  "command_from_str value =
     (if value = ''--check-config'' then Inr CheckConfig
      else if value = ''--check-contract'' then Inr CheckContract
      else if value = ''--check-health'' then Inr CheckHealth
      else if value = ''--write-contract'' then Inr WriteContract
      else Inl (UnknownArgument value))"

text \<open>The arguments after the program's name.\<close>

definition command_from_args :: "string list \<Rightarrow> command_error + command" where
  "command_from_args args =
     bindE (case args of [] \<Rightarrow> Inr Run | a # _ \<Rightarrow> command_from_str a) (\<lambda>command.
     bindE (ensureE (tl args = []) TooManyArguments) (\<lambda>_. Inr command))"

section \<open>The process\<close>

text \<open>The crates the process is built on.\<close>

record ('q, 'lim, 'cs, 'raw, 'url, 'u) platform =
  pf_codec :: codec
  pf_crypto :: crypto
  pf_chrono :: chrono_arith
  pf_governor :: "('q, 'lim) governor"
  pf_cookies :: "('cs, 'raw, 'url) cookie_lib"
  pf_urls :: "'u url_lib"

text \<open>Where the socket task is; the duration is the delay before its next reconnection.\<close>

datatype socket_task =
    SocketAbsent
  | SocketIdle duration
  | SocketConnecting duration
  | SocketOpen duration bool receive_liveness
  | SocketStopped

text \<open>
  \<open>ps_in_round\<close> says that a round of deliveries is going on, \<open>ps_queued\<close> are those of its deliveries that have not been
  started, \<open>ps_sending\<close> those that have and are not recorded yet. \<open>ps_wakeups\<close> counts the wake-ups of the delivery task, \<open>ps_sent\<close>
  is what the socket has sent. \<open>ps_ops\<close> are the metric effects so far.
\<close>

record ('lim, 'cs, 'url) process =
  ps_cfg :: config
  ps_app :: "'lim app_state"
  ps_session :: "('cs, 'url) session_cookie option"
  ps_socket :: socket_task
  ps_in_round :: bool
  ps_queued :: "pending_delivery list"
  ps_sending :: "pending_delivery list"
  ps_shutdown :: bool
  ps_wakeups :: nat
  ps_sent :: "ws_message list"
  ps_ops :: "metric_op list"

section \<open>Startup\<close>

datatype run_error =
    OpenStore store_error | MigrateStore store_error | ReaderClient | WriterClient | HttpAddr | HttpBind
  | HttpLimiters limiter_error | CookieEnv config_error | CookieInvalid session_error

text \<open>What startup meets outside the program.\<close>

record boot =
  bt_dir_ok :: bool
  bt_file_ok :: bool
  bt_open_fault :: bool
  bt_migrate_fault :: bool
  bt_reader_client :: bool
  bt_writer_client :: bool
  bt_addr_ok :: "string \<Rightarrow> bool"
  bt_bind :: bool
  bt_env :: "string \<Rightarrow> string option"
  bt_now :: datetime

definition spawn_http ::
  "('q, 'lim, 'cs, 'raw, 'url, 'u) platform \<Rightarrow> boot \<Rightarrow> config \<Rightarrow> status \<Rightarrow> db \<Rightarrow> run_error + 'lim app_state" where
  "spawn_http pf bt cfg st db =
     bindE (ensureE (bt_addr_ok bt (runtime_addr_text (http_addr (cf_runtime cfg)))) HttpAddr) (\<lambda>_.
     bindE (ensureE (bt_bind bt) HttpBind) (\<lambda>_.
     map_err HttpLimiters (app_state_new (pf_governor pf) cfg st db)))"

definition start_session ::
  "('q, 'lim, 'cs, 'raw, 'url, 'u) platform \<Rightarrow> boot \<Rightarrow> config \<Rightarrow> run_error + ('cs, 'url) session_cookie" where
  "start_session pf bt cfg =
     bindE (map_err CookieEnv (ptchan_session_cookie (bt_env bt))) (\<lambda>cookie.
     map_err CookieInvalid (session_cookie_new (pf_cookies pf) (bt_now bt) cookie (base_url (cf_ptchan cfg))))"

text \<open>Without webhooks neither the session nor the socket is started.\<close>

definition upstream_session ::
  "('q, 'lim, 'cs, 'raw, 'url, 'u) platform \<Rightarrow> boot \<Rightarrow> config \<Rightarrow> run_error + ('cs, 'url) session_cookie option" where
  "upstream_session pf bt cfg =
     (if cf_webhooks cfg \<noteq> [] then bindE (start_session pf bt cfg) (\<lambda>sc. Inr (Some sc)) else Inr None)"

definition process_new ::
  "config \<Rightarrow> 'lim app_state \<Rightarrow> metric_op list \<Rightarrow> ('cs, 'url) session_cookie option \<Rightarrow> ('lim, 'cs, 'url) process" where
  "process_new cfg app ops session =
     \<lparr>ps_cfg = cfg, ps_app = app, ps_session = session,
      ps_socket = (case session of Some _ \<Rightarrow> SocketIdle RECONNECT_MIN | None \<Rightarrow> SocketAbsent), ps_in_round = False,
      ps_queued = [], ps_sending = [], ps_shutdown = False, ps_wakeups = 0, ps_sent = [], ps_ops = ops\<rparr>"

text \<open>\<^verbatim>\<open>run\<close> up to the point where its tasks run, with the database it leaves.\<close>

definition run_start ::
  "('q, 'lim, 'cs, 'raw, 'url, 'u) platform \<Rightarrow> boot \<Rightarrow> config \<Rightarrow> db
     \<Rightarrow> (run_error + ('lim, 'cs, 'url) process) \<times> db" where
  "run_start pf bt cfg db =
     (let upstream_required = cf_webhooks cfg \<noteq> [];
          opened = store_open (bt_dir_ok bt) (bt_file_ok bt) (bt_open_fault bt) db;
          migrated = migrate (bt_migrate_fault bt) (snd opened) in
      case snd (fst opened) of
        Inl e \<Rightarrow> (Inl (OpenStore e), snd opened)
      | Inr _ \<Rightarrow> (case snd (fst migrated) of
          Inl e \<Rightarrow> (Inl (MigrateStore e), snd migrated)
        | Inr _ \<Rightarrow>
            (bindE (ensureE (bt_reader_client bt) ReaderClient) (\<lambda>_.
             bindE (ensureE (bt_writer_client bt) WriterClient) (\<lambda>_.
             let st = status_new upstream_required in
             bindE (spawn_http pf bt cfg (snd st) (snd migrated)) (\<lambda>app.
             bindE (upstream_session pf bt cfg) (\<lambda>session.
             Inr (process_new cfg app (fst st) session))))),
             snd migrated)))"

section \<open>The program\<close>

datatype main_error =
    BadCommand command_error | BadConfig config_error | NoLogging | HealthFailed
  | BadArtifacts artifact_error | NotStarted run_error

datatype ('lim, 'cs, 'url) main_result = Printed string | Started "('lim, 'cs, 'url) process"

text \<open>
  The environment, the TOML reader, the parsers of URLs and socket addresses (with the text of the address read), the
  logger and the HTTP client that \<^verbatim>\<open>main\<close> uses.
\<close>

record main_env =
  me_env :: "string \<Rightarrow> string option"
  me_read_file :: "string \<Rightarrow> string option"
  me_parse_toml :: "string \<Rightarrow> file_config option"
  me_url_ok :: "string \<Rightarrow> bool"
  me_addr :: "string \<Rightarrow> string option"
  me_logging_ok :: "logging_config \<Rightarrow> bool"
  me_send :: "http_request \<Rightarrow> http_outcome"
  me_artifacts :: artifact_lib
  me_openapi :: json
  me_boot :: boot

definition main_config :: "main_env \<Rightarrow> main_error + config" where
  "main_config me =
     bindE (map_err BadConfig (load_from_env (me_env me) (me_read_file me) (me_parse_toml me) (me_url_ok me)
        (\<lambda>a. me_addr me a \<noteq> None))) (\<lambda>cfg.
     bindE (ensureE (me_logging_ok me (logging (cf_runtime cfg))) NoLogging) (\<lambda>_. Inr cfg))"

definition gateway_main ::
  "('q, 'lim, 'cs, 'raw, 'url, 'u) platform \<Rightarrow> main_env \<Rightarrow> string list \<Rightarrow> files \<Rightarrow> db
     \<Rightarrow> (main_error + ('lim, 'cs, 'url) main_result) \<times> files \<times> db" where
  "gateway_main pf me args fs db = (case command_from_args args of
     Inl e \<Rightarrow> (Inl (BadCommand e), fs, db)
   | Inr CheckHealth \<Rightarrow>
       (let addr = (case me_env me ''HEALTHCHECK_ADDR'' of Some a \<Rightarrow> a | None \<Rightarrow> ''127.0.0.1:8080'') in
        (if check_health (me_send me) (me_addr me (runtime_addr_text addr)) then Inr (Printed ''ok'') else Inl HealthFailed,
         fs, db))
   | Inr CheckConfig \<Rightarrow> (bindE (main_config me) (\<lambda>_. Inr (Printed ''configuration ok'')), fs, db)
   | Inr CheckContract \<Rightarrow>
       (bindE (map_err BadArtifacts (artifacts_check (me_artifacts me) (me_openapi me) fs)) (\<lambda>_.
          Inr (Printed ''contract artifacts ok'')), fs, db)
   | Inr WriteContract \<Rightarrow>
       (let w = artifacts_write (me_artifacts me) (me_openapi me) fs in
        (bindE (map_err BadArtifacts (fst w)) (\<lambda>_.
           Inr (Printed (''contract artifacts written to '' @ default_dir (me_artifacts me)))), snd w, db))
   | Inr Run \<Rightarrow> (case main_config me of
       Inl e \<Rightarrow> (Inl e, fs, db)
     | Inr cfg \<Rightarrow>
         (let r = run_start pf (me_boot me) cfg db in
          (bindE (map_err NotStarted (fst r)) (\<lambda>p. Inr (Started p)), fs, snd r))))"

section \<open>The session task\<close>

definition proc_refresh ::
  "('q, 'lim, 'cs, 'raw, 'url, 'u) platform \<Rightarrow> (http_request \<Rightarrow> http_outcome) \<Rightarrow> (nat \<Rightarrow> datetime)
     \<Rightarrow> ('lim, 'cs, 'url) process \<Rightarrow> ('lim, 'cs, 'url) process" where
  "proc_refresh pf send clk p = (case ps_session p of
     None \<Rightarrow> p
   | Some sc \<Rightarrow>
       if ps_shutdown p then p
       else (let r = refresh_turn (pf_codec pf) (pf_cookies pf) send clk (cf_ptchan (ps_cfg p)) (sc, as_status (ps_app p)) in
         p\<lparr>ps_session := Some (fst (snd r)), ps_app := (ps_app p)\<lparr>as_status := snd (snd r)\<rparr>,
           ps_ops := ps_ops p @ fst (fst r)\<rparr>))"

section \<open>The socket task\<close>

definition proc_supervisor :: "config \<Rightarrow> supervisor" where
  "proc_supervisor cfg = \<lparr>sv_cfg = cf_ptchan cfg, sv_webhooks = cf_webhooks cfg,
     sv_origins = origin_matcher_new (cf_postings cfg), sv_fingerprint_secret = cf_fingerprint_secret cfg\<rparr>"

definition proc_socket_env ::
  "('q, 'lim, 'cs, 'raw, 'url, 'u) platform \<Rightarrow> config \<Rightarrow> 'u socket_env" where
  "proc_socket_env pf cfg = \<lparr>se_codec = pf_codec pf, se_crypto = pf_crypto pf, se_url = pf_urls pf,
     se_sup = proc_supervisor cfg\<rparr>"

text \<open>The shared part of the state as the socket sees it.\<close>

definition proc_world :: "('lim, 'cs, 'url) process \<Rightarrow> socket_world" where
  "proc_world p = \<lparr>sw_status = as_status (ps_app p), sw_db = as_store (ps_app p),
     sw_wakeups = ps_wakeups p, sw_ops = ps_ops p, sw_sent = ps_sent p\<rparr>"

definition put_world :: "socket_world \<Rightarrow> ('lim, 'cs, 'url) process \<Rightarrow> ('lim, 'cs, 'url) process" where
  "put_world w p = p\<lparr>ps_app := (ps_app p)\<lparr>as_status := sw_status w, as_store := sw_db w\<rparr>,
     ps_wakeups := sw_wakeups w, ps_sent := sw_sent w, ps_ops := sw_ops w\<rparr>"

text \<open>What \<^verbatim>\<open>supervise\<close> does when \<^verbatim>\<open>run_socket_once\<close> has returned or the refresh interval is over.\<close>

definition connection_ended ::
  "duration \<Rightarrow> socket_error + bool \<Rightarrow> socket_world \<Rightarrow> ('lim, 'cs, 'url) process \<Rightarrow> ('lim, 'cs, 'url) process" where
  "connection_ended delay res w p =
     (let w1 = world_joined False w;
          delay' = (if res = Inr True then RECONNECT_MIN else delay);
          w2 = (if res = Inr False then tell [MInc SOCKET_JOIN_FAILURES []] w1 else w1) in
      (put_world w2 p)\<lparr>ps_socket := SocketIdle (min (dur_saturating_mul delay' 2) RECONNECT_MAX)\<rparr>)"

definition proc_socket_head :: "('lim, 'cs, 'url) process \<Rightarrow> ('lim, 'cs, 'url) process" where
  "proc_socket_head p = (case ps_socket p of
     SocketIdle delay \<Rightarrow>
       (let w = proc_world p in
        if ps_shutdown p then (put_world (world_joined False w) p)\<lparr>ps_socket := SocketStopped\<rparr>
        else if \<not> auth_healthy (sw_status w) then put_world (world_joined False w) p
        else (put_world (tell [MInc SOCKET_CONNECTION_ATTEMPTS []] w) p)\<lparr>ps_socket := SocketConnecting delay\<rparr>)
   | _ \<Rightarrow> p)"

text \<open>The request is built with the cookies of the session; then the connection opens at the given instant or fails.\<close>

definition proc_connect ::
  "('q, 'lim, 'cs, 'raw, 'url, 'u) platform \<Rightarrow> datetime \<Rightarrow> bool \<Rightarrow> nat
     \<Rightarrow> ('lim, 'cs, 'url) process \<Rightarrow> ('lim, 'cs, 'url) process" where
  "proc_connect pf now connects opened p = (case (ps_socket p, ps_session p) of
     (SocketConnecting delay, Some sc) \<Rightarrow>
       (case socket_request (pf_urls pf) (cf_ptchan (ps_cfg p)) (session_get (pf_cookies pf) now sc) of
          Inl e \<Rightarrow> connection_ended delay (Inl e) (proc_world p) p
        | Inr _ \<Rightarrow>
            if connects
            then (put_world (guard_new (proc_world p)) p)\<lparr>ps_socket := SocketOpen delay False (liveness_new opened)\<rparr>
            else connection_ended delay (Inl SocketConnect) (proc_world p) p)
   | _ \<Rightarrow> p)"

text \<open>
  One turn of the receive loop. The turn reads the flag of the session task itself, so \<open>tn_auth\<close> is what the flag is.
  \<open>elapsed\<close> is how long the connection was open if the turn ends it.
\<close>

definition proc_receive ::
  "('q, 'lim, 'cs, 'raw, 'url, 'u) platform \<Rightarrow> socket_turn \<Rightarrow> duration
     \<Rightarrow> ('lim, 'cs, 'url) process \<Rightarrow> ('lim, 'cs, 'url) process" where
  "proc_receive pf tn elapsed p = (case ps_socket p of
     SocketOpen delay joined liveness \<Rightarrow>
       (let r = receive_turn (proc_socket_env pf (ps_cfg p)) (tn\<lparr>tn_auth := auth_healthy (as_status (ps_app p))\<rparr>)
                  \<lparr>cn_joined = joined, cn_liveness = liveness, cn_world = proc_world p\<rparr>;
            w = cn_world (snd r) in
        case fst r of
          GoOn \<Rightarrow> (put_world w p)\<lparr>ps_socket := SocketOpen delay (cn_joined (snd r)) (cn_liveness (snd r))\<rparr>
        | Break \<Rightarrow> connection_ended delay (Inr (cn_joined (snd r))) (guard_drop elapsed w) p
        | Fail e \<Rightarrow> connection_ended delay (Inl e) (guard_drop elapsed w) p)
   | _ \<Rightarrow> p)"

text \<open>
  The refresh interval is over, or shutdown was requested: the attempt is dropped, an open connection with its guard.
\<close>

definition attempt_dropped :: "duration \<Rightarrow> socket_world \<Rightarrow> ('lim, 'cs, 'url) process \<Rightarrow> ('lim, 'cs, 'url) process" where
  "attempt_dropped delay w p =
     (if ps_shutdown p then (put_world (world_joined False w) p)\<lparr>ps_socket := SocketStopped\<rparr>
      else connection_ended delay (Inr True) w p)"

definition proc_cancel :: "duration \<Rightarrow> ('lim, 'cs, 'url) process \<Rightarrow> ('lim, 'cs, 'url) process" where
  "proc_cancel elapsed p = (case ps_socket p of
     SocketConnecting delay \<Rightarrow> attempt_dropped delay (proc_world p) p
   | SocketOpen delay _ _ \<Rightarrow> attempt_dropped delay (guard_drop elapsed (proc_world p)) p
   | _ \<Rightarrow> p)"

text \<open>
  The attempt may also be dropped while a turn waits for the store. The closure has then been handed to the thread of
  the connection and still runs, but nothing after the call does: the post is not counted, an error is not counted, and the
  delivery task is not woken. \<open>storing_post\<close> is the turn up to the call: the world by then and what is to be stored.
\<close>

definition storing_post ::
  "'u socket_env \<Rightarrow> socket_turn \<Rightarrow> connection \<Rightarrow> (socket_world \<times> webhook_event \<times> string \<times> event_delivery list) option" where
  "storing_post env tn cn0 =
     (let cn = read_auth (tn_auth tn) cn0; sup = se_sup env in
      case (tn_auth tn, item_first tn cn) of
        (True, Some (at, Item (WsText text))) \<Rightarrow> (case decode (se_codec env) text of
          Inr (SocketEvent name payload) \<Rightarrow>
            (let prepared = prepare_event (se_codec env) (se_crypto env) (base_url (sv_cfg sup)) payload (sv_webhooks sup)
                   (sv_origins sup) (sv_fingerprint_secret sup) (tn_now tn) in
             case snd prepared of
               Inr x \<Rightarrow> if name = ''newPost'' then Some (tell (fst prepared) (cn_world (observe_packet at cn)), x) else None
             | Inl _ \<Rightarrow> None)
        | _ \<Rightarrow> None)
      | _ \<Rightarrow> None)"

definition proc_drop ::
  "('q, 'lim, 'cs, 'raw, 'url, 'u) platform \<Rightarrow> socket_turn \<Rightarrow> duration
     \<Rightarrow> ('lim, 'cs, 'url) process \<Rightarrow> ('lim, 'cs, 'url) process" where
  "proc_drop pf tn elapsed p = (case ps_socket p of
     SocketOpen delay joined liveness \<Rightarrow>
       (case storing_post (proc_socket_env pf (ps_cfg p)) (tn\<lparr>tn_auth := auth_healthy (as_status (ps_app p))\<rparr>)
               \<lparr>cn_joined = joined, cn_liveness = liveness, cn_world = proc_world p\<rparr> of
          None \<Rightarrow> p
        | Some (w, event, encoded, deliveries) \<Rightarrow>
            attempt_dropped delay (guard_drop elapsed
              (w\<lparr>sw_db := snd (create_event (pf_codec pf) (tn_fault tn) event encoded deliveries (sw_db w))\<rparr>)) p)
   | _ \<Rightarrow> p)"

section \<open>The delivery task\<close>

definition DELIVERY_CONCURRENCY :: nat where "DELIVERY_CONCURRENCY = 16"

text \<open>The start of a round; the gauges it sets come before the batch is loaded.\<close>

definition proc_load ::
  "('q, 'lim, 'cs, 'raw, 'url, 'u) platform \<Rightarrow> round_env \<Rightarrow> ('lim, 'cs, 'url) process \<Rightarrow> ('lim, 'cs, 'url) process" where
  "proc_load pf env p =
     (if ps_shutdown p \<or> ps_in_round p then p
      else (let db = as_store (ps_app p); c = pending_count (rv_count_fault env) db;
                l = pending_deliveries (pf_codec pf) (rv_scan env) (rv_load_fault env) DELIVERY_BATCH (rv_load_at env) db in
        p\<lparr>ps_ops := ps_ops p @ fst (fst c) @ (case snd (fst c) of Inr n \<Rightarrow> [MSet WEBHOOK_PENDING [] n] | Inl _ \<Rightarrow> [])
             @ update_pending_by_webhook env db @ fst (fst l),
          ps_in_round := is_ok (snd (fst l)), ps_queued := (case snd (fst l) of Inr ds \<Rightarrow> ds | Inl _ \<Rightarrow> [])\<rparr>))"

definition proc_send :: "('lim, 'cs, 'url) process \<Rightarrow> ('lim, 'cs, 'url) process" where
  "proc_send p = (case ps_queued p of
     d # ds \<Rightarrow>
       if length (ps_sending p) < DELIVERY_CONCURRENCY then p\<lparr>ps_queued := ds, ps_sending := ps_sending p @ [d]\<rparr> else p
   | [] \<Rightarrow> p)"

text \<open>A delivery in flight is answered and recorded; the label says what was sent and how it was answered.\<close>

type_synonym label = "((string \<times> string) \<times> http_request \<times> http_outcome) list"

definition proc_complete ::
  "('q, 'lim, 'cs, 'raw, 'url, 'u) platform \<Rightarrow> pending_delivery \<Rightarrow> delivery_env \<Rightarrow> ('lim, 'cs, 'url) process
     \<Rightarrow> label \<times> ('lim, 'cs, 'url) process" where
  "proc_complete pf d env p =
     (if d \<in> set (ps_sending p) then
        (let a = deliver_one (pf_codec pf) (pf_crypto pf) (webhook_endpoints (cf_webhooks (ps_cfg p))) env d (as_store (ps_app p)) in
         (map (\<lambda>r. ((pd_event_id d, pd_webhook d), r, de_send env r)) (at_requests a),
          p\<lparr>ps_sending := remove1 d (ps_sending p), ps_app := (ps_app p)\<lparr>as_store := at_db a\<rparr>,
            ps_ops := ps_ops p @ at_ops a\<rparr>))
      else ([], p))"

text \<open>When the last one is recorded the round ends with the age of the oldest pending delivery.\<close>

definition proc_round_end ::
  "('q, 'lim, 'cs, 'raw, 'url, 'u) platform \<Rightarrow> round_env \<Rightarrow> ('lim, 'cs, 'url) process \<Rightarrow> ('lim, 'cs, 'url) process" where
  "proc_round_end pf env p =
     (if ps_in_round p \<and> ps_queued p = [] \<and> ps_sending p = []
      then p\<lparr>ps_in_round := False,
             ps_ops := ps_ops p @ update_oldest_pending_age (pf_codec pf) env (as_store (ps_app p))\<rparr>
      else p)"

section \<open>Cleanup and requests\<close>

definition proc_prune ::
  "('q, 'lim, 'cs, 'raw, 'url, 'u) platform \<Rightarrow> bool \<Rightarrow> datetime \<Rightarrow> ('lim, 'cs, 'url) process \<Rightarrow> ('lim, 'cs, 'url) process" where
  "proc_prune pf fault now p =
     (if ps_shutdown p then p
      else (let r = prune_once (pf_codec pf) (pf_chrono pf) fault now (event_retention (cf_storage (ps_cfg p))) (as_store (ps_app p)) in
        p\<lparr>ps_app := (ps_app p)\<lparr>as_store := snd r\<rparr>, ps_ops := ps_ops p @ fst (fst r)\<rparr>))"

definition proc_request ::
  "('q, 'lim, 'cs, 'raw, 'url, 'u) platform \<Rightarrow> route \<Rightarrow> handler_env \<Rightarrow> runtime_env \<Rightarrow> inbound
     \<Rightarrow> ('lim, 'cs, 'url) process \<Rightarrow> ('lim, 'cs, 'url) process" where
  "proc_request pf rt he ru r p =
     (let oc = handle_route (he\<lparr>he_codec := pf_codec pf, he_crypto := pf_crypto pf\<rparr>) ru (pf_governor pf) (ps_ops p) rt r (ps_app p) in
      p\<lparr>ps_app := (ps_app p)\<lparr>as_rate_limiters := oc_limiters oc\<rparr>, ps_ops := ps_ops p @ oc_ops oc\<rparr>)"

section \<open>Executions\<close>

datatype task_event =
    Refresh "http_request \<Rightarrow> http_outcome" "nat \<Rightarrow> datetime"
  | SocketHead
  | Connect datetime bool nat
  | Receive socket_turn duration
  | Cancel duration
  | Drop socket_turn duration
  | Load round_env
  | Send
  | Complete pending_delivery delivery_env
  | RoundEnd round_env
  | Prune bool datetime
  | Request route handler_env runtime_env inbound
  | Shutdown

fun proc_event ::
  "('q, 'lim, 'cs, 'raw, 'url, 'u) platform \<Rightarrow> task_event \<Rightarrow> ('lim, 'cs, 'url) process
     \<Rightarrow> label \<times> ('lim, 'cs, 'url) process" where
  "proc_event pf (Refresh send clk) p = ([], proc_refresh pf send clk p)"
| "proc_event pf SocketHead p = ([], proc_socket_head p)"
| "proc_event pf (Connect now connects opened) p = ([], proc_connect pf now connects opened p)"
| "proc_event pf (Receive tn elapsed) p = ([], proc_receive pf tn elapsed p)"
| "proc_event pf (Cancel elapsed) p = ([], proc_cancel elapsed p)"
| "proc_event pf (Drop tn elapsed) p = ([], proc_drop pf tn elapsed p)"
| "proc_event pf (Load env) p = ([], proc_load pf env p)"
| "proc_event pf Send p = ([], proc_send p)"
| "proc_event pf (Complete d env) p = proc_complete pf d env p"
| "proc_event pf (RoundEnd env) p = ([], proc_round_end pf env p)"
| "proc_event pf (Prune fault now) p = ([], proc_prune pf fault now p)"
| "proc_event pf (Request rt he ru r) p = ([], proc_request pf rt he ru r p)"
| "proc_event pf Shutdown p = ([], p\<lparr>ps_shutdown := True\<rparr>)"

text \<open>
  The environment orders the rows of a query as it likes, but returns all of them. A restart, planned or after a crash,
  keeps only the database; the configuration may have changed.
\<close>

definition event_ok :: "task_event \<Rightarrow> bool" where
  "event_ok ev = (case ev of Load env \<Rightarrow> scan_ok (rv_scan env) | _ \<Rightarrow> True)"

inductive proc_step ::
  "('q, 'lim, 'cs, 'raw, 'url, 'u) platform \<Rightarrow> ('lim, 'cs, 'url) process \<Rightarrow> label \<Rightarrow> ('lim, 'cs, 'url) process \<Rightarrow> bool"
  for pf :: "('q, 'lim, 'cs, 'raw, 'url, 'u) platform"
where
  step_event: "event_ok ev \<Longrightarrow> proc_event pf ev p = (l, p') \<Longrightarrow> proc_step pf p l p'"
| step_restart: "run_start pf bt cfg (as_store (ps_app p)) = (Inr p', db') \<Longrightarrow> proc_step pf p [] p'"

inductive_cases proc_stepE: "proc_step pf p l p'"

inductive proc_run ::
  "('q, 'lim, 'cs, 'raw, 'url, 'u) platform \<Rightarrow> ('lim, 'cs, 'url) process \<Rightarrow> label \<Rightarrow> ('lim, 'cs, 'url) process \<Rightarrow> bool"
  for pf :: "('q, 'lim, 'cs, 'raw, 'url, 'u) platform"
where
  run_none: "proc_run pf p [] p"
| run_step: "proc_run pf p ls p' \<Longrightarrow> proc_step pf p' l p'' \<Longrightarrow> proc_run pf p (ls @ l) p''"

end
