(* ===== verification/Process_Facts.thy ===== *)
theory Process_Facts
  imports Process Outbox Socket_Facts Webhook_Facts Endpoints
begin

text \<open>
  Invariants of the interleaved tasks: what each event may do to the store, the deliveries in flight, the status flags
  and the gauges, and that nothing is lost across restarts.
\<close>

section \<open>Entries of the outbox\<close>

text \<open>The delivery \<open>k\<close> is outstanding and carries the payload.\<close>

definition holds :: "db \<Rightarrow> string \<times> string \<Rightarrow> string \<Rightarrow> bool" where
  "holds db k payload \<longleftrightarrow>
     (\<exists>en. ob_entries (outbox_of db) k = Some en \<and> \<not> en_settled en \<and> en_payload en = payload)"

lemma outbox_entry_event:
  assumes "db_wf db" and "ob_entries (outbox_of db) k = Some en"
  shows "ob_events (outbox_of db) (fst k) \<noteq> None"
proof -
  obtain d where "d \<in> set (db_deliveries db)" "delivery_key d = k" using assms by (auto simp: outbox_entry_iff)
  moreover from this have "dl_event_id d \<in> ev_id ` set (db_events db)" using assms(1) by (auto simp: db_wf_def)
  ultimately show ?thesis by (auto simp: outbox_of_def map_of_keyed_None delivery_key_def)
qed

lemma outbox_run_other:
  assumes "ob_entries ob k = Some en" and "\<not> en_settled en" and "ob_events ob (fst k) \<noteq> None" and "op_key c \<noteq> Some k"
  shows "ob_entries (outbox_run cd c ob) k = Some en"
proof -
  have accept: "ob_entries (outbox_accept i created ds ob) k = Some en" for i created ds
  proof -
    have "map_of (map (\<lambda>d. ((i, ed_webhook d), x d)) ds) k = None" if "ob_events ob i = None" for x :: "event_delivery \<Rightarrow> entry"
      using that assms(3) by (cases k) (auto simp: map_of_eq_None_iff)
    then show ?thesis using assms(1) by (auto simp: outbox_accept_def map_add_def split: option.split)
  qed
  have collect: "ob_entries (outbox_collect t ob) k = Some en" for t
    using assms(1,2) by (cases k) (auto simp: outbox_collect_def collectable_def restrict_map_def)
  show ?thesis
    using assms(1,4) by (cases "(cd, c, ob)" rule: outbox_run.cases) (auto simp: accept collect outbox_change_def)
qed

lemma entry_stable:
  assumes "db_wf db" and "ob_entries (outbox_of db) k = Some en" and "\<not> en_settled en" and "op_key c \<noteq> Some k"
  shows "ob_entries (outbox_of (store_run cd c db)) k = Some en"
  unfolding outbox_run_step [OF assms(1)]
  by (rule outbox_run_other [OF assms(2,3) outbox_entry_event [OF assms(1,2)] assms(4)])

lemma holds_until_ack:
  assumes "db_wf db" and "holds db k payload" and "k \<notin> op_acks c"
  shows "holds (store_run cd c db) k payload"
proof (cases "op_key c = Some k")
  case False
  then show ?thesis using entry_stable [OF assms(1), of k _ c cd] assms(2) unfolding holds_def by blast
next
  case True
  from assms(2) obtain en where "ob_entries (outbox_of db) k = Some en" "\<not> en_settled en" "en_payload en = payload"
    by (auto simp: holds_def)
  with True assms(3) show ?thesis
    unfolding holds_def outbox_run_step [OF assms(1)]
    by (cases "(cd, c, outbox_of db)" rule: outbox_run.cases) (auto simp: outbox_change_def)
qed

section \<open>Deliveries in flight\<close>

definition flight_ok :: "db \<Rightarrow> pending_delivery list \<Rightarrow> bool" where
  "flight_ok db ds \<longleftrightarrow> distinct (map pd_key ds) \<and>
     (\<forall>d \<in> set ds. \<exists>en. ob_entries (outbox_of db) (pd_key d) = Some en \<and> \<not> en_settled en \<and>
        en_payload en = pd_payload d \<and> en_attempts en = pd_attempts d)"

lemma flight_ok_other:
  assumes "db_wf db" and "flight_ok db ds" and "\<forall>d \<in> set ds. op_key c \<noteq> Some (pd_key d)"
  shows "flight_ok (store_run cd c db) ds"
  using assms entry_stable [OF assms(1)] unfolding flight_ok_def by metis

lemma flight_ok_mset: "mset ds = mset es \<Longrightarrow> flight_ok db ds \<longleftrightarrow> flight_ok db es"
  unfolding flight_ok_def by (metis mset_eq_imp_distinct_iff mset_eq_setD mset_map)

lemma flight_ok_sub: "flight_ok db (d # ds) \<Longrightarrow> flight_ok db ds"
  by (simp add: flight_ok_def)

lemma flight_ok_complete:
  assumes "db_wf db" and "flight_ok db ds" and "d \<in> set ds" and "op_key c = Some (pd_key d)"
  shows "flight_ok (store_run cd c db) (remove1 d ds)"
proof -
  have m: "mset ds = mset (d # remove1 d ds)" using assms(3) by simp
  then have f: "flight_ok db (d # remove1 d ds)" using assms(2) flight_ok_mset by blast
  then have "\<forall>e \<in> set (remove1 d ds). op_key c \<noteq> Some (pd_key e)"
    using assms(4) by (auto simp: flight_ok_def)
  with flight_ok_other [OF assms(1) flight_ok_sub [OF f]] show ?thesis by blast
qed

lemma flight_ok_load:
  assumes "db_wf db" and "scan_ok scan" and "snd (fst (pending_deliveries cd scan fault limit now db)) = Inr batch"
  shows "flight_ok db batch \<and> length batch \<le> limit"
proof -
  obtain rows where rows: "batch = map (pending_of db) rows" "set rows \<subseteq> due_rows cd now db" "distinct rows"
    "length rows = min limit (card (due_rows cd now db))"
    by (rule pending_deliveries_batch [OF assms(2,1,3)])
  have sub: "set rows \<subseteq> set (db_deliveries db)" and pend: "d \<in> set rows \<Longrightarrow> is_pending d" for d
    using rows(2) by (auto simp: due_rows_def due_def)
  have "inj_on delivery_key (set (db_deliveries db))" using assms(1) by (simp add: db_wf_def distinct_map)
  then have "distinct (map delivery_key rows)" using rows(3) sub by (auto simp: distinct_map intro: inj_on_subset)
  moreover have "map pd_key batch = map delivery_key rows" by (simp add: rows(1) pending_of_key)
  ultimately have "distinct (map pd_key batch)" by metis
  moreover have "\<exists>en. ob_entries (outbox_of db) (pd_key p) = Some en \<and> \<not> en_settled en \<and>
      en_payload en = pd_payload p \<and> en_attempts en = pd_attempts p" if "p \<in> set batch" for p
  proof -
    from that obtain d where d: "p = pending_of db d" "d \<in> set rows" using rows(1) by auto
    then have "ob_entries (outbox_of db) (pd_key p) = Some (entry_of db d)"
      using outbox_payload [OF assms(1)] sub by (auto simp: pending_of_key)
    then show ?thesis using pend [OF d(2)] d(1) by (simp add: not_settled) (simp add: entry_of_def pending_of_def)
  qed
  ultimately show ?thesis using rows(1,4) by (simp add: flight_ok_def)
qed

section \<open>What the socket may do\<close>

text \<open>The socket stores new events; it changes neither existing deliveries nor the session's health.\<close>

definition create_step :: "codec \<Rightarrow> db \<Rightarrow> db \<Rightarrow> bool" where
  "create_step cd db db' \<longleftrightarrow> (\<exists>e payload ds fault. db' = store_run cd (OpCreate e payload ds, fault) db)"

lemma create_stepI: "create_step cd db (snd (create_event cd fault e payload ds db))"
  unfolding create_step_def by (metis store_run.simps(1))

definition within :: "codec \<Rightarrow> socket_world \<Rightarrow> socket_world \<Rightarrow> bool" where
  "within cd w w' \<longleftrightarrow> (create_step cd)\<^sup>*\<^sup>* (sw_db w) (sw_db w') \<and>
     auth_healthy (sw_status w') = auth_healthy (sw_status w)"

lemma within_refl [simp, intro]: "within cd w w"
  by (simp add: within_def)

lemma within_trans [trans]: "within cd u v \<Longrightarrow> within cd v w \<Longrightarrow> within cd u w"
  by (auto simp: within_def)

lemma within_simple [simp]:
  "within cd w (tell ops w)" "within cd w (world_joined b w)" "within cd w (transmit m w)"
  by (simp_all add: within_def)

lemma handle_event_within: "within (se_codec env) (cn_world cn) (cn_world (handle_socket_event env tn event payload cn))"
proof -
  let ?w = "cn_world cn" and ?sup = "se_sup env"
  have "(create_step (se_codec env))\<^sup>*\<^sup>* (sw_db ?w) (ir_db (new_post (se_codec env) (se_crypto env) (base_url (sv_cfg ?sup))
      payload (sv_webhooks ?sup) (sv_origins ?sup) (sv_fingerprint_secret ?sup) (tn_now tn) (tn_fault tn) (sw_db ?w)))"
    by (rule new_post_cases [of "se_codec env" "se_crypto env" "base_url (sv_cfg ?sup)" payload "sv_webhooks ?sup" "sv_origins ?sup"
          "sv_fingerprint_secret ?sup" "tn_now tn" "tn_fault tn" "sw_db ?w"])
       (auto simp: ingest_stop_def intro!: r_into_rtranclp create_stepI)
  then show ?thesis by (simp add: handle_socket_event_def Let_def within_def)
qed

lemma observe_within: "within cd (cn_world cn) (cn_world (observe_packet at cn))"
  by (simp add: observe_packet_def)

lemma send_then_within: "within cd (cn_world cn) (cn_world (snd (send_then tn m res cn)))"
  by (simp add: send_then_def)

lemma handle_packet_within:
  "within (se_codec env) (cn_world cn) (cn_world (snd (handle_socket_packet env tn pkt cn)))"
  by (cases pkt) (simp_all add: handle_socket_packet_def send_then_within handle_event_within)

lemma receive_text_within: "within (se_codec env) (cn_world cn) (cn_world (snd (receive_text env tn at text cn)))"
proof (cases "decode (se_codec env) text")
  case (Inr pkt)
  have "within (se_codec env) (cn_world cn) (cn_world (snd (handle_socket_packet env tn pkt (observe_packet at cn))))"
    by (rule within_trans [OF observe_within handle_packet_within])
  then show ?thesis using Inr
    by (simp add: receive_text_def Let_def set_heartbeat_def split: sum.split socket_text_result.split)
qed (simp add: receive_text_def)

lemma receive_turn_within:
  assumes "tn_auth tn = auth_healthy (sw_status (cn_world cn))"
  shows "within (se_codec env) (cn_world cn) (cn_world (snd (receive_turn env tn cn)))"
proof -
  have c: "read_auth (tn_auth tn) cn = cn" by (simp add: read_auth_def world_auth_def assms)
  have "within (se_codec env) (cn_world cn) (cn_world (liveness_timeout cn))"
    unfolding liveness_timeout_def by simp (rule within_trans, rule within_simple(1), rule within_simple(2))
  moreover have "within (se_codec env) (cn_world cn) (cn_world (snd (receive_message env tn at msg cn)))" for at msg
    using receive_text_within within_trans [OF observe_within send_then_within]
    by (cases msg) (simp_all add: receive_message_def Let_def)
  ultimately show ?thesis by (simp add: receive_turn_def Let_def c split: option.split socket_item.split)
qed

lemma create_steps_flight:
  "(create_step cd)\<^sup>*\<^sup>* db db' \<Longrightarrow> db_wf db \<Longrightarrow> flight_ok db ds \<Longrightarrow> db_wf db' \<and> flight_ok db' ds"
proof (induction rule: rtranclp_induct)
  case (step y z)
  then show ?case by (auto simp: create_step_def simp del: store_run.simps intro!: db_wf_store_run flight_ok_other)
qed simp

lemma create_steps_holds:
  "(create_step cd)\<^sup>*\<^sup>* db db' \<Longrightarrow> db_wf db \<Longrightarrow> holds db k payload \<Longrightarrow> db_wf db' \<and> holds db' k payload"
proof (induction rule: rtranclp_induct)
  case (step y z)
  then show ?case by (auto simp: create_step_def simp del: store_run.simps intro!: db_wf_store_run holds_until_ack)
qed simp

section \<open>Gauges\<close>

fun op_metric :: "metric_op \<Rightarrow> metric" where
  "op_metric (MInc m ls) = m"
| "op_metric (MDec m) = m"
| "op_metric (MSet m ls i) = m"
| "op_metric (MSetSecs m d) = m"
| "op_metric (MSetNow m) = m"
| "op_metric (MObserve m ls d) = m"

text \<open>Well-typed effects that leave the gauges of the upstream connection alone.\<close>

definition silent :: "metric_op list \<Rightarrow> bool" where
  "silent ops \<longleftrightarrow> list_all metric_op_ok ops \<and>
     (\<forall>op \<in> set ops. op_metric op \<notin> {SOCKET_JOINED, UPSTREAM_AUTH_HEALTHY, SOCKET_ACTIVE_CONNECTIONS})"

lemma silent_simps [simp]:
  "silent []" "silent (xs @ ys) \<longleftrightarrow> silent xs \<and> silent ys"
  "silent (op # ops) \<longleftrightarrow> metric_op_ok op \<and> op_metric op \<notin> {SOCKET_JOINED, UPSTREAM_AUTH_HEALTHY, SOCKET_ACTIVE_CONNECTIONS} \<and> silent ops"
  by (auto simp: silent_def)

lemma gauge_after_other: "\<forall>op \<in> set ops. op_metric op \<noteq> m \<Longrightarrow> gauge_after m i ops = i"
proof (induction ops arbitrary: i)
  case (Cons op ops)
  then show ?case by (auto simp: gauge_after_def split: metric_op.split list.split)
qed simp

lemma gauge_after_silent [simp]:
  assumes "silent ops"
  shows "gauge_after SOCKET_JOINED i ops = i" "gauge_after UPSTREAM_AUTH_HEALTHY i ops = i"
    "gauge_after SOCKET_ACTIVE_CONNECTIONS i ops = i"
  using assms by (auto simp: silent_def intro!: gauge_after_other)

definition gauges_ok :: "metric_op list \<Rightarrow> bool \<Rightarrow> bool \<Rightarrow> bool \<Rightarrow> bool" where
  "gauges_ok ops joined healthy active \<longleftrightarrow> list_all metric_op_ok ops \<and>
     gauge_after SOCKET_JOINED 0 ops = (if joined then 1 else 0) \<and>
     gauge_after UPSTREAM_AUTH_HEALTHY 0 ops = (if healthy then 1 else 0) \<and>
     gauge_after SOCKET_ACTIVE_CONNECTIONS 0 ops = (if active then 1 else 0)"

lemma gauges_ok_silent: "gauges_ok ops j h a \<Longrightarrow> silent ops' \<Longrightarrow> gauges_ok (ops @ ops') j h a"
  by (simp add: gauges_ok_def) (simp add: silent_def)

lemma silent_store_call [simp]: "silent (fst (fst (store_call fault operation db)))"
  by (simp add: store_call_def split: sum.split)

lemma silent_store [simp]:
  "silent (fst (fst (mark_delivered cd fault i w now db)))" "silent (fst (fst (mark_failed cd fault i w err n next db)))"
  "silent (fst (fst (prune_delivered_events cd fault cutoff db)))" "silent (fst (fst (pending_count fault db)))"
  "silent (fst (fst (pending_counts_by_webhook scan fault db)))" "silent (fst (fst (oldest_pending_age cd fault now db)))"
  "silent (fst (fst (pending_deliveries cd scan fault limit now db)))"
  by (simp_all add: mark_delivered_def mark_failed_def prune_delivered_events_def pending_count_def
      pending_counts_by_webhook_def oldest_pending_age_def pending_deliveries_def)

section \<open>The invariant\<close>

lemma proc_world_put [simp]: "proc_world (put_world w p) = w" "proc_world (p\<lparr>ps_socket := t\<rparr>) = proc_world p"
  by (simp_all add: proc_world_def put_world_def)

lemma put_world_put [simp]:
  "put_world v (put_world w p) = put_world v p" "put_world v (p\<lparr>ps_socket := t\<rparr>) = (put_world v p)\<lparr>ps_socket := t\<rparr>"
  by (simp_all add: put_world_def)

lemma proc_world_sel [simp]:
  "sw_status (proc_world p) = as_status (ps_app p)" "sw_db (proc_world p) = as_store (ps_app p)"
  "sw_ops (proc_world p) = ps_ops p"
  by (simp_all add: proc_world_def)

lemma put_world_sel [simp]:
  "as_status (ps_app (put_world w p)) = sw_status w" "as_store (ps_app (put_world w p)) = sw_db w"
  "ps_ops (put_world w p) = sw_ops w" "ps_cfg (put_world w p) = ps_cfg p" "ps_session (put_world w p) = ps_session p"
  "ps_queued (put_world w p) = ps_queued p" "ps_sending (put_world w p) = ps_sending p"
  "ps_in_round (put_world w p) = ps_in_round p" "ps_socket (put_world w p) = ps_socket p"
  "ps_shutdown (put_world w p) = ps_shutdown p"
  by (simp_all add: put_world_def)

fun socket_ok :: "socket_task \<Rightarrow> bool \<Rightarrow> bool" where
  "socket_ok (SocketIdle delay) flag = (delay_ok delay \<and> \<not> flag)"
| "socket_ok (SocketConnecting delay) flag = (delay_ok delay \<and> \<not> flag)"
| "socket_ok (SocketOpen delay joined _) flag = (delay_ok delay \<and> (flag \<longrightarrow> joined))"
| "socket_ok _ flag = (\<not> flag)"

fun is_open :: "socket_task \<Rightarrow> bool" where
  "is_open (SocketOpen _ _ _) = True"
| "is_open _ = False"

fun pending_delay :: "socket_task \<Rightarrow> duration set" where
  "pending_delay (SocketIdle delay) = {delay}"
| "pending_delay (SocketConnecting delay) = {delay}"
| "pending_delay (SocketOpen delay _ _) = {delay}"
| "pending_delay _ = {}"

text \<open>Between the tasks and the configuration.\<close>

definition roles_ok :: "('lim, 'cs, 'url) process \<Rightarrow> bool" where
  "roles_ok p \<longleftrightarrow> (ps_session p \<noteq> None \<longleftrightarrow> cf_webhooks (ps_cfg p) \<noteq> []) \<and>
     (ps_socket p = SocketAbsent \<longleftrightarrow> ps_session p = None) \<and>
     (auth_healthy (as_status (ps_app p)) \<longrightarrow> ps_session p \<noteq> None) \<and>
     upstream_required (as_status (ps_app p)) = (cf_webhooks (ps_cfg p) \<noteq> [])"

definition round_ok :: "('lim, 'cs, 'url) process \<Rightarrow> bool" where
  "round_ok p \<longleftrightarrow> flight_ok (as_store (ps_app p)) (ps_queued p @ ps_sending p) \<and>
     length (ps_sending p) \<le> DELIVERY_CONCURRENCY \<and> length (ps_queued p @ ps_sending p) \<le> DELIVERY_BATCH \<and>
     (\<not> ps_in_round p \<longrightarrow> ps_queued p = [] \<and> ps_sending p = [])"

definition proc_inv :: "('lim, 'cs, 'url) process \<Rightarrow> bool" where
  "proc_inv p \<longleftrightarrow> db_wf (as_store (ps_app p)) \<and> round_ok p \<and>
     socket_ok (ps_socket p) (upstream_joined (as_status (ps_app p))) \<and> roles_ok p \<and>
     gauges_ok (ps_ops p) (upstream_joined (as_status (ps_app p))) (auth_healthy (as_status (ps_app p))) (is_open (ps_socket p))"

lemma world_inv:
  assumes "proc_inv p" and "(create_step cd)\<^sup>*\<^sup>* (as_store (ps_app p)) (sw_db w)"
    and "auth_healthy (sw_status w) = auth_healthy (as_status (ps_app p))"
    and "upstream_required (sw_status w) = upstream_required (as_status (ps_app p))"
    and "ps_socket p \<noteq> SocketAbsent" and "t \<noteq> SocketAbsent" and "socket_ok t (upstream_joined (sw_status w))"
    and "gauges_ok (sw_ops w) (upstream_joined (sw_status w)) (auth_healthy (sw_status w)) (is_open t)"
  shows "proc_inv ((put_world w p)\<lparr>ps_socket := t\<rparr>)"
  using assms create_steps_flight [OF assms(2), of "ps_queued p @ ps_sending p"]
  unfolding proc_inv_def round_ok_def roles_ok_def by auto

lemma connection_ended_inv:
  assumes "proc_inv p" and "(create_step cd)\<^sup>*\<^sup>* (as_store (ps_app p)) (sw_db w)"
    and "auth_healthy (sw_status w) = auth_healthy (as_status (ps_app p))"
    and "upstream_required (sw_status w) = upstream_required (as_status (ps_app p))"
    and "ps_socket p \<noteq> SocketAbsent" and "delay_ok delay"
    and "gauges_ok (sw_ops w) (upstream_joined (sw_status w)) (auth_healthy (sw_status w)) False"
  shows "proc_inv (connection_ended delay res w p)"
proof -
  have m: "delay_ok RECONNECT_MIN" by (simp add: delay_ok_def RECONNECT_MIN_def RECONNECT_MAX_def dur_defs)
  show ?thesis
    unfolding connection_ended_def Let_def
    by (rule world_inv [OF assms(1)])
       (use assms m delay_doubles in \<open>auto simp: gauges_ok_def\<close>)
qed

lemma proc_inv_idle: "delay_ok RECONNECT_MIN"
  by (simp add: delay_ok_def RECONNECT_MIN_def RECONNECT_MAX_def dur_defs)

lemma proc_socket_head_inv:
  assumes "proc_inv p"
  shows "proc_inv (proc_socket_head p)"
proof (cases "ps_socket p")
  case (SocketIdle delay)
  have "proc_inv ((put_world (world_joined False (proc_world p)) p)\<lparr>ps_socket := t\<rparr>)"
    if "t \<in> {SocketStopped, ps_socket p}" for t
    by (rule world_inv [OF assms]) (use assms that SocketIdle in \<open>auto simp: proc_inv_def gauges_ok_def\<close>)
  from this [of SocketStopped] this [of "ps_socket p"]
  have stop: "proc_inv ((put_world (world_joined False (proc_world p)) p)\<lparr>ps_socket := SocketStopped\<rparr>)"
    and stay: "proc_inv (put_world (world_joined False (proc_world p)) p)"
    by (simp_all add: put_world_def)
  have "proc_inv ((put_world (tell [MInc SOCKET_CONNECTION_ATTEMPTS []] (proc_world p)) p)\<lparr>ps_socket := SocketConnecting delay\<rparr>)"
    by (rule world_inv [OF assms]) (use assms SocketIdle in \<open>auto simp: proc_inv_def gauges_ok_def\<close>)
  with stop stay SocketIdle show ?thesis by (simp add: proc_socket_head_def Let_def)
qed (simp_all add: proc_socket_head_def assms)

lemma proc_connect_inv:
  assumes "proc_inv p"
  shows "proc_inv (proc_connect pf now connects opened p)"
proof (cases "ps_socket p")
  case (SocketConnecting delay)
  have e: "proc_inv (connection_ended delay res (proc_world p) p)" for res
    by (rule connection_ended_inv [OF assms]) (use assms SocketConnecting in \<open>auto simp: proc_inv_def gauges_ok_def\<close>)
  have "proc_inv ((put_world (guard_new (proc_world p)) p)\<lparr>ps_socket := SocketOpen delay False (liveness_new opened)\<rparr>)"
    by (rule world_inv [OF assms])
       (use assms SocketConnecting in \<open>auto simp: proc_inv_def gauges_ok_def guard_new_def\<close>)
  with e show ?thesis using assms SocketConnecting by (simp add: proc_connect_def split: option.split sum.split)
qed (simp_all add: proc_connect_def assms)

lemma proc_receive_inv:
  assumes "proc_inv p"
  shows "proc_inv (proc_receive pf tn elapsed p)"
proof (cases "ps_socket p")
  case (SocketOpen delay joined lv)
  define tn' cn where "tn' = tn\<lparr>tn_auth := auth_healthy (as_status (ps_app p))\<rparr>"
    and "cn = \<lparr>cn_joined = joined, cn_liveness = lv, cn_world = proc_world p\<rparr>"
  define r where "r = receive_turn (proc_socket_env pf (ps_cfg p)) tn' cn"
  let ?w = "cn_world (snd r)"
  have cd: "se_codec (proc_socket_env pf (ps_cfg p)) = pf_codec pf" by (simp add: proc_socket_env_def)
  have "within (pf_codec pf) (proc_world p) ?w"
    using receive_turn_within [of tn' cn "proc_socket_env pf (ps_cfg p)"] by (simp add: r_def cd) (simp add: tn'_def cn_def)
  then have w: "(create_step (pf_codec pf))\<^sup>*\<^sup>* (as_store (ps_app p)) (sw_db ?w)"
    "auth_healthy (sw_status ?w) = auth_healthy (as_status (ps_app p))"
    by (simp_all add: within_def)
  have k: "keeps (pf_codec pf) (proc_world p) ?w"
    using receive_turn_keeps [of "proc_socket_env pf (ps_cfg p)" cn tn'] by (simp add: r_def cd) (simp add: cn_def)
  then have req: "upstream_required (sw_status ?w) = upstream_required (as_status (ps_app p))" by (simp add: keeps_def)
  have "mirrors (proc_world p)" using assms by (simp add: proc_inv_def gauges_ok_def mirrors_def)
  with k obtain ops where ops: "sw_ops ?w = ps_ops p @ ops" "quiet ops" "mirrors ?w" by (auto simp: keeps_def)
  then have g: "gauges_ok (sw_ops ?w) (upstream_joined (sw_status ?w)) (auth_healthy (sw_status ?w)) True"
    using assms SocketOpen w(2) by (simp add: proc_inv_def gauges_ok_def quiet_def mirrors_def)
  have j: "upstream_joined (sw_status ?w) \<longrightarrow> cn_joined (snd r)"
    using receive_turn_joined(2) [of cn "proc_socket_env pf (ps_cfg p)" tn'] assms SocketOpen
    by (simp add: r_def cn_def proc_inv_def)
  have d: "delay_ok delay" "ps_socket p \<noteq> SocketAbsent" using assms SocketOpen by (simp_all add: proc_inv_def)
  have go: "proc_inv ((put_world ?w p)\<lparr>ps_socket := SocketOpen delay (cn_joined (snd r)) (cn_liveness (snd r))\<rparr>)"
    by (rule world_inv [OF assms w(1) w(2) req d(2)]) (use d j g in simp_all)
  have e: "proc_inv (connection_ended delay res (guard_drop elapsed ?w) p)" for res
    by (rule connection_ended_inv [OF assms]) (use w req d g in \<open>auto simp: guard_drop_def gauges_ok_def\<close>)
  from go e show ?thesis
    using SocketOpen unfolding proc_receive_def
    by (simp add: Let_def tn'_def [symmetric] cn_def [symmetric] r_def [symmetric] split: turn_outcome.split)
qed (simp_all add: proc_receive_def assms)

lemma attempt_dropped_inv:
  assumes "proc_inv p" and "delay_ok delay" and "ps_socket p \<noteq> SocketAbsent"
    and "(create_step cd)\<^sup>*\<^sup>* (as_store (ps_app p)) (sw_db w)" and "sw_status w = as_status (ps_app p)"
    and "gauges_ok (sw_ops w) (upstream_joined (sw_status w)) (auth_healthy (sw_status w)) False"
  shows "proc_inv (attempt_dropped delay w p)"
  using assms
  by (auto intro!: world_inv [OF assms(1), where cd = cd] connection_ended_inv [OF assms(1), where cd = cd]
      simp: attempt_dropped_def gauges_ok_def)

lemma proc_cancel_inv:
  assumes "proc_inv p"
  shows "proc_inv (proc_cancel elapsed p)"
proof -
  have "proc_inv (attempt_dropped delay w p)"
    if "delay_ok delay" "ps_socket p \<noteq> SocketAbsent" "sw_db w = as_store (ps_app p)" "sw_status w = as_status (ps_app p)"
      "gauges_ok (sw_ops w) (upstream_joined (sw_status w)) (auth_healthy (sw_status w)) False" for delay w
    using that by (intro attempt_dropped_inv [OF assms, where cd = undefined]) simp_all
  then show ?thesis
    using assms by (cases "ps_socket p") (auto simp: proc_cancel_def proc_inv_def gauges_ok_def guard_drop_def)
qed

lemma storing_post_world:
  assumes "storing_post env tn cn = Some (w, x)" and "tn_auth tn = auth_healthy (sw_status (cn_world cn))"
  shows "\<exists>ops. w = tell ops (cn_world cn) \<and> silent ops"
proof -
  have c: "read_auth (tn_auth tn) cn = cn" using assms(2) by (simp add: read_auth_def world_auth_def)
  have red: "silent (fst (prepare_event cd cr base payload ws om secret now))" for cd cr base payload ws om secret now
    using prepare_event_redaction [of cd cr base payload ws om secret now] redaction_only_ok
    by (fastforce simp: silent_def)
  obtain at' cd cr base payload ws om secret now where
    w: "w = tell (fst (prepare_event cd cr base payload ws om secret now)) (cn_world (observe_packet at' cn))"
    using assms(1) unfolding storing_post_def c
    by (auto simp: Let_def split: bool.splits option.splits socket_item.splits ws_message.splits sum.splits packet.splits if_splits)
  let ?ops = "fst (prepare_event cd cr base payload ws om secret now)"
  have "w = tell ([MSetNow SOCKET_LAST_INBOUND_TIMESTAMP_SECONDS] @ ?ops) (cn_world cn)"
    by (simp add: w observe_packet_def tell_def)
  moreover have "silent ([MSetNow SOCKET_LAST_INBOUND_TIMESTAMP_SECONDS] @ ?ops)" using red by (simp add: silent_def)
  ultimately show ?thesis by blast
qed

text \<open>Dropping a turn that waits for the store is nothing, or one store call and the end of the connection.\<close>

lemma proc_drop_cases:
  obtains (none) "proc_drop pf tn elapsed p = p"
  | (dropped) delay joined lv w ops event encoded ds where "ps_socket p = SocketOpen delay joined lv"
      "w = (tell ops (proc_world p))\<lparr>sw_db := snd (create_event (pf_codec pf) (tn_fault tn) event encoded ds (as_store (ps_app p)))\<rparr>"
      "silent ops" "proc_drop pf tn elapsed p = attempt_dropped delay (guard_drop elapsed w) p"
proof (cases "ps_socket p")
  case (SocketOpen delay joined lv)
  let ?env = "proc_socket_env pf (ps_cfg p)" and ?tn = "tn\<lparr>tn_auth := auth_healthy (as_status (ps_app p))\<rparr>"
    and ?cn = "\<lparr>cn_joined = joined, cn_liveness = lv, cn_world = proc_world p\<rparr>"
  show thesis
  proof (cases "storing_post ?env ?tn ?cn")
    case None
    then show thesis using SocketOpen by (intro none) (simp add: proc_drop_def)
  next
    case (Some y)
    obtain v event encoded ds where y: "y = (v, event, encoded, ds)" by (cases y)
    obtain ops where "v = tell ops (proc_world p)" "silent ops" using storing_post_world [OF Some [unfolded y]] by auto
    then show thesis using SocketOpen Some y by (intro dropped [OF SocketOpen refl]) (simp_all add: proc_drop_def)
  qed
qed (auto intro!: none simp: proc_drop_def)

lemma proc_drop_inv:
  assumes "proc_inv p"
  shows "proc_inv (proc_drop pf tn elapsed p)"
proof (cases rule: proc_drop_cases [of pf tn elapsed p])
  case (dropped delay joined lv w ops event encoded ds)
  have "list_all metric_op_ok ops" using dropped(3) by (simp add: silent_def)
  then have "proc_inv (attempt_dropped delay (guard_drop elapsed w) p)"
    using assms dropped(1,3) create_stepI
    by (intro attempt_dropped_inv [OF assms, where cd = "pf_codec pf"])
       (simp_all add: dropped(2) guard_drop_def proc_inv_def gauges_ok_def r_into_rtranclp)
  then show ?thesis using dropped(4) by simp
qed (use assms in simp)

text \<open>The tasks that leave the upstream connection alone.\<close>

lemma proc_inv_silent:
  assumes "proc_inv p" and "db_wf (as_store (ps_app p'))" and "round_ok p'"
    and "as_status (ps_app p') = as_status (ps_app p)" and "ps_cfg p' = ps_cfg p" and "ps_session p' = ps_session p"
    and "ps_socket p' = ps_socket p" and "ps_ops p' = ps_ops p @ ops" and "silent ops"
  shows "proc_inv p'"
  using assms by (auto simp: proc_inv_def roles_ok_def gauges_ok_silent)

lemma proc_refresh_inv:
  assumes "proc_inv p"
  shows "proc_inv (proc_refresh pf send clk p)"
proof (cases "ps_session p = None \<or> ps_shutdown p")
  case True
  then show ?thesis using assms by (auto simp: proc_refresh_def split: option.split)
next
  case False
  then obtain sc where sc: "ps_session p = Some sc" "\<not> ps_shutdown p" by auto
  define r where "r = refresh_turn (pf_codec pf) (pf_cookies pf) send clk (cf_ptchan (ps_cfg p)) (sc, as_status (ps_app p))"
  have "upstream_joined (snd (snd r)) = upstream_joined (as_status (ps_app p)) \<and>
      upstream_required (snd (snd r)) = upstream_required (as_status (ps_app p)) \<and>
      list_all metric_op_ok (fst (fst r)) \<and>
      gauge_after SOCKET_JOINED i (fst (fst r)) = i \<and> gauge_after SOCKET_ACTIVE_CONNECTIONS i (fst (fst r)) = i \<and>
      gauge_after UPSTREAM_AUTH_HEALTHY i (fst (fst r)) = (if auth_healthy (snd (snd r)) then 1 else 0)" for i
    unfolding r_def
    by (simp add: refresh_turn_def refresh_failed_def Let_def split: sum.split option.split)
  with assms sc show ?thesis
    unfolding proc_refresh_def proc_inv_def round_ok_def roles_ok_def gauges_ok_def
    by (simp add: r_def [symmetric] Let_def)
qed

lemma update_silent:
  "silent (update_pending_by_webhook env db)" "silent (update_oldest_pending_age cd env db)"
  by (auto simp: update_pending_by_webhook_def update_oldest_pending_age_def silent_def [of "map _ _"] Let_def list_all_iff
      split: sum.split option.split)

lemma proc_load_inv:
  assumes "proc_inv p" and "scan_ok (rv_scan env)"
  shows "proc_inv (proc_load pf env p)"
proof (cases "ps_shutdown p \<or> ps_in_round p")
  case False
  let ?l = "snd (fst (pending_deliveries (pf_codec pf) (rv_scan env) (rv_load_fault env) DELIVERY_BATCH (rv_load_at env) (as_store (ps_app p))))"
  have "flight_ok (as_store (ps_app p)) ds \<and> length ds \<le> DELIVERY_BATCH" if "?l = Inr ds" for ds
    using flight_ok_load [OF _ assms(2) that] assms(1) by (simp add: proc_inv_def)
  moreover have "ps_sending p = []" using False assms(1) by (auto simp: proc_inv_def round_ok_def)
  ultimately have "round_ok (proc_load pf env p)"
    using False by (auto simp: proc_load_def Let_def round_ok_def flight_ok_def DELIVERY_CONCURRENCY_def split: sum.split)
  then show ?thesis
    by (rule proc_inv_silent [OF assms(1), rotated])
       (use False assms(1) in \<open>auto simp: proc_load_def Let_def proc_inv_def update_silent split: sum.split\<close>)
qed (use assms in \<open>auto simp: proc_load_def\<close>)

lemma proc_send_inv:
  assumes "proc_inv p"
  shows "proc_inv (proc_send p)"
proof (cases "ps_queued p")
  case (Cons d ds)
  then have "mset (ds @ ps_sending p @ [d]) = mset (ps_queued p @ ps_sending p)" by simp
  from flight_ok_mset [OF this] have "flight_ok (as_store (ps_app p)) (ds @ ps_sending p @ [d])"
    using assms by (simp add: proc_inv_def round_ok_def)
  then have "round_ok (proc_send p)"
    using Cons assms by (auto simp: proc_send_def proc_inv_def round_ok_def)
  then show ?thesis
    by (rule proc_inv_silent [OF assms, rotated, where ops = "[]"])
       (use Cons assms in \<open>simp_all add: proc_send_def proc_inv_def\<close>)
qed (use assms in \<open>simp add: proc_send_def\<close>)

lemma deliver_one_silent: "silent (at_ops (deliver_one cd cr endpoints env d db))"
  by (auto simp: deliver_one_def webhook_mark_failed_def Let_def split: option.split sum.split)

lemma proc_complete_inv:
  assumes "proc_inv p"
  shows "proc_inv (snd (proc_complete pf d env p))"
proof (cases "d \<in> set (ps_sending p)")
  case True
  let ?c = "delivery_op (pf_codec pf) (pf_crypto pf) (webhook_endpoints (cf_webhooks (ps_cfg p))) env d"
  note k = delivery_op_key [of "pf_codec pf" "pf_crypto pf" "webhook_endpoints (cf_webhooks (ps_cfg p))" env d]
  have wf: "db_wf (as_store (ps_app p))" and r: "round_ok p" using assms by (simp_all add: proc_inv_def)
  have f: "flight_ok (as_store (ps_app p)) (ps_sending p @ ps_queued p)"
    using r flight_ok_mset [of "ps_queued p @ ps_sending p" "ps_sending p @ ps_queued p"] by (simp add: round_ok_def)
  have "remove1 d (ps_sending p @ ps_queued p) = remove1 d (ps_sending p) @ ps_queued p" using True by (simp add: remove1_append)
  with flight_ok_complete [OF wf f _ k, of "pf_codec pf"] True
  have "flight_ok (store_run (pf_codec pf) ?c (as_store (ps_app p))) (remove1 d (ps_sending p) @ ps_queued p)" by simp
  then have "flight_ok (store_run (pf_codec pf) ?c (as_store (ps_app p))) (ps_queued p @ remove1 d (ps_sending p))"
    using flight_ok_mset [of "remove1 d (ps_sending p) @ ps_queued p" "ps_queued p @ remove1 d (ps_sending p)"] by simp
  then have "round_ok (snd (proc_complete pf d env p))"
    using True r by (auto simp: proc_complete_def Let_def round_ok_def deliver_one_db length_remove1)
  then show ?thesis
    by (rule proc_inv_silent [OF assms, rotated])
       (use True wf in \<open>auto simp: proc_complete_def Let_def deliver_one_db db_wf_store_run deliver_one_silent\<close>)
qed (use assms in \<open>simp add: proc_complete_def\<close>)

lemma proc_round_end_inv: "proc_inv p \<Longrightarrow> proc_inv (proc_round_end pf env p)"
  by (auto simp: proc_round_end_def proc_inv_def round_ok_def roles_ok_def update_silent gauges_ok_silent)

lemma prune_once_store:
  "(\<exists>cutoff. snd (prune_once cd ch fault now retention db) = store_run cd (OpPrune cutoff, fault) db) \<or>
   snd (prune_once cd ch fault now retention db) = db"
  by (auto simp: prune_once_def Let_def split: option.split)

lemma prune_once_silent: "silent (fst (fst (prune_once cd ch fault now retention db)))"
  by (simp add: prune_once_def Let_def split: option.split)

lemma proc_prune_inv:
  assumes "proc_inv p"
  shows "proc_inv (proc_prune pf fault now p)"
proof (cases "ps_shutdown p")
  case False
  let ?r = "prune_once (pf_codec pf) (pf_chrono pf) fault now (event_retention (cf_storage (ps_cfg p))) (as_store (ps_app p))"
  have wf: "db_wf (as_store (ps_app p))" and r: "round_ok p" using assms by (simp_all add: proc_inv_def)
  have "db_wf (snd ?r) \<and> flight_ok (snd ?r) ds" if "flight_ok (as_store (ps_app p)) ds" for ds
    using prune_once_store [of "pf_codec pf" "pf_chrono pf" fault now "event_retention (cf_storage (ps_cfg p))" "as_store (ps_app p)"]
      wf that by (auto simp del: store_run.simps intro!: db_wf_store_run flight_ok_other)
  with r have "db_wf (snd ?r)" "round_ok (proc_prune pf fault now p)"
    using False by (auto simp: proc_prune_def Let_def round_ok_def)
  then show ?thesis
    by (intro proc_inv_silent [OF assms, where ops = "fst (fst ?r)"])
       (use False in \<open>simp_all add: proc_prune_def Let_def prune_once_silent\<close>)
qed (use assms in \<open>simp add: proc_prune_def\<close>)

lemma record_silent:
  "silent (record_reading_request who board l el)" "silent (record_posting_request who board l el)"
  by (simp_all add: record_reading_request_def record_posting_request_def Let_def)

lemma extra_silent:
  assumes "\<forall>op \<in> set ops. \<exists>ls. op = MInc GATEWAY_RATE_LIMITED_REQUESTS ls" and "list_all metric_op_ok ops"
  shows "silent ops"
  using assms by (fastforce simp: silent_def)

lemma integration_thread_silent: "silent (oc_ops (integration_thread env g r st))"
proof (cases "in_path r")
  case (Inr bt)
  obtain board tt where bt: "bt = (board, tt)" by (cases bt)
  have "silent (oc_ops (thread_handler env g board tt r st))"
  proof (cases rule: thread_handler_cases [of env g board tt r st])
    case refused
    then show ?thesis by (simp add: record_silent extra_silent)
  next
    case (fetched ic p)
    obtain ops where "redaction_only ops" "fst (prepared_read_fetch env st p) = ops @ record_reading_request (pr_integration p)
        (pr_read_board p) (response_label (snd (snd (prepared_read_fetch env st p)))) (he_elapsed env)"
      using fetch_shape(1) [OF refl] by blast
    moreover from this have "silent ops" by (auto simp: silent_def list_all_iff)
    ultimately show ?thesis using fetched(3) by (simp add: record_silent)
  qed
  with Inr bt show ?thesis by (simp add: integration_thread_def)
qed (simp add: integration_thread_def)

lemma integration_reply_silent: "silent (oc_ops (integration_reply env g r st))"
proof -
  have "silent (oc_ops (reply_handler env g board tt r body st))" for board tt body
  proof (cases rule: reply_handler_cases [of env g board tt r body st])
    case refused
    then show ?thesis by (simp add: record_silent extra_silent)
  next
    case (submitted sr)
    then show ?thesis
      by (auto simp: reply_submit_def reply_accepted_def reply_rejected_def reply_state_unknown_def
          accept_posting_request_def reject_posting_request_def record_silent Let_def
          split: sum.split option.split reply_error.split)
  qed
  then show ?thesis by (auto simp: integration_reply_def split: sum.split)
qed

lemma local_silent: "silent (fst (readyz fault st))" "silent (fst (metrics_handler ru ops))"
  by (simp add: readyz_def is_ready_def Let_def,
      simp add: metrics_handler_def metrics_render_def refresh_process_metrics_def silent_def Let_def split: option.split)

lemma handle_route_silent: "silent (oc_ops (handle_route env ru g ops rt r st))"
  by (cases rt) (simp_all add: handle_route_def local_outcome_def local_silent integration_thread_silent integration_reply_silent)

lemma proc_request_inv:
  assumes "proc_inv p"
  shows "proc_inv (proc_request pf rt he ru r p)"
proof -
  let ?oc = "handle_route (he\<lparr>he_codec := pf_codec pf, he_crypto := pf_crypto pf\<rparr>) ru (pf_governor pf) (ps_ops p) rt r (ps_app p)"
  show ?thesis
    by (intro proc_inv_silent [OF assms, where ops = "oc_ops ?oc"])
       (use assms in \<open>simp_all add: handle_route_silent proc_request_def Let_def proc_inv_def round_ok_def\<close>)
qed

section \<open>Reachable states\<close>

lemma store_open_ok:
  "snd (fst (store_open dir_ok file_ok fault db)) = Inr u \<Longrightarrow> snd (store_open dir_ok file_ok fault db) =
     db\<lparr>db_wal := True, db_foreign_keys := True\<rparr>"
  by (simp add: store_open_def store_call_def Let_def split: if_splits)

lemma migrate_ok:
  "snd (fst (migrate fault db)) = Inr u \<Longrightarrow> db_events (snd (migrate fault db)) = db_events db \<and>
     db_deliveries (snd (migrate fault db)) = db_deliveries db \<and> db_foreign_keys (snd (migrate fault db)) = db_foreign_keys db"
  by (simp add: migrate_def store_call_def split: if_splits)

lemma spawn_http_ok:
  assumes "spawn_http pf bt cfg st db = Inr app"
  shows "as_status app = st" "as_store app = db"
    "\<exists>l. rate_limiters_new (pf_governor pf) (cf_integrations cfg) (rt_rate_limit (cf_runtime cfg)) = Inr l"
  using assms by (auto simp: spawn_http_def app_state_new_def res_simps)

lemma run_start_ok:
  assumes "run_start pf bt cfg db = (Inr p, db')"
  obtains "ps_session p \<noteq> None \<longleftrightarrow> cf_webhooks cfg \<noteq> []"
    "ps_cfg p = cfg" "ps_socket p = (if cf_webhooks cfg \<noteq> [] then SocketIdle RECONNECT_MIN else SocketAbsent)"
    "ps_queued p = []" "ps_sending p = []" "\<not> ps_in_round p" "\<not> ps_shutdown p"
    "ps_ops p = [flag_gauge UPSTREAM_REQUIRED (cf_webhooks cfg \<noteq> [])]"
    "as_status (ps_app p) = \<lparr>upstream_joined = False, auth_healthy = False, upstream_required = (cf_webhooks cfg \<noteq> [])\<rparr>"
    "db_events (as_store (ps_app p)) = db_events db" "db_deliveries (as_store (ps_app p)) = db_deliveries db"
    "db_foreign_keys (as_store (ps_app p))" "db' = as_store (ps_app p)"
    "\<exists>l. rate_limiters_new (pf_governor pf) (cf_integrations cfg) (rt_rate_limit (cf_runtime cfg)) = Inr l"
proof -
  define opened where "opened = store_open (bt_dir_ok bt) (bt_file_ok bt) (bt_open_fault bt) db"
  define migrated where "migrated = migrate (bt_migrate_fault bt) (snd opened)"
  define st where "st = status_new (cf_webhooks cfg \<noteq> [])"
  note run = assms [unfolded run_start_def Let_def, folded opened_def, folded migrated_def, folded st_def]
  from run obtain u where u: "snd (fst opened) = Inr u" by (cases "snd (fst opened)") simp_all
  with run obtain v where v: "snd (fst migrated) = Inr v" by (cases "snd (fst migrated)") simp_all
  note body = run [unfolded u v sum.case prod.inject]
  have db': "db' = snd migrated" using body by (elim conjE) (rule sym)
  from body obtain app where app: "spawn_http pf bt cfg (snd st) (snd migrated) = Inr app"
    and rest: "bindE (upstream_session pf bt cfg) (\<lambda>session. Inr (process_new cfg app (fst st) session)) = Inr p"
    unfolding bindE_Inr_iff by blast
  from rest obtain session where session: "upstream_session pf bt cfg = Inr session" and p: "p = process_new cfg app (fst st) session"
    unfolding bindE_Inr_iff by blast
  have "session \<noteq> None \<longleftrightarrow> cf_webhooks cfg \<noteq> []" using session by (auto simp: upstream_session_def res_simps split: if_splits)
  moreover have "db_events (snd migrated) = db_events db" "db_deliveries (snd migrated) = db_deliveries db"
    "db_foreign_keys (snd migrated)"
    using migrate_ok [OF v [unfolded migrated_def]] store_open_ok [OF u [unfolded opened_def]]
    by (simp_all add: migrated_def opened_def)
  ultimately show thesis
    using spawn_http_ok [OF app]
    by (intro that) (auto simp: p process_new_def db' st_def status_new_def split: option.split)
qed

definition started :: "('q, 'lim, 'cs, 'raw, 'url, 'u) platform \<Rightarrow> ('lim, 'cs, 'url) process \<Rightarrow> bool" where
  "started pf p \<longleftrightarrow> (\<exists>bt cfg db db'. db_wf (db\<lparr>db_foreign_keys := True\<rparr>) \<and> run_start pf bt cfg db = (Inr p, db'))"

lemma started_inv:
  assumes "started pf p"
  shows "proc_inv p"
proof -
  from assms obtain bt cfg db db' where wf: "db_wf (db\<lparr>db_foreign_keys := True\<rparr>)" and r: "run_start pf bt cfg db = (Inr p, db')"
    by (auto simp: started_def)
  from r show ?thesis
    by (rule run_start_ok)
       (use wf proc_inv_idle in \<open>auto simp: proc_inv_def round_ok_def roles_ok_def flight_ok_def gauges_ok_def db_wf_def
          flag_gauge_def DELIVERY_CONCURRENCY_def DELIVERY_BATCH_def\<close>)
qed

lemma proc_shutdown_inv: "proc_inv (p\<lparr>ps_shutdown := b\<rparr>) = proc_inv p"
  by (simp add: proc_inv_def round_ok_def roles_ok_def)

lemma proc_event_inv: "proc_inv p \<Longrightarrow> event_ok ev \<Longrightarrow> proc_inv (snd (proc_event pf ev p))"
  by (cases ev)
     (simp_all add: event_ok_def proc_refresh_inv proc_socket_head_inv proc_connect_inv proc_receive_inv proc_cancel_inv
       proc_load_inv proc_send_inv proc_complete_inv proc_round_end_inv proc_drop_inv proc_prune_inv proc_request_inv proc_shutdown_inv)

lemma proc_restart_started:
  assumes "proc_inv p" and "run_start pf bt cfg (as_store (ps_app p)) = (Inr p', db')"
  shows "started pf p'"
proof -
  have "db_foreign_keys (as_store (ps_app p))" "db_wf (as_store (ps_app p))"
    using assms(1) by (simp_all add: proc_inv_def db_wf_def)
  then have "db_wf ((as_store (ps_app p))\<lparr>db_foreign_keys := True\<rparr>)" by (simp add: db_wf_def)
  with assms(2) show ?thesis unfolding started_def by blast
qed

lemma proc_step_inv:
  assumes "proc_inv p" and "proc_step pf p l p'"
  shows "proc_inv p'"
  using assms(2)
proof cases
  case (step_event ev)
  with proc_event_inv [OF assms(1), of ev pf] show ?thesis by simp
next
  case (step_restart bt cfg db')
  with proc_restart_started [OF assms(1)] show ?thesis by (blast intro: started_inv)
qed

interpretation gateway: component_invariant "started pf" "\<lambda>p p'. \<exists>l. proc_step pf p l p'" proc_inv for pf
  by unfold_locales (auto intro: started_inv proc_step_inv)

lemma proc_run_inv: "proc_run pf p ls p' \<Longrightarrow> proc_inv p \<Longrightarrow> proc_inv p'"
  by (induction rule: proc_run.induct) (blast intro: proc_step_inv)+

section \<open>Nothing is lost\<close>

text \<open>Among the answers of \<open>l\<close> is a success for delivery \<open>k\<close>: its own webhook took the event with the payload.\<close>

definition acknowledged ::
  "('q, 'lim, 'cs, 'raw, 'url, 'u) platform \<Rightarrow> string \<times> string \<Rightarrow> string \<Rightarrow> label \<Rightarrow> bool" where
  "acknowledged pf k payload l \<longleftrightarrow> (\<exists>endpoint t response.
     (k, delivery_request (pf_crypto pf) endpoint (fst k) (to_rfc3339 (pf_codec pf) t) payload, Inr response) \<in> set l \<and>
     wc_name endpoint = snd k \<and> is_success (hs_status response))"

lemma acknowledged_append: "acknowledged pf k payload (xs @ ys) \<longleftrightarrow> acknowledged pf k payload xs \<or> acknowledged pf k payload ys"
  unfolding acknowledged_def set_append by blast

lemma delivery_op_acks:
  assumes "k \<in> op_acks (delivery_op cd cr endpoints env d)"
  obtains endpoint response where "k = pd_key d" "endpoints (pd_webhook d) = Some endpoint"
    "de_send env (delivery_request cr endpoint (pd_event_id d) (to_rfc3339 cd (de_sent_at env)) (pd_payload d)) = Inr response"
    "is_success (hs_status response)"
    "at_requests (deliver_one cd cr endpoints env d db) =
       [delivery_request cr endpoint (pd_event_id d) (to_rfc3339 cd (de_sent_at env)) (pd_payload d)]"
  using assms
  by (auto simp: delivery_op_def failure_op_def deliver_def deliver_one_def pd_key_def Let_def
      split: option.splits sum.splits if_splits)

lemma proc_complete_holds:
  assumes "proc_inv p" and "holds (as_store (ps_app p)) k payload" and c: "proc_complete pf d env p = (l, p')"
  shows "holds (as_store (ps_app p')) k payload \<or> acknowledged pf k payload l"
proof (cases "d \<in> set (ps_sending p)")
  case True
  let ?eps = "webhook_endpoints (cf_webhooks (ps_cfg p))" and ?db = "as_store (ps_app p)"
  let ?op = "delivery_op (pf_codec pf) (pf_crypto pf) ?eps env d"
  have wf: "db_wf ?db" using assms(1) by (simp add: proc_inv_def)
  have db': "as_store (ps_app p') = store_run (pf_codec pf) ?op ?db"
    and l: "l = map (\<lambda>r. (pd_key d, r, de_send env r)) (at_requests (deliver_one (pf_codec pf) (pf_crypto pf) ?eps env d ?db))"
    using c True by (auto simp: proc_complete_def Let_def deliver_one_db pd_key_def)
  show ?thesis
  proof (cases "k \<in> op_acks ?op")
    case False
    then show ?thesis using holds_until_ack [OF wf assms(2)] db' by simp
  next
    case acked: True
    then obtain endpoint response where a: "k = pd_key d" "?eps (pd_webhook d) = Some endpoint"
      "de_send env (delivery_request (pf_crypto pf) endpoint (pd_event_id d) (to_rfc3339 (pf_codec pf) (de_sent_at env)) (pd_payload d)) = Inr response"
      "is_success (hs_status response)"
      "at_requests (deliver_one (pf_codec pf) (pf_crypto pf) ?eps env d ?db) =
        [delivery_request (pf_crypto pf) endpoint (pd_event_id d) (to_rfc3339 (pf_codec pf) (de_sent_at env)) (pd_payload d)]"
      by (rule delivery_op_acks [where db = ?db])
    have "\<exists>en. ob_entries (outbox_of ?db) (pd_key d) = Some en \<and> en_payload en = pd_payload d"
      using assms(1) True unfolding proc_inv_def round_ok_def flight_ok_def by (metis UnI2 set_append)
    then have "pd_payload d = payload" using assms(2) a(1) by (auto simp: holds_def)
    moreover have "wc_name endpoint = pd_webhook d"
      using a(2) unfolding webhook_endpoints_def by (auto dest: collect_map_Some_D)
    ultimately have "acknowledged pf k payload l"
      unfolding acknowledged_def l a(5) by (intro exI [of _ endpoint] exI [of _ "de_sent_at env"] exI [of _ response])
        (use a in \<open>simp add: pd_key_def\<close>)
    then show ?thesis by simp
  qed
qed (use assms in \<open>simp add: proc_complete_def\<close>)

lemma proc_receive_creates:
  "(create_step (pf_codec pf))\<^sup>*\<^sup>* (as_store (ps_app p)) (as_store (ps_app (proc_receive pf tn elapsed p)))"
proof (cases "ps_socket p")
  case (SocketOpen delay joined lv)
  define tn' cn where "tn' = tn\<lparr>tn_auth := auth_healthy (as_status (ps_app p))\<rparr>"
    and "cn = \<lparr>cn_joined = joined, cn_liveness = lv, cn_world = proc_world p\<rparr>"
  have cd: "se_codec (proc_socket_env pf (ps_cfg p)) = pf_codec pf" by (simp add: proc_socket_env_def)
  have "tn_auth tn' = auth_healthy (sw_status (cn_world cn))" by (simp add: tn'_def cn_def)
  from receive_turn_within [OF this, of "proc_socket_env pf (ps_cfg p)"]
  have "(create_step (pf_codec pf))\<^sup>*\<^sup>* (as_store (ps_app p))
      (sw_db (cn_world (snd (receive_turn (proc_socket_env pf (ps_cfg p)) tn' cn))))"
    unfolding within_def cd by (simp add: cn_def)
  then show ?thesis
    using SocketOpen unfolding proc_receive_def
    by (simp add: Let_def tn'_def [symmetric] cn_def [symmetric] connection_ended_def guard_drop_def split: turn_outcome.split)
qed (simp_all add: proc_receive_def)

lemma attempt_dropped_store: "as_store (ps_app (attempt_dropped delay w p)) = sw_db w"
  by (simp add: attempt_dropped_def connection_ended_def Let_def)

lemma proc_drop_creates:
  "(create_step (pf_codec pf))\<^sup>*\<^sup>* (as_store (ps_app p)) (as_store (ps_app (proc_drop pf tn elapsed p)))"
proof (cases rule: proc_drop_cases [of pf tn elapsed p])
  case (dropped delay joined lv w ops event encoded ds)
  then show ?thesis using create_stepI by (simp add: attempt_dropped_store guard_drop_def r_into_rtranclp)
qed simp

lemma proc_quiet_store:
  "as_store (ps_app (proc_refresh pf send clk p)) = as_store (ps_app p)"
  "as_store (ps_app (proc_socket_head p)) = as_store (ps_app p)"
  "as_store (ps_app (proc_connect pf now connects opened p)) = as_store (ps_app p)"
  "as_store (ps_app (proc_cancel elapsed p)) = as_store (ps_app p)"
  "as_store (ps_app (proc_load pf env p)) = as_store (ps_app p)"
  "as_store (ps_app (proc_send p)) = as_store (ps_app p)"
  "as_store (ps_app (proc_round_end pf env p)) = as_store (ps_app p)"
  "as_store (ps_app (proc_request pf rt he ru r p)) = as_store (ps_app p)"
  by (simp_all add: proc_refresh_def proc_socket_head_def proc_connect_def proc_cancel_def attempt_dropped_def proc_load_def proc_send_def
      proc_round_end_def proc_request_def connection_ended_def guard_new_def guard_drop_def Let_def
      split: option.split socket_task.split sum.split list.split)

lemma proc_event_holds:
  assumes "proc_inv p" and "holds (as_store (ps_app p)) k payload" and "proc_event pf ev p = (l, p')"
  shows "holds (as_store (ps_app p')) k payload \<or> acknowledged pf k payload l"
proof -
  have wf: "db_wf (as_store (ps_app p))" using assms(1) by (simp add: proc_inv_def)
  have "holds (as_store (ps_app (proc_receive pf tn el p))) k payload" for tn el
    using create_steps_holds [OF proc_receive_creates wf assms(2)] by blast
  moreover have "holds (as_store (ps_app (proc_drop pf tn el p))) k payload" for tn el
    using create_steps_holds [OF proc_drop_creates wf assms(2)] by blast
  moreover have "holds (as_store (ps_app (proc_prune pf fault now p))) k payload" for fault now
    using prune_once_store [of "pf_codec pf" "pf_chrono pf" fault now "event_retention (cf_storage (ps_cfg p))" "as_store (ps_app p)"]
      holds_until_ack [OF wf assms(2), of "(OpPrune _, fault)" "pf_codec pf"] assms(2)
    by (auto simp: proc_prune_def Let_def simp del: store_run.simps)
  ultimately show ?thesis
    using assms(2,3) by (cases ev) (auto simp: proc_quiet_store dest!: proc_complete_holds [OF assms(1,2)])
qed

lemma outbox_of_rows:
  assumes "db_events db' = db_events db" and "db_deliveries db' = db_deliveries db"
  shows "outbox_of db' = outbox_of db"
proof -
  have "entry_of db' d = entry_of db d" for d by (rule entry_of_cong) (simp add: find_event_def assms(1))
  then show ?thesis by (simp add: outbox_of_def assms)
qed

lemma proc_step_holds:
  assumes "proc_inv p" and "holds (as_store (ps_app p)) k payload" and "proc_step pf p l p'"
  shows "holds (as_store (ps_app p')) k payload \<or> acknowledged pf k payload l"
  using assms(3)
proof cases
  case (step_event ev)
  with proc_event_holds [OF assms(1,2)] show ?thesis by blast
next
  case (step_restart bt cfg db')
  from step_restart(2) have "outbox_of (as_store (ps_app p')) = outbox_of (as_store (ps_app p))"
    by (rule run_start_ok) (rule outbox_of_rows)
  then show ?thesis using assms(2) by (simp add: holds_def)
qed

lemma proc_run_holds:
  "proc_run pf p ls p' \<Longrightarrow> proc_inv p \<Longrightarrow> holds (as_store (ps_app p)) k payload \<Longrightarrow>
     holds (as_store (ps_app p')) k payload \<or> acknowledged pf k payload ls"
proof (induction rule: proc_run.induct)
  case (run_step p ls p' l p'')
  have "proc_inv p'" using proc_run_inv run_step by blast
  with run_step proc_step_holds [of p' k payload pf l p''] show ?case by (auto simp: acknowledged_append)
qed simp

end
