(* ===== verification/Process_Runs.thy ===== *)
theory Process_Runs
  imports Process_Facts
begin

text \<open>
  Sequences of events of the process: the socket task alone is the supervisor's loop, and after a shutdown request the
  tasks come to an end.
\<close>

section \<open>The socket task and the supervisor\<close>

text \<open>Events in a row, without another task in between.\<close>

definition proc_events ::
  "('q, 'lim, 'cs, 'raw, 'url, 'u) platform \<Rightarrow> task_event list \<Rightarrow> ('lim, 'cs, 'url) process \<Rightarrow> ('lim, 'cs, 'url) process" where
  "proc_events pf evs p = fold (\<lambda>ev p. snd (proc_event pf ev p)) evs p"

lemma proc_events_simps [simp]:
  "proc_events pf [] p = p" "proc_events pf (ev # evs) p = proc_events pf evs (snd (proc_event pf ev p))"
  "proc_events pf (xs @ ys) p = proc_events pf ys (proc_events pf xs p)"
  by (simp_all add: proc_events_def)

text \<open>Between connections the receive loop and its cancellation do nothing.\<close>

lemma receive_idle:
  "ps_socket p = SocketIdle delay \<Longrightarrow> proc_events pf (map (\<lambda>tn. Receive tn el) tns @ [Cancel el]) p = p"
  by (induction tns) (simp_all add: proc_receive_def proc_cancel_def attempt_dropped_def Let_def)

definition connection_outcome :: "turn_outcome \<Rightarrow> bool \<Rightarrow> socket_error + bool" where
  "connection_outcome out joined = (case out of GoOn \<Rightarrow> Inr True | Break \<Rightarrow> Inr joined | Fail e \<Rightarrow> Inl e)"

lemma connection_ended_sel [simp]:
  "ps_session (connection_ended delay res w p) = ps_session p" "ps_cfg (connection_ended delay res w p) = ps_cfg p"
  "ps_shutdown (connection_ended delay res w p) = ps_shutdown p"
  by (simp_all add: connection_ended_def Let_def)

lemma connection_ended_put [simp]:
  "connection_ended delay res w (put_world v p) = connection_ended delay res w p"
  "connection_ended delay res w (p\<lparr>ps_socket := t\<rparr>) = connection_ended delay res w p"
  by (simp_all add: connection_ended_def put_world_def Let_def)

lemma connection_collapse: "\<lparr>cn_joined = cn_joined c, cn_liveness = cn_liveness c, cn_world = cn_world c\<rparr> = c"
  by (cases c) simp

lemma receive_events:
  assumes "ps_socket p = SocketOpen delay joined lv" and "\<not> ps_shutdown p" and "auth_healthy (as_status (ps_app p))"
    and "\<forall>tn \<in> set tns. tn_auth tn"
    and r_def: "r = receive_loop (proc_socket_env pf (ps_cfg p)) tns \<lparr>cn_joined = joined, cn_liveness = lv, cn_world = proc_world p\<rparr>"
  shows "proc_events pf (map (\<lambda>tn. Receive tn el) tns @ [Cancel el]) p =
    connection_ended delay (connection_outcome (fst r) (cn_joined (snd r))) (guard_drop el (cn_world (snd r))) p"
  using assms
proof (induction tns arbitrary: p joined lv r)
  case Nil
  then show ?case by (simp add: proc_cancel_def attempt_dropped_def Let_def connection_outcome_def)
next
  case (Cons tn tns)
  let ?env = "proc_socket_env pf (ps_cfg p)" and ?cn = "\<lparr>cn_joined = joined, cn_liveness = lv, cn_world = proc_world p\<rparr>"
  have tn: "tn\<lparr>tn_auth := auth_healthy (as_status (ps_app p))\<rparr> = tn" using Cons.prems(3,4) by simp
  define t where "t = receive_turn ?env tn ?cn"
  have auth: "auth_healthy (sw_status (cn_world (snd t)))"
    using receive_turn_within [of tn ?cn ?env] Cons.prems(3,4) by (simp add: t_def within_def)
  show ?case
  proof (cases "fst t = GoOn")
    case True
    let ?p = "(put_world (cn_world (snd t)) p)\<lparr>ps_socket := SocketOpen delay (cn_joined (snd t)) (cn_liveness (snd t))\<rparr>"
    have step: "snd (proc_event pf (Receive tn el) p) = ?p"
      using Cons.prems(1) True tn by (simp add: proc_receive_def t_def [symmetric] Let_def)
    have "r = receive_loop (proc_socket_env pf (ps_cfg ?p)) tns
        \<lparr>cn_joined = cn_joined (snd t), cn_liveness = cn_liveness (snd t), cn_world = proc_world ?p\<rparr>"
      using Cons.prems(5) True by (simp add: t_def [symmetric] Let_def connection_collapse)
    from Cons.IH [OF _ _ _ _ this] show ?thesis
      using Cons.prems(2,4) auth step by simp
  next
    case False
    then have r: "r = t" using Cons.prems(5) by (simp add: t_def [symmetric] Let_def)
    let ?e = "connection_ended delay (connection_outcome (fst t) (cn_joined (snd t))) (guard_drop el (cn_world (snd t))) p"
    have step: "snd (proc_event pf (Receive tn el) p) = ?e"
      using Cons.prems(1) False tn
      by (cases "fst t") (simp_all add: proc_receive_def t_def [symmetric] Let_def connection_outcome_def)
    obtain delay' where "ps_socket ?e = SocketIdle delay'" by (simp add: connection_ended_def Let_def)
    then show ?thesis unfolding list.map append_Cons proc_events_simps(2) step r by (rule receive_idle)
  qed
qed

text \<open>One turn of the supervisor as events of the process.\<close>

definition supervise_events :: "datetime \<Rightarrow> socket_attempt \<Rightarrow> task_event list" where
  "supervise_events now a =
     SocketHead # Connect now (at_connect a = Connected) (at_opened a) #
     map (\<lambda>tn. Receive tn (at_elapsed a)) (at_turns a) @ [Cancel (at_elapsed a)]"

lemma connection_ended_world:
  "proc_world (connection_ended delay res w p) =
     (if res = Inr False then tell [MInc SOCKET_JOIN_FAILURES []] (world_joined False w) else world_joined False w)"
  "ps_socket (connection_ended delay res w p) =
     SocketIdle (min (dur_saturating_mul (if res = Inr True then RECONNECT_MIN else delay) 2) RECONNECT_MAX)"
  by (simp_all add: connection_ended_def Let_def)

lemma world_auth_same: "auth_healthy (sw_status w) = b \<Longrightarrow> world_auth b w = w"
  by (auto simp: world_auth_def)

lemma supervise_turn_events:
  assumes idle: "ps_socket p = SocketIdle delay" "\<not> ps_shutdown p" "ps_session p = Some sc"
    and a: "at_cookie a = session_get (pf_cookies pf) now sc" "\<forall>tn \<in> set (at_turns a). tn_auth tn" "at_connect a \<noteq> ConnectPending"
    and p': "p' = proc_events pf (supervise_events now a) p"
  shows "\<exists>d delay'. supervise_turn_fn (proc_socket_env pf (ps_cfg p))
      \<lparr>sp_shutdown = False, sp_auth = auth_healthy (as_status (ps_app p)), sp_attempt = a, sp_shutdown_during = False\<rparr>
      \<lparr>sup_delay = delay, sup_world = proc_world p\<rparr> = Slept d \<lparr>sup_delay = delay', sup_world = proc_world p'\<rparr> \<and>
    ps_socket p' = SocketIdle delay'"
proof (cases "auth_healthy (as_status (ps_app p))")
  case False
  let ?q = "put_world (world_joined False (proc_world p)) p"
  have q: "ps_socket ?q = SocketIdle delay" using idle(1) by simp
  have "p' = ?q"
    using p' idle(1,2) False receive_idle [OF q, of pf] by (simp add: supervise_events_def proc_socket_head_def proc_connect_def Let_def)
  then show ?thesis using q False idle(2) by (auto simp: supervise_turn_fn_def Let_def world_auth_same)
next
  case True
  let ?env = "proc_socket_env pf (ps_cfg p)" and ?w = "tell [MInc SOCKET_CONNECTION_ATTEMPTS []] (proc_world p)"
  let ?q = "(put_world ?w p)\<lparr>ps_socket := SocketConnecting delay\<rparr>"
  let ?req = "socket_request (pf_urls pf) (cf_ptchan (ps_cfg p)) (at_cookie a)"
  have head: "snd (proc_event pf SocketHead p) = ?q" using idle True by (simp add: proc_socket_head_def Let_def)
  have env: "se_url ?env = pf_urls pf" "sv_cfg (se_sup ?env) = cf_ptchan (ps_cfg p)"
    by (simp_all add: proc_socket_env_def proc_supervisor_def)
  define run where "run = run_socket_once ?env a ?w"
  obtain out joined v where run: "connection_result (fst run) False = Some (connection_outcome out joined)" "snd run = v"
    and ended: "p' = connection_ended delay (connection_outcome out joined) v p"
  proof (cases "\<exists>e. ?req = Inl e \<or> at_connect a = ConnectFails \<and> ?req \<noteq> Inl e \<and> e = SocketConnect")
    case True
    then obtain e where e: "?req = Inl e \<or> (\<exists>x. ?req = Inr x) \<and> at_connect a = ConnectFails \<and> e = SocketConnect"
      by (cases ?req) auto
    then have c: "snd (proc_event pf (Connect now (at_connect a = Connected) (at_opened a)) ?q) = connection_ended delay (Inl e) ?w p"
      using idle(3) a(1) by (auto simp: proc_connect_def)
    have "\<exists>d'. ps_socket (connection_ended delay (Inl e) ?w p) = SocketIdle d'" by (simp add: connection_ended_world)
    then have "p' = connection_ended delay (Inl e) ?w p"
      unfolding p' supervise_events_def proc_events_simps(2) head c using receive_idle by blast
    moreover have "run = (Some (Inl e), ?w)" using e by (auto simp: run_def run_socket_once_def env)
    ultimately show thesis using that [of "Fail e" False ?w] by (simp add: connection_outcome_def connection_result_def)
  next
    case False
    then obtain x where x: "?req = Inr x" "at_connect a = Connected" using a(3) by (cases ?req; cases "at_connect a") auto
    let ?o = "(put_world (guard_new ?w) p)\<lparr>ps_socket := SocketOpen delay False (liveness_new (at_opened a))\<rparr>"
    have c: "snd (proc_event pf (Connect now (at_connect a = Connected) (at_opened a)) ?q) = ?o"
      using idle(3) a(1) x by (simp add: proc_connect_def)
    define r where "r = receive_loop ?env (at_turns a)
      \<lparr>cn_joined = False, cn_liveness = liveness_new (at_opened a), cn_world = guard_new ?w\<rparr>"
    have "p' = connection_ended delay (connection_outcome (fst r) (cn_joined (snd r))) (guard_drop (at_elapsed a) (cn_world (snd r))) ?o"
      unfolding p' supervise_events_def proc_events_simps(2) head c
      by (rule receive_events) (use idle(2) True a(2) in \<open>simp_all add: r_def guard_new_def\<close>)
    moreover have "connection_result (fst run) False = Some (connection_outcome (fst r) (cn_joined (snd r)))"
      "snd run = guard_drop (at_elapsed a) (cn_world (snd r))"
      using x by (simp_all add: run_def run_socket_once_def env r_def [symmetric] Let_def connection_outcome_def
          connection_result_def split: turn_outcome.split)
    ultimately show thesis using that by simp
  qed
  have "supervise_turn_fn ?env
      \<lparr>sp_shutdown = False, sp_auth = auth_healthy (as_status (ps_app p)), sp_attempt = a, sp_shutdown_during = False\<rparr>
      \<lparr>sup_delay = delay, sup_world = proc_world p\<rparr> =
      (let res = connection_outcome out joined; delay' = (if res = Inr True then RECONNECT_MIN else delay); w1 = world_joined False v;
         w2 = (if res = Inr False then tell [MInc SOCKET_JOIN_FAILURES []] w1 else w1) in
       Slept delay' \<lparr>sup_delay = min (dur_saturating_mul delay' 2) RECONNECT_MAX, sup_world = w2\<rparr>)"
    using True run by (simp add: supervise_turn_fn_def world_auth_same run_def [symmetric] Let_def)
  then show ?thesis by (simp add: ended connection_ended_world Let_def)
qed

text \<open>Any number of turns: the socket task by itself is \<^verbatim>\<open>supervise\<close>.\<close>

definition undisturbed :: "('lim, 'cs, 'url) process \<Rightarrow> ('lim, 'cs, 'url) process \<Rightarrow> bool" where
  "undisturbed p q \<longleftrightarrow> ps_session q = ps_session p \<and> ps_cfg q = ps_cfg p \<and> ps_shutdown q = ps_shutdown p \<and>
     auth_healthy (as_status (ps_app q)) = auth_healthy (as_status (ps_app p))"

lemma undisturbed_put:
  "auth_healthy (sw_status w) = auth_healthy (as_status (ps_app p)) \<Longrightarrow> undisturbed p (put_world w p)"
  "auth_healthy (sw_status w) = auth_healthy (as_status (ps_app p)) \<Longrightarrow> undisturbed p ((put_world w p)\<lparr>ps_socket := t\<rparr>)"
  "auth_healthy (sw_status w) = auth_healthy (as_status (ps_app p)) \<Longrightarrow> undisturbed p (connection_ended delay res w p)"
  by (simp_all add: undisturbed_def connection_ended_def Let_def)

lemma undisturbed_receive: "undisturbed p (proc_receive pf tn el p)"
proof (cases "ps_socket p")
  case (SocketOpen delay joined lv)
  let ?env = "proc_socket_env pf (ps_cfg p)" and ?tn = "tn\<lparr>tn_auth := auth_healthy (as_status (ps_app p))\<rparr>"
    and ?cn = "\<lparr>cn_joined = joined, cn_liveness = lv, cn_world = proc_world p\<rparr>"
  have "auth_healthy (sw_status (cn_world (snd (receive_turn ?env ?tn ?cn)))) = auth_healthy (as_status (ps_app p))"
    using receive_turn_within [of ?tn ?cn ?env] by (simp add: within_def)
  then show ?thesis
    using SocketOpen by (simp add: proc_receive_def Let_def undisturbed_put guard_drop_def split: turn_outcome.split)
qed (simp_all add: proc_receive_def undisturbed_def)

lemma undisturbed_events:
  "\<forall>ev \<in> set evs. (case ev of SocketHead \<Rightarrow> True | Connect _ _ _ \<Rightarrow> True | Receive _ _ \<Rightarrow> True | Cancel _ \<Rightarrow> True | _ \<Rightarrow> False)
     \<Longrightarrow> undisturbed p (proc_events pf evs p)"
proof (induction evs arbitrary: p)
  case Nil
  then show ?case by (simp add: undisturbed_def)
next
  case (Cons ev evs)
  have head: "undisturbed p (proc_socket_head p)"
    by (cases "ps_socket p") (simp_all add: proc_socket_head_def Let_def undisturbed_put, simp_all add: undisturbed_def)
  have connect: "undisturbed p (proc_connect pf now c opened p)" for now c opened
    by (cases "ps_socket p"; cases "ps_session p")
       (simp_all add: proc_connect_def undisturbed_put guard_new_def split: sum.split, simp_all add: undisturbed_def)
  have cancel: "undisturbed p (proc_cancel el p)" for el
    by (cases "ps_socket p") (simp_all add: proc_cancel_def attempt_dropped_def Let_def undisturbed_put guard_drop_def, simp_all add: undisturbed_def)
  have "undisturbed p (snd (proc_event pf ev p))"
    using Cons.prems head connect cancel undisturbed_receive by (cases ev) simp_all
  moreover have "undisturbed (snd (proc_event pf ev p)) (proc_events pf evs (snd (proc_event pf ev p)))"
    using Cons by simp
  ultimately show ?case by (simp add: undisturbed_def)
qed

lemma supervise_undisturbed: "undisturbed p (proc_events pf (supervise_events now a) p)"
  by (rule undisturbed_events) (auto simp: supervise_events_def)

definition turn_of :: "bool \<Rightarrow> datetime \<times> socket_attempt \<Rightarrow> supervise_turn" where
  "turn_of auth na = \<lparr>sp_shutdown = False, sp_auth = auth, sp_attempt = snd na, sp_shutdown_during = False\<rparr>"

lemma supervise_events_run:
  assumes "ps_socket p = SocketIdle delay" "\<not> ps_shutdown p" "ps_session p = Some sc"
    and "\<forall>(now, a) \<in> set attempts. at_cookie a = session_get (pf_cookies pf) now sc \<and> (\<forall>tn \<in> set (at_turns a). tn_auth tn) \<and>
      at_connect a \<noteq> ConnectPending"
    and "p' = proc_events pf (concat (map (\<lambda>(now, a). supervise_events now a) attempts)) p"
  shows "\<exists>delay'. snd (supervise (proc_socket_env pf (ps_cfg p)) (map (turn_of (auth_healthy (as_status (ps_app p)))) attempts)
      \<lparr>sup_delay = delay, sup_world = proc_world p\<rparr>) = Slept 0 \<lparr>sup_delay = delay', sup_world = proc_world p'\<rparr> \<and>
    ps_socket p' = SocketIdle delay'"
  using assms
proof (induction attempts arbitrary: p delay)
  case (Cons na attempts)
  obtain now a where na: "na = (now, a)" by force
  define q where "q = proc_events pf (supervise_events now a) p"
  have u: "undisturbed p q" unfolding q_def by (rule supervise_undisturbed)
  obtain d delay1 where turn: "supervise_turn_fn (proc_socket_env pf (ps_cfg p)) (turn_of (auth_healthy (as_status (ps_app p))) na)
      \<lparr>sup_delay = delay, sup_world = proc_world p\<rparr> = Slept d \<lparr>sup_delay = delay1, sup_world = proc_world q\<rparr>"
    and q: "ps_socket q = SocketIdle delay1"
    using supervise_turn_events [OF Cons.prems(1-3) _ _ _ q_def] Cons.prems(4) by (auto simp: na turn_of_def)
  have "\<exists>delay'. snd (supervise (proc_socket_env pf (ps_cfg q)) (map (turn_of (auth_healthy (as_status (ps_app q)))) attempts)
      \<lparr>sup_delay = delay1, sup_world = proc_world q\<rparr>) = Slept 0 \<lparr>sup_delay = delay', sup_world = proc_world p'\<rparr> \<and>
      ps_socket p' = SocketIdle delay'"
    using Cons.prems u by (intro Cons.IH [OF q]) (auto simp: undisturbed_def q_def na)
  with turn u show ?case by (simp add: undisturbed_def Let_def)
qed simp

section \<open>Stopping\<close>

fun socket_rank :: "socket_task \<Rightarrow> nat" where
  "socket_rank (SocketConnecting _) = 3"
| "socket_rank (SocketOpen _ _ _) = 2"
| "socket_rank (SocketIdle _) = 1"
| "socket_rank _ = 0"

text \<open>What the tasks have left to do once shutdown is requested.\<close>

definition work_left :: "('lim, 'cs, 'url) process \<Rightarrow> nat" where
  "work_left p = 2 * length (ps_queued p) + length (ps_sending p) + (if ps_in_round p then 1 else 0) + socket_rank (ps_socket p)"

text \<open>Events that happen only because something arrives from outside.\<close>

definition from_outside :: "task_event \<Rightarrow> bool" where
  "from_outside ev = (case ev of Receive _ _ \<Rightarrow> True | Request _ _ _ _ \<Rightarrow> True | _ \<Rightarrow> False)"

fun own_steps ::
  "('q, 'lim, 'cs, 'raw, 'url, 'u) platform \<Rightarrow> task_event list \<Rightarrow> ('lim, 'cs, 'url) process \<Rightarrow> nat" where
  "own_steps pf [] p = 0"
| "own_steps pf (ev # evs) p =
     (let q = snd (proc_event pf ev p) in (if q \<noteq> p \<and> \<not> from_outside ev then 1 else 0) + own_steps pf evs q)"

lemma ended_rank:
  "work_left (connection_ended delay res w p) + socket_rank (ps_socket p) = work_left p + 1"
  "ps_shutdown (connection_ended delay res w p) = ps_shutdown p"
  by (simp_all add: work_left_def connection_ended_def Let_def)

lemma put_rank: "work_left ((put_world w p)\<lparr>ps_socket := t\<rparr>) + socket_rank (ps_socket p) = work_left p + socket_rank t"
  by (simp add: work_left_def)

lemma stop_head:
  "ps_shutdown p \<Longrightarrow> proc_socket_head p = p \<or> work_left (proc_socket_head p) < work_left p \<and> ps_shutdown (proc_socket_head p)"
  by (cases "ps_socket p") (simp_all add: proc_socket_head_def Let_def work_left_def)

lemma stop_connect:
  assumes "ps_shutdown p"
  shows "proc_connect pf now connects opened p = p \<or>
    work_left (proc_connect pf now connects opened p) < work_left p \<and> ps_shutdown (proc_connect pf now connects opened p)"
proof (cases "ps_socket p")
  case (SocketConnecting delay)
  have "work_left (connection_ended delay res w p) < work_left p" for res w
    using ended_rank(1) [of delay res w p] SocketConnecting by simp
  moreover have "work_left ((put_world w p)\<lparr>ps_socket := SocketOpen delay False lv\<rparr>) < work_left p" for w lv
    using put_rank [where w = w and p = p and t = "SocketOpen delay False lv"] SocketConnecting by simp
  ultimately show ?thesis
    using SocketConnecting assms by (simp add: proc_connect_def ended_rank(2) split: option.split sum.split)
qed (simp_all add: proc_connect_def)

lemma stop_cancel:
  "ps_shutdown p \<Longrightarrow> proc_cancel el p = p \<or> work_left (proc_cancel el p) < work_left p \<and> ps_shutdown (proc_cancel el p)"
  by (cases "ps_socket p") (simp_all add: proc_cancel_def attempt_dropped_def Let_def work_left_def)

lemma stop_drop:
  assumes "ps_shutdown p"
  shows "proc_drop pf tn el p = p \<or> work_left (proc_drop pf tn el p) < work_left p \<and> ps_shutdown (proc_drop pf tn el p)"
proof (cases rule: proc_drop_cases [of pf tn el p])
  case (dropped delay joined lv w ops event encoded ds)
  then show ?thesis using assms by (simp add: attempt_dropped_def work_left_def)
qed simp

lemma stop_receive:
  assumes "ps_shutdown p"
  shows "work_left (proc_receive pf tn el p) \<le> work_left p \<and> ps_shutdown (proc_receive pf tn el p)"
proof (cases "ps_socket p")
  case (SocketOpen delay joined lv)
  have "work_left (connection_ended delay res w p) \<le> work_left p" for res w
    using ended_rank(1) [of delay res w p] SocketOpen by simp
  moreover have "work_left ((put_world w p)\<lparr>ps_socket := SocketOpen delay j l\<rparr>) \<le> work_left p" for w j l
    using put_rank [where w = w and p = p and t = "SocketOpen delay j l"] SocketOpen by simp
  ultimately show ?thesis
    using SocketOpen assms by (simp add: proc_receive_def Let_def ended_rank(2) split: turn_outcome.split)
qed (simp_all add: proc_receive_def assms)

lemma stop_complete:
  "ps_shutdown p \<Longrightarrow> snd (proc_complete pf d env p) = p \<or>
     work_left (snd (proc_complete pf d env p)) < work_left p \<and> ps_shutdown (snd (proc_complete pf d env p))"
  using length_pos_if_in_set [of d "ps_sending p"]
  by (cases "d \<in> set (ps_sending p)") (simp_all add: proc_complete_def Let_def work_left_def length_remove1)

lemma stop_request:
  "work_left (proc_request pf rt he ru r p) = work_left p" "ps_shutdown (proc_request pf rt he ru r p) = ps_shutdown p"
  by (simp_all add: proc_request_def work_left_def Let_def)

lemma stop_round_end:
  "proc_round_end pf env p = p \<or> work_left (proc_round_end pf env p) < work_left p \<and>
     ps_shutdown (proc_round_end pf env p) = ps_shutdown p"
  by (simp add: proc_round_end_def work_left_def)

lemma stop_send:
  "proc_send p = p \<or> work_left (proc_send p) < work_left p \<and> ps_shutdown (proc_send p) = ps_shutdown p"
  by (cases "ps_queued p") (simp_all add: proc_send_def work_left_def)

lemma stop_others:
  assumes "ps_shutdown p"
  shows "proc_refresh pf send clk p = p" "proc_load pf env p = p" "proc_prune pf fault now p = p" "p\<lparr>ps_shutdown := True\<rparr> = p"
  using assms by (simp_all add: proc_refresh_def proc_load_def proc_prune_def split: option.split)

lemma stop_event:
  assumes "ps_shutdown p" and "q = snd (proc_event pf ev p)"
  shows "q = p \<or> ps_shutdown q \<and> (work_left q < work_left p \<or> from_outside ev \<and> work_left q \<le> work_left p)"
proof (cases ev)
  case (Receive tn el)
  then show ?thesis using assms stop_receive [OF assms(1), of pf tn el] by (simp add: from_outside_def)
next
  case (Connect now connects opened)
  then show ?thesis using assms stop_connect [OF assms(1), of pf now connects opened] by auto
next
  case (Cancel el)
  then show ?thesis using assms stop_cancel [OF assms(1), of el] by auto
next
  case (Drop tn el)
  then show ?thesis using assms stop_drop [OF assms(1), of pf tn el] by auto
next
  case (Complete d env)
  then show ?thesis using assms stop_complete [OF assms(1), of pf d env] by auto
next
  case (RoundEnd env)
  then show ?thesis using assms stop_round_end [of pf env p] by auto
next
  case SocketHead
  then show ?thesis using assms stop_head [OF assms(1)] by auto
next
  case Send
  then show ?thesis using assms stop_send [of p] by auto
qed (use assms in \<open>simp_all add: from_outside_def stop_request stop_others\<close>)

lemma own_steps_bound: "ps_shutdown p \<Longrightarrow> own_steps pf evs p + work_left (proc_events pf evs p) \<le> work_left p"
proof (induction evs arbitrary: p)
  case (Cons ev evs)
  define q where "q = snd (proc_event pf ev p)"
  from stop_event [OF Cons.prems q_def] show ?case
  proof
    assume "q = p"
    with Cons show ?thesis by (simp add: q_def [symmetric] Let_def)
  next
    assume a: "ps_shutdown q \<and> (work_left q < work_left p \<or> from_outside ev \<and> work_left q \<le> work_left p)"
    with Cons.IH [of q] show ?thesis by (auto simp: q_def [symmetric] Let_def)
  qed
qed simp

lemma stop_progress:
  fixes p :: "('lim, 'cs, 'url) process"
  assumes "ps_shutdown p" and "0 < work_left p"
  shows "\<exists>ev. event_ok ev \<and> \<not> from_outside ev \<and> snd (proc_event pf ev p) \<noteq> p"
proof -
  have less: "work_left q < work_left p \<Longrightarrow> q \<noteq> p" for q :: "('lim, 'cs, 'url) process" by auto
  consider (send) "ps_queued p \<noteq> []" "length (ps_sending p) < DELIVERY_CONCURRENCY" | (sent) "ps_sending p \<noteq> []"
    | (round) "ps_queued p = []" "ps_sending p = []" "ps_in_round p"
    | (idle) delay where "ps_socket p = SocketIdle delay"
    | (up) "socket_rank (ps_socket p) \<in> {2, 3}"
    using assms(2)
    by (cases "ps_socket p"; cases "ps_queued p"; cases "ps_sending p")
       (auto simp: work_left_def DELIVERY_CONCURRENCY_def split: if_splits)
  then show ?thesis
  proof cases
    case send
    then show ?thesis
      by (intro exI [of _ Send]) (auto simp: event_ok_def from_outside_def proc_send_def neq_Nil_conv intro!: less simp: work_left_def)
  next
    case sent
    then have d: "hd (ps_sending p) \<in> set (ps_sending p)" by simp
    then have "length (remove1 (hd (ps_sending p)) (ps_sending p)) < length (ps_sending p)"
      using sent by (cases "ps_sending p") simp_all
    with d show ?thesis
      by (intro exI [of _ "Complete (hd (ps_sending p)) undefined"] conjI less)
         (simp_all add: event_ok_def from_outside_def proc_complete_def work_left_def Let_def)
  next
    case round
    then show ?thesis
      by (intro exI [of _ "RoundEnd undefined"] conjI less)
         (simp_all add: event_ok_def from_outside_def proc_round_end_def work_left_def)
  next
    case idle
    then show ?thesis
      using assms(1) by (intro exI [of _ SocketHead] conjI less)
         (simp_all add: event_ok_def from_outside_def proc_socket_head_def work_left_def Let_def)
  next
    case up
    then show ?thesis
      using assms(1) by (intro exI [of _ "Cancel 0"] conjI less; cases "ps_socket p")
         (simp_all add: event_ok_def from_outside_def proc_cancel_def attempt_dropped_def work_left_def Let_def)
  qed
qed

lemma work_left_none:
  "work_left p = 0 \<longleftrightarrow> ps_queued p = [] \<and> ps_sending p = [] \<and> \<not> ps_in_round p \<and> ps_socket p \<in> {SocketStopped, SocketAbsent}"
  by (cases "ps_socket p") (auto simp: work_left_def)

lemma work_left_bound: "proc_inv p \<Longrightarrow> work_left p \<le> 104"
  by (cases "ps_socket p") (auto simp: proc_inv_def round_ok_def work_left_def DELIVERY_BATCH_def)

text \<open>A post whose turn is dropped while it is stored may be stored, but neither wakes the delivery task nor is counted.\<close>

lemma dropped_post_unannounced:
  "ps_wakeups (proc_drop pf tn el p) = ps_wakeups p \<and>
   ps_queued (proc_drop pf tn el p) = ps_queued p \<and> ps_sending (proc_drop pf tn el p) = ps_sending p"
proof (cases rule: proc_drop_cases [of pf tn el p])
  case (dropped delay joined lv w ops event encoded ds)
  have "sw_wakeups (guard_drop el w) = ps_wakeups p" by (simp add: dropped(2) guard_drop_def proc_world_def)
  moreover have "ps_wakeups (put_world (world_joined b v) p) = sw_wakeups v" for b v
    by (simp add: put_world_def world_joined_def Let_def)
  ultimately show ?thesis by (simp add: dropped(4) attempt_dropped_def connection_ended_def Let_def)
qed simp

section \<open>Head-of-line blocking\<close>

text \<open>
  With sixteen requests in flight nothing else is started until one of them is answered, whichever webhooks they and the
  queued deliveries belong to.
\<close>

lemma full_flight_blocks:
  assumes "ps_in_round p" and "length (ps_sending p) = 16" and "\<forall>d env. ev \<noteq> Complete d env" and "ev \<noteq> Shutdown"
  shows "ps_queued (snd (proc_event pf ev p)) = ps_queued p \<and> ps_sending (snd (proc_event pf ev p)) = ps_sending p"
  using assms
  by (cases ev; cases "ps_socket p")
     (auto simp: proc_refresh_def proc_socket_head_def proc_connect_def proc_receive_def proc_cancel_def attempt_dropped_def proc_load_def proc_send_def
       proc_round_end_def proc_prune_def proc_request_def connection_ended_def DELIVERY_CONCURRENCY_def dropped_post_unannounced Let_def
       split: option.split list.split sum.split turn_outcome.split)

end
