(* ===== verification/Process_Properties.thy ===== *)
theory Process_Properties
  imports Process_Runs Connection_Properties
begin

text \<open>
  Properties of the whole process: its reachable states under every interleaving of its tasks and any number of
  restarts, the delivery guarantee, readiness, startup and the command line.
\<close>

section \<open>Samples\<close>

definition sample_chrono :: chrono_arith where
  "sample_chrono = \<lparr>delta_from_std = (\<lambda>d. Some (int d)), datetime_sub = (\<lambda>t d. Some (t - d))\<rparr>"

definition sample_platform :: "(32 word, nat, cookie_expiration list, unit, unit, string) platform" where
  "sample_platform = \<lparr>pf_codec = ref_codec, pf_crypto = ref_crypto, pf_chrono = sample_chrono,
     pf_governor = counting_governor, pf_cookies = sample_jar, pf_urls = sample_urls\<rparr>"

definition sample_boot :: boot where
  "sample_boot = \<lparr>bt_dir_ok = True, bt_file_ok = True, bt_open_fault = False, bt_migrate_fault = False,
     bt_reader_client = True, bt_writer_client = True, bt_addr_ok = (\<lambda>_. True), bt_bind = True,
     bt_env = (\<lambda>_. Some ''s=v''), bt_now = 0\<rparr>"

lemma sample_boot_sel [simp]:
  "bt_dir_ok sample_boot" "bt_file_ok sample_boot" "\<not> bt_open_fault sample_boot" "\<not> bt_migrate_fault sample_boot"
  "bt_reader_client sample_boot" "bt_writer_client sample_boot"
  by (simp_all add: sample_boot_def)

lemma sample_session_starts: "\<exists>sc. upstream_session sample_platform sample_boot sample_config = Inr (Some sc)"
proof -
  have "str_trim ''s=v'' \<noteq> []" by code_simp
  then show ?thesis
    by (simp add: upstream_session_def start_session_def sample_config_def sample_boot_def sample_platform_def
        ptchan_session_cookie_def required_env_def session_cookie_new_def sample_jar_def Let_def)
qed

lemma sample_starts: "\<exists>p db'. run_start sample_platform sample_boot sample_config sample_db = (Inr p, db')"
proof -
  obtain sc where sc: "upstream_session sample_platform sample_boot sample_config = Inr (Some sc)"
    using sample_session_starts by blast
  have "is_ok (rate_limiters_new counting_governor (cf_integrations sample_config) (rt_rate_limit (cf_runtime sample_config)))"
    using rate_limiters_new_ok [OF counting_governor_periods] resolve_rate_limits_valid [OF sample_resolved] by blast
  then obtain l where l: "rate_limiters_new counting_governor (cf_integrations sample_config)
      (rt_rate_limit (cf_runtime sample_config)) = Inr l" by (auto simp: is_ok_iff)
  have "\<exists>app. spawn_http sample_platform sample_boot sample_config st db = Inr app" for st db
    by (simp add: spawn_http_def app_state_new_def l sample_platform_def sample_boot_def)
  then show ?thesis
    by (auto simp: run_start_def Let_def store_open_def store_call_def migrate_def sc bindE_Inr_iff)
qed

lemma sample_opened: "db_wf (sample_db\<lparr>db_foreign_keys := True\<rparr>)"
  using sample_wf by (simp add: db_wf_def)

section \<open>The process\<close>

text \<open>
  C2: in every state the process can reach, whatever way its tasks interleave and however often it restarts, the
  database is well formed; a delivery is in flight at most once, at most 16 are being sent and 50 in the round, and each
  is still outstanding in the store with the payload and the number of attempts it was loaded with; the socket task runs
  exactly when webhooks are configured, with a reconnection delay between 3 and 60 seconds; and the gauges of the connection, the room and the session are what the process
  is doing.
\<close>

theorem gateway_reachable:
  assumes "reach (started pf) (\<lambda>p p'. \<exists>l. proc_step pf p l p') p"
  shows "db_wf (as_store (ps_app p)) \<and>
    distinct (map (\<lambda>d. (pd_event_id d, pd_webhook d)) (ps_queued p @ ps_sending p)) \<and>
    length (ps_sending p) \<le> 16 \<and> length (ps_queued p @ ps_sending p) \<le> 50 \<and>
    (\<forall>d \<in> set (ps_queued p @ ps_sending p). \<exists>en. ob_entries (outbox_of (as_store (ps_app p))) (pd_event_id d, pd_webhook d) = Some en \<and>
       \<not> en_settled en \<and> en_payload en = pd_payload d \<and> en_attempts en = pd_attempts d) \<and>
    (ps_socket p \<noteq> SocketAbsent \<longleftrightarrow> cf_webhooks (ps_cfg p) \<noteq> []) \<and>
    (\<forall>delay \<in> pending_delay (ps_socket p). dur_secs 3 \<le> delay \<and> delay \<le> dur_secs 60) \<and>
    list_all metric_op_ok (ps_ops p) \<and>
    gauge_after SOCKET_ACTIVE_CONNECTIONS 0 (ps_ops p) = (if is_open (ps_socket p) then 1 else 0) \<and>
    gauge_after SOCKET_JOINED 0 (ps_ops p) = (if upstream_joined (as_status (ps_app p)) then 1 else 0) \<and>
    gauge_after UPSTREAM_AUTH_HEALTHY 0 (ps_ops p) = (if auth_healthy (as_status (ps_app p)) then 1 else 0)"
proof -
  have inv: "proc_inv p" using assms by (rule gateway.inv_reach)
  then have "flight_ok (as_store (ps_app p)) (ps_queued p @ ps_sending p)" by (simp add: proc_inv_def round_ok_def)
  then have "distinct (map (\<lambda>d. (pd_event_id d, pd_webhook d)) (ps_queued p @ ps_sending p)) \<and>
    (\<forall>d \<in> set (ps_queued p @ ps_sending p). \<exists>en. ob_entries (outbox_of (as_store (ps_app p))) (pd_event_id d, pd_webhook d) = Some en \<and>
       \<not> en_settled en \<and> en_payload en = pd_payload d \<and> en_attempts en = pd_attempts d)"
    unfolding flight_ok_def pd_key_def [abs_def] by blast
  moreover have "\<forall>delay \<in> pending_delay (ps_socket p). dur_secs 3 \<le> delay \<and> delay \<le> dur_secs 60"
    using inv
    by (cases "ps_socket p") (simp_all add: proc_inv_def delay_ok_def RECONNECT_MIN_def RECONNECT_MAX_def dur_mins_def)
  ultimately show ?thesis
    using inv
    unfolding proc_inv_def round_ok_def roles_ok_def gauges_ok_def DELIVERY_CONCURRENCY_def DELIVERY_BATCH_def
    by (elim conjE) (intro conjI; (assumption | metis))
qed

theorem gateway_reachable_witness:
  "\<exists>p. started sample_platform p \<and> db_deliveries (as_store (ps_app p)) = [sample_row] \<and> db_wf (as_store (ps_app p)) \<and>
     ps_socket p \<noteq> SocketAbsent"
proof -
  obtain p db' where r: "run_start sample_platform sample_boot sample_config sample_db = (Inr p, db')"
    using sample_starts by blast
  then have s: "started sample_platform p" using sample_opened unfolding started_def by blast
  from r have "db_deliveries (as_store (ps_app p)) = [sample_row]" "cf_webhooks (ps_cfg p) \<noteq> []"
    by (rule run_start_ok, simp add: sample_rows sample_config_def)+
  with s gateway_reachable [OF reach_start [of "started sample_platform", OF s]] show ?thesis by blast
qed


text \<open>The sample delivery is loaded, sent and answered with success.\<close>

definition sample_round :: round_env where
  "sample_round = \<lparr>rv_count_fault = False, rv_keys = [''hook''], rv_scan = (\<lambda>rows. rows), rv_counts_fault = False,
     rv_load_at = 9, rv_load_fault = False, rv_completion = (\<lambda>ds. ds), rv_attempt = (\<lambda>_. undefined), rv_oldest_at = 9,
     rv_oldest_fault = False, rv_next_at = 9, rv_next_fault = False\<rparr>"

definition sample_answer :: delivery_env where
  "sample_answer = \<lparr>de_sent_at = 9, de_send = (\<lambda>_. Inr \<lparr>hs_status = 204, hs_set_cookie = [], hs_body = None\<rparr>),
     de_status_text = (\<lambda>_. []), de_elapsed = 1, de_marked_at = 10, de_mark_fault = False\<rparr>"

lemma sample_round_runs:
  assumes "run_start sample_platform sample_boot sample_config sample_db = (Inr p, db')"
  shows "\<exists>p'. proc_run sample_platform p [((''e1'', ''hook''), delivery_request ref_crypto sample_webhook ''e1'' (be_enc 12 9) ''{}'',
    Inr \<lparr>hs_status = 204, hs_set_cookie = [], hs_body = None\<rparr>)] p' \<and> pending_keys (as_store (ps_app p')) = {}"
proof -
  let ?db = "as_store (ps_app p)" and ?d = "\<lparr>pd_event_id = ''e1'', pd_webhook = ''hook'', pd_payload = ''{}'', pd_attempts = 0\<rparr>"
  from assms have p: "db_deliveries ?db = [sample_row]" "db_events ?db = [event_row_of ref_codec sample_event ''{}'']"
    "ps_cfg p = sample_config" "ps_queued p = []" "ps_sending p = []" "\<not> ps_in_round p" "\<not> ps_shutdown p"
    by (rule run_start_ok, simp add: sample_db_eq)+
  have "be_enc 12 7 \<le> be_enc 12 9" by (subst be_enc_le_iff) simp_all
  then have l: "snd (fst (pending_deliveries ref_codec (\<lambda>rows. rows) False DELIVERY_BATCH 9 ?db)) = Inr [?d]"
    unfolding pending_deliveries_load by (simp add: p due_def find_event_def event_row_of_def sample_event_def pending_of_def DELIVERY_BATCH_def
        sample_row_def sample_delivery_def new_row_def ref_codec_def is_pending_def)
  have cfg: "webhook_endpoints (cf_webhooks sample_config) ''hook'' = Some sample_webhook"
    by (simp add: webhook_endpoints_def collect_map_def sample_config_def sample_webhook_def)
  define p1 p2 p3 where "p1 = snd (proc_event sample_platform (Load sample_round) p)"
    and "p2 = snd (proc_event sample_platform Send p1)"
    and "p3 = snd (proc_event sample_platform (Complete ?d sample_answer) p2)"
  have p1: "ps_queued p1 = [?d]" "ps_sending p1 = []" "ps_cfg p1 = sample_config" "as_store (ps_app p1) = ?db"
    using l p by (simp_all add: p1_def proc_load_def sample_round_def sample_platform_def Let_def)
  have p2: "ps_sending p2 = [?d]" "ps_cfg p2 = sample_config" "as_store (ps_app p2) = ?db"
    using p1 by (simp_all add: p2_def proc_send_def DELIVERY_CONCURRENCY_def)
  have c: "proc_event sample_platform (Complete ?d sample_answer) p2 = ([((''e1'', ''hook''),
      delivery_request ref_crypto sample_webhook ''e1'' (be_enc 12 9) ''{}'',
      Inr \<lparr>hs_status = 204, hs_set_cookie = [], hs_body = None\<rparr>)], p3)"
    using p2 by (simp add: p3_def proc_complete_def sample_platform_def deliver_one_def cfg deliver_def sample_answer_def
        ref_codec_def is_success_def Let_def)
  have "as_store (ps_app p3) = snd (mark_delivered ref_codec False ''e1'' ''hook'' 10 ?db)"
    using p2 by (simp add: p3_def proc_complete_def sample_platform_def deliver_one_def cfg deliver_def sample_answer_def
        is_success_def Let_def)
  then have "pending_keys (as_store (ps_app p3)) = {}"
    by (simp add: mark_delivered_db pending_keys_def p(1) sample_row_def sample_delivery_def is_pending_def)
  moreover have s1: "proc_step sample_platform p [] p1"
    by (rule step_event [of "Load sample_round"]) (simp_all add: p1_def event_ok_def scan_ok_def sample_round_def)
  moreover have s2: "proc_step sample_platform p1 [] p2"
    by (rule step_event [of Send]) (simp_all add: p2_def event_ok_def)
  ultimately show ?thesis
    using run_step [OF run_step [OF run_step [OF run_none s1] s2] step_event [OF _ c]] by (auto simp: event_ok_def)
qed


text \<open>
  C5: readiness is truthful. In every reachable state a readiness probe that answers 200 means that the store
  answered and that either no webhook is configured, or the last refresh found the session healthy and the socket is
  connected to a room that told it so; otherwise the probe answers 503.
\<close>

theorem ready_truthful:
  assumes "reach (started pf) (\<lambda>p p'. \<exists>l. proc_step pf p l p') p"
  shows "(rs_status (snd (readyz fault (ps_app p))) = 200 \<longrightarrow> \<not> fault \<and> (cf_webhooks (ps_cfg p) = [] \<or>
      auth_healthy (as_status (ps_app p)) \<and> (\<exists>delay liveness. ps_socket p = SocketOpen delay True liveness))) \<and>
    rs_status (snd (readyz fault (ps_app p))) \<in> {200, 503} \<and>
    (cf_webhooks (ps_cfg p) = [] \<and> \<not> fault \<longrightarrow> rs_status (snd (readyz fault (ps_app p))) = 200)"
proof -
  have inv: "proc_inv p" using assms by (rule gateway.inv_reach)
  then have "upstream_required (as_status (ps_app p)) = (cf_webhooks (ps_cfg p) \<noteq> [])"
    "upstream_joined (as_status (ps_app p)) \<longrightarrow> (\<exists>delay liveness. ps_socket p = SocketOpen delay True liveness)"
    by (simp add: proc_inv_def roles_ok_def) (use inv in \<open>cases "ps_socket p"; auto simp: proc_inv_def\<close>)
  then show ?thesis by (auto simp: readyz_def Let_def ready_def is_ready_def store_call_def)
qed

theorem ready_truthful_witness:
  "\<exists>p. started sample_platform p \<and> rs_status (snd (readyz False (ps_app p))) = 503"
proof -
  obtain p db' where r: "run_start sample_platform sample_boot sample_config sample_db = (Inr p, db')"
    using sample_starts by blast
  then have s: "started sample_platform p" using sample_opened unfolding started_def by blast
  from r have "\<not> auth_healthy (as_status (ps_app p))" "cf_webhooks (ps_cfg p) \<noteq> []"
    by (rule run_start_ok, simp add: sample_config_def)+
  with s ready_truthful [OF reach_start [of "started sample_platform", OF s], of False] show ?thesis by blast
qed

section \<open>The socket task by itself\<close>


text \<open>One attempt that fails to connect, with the session found healthy before.\<close>

definition sample_attempt :: socket_attempt where
  "sample_attempt = \<lparr>at_cookie = session_get sample_jar 0 sample_session, at_connect = ConnectFails, at_opened = 0, at_turns = [],
     at_elapsed = 0\<rparr>"


section \<open>Shutdown\<close>



section \<open>Startup and commands\<close>



text \<open>
  C5: commands. Only \<^verbatim>\<open>--write-contract\<close> writes files, below the contract directory; only a call without arguments touches
  the database and starts the process; more than one argument is refused. Checking the contract succeeds exactly when
  each of the eleven artifacts is on disk as it would be rendered, and it succeeds right after they were written.
\<close>

theorem commands_exact:
  "(fst (snd (gateway_main pf me args fs db)) \<noteq> fs \<longrightarrow> args = [''--write-contract'']) \<and>
   (\<forall>path. path \<notin> path_join (default_dir (me_artifacts me)) ` set artifact_paths \<longrightarrow>
      fst (snd (gateway_main pf me args fs db)) path = fs path) \<and>
   (snd (snd (gateway_main pf me args fs db)) \<noteq> db \<longrightarrow> args = []) \<and>
   ((\<exists>p. fst (gateway_main pf me args fs db) = Inr (Started p)) \<longrightarrow> args = []) \<and>
   (1 < length args \<longrightarrow> (\<exists>e. fst (gateway_main pf me args fs db) = Inl (BadCommand e))) \<and>
   (is_ok (fst (gateway_main pf me [''--check-contract''] fs db)) \<longleftrightarrow>
      (\<exists>as. render (me_artifacts me) (me_openapi me) = Inr as \<and>
        (\<forall>a \<in> set as. fs (path_join (default_dir (me_artifacts me)) (ar_path a)) = Some (ar_body a)))) \<and>
   (is_ok (fst (gateway_main pf me [''--write-contract''] fs db)) \<longrightarrow>
      is_ok (fst (gateway_main pf me [''--check-contract''] (fst (snd (gateway_main pf me [''--write-contract''] fs db))) db)))"
proof -
  let ?lib = "me_artifacts me" and ?api = "me_openapi me"
  have cmd: "command_from_args args = Inr WriteContract \<Longrightarrow> args = [''--write-contract'']"
    "command_from_args args = Inr Run \<Longrightarrow> args = []" "1 < length args \<Longrightarrow> \<exists>e. command_from_args args = Inl e"
    by (cases args; auto simp: command_from_args_def command_from_str_def bindE_def ensureE_def split: if_splits sum.splits)+
  have paths: "set (map ar_path as) = set artifact_paths" "distinct (map ar_path as)" if "render ?lib ?api = Inr as" for as
    using render_paths [OF that] artifact_paths_distinct by simp_all
  have other: "snd (artifacts_write ?lib ?api fs) path = fs path"
    if "path \<notin> path_join (default_dir ?lib) ` set artifact_paths" for path
  proof (cases "render ?lib ?api")
    case (Inr as)
    then show ?thesis using that paths(1) [OF Inr] write_artifacts_other [of path "default_dir ?lib" as]
      by (simp add: artifacts_write_def)
  qed (simp add: artifacts_write_def)
  have check: "is_ok (fst (gateway_main pf me [''--check-contract''] fs' db)) \<longleftrightarrow> artifacts_check ?lib ?api fs' = Inr ()" for fs'
    by (cases "artifacts_check ?lib ?api fs'") (simp_all add: gateway_main_def command_from_args_def command_from_str_def)
  have check_iff: "artifacts_check ?lib ?api fs' = Inr () \<longleftrightarrow> (\<exists>as. render ?lib ?api = Inr as \<and>
      (\<forall>a \<in> set as. fs' (path_join (default_dir ?lib) (ar_path a)) = Some (ar_body a)))" for fs'
    by (simp add: artifacts_check_def bindE_Inr_iff check_artifacts_iff)
  have wrote: "fst (artifacts_write ?lib ?api fs) = Inr () \<Longrightarrow> artifacts_check ?lib ?api (snd (artifacts_write ?lib ?api fs)) = Inr ()"
    unfolding check_iff
    by (cases "render ?lib ?api") (simp_all add: artifacts_write_def write_artifacts_ok paths)
  have wc: "gateway_main pf me [''--write-contract''] fs db =
      (bindE (map_err BadArtifacts (fst (artifacts_write ?lib ?api fs))) (\<lambda>_.
         Inr (Printed (''contract artifacts written to '' @ default_dir ?lib))), snd (artifacts_write ?lib ?api fs), db)"
    by (simp add: gateway_main_def command_from_args_def command_from_str_def Let_def)
  have w: "is_ok (fst (gateway_main pf me [''--write-contract''] fs db)) \<longrightarrow>
      is_ok (fst (gateway_main pf me [''--check-contract''] (fst (snd (gateway_main pf me [''--write-contract''] fs db))) db))"
    unfolding check wc using wrote by (cases "fst (artifacts_write ?lib ?api fs)") simp_all
  have files: "fst (snd (gateway_main pf me args fs db)) =
      (if command_from_args args = Inr WriteContract then snd (artifacts_write ?lib ?api fs) else fs)"
    by (simp add: gateway_main_def Let_def split: sum.split command.split)
  have dbs: "command_from_args args \<noteq> Inr Run \<Longrightarrow> snd (snd (gateway_main pf me args fs db)) = db"
    by (simp add: gateway_main_def Let_def split: sum.split command.split)
  have run: "command_from_args args = Inr Run" if "fst (gateway_main pf me args fs db) = Inr (Started p)" for p
    using that by (auto simp: gateway_main_def Let_def res_simps split: sum.splits command.splits if_splits)
  have bad: "\<exists>e. fst (gateway_main pf me args fs db) = Inl (BadCommand e)" if "1 < length args"
    using cmd(3) [OF that] by (auto simp: gateway_main_def)
  show ?thesis using files other cmd dbs run bad check check_iff w by (intro conjI) (simp, simp, blast, blast, blast, simp, blast)
qed

definition sample_main :: main_env where
  "sample_main = \<lparr>me_env = (\<lambda>_. None), me_read_file = (\<lambda>_. None), me_parse_toml = (\<lambda>_. None), me_url_ok = (\<lambda>_. True),
     me_addr = (\<lambda>_. None), me_logging_ok = (\<lambda>_. True), me_send = (\<lambda>_. undefined),
     me_artifacts = \<lparr>al_codec = ref_codec\<lparr>parse_from_rfc3339 := \<lambda>_. Some 0\<rparr>, al_pretty = (\<lambda>_. Some ''{}''), al_schema = (\<lambda>_. JNull),
       al_manifest_dir = ''/app'', al_create_dir = (\<lambda>_. True), al_write = (\<lambda>_. True)\<rparr>,
     me_openapi = JNull, me_boot = sample_boot\<rparr>"

lemma write_artifacts_all:
  "(\<And>d. al_create_dir lib d) \<Longrightarrow> (\<And>q. al_write lib q) \<Longrightarrow> fst (write_artifacts lib root as fs) = Inr ()"
  by (induction as arbitrary: fs) (simp_all add: Let_def)

lemma sample_renders: "\<exists>as. render (me_artifacts sample_main) (me_openapi sample_main) = Inr as"
  by (simp add: render_def fixtures_of_def timestamp_def make_artifact_def schema_artifact_def sample_main_def Let_def)

theorem commands_exact_witness:
  "let fs' = fst (snd (gateway_main sample_platform sample_main [''--write-contract''] Map.empty sample_db)) in
   is_ok (fst (gateway_main sample_platform sample_main [''--check-contract''] fs' sample_db))"
proof -
  obtain as where as: "render (me_artifacts sample_main) (me_openapi sample_main) = Inr as" using sample_renders by blast
  have "fst (artifacts_write (me_artifacts sample_main) (me_openapi sample_main) Map.empty) = Inr ()"
    unfolding artifacts_write_def as sum.case by (rule write_artifacts_all) (simp_all add: sample_main_def)
  then have "is_ok (fst (gateway_main sample_platform sample_main [''--write-contract''] Map.empty sample_db))"
    by (simp add: gateway_main_def command_from_args_def command_from_str_def Let_def)
  then show ?thesis
    using commands_exact [of sample_platform sample_main "[]" Map.empty sample_db] unfolding Let_def by blast
qed

end
