(* ===== verification/Spec2Isabelle.thy ===== *)
theory Spec2Isabelle
  imports Delivery_Properties Round_Properties Boundary_Properties Config_Properties
    Connection_Properties Api_Properties Wire_Properties Outbox_Properties Process_Properties
begin

text \<open>
  \<^bold>\<open>The ptchan gateway.\<close> The program under \<^verbatim>\<open>src/\<close> stands between the ptchan imageboard and trusted integrations. It
  joins a management room of the upstream Socket.IO server, turns new posts into sanitised events, queues one signed
  webhook delivery per integration in SQLite, and offers a signed HTTP API for reading threads and posting replies.
  This development models all of its components, composes them into the running process, and proves what the
  repository's documentation promises of it.

  \<^bold>\<open>Parts and how they interact.\<close> \<^verbatim>\<open>main.rs\<close> starts an HTTP server and up to four tasks over a shared state: the session
  refresh (\<^verbatim>\<open>session.rs\<close>), the socket supervisor (\<^verbatim>\<open>socket/mod.rs\<close>), the delivery loop (\<^verbatim>\<open>webhook.rs\<close>) and the hourly
  cleanup (\<^verbatim>\<open>retention.rs\<close>). The refresh sets the health flag (\<^verbatim>\<open>runtime/status.rs\<close>) that lets the supervisor
  connect. A \<^verbatim>\<open>newPost\<close> packet (\<^verbatim>\<open>socket/protocol.rs\<close>) goes through decoding and redaction (\<^verbatim>\<open>upstream.rs\<close>), becomes an
  event (\<^verbatim>\<open>event.rs\<close>), is attributed to an integration (\<^verbatim>\<open>origin.rs\<close>), and is stored with its deliveries in one
  transaction (\<^verbatim>\<open>socket/ingest.rs\<close>, \<^verbatim>\<open>store.rs\<close>), which wakes the delivery loop. API requests are authenticated
  (\<^verbatim>\<open>runtime/auth.rs\<close>), checked against boards and limits (\<^verbatim>\<open>rate_limit.rs\<close>) and sent upstream (\<^verbatim>\<open>reading.rs\<close>,
  \<^verbatim>\<open>posting.rs\<close>). \<^verbatim>\<open>/readyz\<close> reads the flags and the store.

  \<^bold>\<open>Which theory models what.\<close> Definitions keep the names of the Rust items where HOL allows it; a suffix or prefix tells
  methods of the same name apart (\<open>ic_board_allowed\<close>, \<open>wc_board_allowed\<close>).

  \<^item> \<open>Gateway_Prelude\<close> (results as sums, the question-mark operator as \<open>bindE\<close>, durations, reachability, the locale of inductive
    invariants), \<open>Rust_Text\<close> (strings as UTF-8 bytes with the \<^verbatim>\<open>str\<close> methods used), \<open>Json_Value\<close> (\<^verbatim>\<open>serde_json::Value\<close>
    with 64-bit numbers), \<open>Http\<close>.
  \<^item> \<open>Config\<close>, \<open>Config_Facts\<close>: \<^verbatim>\<open>config.rs\<close>, \<^verbatim>\<open>config/file.rs\<close>, \<^verbatim>\<open>config/validation.rs\<close>; the locale of the board policies.
  \<^item> \<open>Contract\<close>, \<open>Artifacts\<close>: \<^verbatim>\<open>contract.rs\<close> with the derived serialisers, and \<^verbatim>\<open>contract/artifacts.rs\<close>. \<open>Wire\<close> reads the same structs as
    types of JSON values, \<open>Wire_Decode\<close> has the derived deserialisers.
  \<^item> \<open>Metrics\<close>, \<open>Status\<close>: \<^verbatim>\<open>metrics.rs\<close>, \<^verbatim>\<open>runtime/status.rs\<close>. An operation returns its effects on metrics as a list, in order.
  \<^item> \<open>Upstream\<close>, \<open>Event\<close>, \<open>Origin\<close>, \<open>Ingest\<close>: from an upstream value to stored deliveries.
  \<^item> \<open>Store\<close>, \<open>Store_Facts\<close>, \<open>Store_Queue\<close>: \<^verbatim>\<open>store.rs\<close>, \<^verbatim>\<open>retention.rs\<close>; the record \<open>db\<close> holds the two tables. \<open>Store_Queue\<close> has the
    queue contract as a locale. \<open>Outbox\<close> is the specification without tables, with the locale of functional refinement.
  \<^item> \<open>Webhook\<close>, \<open>Webhook_Facts\<close>: \<^verbatim>\<open>webhook.rs\<close>, sequentially, one round or one turn of the loop at a time.
  \<^item> \<open>Session\<close>, \<open>Protocol\<close>, \<open>Socket\<close>, \<open>Socket_Facts\<close>: \<^verbatim>\<open>session.rs\<close>, \<^verbatim>\<open>socket/protocol.rs\<close>, \<^verbatim>\<open>socket/mod.rs\<close>.
  \<^item> \<open>Rate_Limit\<close>, \<open>Reading\<close>, \<open>Posting\<close>, \<open>Responses\<close>, \<open>Auth\<close>, \<open>Threads\<close>, \<open>Replies\<close>, \<open>Router\<close>, \<open>Endpoints\<close>: the HTTP side; \<open>Endpoints\<close> has
    the contract both integration endpoints satisfy as a locale.
  \<^item> \<open>Process\<close>: \<^verbatim>\<open>main.rs\<close>. A state of type \<open>process\<close> holds what the tasks share and where each of them is. A \<open>task_event\<close> is
    one uninterrupted stretch of one task, and \<open>proc_step\<close> takes any event of any task, or a restart that keeps only the
    database, so that every interleaving is an execution. \<open>Process_Facts\<close> and \<open>Process_Runs\<close> have the invariant and the runs.
  \<^item> \<open>Reference_Codec\<close>, \<open>Sample_Data\<close>: concrete instances on which witnesses run.

  \<^bold>\<open>What is shown.\<close> The properties are in the theories whose names end in \<open>_Properties\<close>.

  \<^item> \<open>Process_Properties\<close>: the invariant of every reachable state of the process, at-least-once delivery across
    interleavings, store faults and restarts, truthful readiness, the agreement of the interleaved socket task with the
    sequential supervisor, termination after a shutdown request, startup and commands.
  \<^item> \<open>Outbox_Properties\<close>: writes of the store refine the abstract outbox, and its queries read it.
  \<^item> \<open>Delivery_Properties\<close>, \<open>Round_Properties\<close>: the tables stay well formed, only accepted deliveries are settled, batches, retry
    times and rounds are exact, and the completion order in a round does not matter.
  \<^item> \<open>Boundary_Properties\<close>: redaction, what events contain, fingerprints, atomic ingestion and fan-out.
  \<^item> \<open>Config_Properties\<close>: validation against a declarative reading, separate secrets, limiters, attribution.
  \<^item> \<open>Connection_Properties\<close>: session health, refresh before expiry, joining, liveness, answers on the wire, backoff.
  \<^item> \<open>Api_Properties\<close>: authentication, guards, what clients are told, limits, the window of posts.
  \<^item> \<open>Wire_Properties\<close>: what the endpoints answer and what is queued for the webhooks has its published type, and a client of
    the contract reads back the value that was sent.

  \<^bold>\<open>Parameters.\<close> Third-party code is an argument of the definitions that use it: \<open>codec\<close> (chrono and serde\_json text), \<open>crypto\<close>
  (HMAC and hex), \<open>chrono_arith\<close>, \<open>governor\<close>, \<open>cookie_lib\<close>, \<open>url_lib\<close>, \<open>artifact_lib\<close>, the TOML reader and address parsers of
  \<open>main_env\<close>. Theorems name the documented behaviour they rely on as hypotheses, and \<open>Reference_Codec\<close> shows that it can
  hold. What other systems decide is an input: HTTP outcomes are functions of the request, SQLite failures are flags, the
  order in which queries return rows and deliveries complete is arbitrary, a socket turn says what arrived and when.

  \<^bold>\<open>Bounds and granularity.\<close> No definition needs fuel: loops over given inputs recurse on them, and the process
  is a step relation. Machine integers are words or saturate where the code does; strings are byte lists. An event of the
  process is atomic. A turn of the socket's receive loop runs to its end, or is dropped by a refresh or a shutdown while it waits
  for the store, which then finishes the transaction on its own (\<open>proc_drop\<close>); it is not split at a websocket send. A
  delivery is sent and recorded in one event at its completion, which other tasks may precede or follow in any order, and a
  request is handled to its end even if its client goes away. Wake-ups are counted, and when a round starts is otherwise free, so a theorem about
  executions holds for every timing. A failed migration leaves the rows as they were. Restarts may change the configuration.
  The 104 steps of a shutdown are twice the fifty deliveries of a round, the end of the round and three steps of the socket.

  \<^bold>\<open>Not modelled.\<close> Log lines and \<^verbatim>\<open>init_logging\<close>; the signal handlers of \<^verbatim>\<open>wait_for_shutdown\<close>, which only decide when
  shutdown is requested; axum's path matching, listener and graceful shutdown; utoipa's document, schemars' schemas and
  the prometheus registry and encoder; the humantime parser of \<^verbatim>\<open>duration_from_str\<close>; \<^verbatim>\<open>Display\<close> texts that only
  reach the log; the constructors that only build a reqwest client; the Go client under \<^verbatim>\<open>clients/\<close> and the unit tests.
\<close>

end
